(* ===== verification/Piteka_Prelude.thy ===== *)
theory Piteka_Prelude
  imports Main "HOL-Library.Word"
begin

text \<open>
  Shared vocabulary of the development: the machine types of the Rust sources, Rust strings
  and the few standard library operations on them that the code uses, big-endian encodings,
  the shape of fallible operations and generic facts about maps and lists.

  \<^item> A Rust \<open>String\<close> or \<open>&str\<close> is the list of its UTF-8 bytes. Isabelle's \<open>char\<close> is
    exactly one byte, so a \<open>Vec<u8>\<close> has the same type and \<open>as_bytes\<close> is the identity.
  \<^item> \<open>u64\<close> and \<open>i64\<close> are both 64-bit words: an \<open>as\<close> cast between them keeps the bits.
    A signed comparison or a rendering of an \<open>i64\<close> goes through \<open>sint\<close>.
  \<^item> A fallible operation on a state is a function from the state to an error or a value,
    together with the state it leaves; \<open>try_op\<close> is the \<open>?\<close> operator.
\<close>

section \<open>Types\<close>

type_synonym bytes = string
type_synonym u8 = "8 word"
type_synonym u16 = "16 word"
type_synonym u32 = "32 word"
type_synonym u64 = "64 word"
type_synonym i64 = "64 word"

named_theorems op_simps \<open>unfolding rules of state-passing operations\<close>
named_theorems frame_simps \<open>fields an operation leaves alone\<close>

section \<open>Fallible operations on a state\<close>

type_synonym ('w, 'e, 'a) op = "'w \<Rightarrow> ('e + 'a) \<times> 'w"

definition ok :: "'a \<Rightarrow> ('w, 'e, 'a) op" where
  "ok a = (\<lambda>w. (Inr a, w))"

definition fail :: "'e \<Rightarrow> ('w, 'e, 'a) op" where
  "fail e = (\<lambda>w. (Inl e, w))"

definition try_op :: "('w, 'e, 'a) op \<Rightarrow> ('a \<Rightarrow> ('w, 'e, 'b) op) \<Rightarrow> ('w, 'e, 'b) op" where
  "try_op m k = (\<lambda>w. case m w of (Inl e, w') \<Rightarrow> (Inl e, w') | (Inr a, w') \<Rightarrow> k a w')"

text \<open>\<open>map_err f m\<close> is Rust's \<open>map_err\<close> (and the \<open>From\<close> conversion inside \<open>?\<close>).\<close>

definition map_err :: "('e \<Rightarrow> 'f) \<Rightarrow> ('w, 'e, 'a) op \<Rightarrow> ('w, 'f, 'a) op" where
  "map_err f m = (\<lambda>w. case m w of (Inl e, w') \<Rightarrow> (Inl (f e), w') | (Inr a, w') \<Rightarrow> (Inr a, w'))"

lemma ok_apply [simp]: "ok a w = (Inr a, w)"
  by (simp add: ok_def)

lemma fail_apply [simp]: "fail e w = (Inl e, w)"
  by (simp add: fail_def)

lemma try_op_Inr [simp]: "m w = (Inr a, w') \<Longrightarrow> try_op m k w = k a w'"
  by (simp add: try_op_def)

lemma try_op_Inl [simp]: "m w = (Inl e, w') \<Longrightarrow> try_op m k w = (Inl e, w')"
  by (simp add: try_op_def)

lemma map_err_Inr [simp]: "m w = (Inr a, w') \<Longrightarrow> map_err f m w = (Inr a, w')"
  by (simp add: map_err_def)

lemma map_err_Inl [simp]: "m w = (Inl e, w') \<Longrightarrow> map_err f m w = (Inl (f e), w')"
  by (simp add: map_err_def)

text \<open>
  What a successful or any run of a chain went through: the elimination rules every proof
  about a handler starts with.
\<close>

lemma try_op_InrE:
  assumes "try_op m k w = (Inr b, w'')"
  obtains a w' where "m w = (Inr a, w')" and "k a w' = (Inr b, w'')"
  using assms by (auto simp: try_op_def split: prod.splits sum.splits)

lemma try_op_invariant:
  assumes "\<And>r w'. m w = (r, w') \<Longrightarrow> P w'"
    and "\<And>a w' r w''. m w = (Inr a, w') \<Longrightarrow> P w' \<Longrightarrow> k a w' = (r, w'') \<Longrightarrow> P w''"
    and "try_op m k w = (r, w'')"
  shows "P w''"
  using assms by (auto simp: try_op_def split: prod.splits sum.splits)

lemma map_err_InrD: "map_err f m w = (Inr a, w') \<Longrightarrow> m w = (Inr a, w')"
  by (auto simp: map_err_def split: prod.splits sum.splits)

lemma map_err_state [simp]: "snd (map_err f m w) = snd (m w)"
  by (auto simp: map_err_def split: prod.splits sum.splits)

text \<open>\<open>is_ok\<close>.\<close>

definition succeeded :: "'e + 'a \<Rightarrow> bool" where
  "succeeded r = (case r of Inl _ \<Rightarrow> False | Inr _ \<Rightarrow> True)"

lemma succeeded_simps [simp]: "\<not> succeeded (Inl e)" "succeeded (Inr a)"
  by (simp_all add: succeeded_def)

lemma try_op_fst: "fst (m w) = Inr a \<Longrightarrow> try_op m k w = k a (snd (m w))"
  by (cases "m w") simp

section \<open>Results without state\<close>

text \<open>\<open>?\<close> and \<open>map_err\<close> on results.\<close>

definition try_result :: "'e + 'a \<Rightarrow> ('a \<Rightarrow> 'e + 'b) \<Rightarrow> 'e + 'b" where
  "try_result x f = (case x of Inl e \<Rightarrow> Inl e | Inr a \<Rightarrow> f a)"

definition map_error :: "('e \<Rightarrow> 'f) \<Rightarrow> 'e + 'a \<Rightarrow> 'f + 'a" where
  "map_error f x = (case x of Inl e \<Rightarrow> Inl (f e) | Inr a \<Rightarrow> Inr a)"

definition reject_if :: "bool \<Rightarrow> 'e \<Rightarrow> 'e + unit" where
  "reject_if c e = (if c then Inl e else Inr ())"

lemma try_result_simps [simp]:
  "try_result (Inl e) f = Inl e" "try_result (Inr a) f = f a"
  by (simp_all add: try_result_def)

lemma try_result_Inr: "try_result x f = Inr b \<longleftrightarrow> (\<exists>a. x = Inr a \<and> f a = Inr b)"
  by (cases x) simp_all

lemma map_error_simps [simp]: "map_error f (Inl e) = Inl (f e)" "map_error f (Inr a) = Inr a"
  by (simp_all add: map_error_def)

lemma map_error_Inr [simp]: "map_error f x = Inr a \<longleftrightarrow> x = Inr a"
  by (cases x) (simp_all add: map_error_def)

lemma reject_if_Inr [simp]: "reject_if c e = Inr u \<longleftrightarrow> \<not> c"
  by (simp add: reject_if_def)

text \<open>A result in a chain with state.\<close>

definition lift_result :: "'e + 'a \<Rightarrow> ('w, 'e, 'a) op" where
  "lift_result r w = (r, w)"

lemma lift_result_simps [simp]: "lift_result (Inr a) w = (Inr a, w)" "lift_result (Inl e) w = (Inl e, w)"
  by (simp_all add: lift_result_def)

lemma try_lift_reject:
  "try_op (lift_result (reject_if c e)) k w = (if c then (Inl e, w) else k () w)"
  by (simp add: reject_if_def try_op_def)

section \<open>Rust strings\<close>

text \<open>
  \<open>str::trim\<close> strips characters with the Unicode property White_Space. In UTF-8 these are
  the bytes 9 to 13 and 32, two sequences of two bytes (U+0085, U+00A0) and the three-byte
  sequences of U+1680, U+2000 to U+200A, U+2028, U+2029, U+202F, U+205F and U+3000.
\<close>

definition ws_seq :: "string \<Rightarrow> bool" where
  "ws_seq cs =
     (case map (of_char :: char \<Rightarrow> nat) cs of
        [a] \<Rightarrow> (9 \<le> a \<and> a \<le> 13) \<or> a = 32
      | [a, b] \<Rightarrow> a = 194 \<and> (b = 133 \<or> b = 160)
      | [a, b, c] \<Rightarrow>
          (a = 225 \<and> b = 154 \<and> c = 128)
          \<or> (a = 226 \<and> b = 128 \<and> ((128 \<le> c \<and> c \<le> 138) \<or> c = 168 \<or> c = 169 \<or> c = 175))
          \<or> (a = 226 \<and> b = 129 \<and> c = 159)
          \<or> (a = 227 \<and> b = 128 \<and> c = 128)
      | _ \<Rightarrow> False)"

definition ws_len :: "string \<Rightarrow> nat" where
  "ws_len s = (if ws_seq (take 1 s) then 1 else if ws_seq (take 2 s) then 2
               else if ws_seq (take 3 s) then 3 else 0)"

definition ws_len_end :: "string \<Rightarrow> nat" where
  "ws_len_end s =
     (if ws_seq (drop (length s - 1) s) then 1 else if ws_seq (drop (length s - 2) s) then 2
      else if ws_seq (drop (length s - 3) s) then 3 else 0)"

lemma ws_seq_Nil [simp]: "\<not> ws_seq []"
  by (simp add: ws_seq_def)

lemma ws_len_Nil [simp]: "ws_len [] = 0"
  by (simp add: ws_len_def)

lemma ws_len_end_Nil [simp]: "ws_len_end [] = 0"
  by (simp add: ws_len_end_def)

function trim_start :: "string \<Rightarrow> string" where
  "trim_start s = (if ws_len s = 0 then s else trim_start (drop (ws_len s) s))"
  by pat_completeness auto
termination
proof (relation "measure length")
  fix s assume "ws_len s \<noteq> 0"
  moreover from this have "s \<noteq> []" by auto
  ultimately show "(drop (ws_len s) s, s) \<in> measure length" by (cases s) auto
qed simp

function trim_end :: "string \<Rightarrow> string" where
  "trim_end s = (if ws_len_end s = 0 then s else trim_end (take (length s - ws_len_end s) s))"
  by pat_completeness auto
termination
proof (relation "measure length")
  fix s assume "ws_len_end s \<noteq> 0"
  moreover from this have "s \<noteq> []" by auto
  ultimately show "(take (length s - ws_len_end s) s, s) \<in> measure length" by (cases s) auto
qed simp

declare trim_start.simps [simp del] trim_end.simps [simp del]

definition trim :: "string \<Rightarrow> string" where
  "trim s = trim_end (trim_start s)"

text \<open>\<open>value.trim().is_empty()\<close>.\<close>

definition blank :: "string \<Rightarrow> bool" where
  "blank s = (trim s = [])"

lemma trim_start_Nil [simp]: "trim_start [] = []"
  by (simp add: trim_start.simps)

lemma trim_end_Nil [simp]: "trim_end [] = []"
  by (simp add: trim_end.simps)

lemma blank_Nil [simp]: "blank []"
  by (simp add: blank_def trim_def)

lemma not_blank_nonempty: "\<not> blank s \<Longrightarrow> s \<noteq> []"
  by auto

text \<open>A string whose first and last bytes are no part of a white space character is its own trim.\<close>

lemma trim_id: "ws_len s = 0 \<Longrightarrow> ws_len_end s = 0 \<Longrightarrow> trim s = s"
  by (simp add: trim_def trim_start.simps [of s] trim_end.simps [of s])

text \<open>Nothing is trimmed from a string of printable ASCII characters.\<close>

lemma ws_seq_printable:
  "\<forall>c \<in> set cs. 33 \<le> (of_char c :: nat) \<and> (of_char c :: nat) \<le> 127 \<Longrightarrow> \<not> ws_seq cs"
  by (auto simp: ws_seq_def split: list.splits)

lemma trim_printable:
  assumes "\<forall>c \<in> set s. 33 \<le> (of_char c :: nat) \<and> (of_char c :: nat) \<le> 127"
  shows "trim s = s"
proof -
  have "\<not> ws_seq (take n s)" "\<not> ws_seq (drop n s)" for n
    using assms by (auto intro!: ws_seq_printable dest: in_set_takeD in_set_dropD)
  then show ?thesis by (intro trim_id) (simp_all add: ws_len_def ws_len_end_def)
qed

text \<open>\<open>char::is_ascii_digit\<close> and the lower-case hexadecimal test, on bytes.\<close>

definition is_ascii_digit :: "char \<Rightarrow> bool" where
  "is_ascii_digit c = (48 \<le> (of_char c :: nat) \<and> (of_char c :: nat) \<le> 57)"

definition is_lower_hex :: "char \<Rightarrow> bool" where
  "is_lower_hex c =
     (is_ascii_digit c \<or> (97 \<le> (of_char c :: nat) \<and> (of_char c :: nat) \<le> 102))"

text \<open>Decimal rendering of integers, as \<open>{}\<close> in a format string writes them.\<close>

fun dec_nat :: "nat \<Rightarrow> string" where
  "dec_nat n = (if n < 10 then [char_of (48 + n)] else dec_nat (n div 10) @ [char_of (48 + n mod 10)])"

declare dec_nat.simps [simp del]

definition dec_int :: "int \<Rightarrow> string" where
  "dec_int i = (if i < 0 then CHR ''-'' # dec_nat (nat (- i)) else dec_nat (nat i))"

definition dec_u64 :: "u64 \<Rightarrow> string" where
  "dec_u64 x = dec_nat (unat x)"

definition dec_i64 :: "i64 \<Rightarrow> string" where
  "dec_i64 x = dec_int (sint x)"

text \<open>
  \<open>{:?}\<close> of an \<open>Option<String>\<close>. Quotes, backslashes and ASCII control characters are escaped as
  \<open>char::escape_debug\<close> does; bytes of a character outside ASCII are copied, which is what the
  standard library does for every printable one.
\<close>

definition hex_lower :: "nat \<Rightarrow> char" where
  "hex_lower n = (if n < 10 then char_of (48 + n) else char_of (87 + n))"

definition debug_char :: "char \<Rightarrow> string" where
  "debug_char c =
     (let n = of_char c :: nat in
      if n = 0 then [CHR 0x5C, CHR ''0'']
      else if n = 9 then [CHR 0x5C, CHR ''t'']
      else if n = 10 then [CHR 0x5C, CHR ''n'']
      else if n = 13 then [CHR 0x5C, CHR ''r'']
      else if n = 34 \<or> n = 92 then [CHR 0x5C, c]
      else if n < 16 then [CHR 0x5C, CHR ''u'', CHR 0x7B, hex_lower n, CHR 0x7D]
      else if n < 32 \<or> n = 127
      then [CHR 0x5C, CHR ''u'', CHR 0x7B, hex_lower (n div 16), hex_lower (n mod 16), CHR 0x7D]
      else [c])"

fun debug_option :: "string option \<Rightarrow> string" where
  "debug_option None = ''None''"
| "debug_option (Some s) =
     ''Some('' @ [CHR 0x22] @ concat (map debug_char s) @ [CHR 0x22] @ '')''"

section \<open>Integers\<close>

definition u64_max :: u64 where
  "u64_max = 0xFFFFFFFFFFFFFFFF"

definition i64_max :: i64 where
  "i64_max = 0x7FFFFFFFFFFFFFFF"

definition saturating_add_u64 :: "u64 \<Rightarrow> u64 \<Rightarrow> u64" where
  "saturating_add_u64 a b = (if unat a + unat b < 2 ^ 64 then a + b else u64_max)"

definition saturating_sub_u64 :: "u64 \<Rightarrow> u64 \<Rightarrow> u64" where
  "saturating_sub_u64 a b = (if b \<le> a then a - b else 0)"

text \<open>\<open>i64::try_from(x).unwrap_or(i64::MAX)\<close> on a \<open>u64\<close>.\<close>

definition i64_from_u64_or_max :: "u64 \<Rightarrow> i64" where
  "i64_from_u64_or_max x = (if x \<le> i64_max then x else i64_max)"

lemma unat_u64_max [simp]: "unat u64_max = 2 ^ 64 - 1"
  by (simp add: u64_max_def)

lemma unat_saturating_add_u64:
  "unat (saturating_add_u64 a b) = min (unat a + unat b) (2 ^ 64 - 1)"
  by (auto simp: saturating_add_u64_def unat_word_ariths)

lemma unat_saturating_sub_u64: "unat (saturating_sub_u64 a b) = unat a - unat b"
  by (auto simp: saturating_sub_u64_def unat_sub word_le_nat_alt)

section \<open>Big-endian encodings\<close>

text \<open>The \<open>k\<close> low-order bytes of \<open>n\<close>, most significant first: \<open>to_be_bytes\<close> at width \<open>k\<close>.\<close>

fun be_bytes :: "nat \<Rightarrow> nat \<Rightarrow> bytes" where
  "be_bytes 0 n = []"
| "be_bytes (Suc k) n = be_bytes k (n div 256) @ [char_of (n mod 256)]"

lemma length_be_bytes [simp]: "length (be_bytes k n) = k"
  by (induction k arbitrary: n) auto

lemma be_bytes_inject:
  assumes "be_bytes k m = be_bytes k n" and "m < 256 ^ k" and "n < 256 ^ k"
  shows "m = n"
  using assms
proof (induction k arbitrary: m n)
  case 0
  then show ?case by simp
next
  case (Suc k)
  from Suc.prems(1) have hi: "be_bytes k (m div 256) = be_bytes k (n div 256)"
    and lo: "(char_of (m mod 256) :: char) = char_of (n mod 256)"
    by auto
  from lo have "m mod 256 = n mod 256"
    by (metis mod_mod_trivial of_char_of)
  moreover have "m div 256 = n div 256"
    using Suc.IH [OF hi] Suc.prems(2,3) by (simp add: less_mult_imp_div_less mult.commute)
  ultimately show ?case
    by (metis div_mult_mod_eq)
qed

lemma unat_bound: "unat (x :: 'a::len word) < 2 ^ LENGTH('a)"
  by (rule unsigned_less)

definition be_u16 :: "u16 \<Rightarrow> bytes" where
  "be_u16 x = be_bytes 2 (unat x)"

definition be_u32 :: "u32 \<Rightarrow> bytes" where
  "be_u32 x = be_bytes 4 (unat x)"

definition be_u64 :: "u64 \<Rightarrow> bytes" where
  "be_u64 x = be_bytes 8 (unat x)"

lemma length_be_u16 [simp]: "length (be_u16 x) = 2"
  by (simp add: be_u16_def)

lemma length_be_u32 [simp]: "length (be_u32 x) = 4"
  by (simp add: be_u32_def)

lemma length_be_u64 [simp]: "length (be_u64 x) = 8"
  by (simp add: be_u64_def)

lemma be_u16_inject [simp]: "be_u16 x = be_u16 y \<longleftrightarrow> x = y"
  using be_bytes_inject [of 2 "unat x" "unat y"] unat_bound [of x] unat_bound [of y]
  by (auto simp: be_u16_def intro: unsigned_word_eqI)

lemma be_u32_inject [simp]: "be_u32 x = be_u32 y \<longleftrightarrow> x = y"
  using be_bytes_inject [of 4 "unat x" "unat y"] unat_bound [of x] unat_bound [of y]
  by (auto simp: be_u32_def intro: unsigned_word_eqI)

lemma be_u64_inject [simp]: "be_u64 x = be_u64 y \<longleftrightarrow> x = y"
  using be_bytes_inject [of 8 "unat x" "unat y"] unat_bound [of x] unat_bound [of y]
  by (auto simp: be_u64_def intro: unsigned_word_eqI)

text \<open>
  Splitting two equal concatenations whose first parts have the same length: how an injectivity
  proof peels one field of a fixed layout.
\<close>

lemma append_eq_same_length:
  "length xs = length ys \<Longrightarrow> xs @ us = ys @ vs \<longleftrightarrow> xs = ys \<and> us = vs"
  by (rule append_eq_append_conv) simp

text \<open>The same for a field that ends at the first separator.\<close>

lemma append_separator_inject:
  "x \<notin> set us \<Longrightarrow> x \<notin> set us' \<Longrightarrow> us @ x # vs = us' @ x # vs' \<longleftrightarrow> us = us' \<and> vs = vs'"
proof (induction us arbitrary: us')
  case Nil
  then show ?case by (cases us') auto
next
  case (Cons u us)
  then show ?case by (cases us') auto
qed

text \<open>
  A string shorter than 4 GiB is recovered from its length-prefixed form, whatever follows it.
\<close>

definition fits_u32 :: "bytes \<Rightarrow> bool" where
  "fits_u32 b = (length b < 2 ^ 32)"

lemma prefixed_inject:
  assumes "fits_u32 a" and "fits_u32 b"
    and "be_u32 (of_nat (length a)) @ a @ xs = be_u32 (of_nat (length b)) @ b @ ys"
  shows "a = b \<and> xs = ys"
proof -
  from assms(3) have "(of_nat (length a) :: u32) = of_nat (length b)" and rest: "a @ xs = b @ ys"
    by (simp_all add: append_eq_same_length)
  then have "unat (of_nat (length a) :: u32) = unat (of_nat (length b) :: u32)" by simp
  then have "length a = length b"
    using assms(1,2) by (simp add: fits_u32_def unat_of_nat)
  with rest show ?thesis by simp
qed

section \<open>Maps and lists\<close>

text \<open>\<open>ids.iter().filter_map(|id| m.get(id).cloned()).collect()\<close>.\<close>

definition fetch_all :: "('k \<rightharpoonup> 'v) \<Rightarrow> 'k list \<Rightarrow> 'v list" where
  "fetch_all m ks = List.map_filter m ks"

lemma fetch_all_Nil [simp]: "fetch_all m [] = []"
  by (simp add: fetch_all_def)

lemma fetch_all_Cons [simp]:
  "fetch_all m (k # ks) = (case m k of None \<Rightarrow> fetch_all m ks | Some v \<Rightarrow> v # fetch_all m ks)"
  by (simp add: fetch_all_def split: option.split)

lemma set_fetch_all: "set (fetch_all m ks) = {v. \<exists>k \<in> set ks. m k = Some v}"
  by (induction ks) (auto split: option.splits)

lemma fetch_all_append: "fetch_all m (ks @ ls) = fetch_all m ks @ fetch_all m ls"
  by (induction ks) (auto split: option.splits)

text \<open>\<open>entry(k).or_default().push(x)\<close> on a map of vectors.\<close>

definition push_entry :: "('k \<rightharpoonup> 'v list) \<Rightarrow> 'k \<Rightarrow> 'v \<Rightarrow> ('k \<rightharpoonup> 'v list)" where
  "push_entry m k x = m(k \<mapsto> (case m k of None \<Rightarrow> [] | Some xs \<Rightarrow> xs) @ [x])"

definition entry_list :: "('k \<rightharpoonup> 'v list) \<Rightarrow> 'k \<Rightarrow> 'v list" where
  "entry_list m k = (case m k of None \<Rightarrow> [] | Some xs \<Rightarrow> xs)"

lemma entry_list_push [simp]:
  "entry_list (push_entry m k x) k' = (if k' = k then entry_list m k @ [x] else entry_list m k')"
  by (simp add: push_entry_def entry_list_def)

lemma entry_list_empty [simp]: "entry_list Map.empty k = []"
  by (simp add: entry_list_def)

text \<open>\<open>String::starts_with\<close> and \<open>str::contains\<close> on byte lists.\<close>

fun starts_with :: "'a list \<Rightarrow> 'a list \<Rightarrow> bool" where
  "starts_with xs [] = True"
| "starts_with [] (p # ps) = False"
| "starts_with (x # xs) (p # ps) = (x = p \<and> starts_with xs ps)"

lemma starts_with_iff: "starts_with xs ps \<longleftrightarrow> (\<exists>ys. xs = ps @ ys)"
  by (induction xs ps rule: starts_with.induct) auto

section \<open>Requests\<close>

text \<open>The two verbs that the programs serve and send.\<close>

datatype http_verb = GET | POST

text \<open>A header value is text, by \<open>HeaderValue::to_str\<close>, when every byte is visible ASCII, a space or a tab.\<close>

definition visible_ascii :: "char \<Rightarrow> bool" where
  "visible_ascii c = (let n = of_char c :: nat in 32 \<le> n \<and> n < 127 \<or> n = 9)"

definition header_text :: "bytes option \<Rightarrow> string option" where
  "header_text h = (case h of Some v \<Rightarrow> if list_all visible_ascii v then Some v else None | None \<Rightarrow> None)"

end
