(* ===== verification/Identity.thy ===== *)
theory Identity
  imports Piteka_Prelude
begin

text \<open>
  The configured organization of \<^verbatim>\<open>crates/piteka-domain/src/identity.rs\<close>: identifiers, the three
  demo roles and the capabilities they grant, member identities and the fail-closed assembly of
  one organization. The newtypes \<open>OrganizationId\<close> and \<open>UserId\<close> are one-constructor datatypes
  whose \<open>new\<close> functions are the only way the code builds them.
\<close>

section \<open>Identifiers\<close>

datatype organization_id = OrganizationId string

datatype user_id = UserId string

datatype identity_error =
    EmptyField string
  | CrossOrganizationMember organization_id organization_id
  | DuplicateMember user_id
  | NoMembers

definition require_nonempty :: "string \<Rightarrow> string \<Rightarrow> identity_error + unit" where
  "require_nonempty field value = (if blank value then Inl (EmptyField field) else Inr ())"

definition organization_id_new :: "string \<Rightarrow> identity_error + organization_id" where
  "organization_id_new value =
     (case require_nonempty ''organization_id'' value of
        Inl e \<Rightarrow> Inl e
      | Inr _ \<Rightarrow> Inr (OrganizationId value))"

primrec organization_id_as_str :: "organization_id \<Rightarrow> string" where
  "organization_id_as_str (OrganizationId s) = s"

definition user_id_new :: "string \<Rightarrow> identity_error + user_id" where
  "user_id_new value =
     (case require_nonempty ''user_id'' value of
        Inl e \<Rightarrow> Inl e
      | Inr _ \<Rightarrow> Inr (UserId value))"

primrec user_id_as_str :: "user_id \<Rightarrow> string" where
  "user_id_as_str (UserId s) = s"

lemma require_nonempty_Inr [simp]: "require_nonempty f v = Inr u \<longleftrightarrow> \<not> blank v"
  by (simp add: require_nonempty_def)

lemma user_id_new_Inr: "user_id_new v = Inr u \<longleftrightarrow> \<not> blank v \<and> u = UserId v"
  by (auto simp: user_id_new_def require_nonempty_def)

lemma organization_id_new_Inr: "organization_id_new v = Inr u \<longleftrightarrow> \<not> blank v \<and> u = OrganizationId v"
  by (auto simp: organization_id_new_def require_nonempty_def)

lemma user_id_as_str_inject [simp]: "user_id_as_str a = user_id_as_str b \<longleftrightarrow> a = b"
  by (cases a; cases b) simp

lemma organization_id_as_str_inject [simp]:
  "organization_id_as_str a = organization_id_as_str b \<longleftrightarrow> a = b"
  by (cases a; cases b) simp

section \<open>Roles and capabilities\<close>

datatype capability =
    ProposeAction
  | ReceiveActionStatus
  | ExecuteApprovedMandate
  | ReviewIntent
  | ApproveAction
  | RejectAction
  | RequireConditions
  | RevokeMandate
  | ReadScopedRecords
  | VerifyBundle
  | InspectAssurance

datatype role = Requester | Approver | Auditor

fun capabilities :: "role \<Rightarrow> capability list" where
  "capabilities Requester = [ProposeAction, ReceiveActionStatus, ExecuteApprovedMandate]"
| "capabilities Approver =
     [ReviewIntent, ApproveAction, RejectAction, RequireConditions, RevokeMandate]"
| "capabilities Auditor = [ReadScopedRecords, VerifyBundle, InspectAssurance]"

definition grants :: "role \<Rightarrow> capability \<Rightarrow> bool" where
  "grants r c = (c \<in> set (capabilities r))"

text \<open>The role a capability belongs to, read off the three lists.\<close>

fun role_of :: "capability \<Rightarrow> role" where
  "role_of ProposeAction = Requester"
| "role_of ReceiveActionStatus = Requester"
| "role_of ExecuteApprovedMandate = Requester"
| "role_of ReviewIntent = Approver"
| "role_of ApproveAction = Approver"
| "role_of RejectAction = Approver"
| "role_of RequireConditions = Approver"
| "role_of RevokeMandate = Approver"
| "role_of ReadScopedRecords = Auditor"
| "role_of VerifyBundle = Auditor"
| "role_of InspectAssurance = Auditor"

lemma grants_iff_role_of: "grants r c \<longleftrightarrow> r = role_of c"
  by (cases r; cases c) (simp_all add: grants_def)

fun tag :: "role \<Rightarrow> u8" where
  "tag Requester = 1"
| "tag Approver = 2"
| "tag Auditor = 3"

lemma tag_inject [simp]: "tag r = tag r' \<longleftrightarrow> r = r'"
  by (cases r; cases r') simp_all

section \<open>Organizations and members\<close>

record organization =
  org_id :: organization_id
  org_display_name :: string

definition organization_new :: "organization_id \<Rightarrow> string \<Rightarrow> identity_error + organization" where
  "organization_new oid display_name =
     (case require_nonempty ''organization_display_name'' display_name of
        Inl e \<Rightarrow> Inl e
      | Inr _ \<Rightarrow> Inr \<lparr>org_id = oid, org_display_name = display_name\<rparr>)"

record identity =
  id_user_id :: user_id
  id_organization :: organization_id
  id_display_name :: string
  id_role :: role

definition identity_new ::
  "user_id \<Rightarrow> organization_id \<Rightarrow> string \<Rightarrow> role \<Rightarrow> identity_error + identity" where
  "identity_new user org display_name r =
     (case require_nonempty ''identity_display_name'' display_name of
        Inl e \<Rightarrow> Inl e
      | Inr _ \<Rightarrow> Inr \<lparr>id_user_id = user, id_organization = org,
                      id_display_name = display_name, id_role = r\<rparr>)"

record configured_organization =
  co_organization :: organization
  co_members :: "identity list"

text \<open>
  The validation loop of \<open>ConfiguredOrganization::new\<close>: \<open>seen\<close> is \<open>members[..index]\<close>.
\<close>

fun check_members ::
  "organization_id \<Rightarrow> identity list \<Rightarrow> identity list \<Rightarrow> identity_error option" where
  "check_members org seen [] = None"
| "check_members org seen (m # ms) =
     (if id_organization m \<noteq> org then Some (CrossOrganizationMember org (id_organization m))
      else if list_ex (\<lambda>other. id_user_id other = id_user_id m) seen
      then Some (DuplicateMember (id_user_id m))
      else check_members org (seen @ [m]) ms)"

definition configured_organization_new ::
  "organization \<Rightarrow> identity list \<Rightarrow> identity_error + configured_organization" where
  "configured_organization_new org members =
     (if members = [] then Inl NoMembers
      else case check_members (org_id org) [] members of
        Some e \<Rightarrow> Inl e
      | None \<Rightarrow> Inr \<lparr>co_organization = org, co_members = members\<rparr>)"

definition co_member :: "configured_organization \<Rightarrow> user_id \<Rightarrow> identity option" where
  "co_member co user = find (\<lambda>member. id_user_id member = user) (co_members co)"

text \<open>The well-formedness every assembled organization has.\<close>

definition wf_directory :: "configured_organization \<Rightarrow> bool" where
  "wf_directory co =
     (co_members co \<noteq> []
      \<and> list_all (\<lambda>m. id_organization m = org_id (co_organization co)) (co_members co)
      \<and> distinct (map id_user_id (co_members co)))"

lemma check_members_None:
  assumes "distinct (map id_user_id seen)"
  shows "check_members org seen ms = None \<longleftrightarrow>
    list_all (\<lambda>m. id_organization m = org) ms \<and> distinct (map id_user_id (seen @ ms))"
  using assms
proof (induction org seen ms rule: check_members.induct)
  case (1 org seen)
  then show ?case by simp
next
  case (2 org seen m ms)
  show ?case
  proof (cases "id_organization m = org \<and> \<not> list_ex (\<lambda>other. id_user_id other = id_user_id m) seen")
    case True
    then have "distinct (map id_user_id (seen @ [m]))"
      using "2.prems" by (auto simp: list_ex_iff)
    with True "2.IH" show ?thesis by (auto simp: list_ex_iff)
  next
    case False
    then consider "id_organization m \<noteq> org"
      | other where "other \<in> set seen" and "id_user_id other = id_user_id m"
      by (auto simp: list_ex_iff)
    then show ?thesis by cases (auto simp: list_ex_iff rev_image_eqI)
  qed
qed

text \<open>The demo organization is built by the code's own constructors.\<close>

definition demo_organization_id :: organization_id where
  "demo_organization_id = OrganizationId ''diewan-demo''"

definition demo_organization :: organization where
  "demo_organization =
     \<lparr>org_id = demo_organization_id, org_display_name = ''DieWan Demo Organization''\<rparr>"

definition demo_member :: "string \<Rightarrow> string \<Rightarrow> role \<Rightarrow> identity" where
  "demo_member user display r =
     \<lparr>id_user_id = UserId user, id_organization = demo_organization_id,
      id_display_name = display, id_role = r\<rparr>"

definition demo_members :: "identity list" where
  "demo_members =
     map (\<lambda>(user, display, r). demo_member user display r)
       [(''requester'', ''Demo Requester'', Requester),
        (''approver'', ''Demo Approver'', Approver),
        (''auditor'', ''Demo Auditor'', Auditor)]"

definition demo :: configured_organization where
  "demo = \<lparr>co_organization = demo_organization, co_members = demo_members\<rparr>"

lemma co_member_user: "co_member co u = Some m \<Longrightarrow> id_user_id m = u \<and> m \<in> set (co_members co)"
  by (auto simp: co_member_def find_Some_iff)

lemma co_member_org:
  "wf_directory co \<Longrightarrow> co_member co u = Some m \<Longrightarrow> id_organization m = org_id (co_organization co)"
  by (auto simp: wf_directory_def list_all_iff dest: co_member_user)

section \<open>Properties\<close>

text \<open>
  C40. \<open>ConfiguredOrganization::new\<close> succeeds exactly for a non-empty member list in which every
  member belongs to the configured organization and no two members share a user identifier; the
  result then carries the given organization and members unchanged. So a cross-tenant identity
  or an ambiguous user never enters the directory.
\<close>

theorem configured_organization_new_iff:
  "configured_organization_new org members = Inr co \<longleftrightarrow>
     co = \<lparr>co_organization = org, co_members = members\<rparr> \<and> wf_directory co"
  using check_members_None [of "[]" "org_id org" members]
  by (auto simp: configured_organization_new_def wf_directory_def split: option.splits)

text \<open>
  The three roles partition the capabilities: every capability is granted by exactly one
  role. In particular no role can both approve an action and execute it, and none can both
  propose and approve.
\<close>

theorem grants_unique_role: "\<exists>!r. grants r c"
  by (simp add: grants_iff_role_of)

end
