(* ===== verification/Session_Claims.thy ===== *)
theory Session_Claims
  imports Identity
begin

text \<open>
  Session claims of \<^verbatim>\<open>crates/piteka-domain/src/session.rs\<close>: the validity window, and the
  length-prefixed bytes a signer commits to. The length prefix is written at 32 bits
  (\<open>bytes.len() as u32\<close>), so it wraps for a string of 4 GiB or more.
\<close>

section \<open>Claims\<close>

datatype session_error =
    EmptyField string
  | NonPositiveLifetime u64 u64

datatype session_id = SessionId bytes

primrec session_id_bytes :: "session_id \<Rightarrow> bytes" where
  "session_id_bytes (SessionId b) = b"

text \<open>The Rust type is \<open>[u8; 16]\<close>.\<close>

definition wf_session_id :: "session_id \<Rightarrow> bool" where
  "wf_session_id s = (length (session_id_bytes s) = 16)"

record session_claims =
  sc_session_id :: session_id
  sc_subject :: user_id
  sc_organization :: organization_id
  sc_role :: role
  sc_issued_at :: u64
  sc_expires_at :: u64

definition session_claims_new ::
  "session_id \<Rightarrow> user_id \<Rightarrow> organization_id \<Rightarrow> role \<Rightarrow> u64 \<Rightarrow> u64 \<Rightarrow> session_error + session_claims" where
  "session_claims_new sid subject org r issued_at expires_at =
     (if user_id_as_str subject = [] then Inl (EmptyField ''subject'')
      else if organization_id_as_str org = [] then Inl (EmptyField ''organization'')
      else if expires_at \<le> issued_at then Inl (NonPositiveLifetime issued_at expires_at)
      else Inr \<lparr>sc_session_id = sid, sc_subject = subject, sc_organization = org,
                sc_role = r, sc_issued_at = issued_at, sc_expires_at = expires_at\<rparr>)"

definition is_active_at :: "session_claims \<Rightarrow> u64 \<Rightarrow> bool" where
  "is_active_at c now = (sc_issued_at c \<le> now \<and> now < sc_expires_at c)"

text \<open>Claims \<open>new\<close> accepts are active at the moment of issue, and only before their expiry.\<close>

lemma session_claims_new_active:
  "session_claims_new sid u g r t e = Inr c \<Longrightarrow> is_active_at c t \<and> \<not> is_active_at c e"
  by (auto simp: session_claims_new_def is_active_at_def split: if_splits)

section \<open>Signing bytes\<close>

definition session_domain_tag :: bytes where
  "session_domain_tag = ''piteka-demo-session-v1''"

definition push_bytes :: "bytes \<Rightarrow> bytes \<Rightarrow> bytes" where
  "push_bytes out b = out @ be_u32 (of_nat (length b)) @ b"

definition signing_bytes :: "session_claims \<Rightarrow> bytes" where
  "signing_bytes c =
     (let out = push_bytes [] session_domain_tag;
          out = out @ session_id_bytes (sc_session_id c);
          out = push_bytes out (user_id_as_str (sc_subject c));
          out = push_bytes out (organization_id_as_str (sc_organization c));
          out = out @ [char_of (unat (tag (sc_role c)))];
          out = out @ be_u64 (sc_issued_at c);
          out = out @ be_u64 (sc_expires_at c)
      in out)"

lemma role_byte_inject [simp]:
  "unat (tag r) mod 256 = unat (tag r') mod 256 \<longleftrightarrow> r = r'"
  by (cases r; cases r') simp_all

definition signable :: "session_claims \<Rightarrow> bool" where
  "signable c =
     (wf_session_id (sc_session_id c)
      \<and> fits_u32 (user_id_as_str (sc_subject c))
      \<and> fits_u32 (organization_id_as_str (sc_organization c)))"

section \<open>Properties\<close>

text \<open>
  C32. Distinct claims never collide: the bytes a signer commits to determine the claims, for
  every session identifier of 16 bytes and every subject and organization shorter than 4 GiB
  (the range of the 32-bit length prefix). A signature for one session, role or window can
  therefore never be presented for another.
\<close>

theorem signing_bytes_inject:
  assumes "signable c" and "signable d" and "signing_bytes c = signing_bytes d"
  shows "c = d"
proof -
  let ?tail = "\<lambda>c. [char_of (unat (tag (sc_role c)))] @ be_u64 (sc_issued_at c) @ be_u64 (sc_expires_at c)"
  let ?org = "\<lambda>c. organization_id_as_str (sc_organization c)"
  let ?sub = "\<lambda>c. user_id_as_str (sc_subject c)"
  have len: "length (session_id_bytes (sc_session_id c)) = length (session_id_bytes (sc_session_id d))"
    using assms(1,2) by (simp add: signable_def wf_session_id_def)
  from assms(3) have "session_id_bytes (sc_session_id c) @ be_u32 (of_nat (length (?sub c))) @ ?sub c
        @ be_u32 (of_nat (length (?org c))) @ ?org c @ ?tail c
      = session_id_bytes (sc_session_id d) @ be_u32 (of_nat (length (?sub d))) @ ?sub d
        @ be_u32 (of_nat (length (?org d))) @ ?org d @ ?tail d"
    by (simp add: signing_bytes_def push_bytes_def Let_def)
  then have sid: "session_id_bytes (sc_session_id c) = session_id_bytes (sc_session_id d)"
    and r1: "be_u32 (of_nat (length (?sub c))) @ ?sub c @ be_u32 (of_nat (length (?org c))) @ ?org c @ ?tail c
      = be_u32 (of_nat (length (?sub d))) @ ?sub d @ be_u32 (of_nat (length (?org d))) @ ?org d @ ?tail d"
    using len by (simp_all add: append_eq_same_length)
  have fit: "fits_u32 (?sub c)" "fits_u32 (?sub d)" "fits_u32 (?org c)" "fits_u32 (?org d)"
    using assms(1,2) by (simp_all add: signable_def)
  from prefixed_inject [OF fit(1,2) r1] have sub: "?sub c = ?sub d"
    and r2: "be_u32 (of_nat (length (?org c))) @ ?org c @ ?tail c
      = be_u32 (of_nat (length (?org d))) @ ?org d @ ?tail d" by simp_all
  from prefixed_inject [OF fit(3,4) r2] have org: "?org c = ?org d" and tl: "?tail c = ?tail d"
    by simp_all
  from sid have "sc_session_id c = sc_session_id d"
    by (cases "sc_session_id c"; cases "sc_session_id d") simp
  moreover from tl have "sc_role c = sc_role d" "sc_issued_at c = sc_issued_at d"
    "sc_expires_at c = sc_expires_at d"
    by (simp_all add: append_eq_same_length)
  ultimately show ?thesis using sub org by (cases c; cases d) simp
qed

definition example_claims :: "role \<Rightarrow> session_claims" where
  "example_claims r =
     \<lparr>sc_session_id = SessionId (replicate 16 (CHR 0x01)), sc_subject = UserId ''requester'',
      sc_organization = OrganizationId ''diewan-demo'', sc_role = r,
      sc_issued_at = 1000, sc_expires_at = 4600\<rparr>"

lemma signable_example: "signable (example_claims r)"
  by (simp add: signable_def example_claims_def wf_session_id_def fits_u32_def)

theorem signing_bytes_inject_witness:
  "signing_bytes (example_claims Requester) \<noteq> signing_bytes (example_claims Approver)"
proof
  assume "signing_bytes (example_claims Requester) = signing_bytes (example_claims Approver)"
  from signing_bytes_inject [OF signable_example signable_example this]
  show False by (simp add: example_claims_def)
qed

end
