(* ===== verification/Externals.thy ===== *)
theory Externals
  imports Piteka_Prelude
begin

text \<open>
  The third-party crates the code calls (sha2, hmac, hex, serde_json, chrono), which are not part
  of the repository. They are one record of functions, an argument of every definition that calls
  them; what a proof needs of them is a named hypothesis about that record. \<open>json\<close> is the value
  type of serde_json, whose numbers are an unsigned, a negative signed or a floating point value.
  An error of \<open>serde_json::to_vec\<close> is its displayed text.
\<close>

section \<open>JSON values and their accessors\<close>

datatype json =
    JNull
  | JBool bool
  | JPosInt u64
  | JNegInt i64
  | JFloat string
  | JString string
  | JArray "json list"
  | JObject "(string \<times> json) list"

text \<open>\<open>Value::get\<close> with a string index.\<close>

fun json_get :: "json \<Rightarrow> string \<Rightarrow> json option" where
  "json_get (JObject fields) k = map_of fields k"
| "json_get _ k = None"

fun json_as_u64 :: "json \<Rightarrow> u64 option" where
  "json_as_u64 (JPosInt n) = Some n"
| "json_as_u64 _ = None"

text \<open>\<open>Value::as_i64\<close>: an unsigned number only when it is at most \<open>i64::MAX\<close>.\<close>

fun json_as_i64 :: "json \<Rightarrow> i64 option" where
  "json_as_i64 (JPosInt n) = (if n \<le> i64_max then Some n else None)"
| "json_as_i64 (JNegInt n) = Some n"
| "json_as_i64 _ = None"

text \<open>\<open>Number::from\<close> on an \<open>i64\<close>: only a negative value is stored as signed.\<close>

definition json_of_i64 :: "i64 \<Rightarrow> json" where
  "json_of_i64 n = (if sint n < 0 then JNegInt n else JPosInt n)"

fun json_as_str :: "json \<Rightarrow> string option" where
  "json_as_str (JString s) = Some s"
| "json_as_str _ = None"

section \<open>The external functions\<close>

record ext =
  ext_sha256 :: "bytes \<Rightarrow> bytes"
  ext_hmac_sha256 :: "bytes \<Rightarrow> bytes \<Rightarrow> bytes"
  ext_hex_encode :: "bytes \<Rightarrow> string"
  ext_hex_decode :: "string \<Rightarrow> bytes option"
  ext_json_from_slice :: "bytes \<Rightarrow> json option"
  ext_json_to_vec :: "json \<Rightarrow> string + bytes"
  ext_rfc3339_timestamp :: "string \<Rightarrow> i64 option"

text \<open>
  The documented behaviour of hex: two lower-case digits per byte, and decoding inverts encoding.
\<close>

definition hex_laws :: "ext \<Rightarrow> bool" where
  "hex_laws E \<longleftrightarrow>
     (\<forall>b. ext_hex_decode E (ext_hex_encode E b) = Some b
        \<and> length (ext_hex_encode E b) = 2 * length b
        \<and> list_all is_lower_hex (ext_hex_encode E b))"

text \<open>A SHA-256 digest is 32 bytes.\<close>

definition sha256_laws :: "ext \<Rightarrow> bool" where
  "sha256_laws E \<longleftrightarrow> (\<forall>b. length (ext_sha256 E b) = 32)"

section \<open>A concrete instance\<close>

text \<open>
  The witnesses evaluate the model on this instance: hexadecimal as the hex crate documents it,
  and stand-ins of the right shape for the others. No theorem depends on it.
\<close>

definition hex_digit :: "nat \<Rightarrow> char" where
  "hex_digit n = (if n < 10 then char_of (48 + n) else char_of (87 + n))"

fun hex_encode_ref :: "bytes \<Rightarrow> string" where
  "hex_encode_ref [] = []"
| "hex_encode_ref (c # cs) =
     hex_digit (of_char c div 16) # hex_digit (of_char c mod 16) # hex_encode_ref cs"

definition hex_value :: "char \<Rightarrow> nat option" where
  "hex_value c =
     (let n = of_char c :: nat in
      if 48 \<le> n \<and> n \<le> 57 then Some (n - 48)
      else if 97 \<le> n \<and> n \<le> 102 then Some (n - 87)
      else if 65 \<le> n \<and> n \<le> 70 then Some (n - 55) else None)"

fun hex_decode_ref :: "string \<Rightarrow> bytes option" where
  "hex_decode_ref [] = Some []"
| "hex_decode_ref [c] = None"
| "hex_decode_ref (a # b # cs) =
     (case (hex_value a, hex_value b, hex_decode_ref cs) of
        (Some x, Some y, Some r) \<Rightarrow> Some (char_of (16 * x + y) # r)
      | _ \<Rightarrow> None)"

lemma of_char_hex_digit:
  "n < 16 \<Longrightarrow> (of_char (hex_digit n) :: nat) = (if n < 10 then 48 + n else 87 + n)"
  by (simp add: hex_digit_def)

lemma hex_value_digit: "n < 16 \<Longrightarrow> hex_value (hex_digit n) = Some n"
  by (auto simp: hex_value_def of_char_hex_digit Let_def)

lemma is_lower_hex_digit: "n < 16 \<Longrightarrow> is_lower_hex (hex_digit n)"
  by (auto simp: is_lower_hex_def is_ascii_digit_def of_char_hex_digit)

lemma hex_decode_encode_ref: "hex_decode_ref (hex_encode_ref b) = Some b"
proof (induction b)
  case Nil
  then show ?case by simp
next
  case (Cons c b)
  have "(of_char c :: nat) div 16 < 16"
    using nat_of_char_less_256 [of c] by linarith
  with Cons show ?case
    by (simp add: hex_value_digit mult_div_mod_eq)
qed

lemma hex_encode_ref_lower: "list_all is_lower_hex (hex_encode_ref b)"
proof (induction b)
  case Nil
  then show ?case by simp
next
  case (Cons c b)
  have "(of_char c :: nat) div 16 < 16"
    using nat_of_char_less_256 [of c] by linarith
  with Cons show ?case by (simp add: is_lower_hex_digit)
qed

lemma length_hex_encode_ref: "length (hex_encode_ref b) = 2 * length b"
  by (induction b) auto

definition ext_ref :: ext where
  "ext_ref =
     \<lparr>ext_sha256 = (\<lambda>b. take 32 (b @ replicate 32 CHR 0x00)),
      ext_hmac_sha256 = (\<lambda>k b. take 32 (k @ b @ replicate 32 CHR 0x00)),
      ext_hex_encode = hex_encode_ref,
      ext_hex_decode = hex_decode_ref,
      ext_json_from_slice = (\<lambda>b. None),
      ext_json_to_vec = (\<lambda>j. Inr []),
      ext_rfc3339_timestamp = (\<lambda>s. None)\<rparr>"

lemma hex_laws_ref: "hex_laws ext_ref"
  by (simp add: hex_laws_def ext_ref_def hex_decode_encode_ref hex_encode_ref_lower
      length_hex_encode_ref)

lemma sha256_laws_ref: "sha256_laws ext_ref"
  by (auto simp: sha256_laws_def ext_ref_def min_def)

end
