(* ===== verification/Storage_Model.thy ===== *)
theory Storage_Model
  imports Externals
begin

text \<open>
  Storage records and outcomes: \<^verbatim>\<open>crates/piteka-storage/src/model.rs\<close>, the error type of
  \<^verbatim>\<open>error.rs\<close> and the content address of \<^verbatim>\<open>digest.rs\<close>.
\<close>

section \<open>Content digests\<close>

datatype content_digest = ContentDigest bytes

primrec digest_bytes :: "content_digest \<Rightarrow> bytes" where
  "digest_bytes (ContentDigest b) = b"

definition content_digest_of :: "ext \<Rightarrow> bytes \<Rightarrow> content_digest" where
  "content_digest_of E b = ContentDigest (ext_sha256 E b)"

definition to_hex :: "ext \<Rightarrow> content_digest \<Rightarrow> string" where
  "to_hex E d = ext_hex_encode E (digest_bytes d)"

definition from_hex :: "ext \<Rightarrow> string \<Rightarrow> content_digest option" where
  "from_hex E value =
     (if length value \<noteq> 64 \<or> \<not> list_all is_lower_hex value then None
      else map_option ContentDigest (ext_hex_decode E value))"

text \<open>The Rust type of a digest is \<open>[u8; 32]\<close>.\<close>

definition wf_digest :: "content_digest \<Rightarrow> bool" where
  "wf_digest d = (length (digest_bytes d) = 32)"

section \<open>Errors\<close>

datatype storage_error =
    ImmutableViolation string
  | EvidenceDigestMismatch content_digest content_digest
  | EmptyField string
  | Backend string

fun storage_error_display :: "ext \<Rightarrow> storage_error \<Rightarrow> string" where
  "storage_error_display E (ImmutableViolation object_id) =
     ''protocol object `'' @ object_id @ ''` already stored with different bytes''"
| "storage_error_display E (EvidenceDigestMismatch expected found) =
     ''evidence content address mismatch: expected '' @ to_hex E expected
       @ '', found '' @ to_hex E found"
| "storage_error_display E (EmptyField field) =
     ''storage field `'' @ field @ ''` must not be empty''"
| "storage_error_display E (Backend message) = ''storage backend error: '' @ message"

section \<open>Records\<close>

record protocol_object =
  po_kind :: string
  po_object_id_hex :: string
  po_bytes :: bytes

record mandate_projection =
  mp_mandate_id_hex :: string
  mp_version :: i64
  mp_state :: string

datatype cas_outcome = Applied i64 | Conflict i64 | Missing

record webhook_receipt =
  wr_delivery_id :: string
  wr_source :: string
  wr_raw_digest :: content_digest
  wr_received_at :: i64

datatype webhook_record_outcome = Recorded | Duplicate

record evidence_descriptor =
  ed_digest :: content_digest
  ed_media_type :: string
  ed_size_bytes :: u64

record audit_event =
  ae_occurred_at :: i64
  ae_actor :: "string option"
  ae_action :: string
  ae_decision :: string
  ae_detail :: string

datatype action_request_status = Pending | Approved | Rejected | Revoked

record action_request =
  ar_request_id :: string
  ar_requested_by :: string
  ar_intent_id_hex :: "string option"
  ar_status :: action_request_status
  ar_created_at :: i64

record approval_decision =
  ad_decision_id :: string
  ad_request_id :: string
  ad_decided_by :: string
  ad_decision :: string
  ad_intent_id_hex :: "string option"
  ad_decided_at :: i64

datatype execution_attempt_state =
    Prepared
  | Dispatching
  | Accepted
  | Rejected
  | OutcomeAmbiguous
  | ReconciledAccepted
  | ReconciledNotAccepted
  | AbandonedAmbiguous

fun is_terminal :: "execution_attempt_state \<Rightarrow> bool" where
  "is_terminal Accepted = True"
| "is_terminal execution_attempt_state.Rejected = True"
| "is_terminal OutcomeAmbiguous = True"
| "is_terminal ReconciledAccepted = True"
| "is_terminal ReconciledNotAccepted = True"
| "is_terminal AbandonedAmbiguous = True"
| "is_terminal _ = False"

record execution_attempt =
  ea_attempt_id_hex :: string
  ea_mandate_id_hex :: string
  ea_intent_id_hex :: string
  ea_reservation_token_digest :: string
  ea_executor_identity :: string
  ea_correlation_key :: string
  ea_started_at :: i64
  ea_dispatch_boundary_at :: "i64 option"
  ea_state :: execution_attempt_state
  ea_github_deployment_id :: "u64 option"

datatype receipt_outcome = Succeeded | Failed | Rejected | Unknown

datatype evidence_source = Piteka | Provider string | Verifier

record evidence_node =
  en_node_id_hex :: string
  en_registry_id :: string
  en_source :: evidence_source
  en_producer_identity :: string
  en_collected_at :: i64
  en_asserted_event_at :: "i64 option"
  en_content_digest :: content_digest
  en_media_type :: string
  en_disclosure_classification :: string
  en_relationships :: "string list"

record receipt_projection =
  rp_receipt_id_hex :: string
  rp_mandate_id_hex :: string
  rp_intent_id_hex :: string
  rp_attempt_id_hex :: string
  rp_outcome :: receipt_outcome
  rp_created_at :: i64
  rp_dispatch_evidence_refs :: "string list"
  rp_target_evidence_refs :: "string list"
  rp_evidence_gaps :: "string list"
  rp_canonical_bytes :: "bytes option"

section \<open>Properties\<close>

text \<open>
  The hexadecimal form of a digest parses back to the digest, and nothing else parses to it
  by way of an upper-case or wrongly sized spelling: \<open>from_hex\<close> accepts only 64 lower-case
  hexadecimal characters. Given the documented behaviour of the hex crate.
\<close>

theorem from_hex_to_hex:
  assumes "hex_laws E" and "wf_digest d"
  shows "from_hex E (to_hex E d) = Some d
    \<and> (\<forall>v d'. from_hex E v = Some d' \<longrightarrow> length v = 64 \<and> list_all is_lower_hex v)"
proof
  show "from_hex E (to_hex E d) = Some d"
    using assms by (cases d) (simp add: from_hex_def to_hex_def hex_laws_def wf_digest_def)
  show "\<forall>v d'. from_hex E v = Some d' \<longrightarrow> length v = 64 \<and> list_all is_lower_hex v"
    by (auto simp: from_hex_def split: if_splits)
qed

theorem from_hex_to_hex_witness:
  "from_hex ext_ref (to_hex ext_ref (ContentDigest (replicate 32 (CHR 0xAB))))
     = Some (ContentDigest (replicate 32 (CHR 0xAB)))"
proof -
  have "wf_digest (ContentDigest (replicate 32 (CHR 0xAB)))"
    by (simp add: wf_digest_def)
  from from_hex_to_hex [OF hex_laws_ref this] show ?thesis by simp
qed

end
