(* ===== verification/Storage_Ports.thy ===== *)
theory Storage_Ports
  imports Storage_Model
begin

text \<open>
  The persistence ports of \<^verbatim>\<open>crates/piteka-storage/src/ports.rs\<close> as contracts. A locale fixes the
  operations a use case calls through a port and assumes what the port's documentation promises;
  its lemmas are what every client relies on. \<open>Storage_Memory\<close> interprets each contract on the
  adapters of \<^verbatim>\<open>memory.rs\<close>.

  \<^item> \<open>versioned_store\<close>: compare-and-swap on a version (mandate projections, action requests);
  \<^item> \<open>keyed_store\<close>: append-only rows under a unique key (evidence nodes, and the next);
  \<^item> \<open>indexed_store\<close>: a keyed store with a secondary index in insertion order (decisions,
    execution attempts, receipts).
\<close>

section \<open>Versioned stores\<close>

text \<open>A sequence of swaps on one store, as concurrent callers serialise on its lock.\<close>

fun cas_run ::
  "(string \<Rightarrow> i64 \<Rightarrow> 'v \<Rightarrow> ('st, storage_error, cas_outcome) op)
    \<Rightarrow> (string \<times> i64 \<times> 'v) list \<Rightarrow> 'st \<Rightarrow> 'st" where
  "cas_run cas [] st = st"
| "cas_run cas ((k, e, v) # ops) st = cas_run cas ops (snd (cas k e v st))"

locale versioned_store =
  fixes version_of :: "'st \<Rightarrow> string \<Rightarrow> i64 option"
    and state_of :: "'st \<Rightarrow> string \<Rightarrow> 'v option"
    and cas :: "string \<Rightarrow> i64 \<Rightarrow> 'v \<Rightarrow> ('st, storage_error, cas_outcome) op"
  assumes version_iff: "version_of st k = None \<longleftrightarrow> state_of st k = None"
    and cas_missing: "version_of st k = None \<Longrightarrow> cas k e v st = (Inr Missing, st)"
    and cas_conflict: "version_of st k = Some c \<Longrightarrow> c \<noteq> e \<Longrightarrow> cas k e v st = (Inr (Conflict c), st)"
    and cas_applied: "version_of st k = Some e \<Longrightarrow> fst (cas k e v st) = Inr (Applied (e + 1))"
    and version_applied:
      "version_of st k = Some e \<Longrightarrow> version_of (snd (cas k e v st)) = (version_of st)(k \<mapsto> e + 1)"
    and state_applied:
      "version_of st k = Some e \<Longrightarrow> state_of (snd (cas k e v st)) = (state_of st)(k \<mapsto> v)"
begin

lemma cas_cases:
  obtains (missing) "version_of st k = None" "cas k e v st = (Inr Missing, st)"
  | (conflict) c where "version_of st k = Some c" "c \<noteq> e" "cas k e v st = (Inr (Conflict c), st)"
  | (applied) "version_of st k = Some e" "fst (cas k e v st) = Inr (Applied (e + 1))"
proof (cases "version_of st k")
  case None
  then show thesis using cas_missing missing by blast
next
  case (Some c)
  then show thesis
    by (cases "c = e") (use cas_conflict conflict cas_applied applied in blast)+
qed

lemma applied_iff: "fst (cas k e v st) = Inr (Applied n) \<longleftrightarrow> version_of st k = Some e \<and> n = e + 1"
  by (rule cas_cases [of st k e v]) auto

lemma version_other: "k' \<noteq> k \<Longrightarrow> version_of (snd (cas k e v st)) k' = version_of st k'"
  by (rule cas_cases [of st k e v]) (auto simp: version_applied)

lemma state_other: "k' \<noteq> k \<Longrightarrow> state_of (snd (cas k e v st)) k' = state_of st k'"
  by (rule cas_cases [of st k e v]) (auto simp: state_applied)

lemma not_applied_unchanged:
  "\<forall>n. fst (cas k e v st) \<noteq> Inr (Applied n) \<Longrightarrow> snd (cas k e v st) = st"
  by (rule cas_cases [of st k e v]) auto

text \<open>A version only moves by counting the swaps that were applied to its key.\<close>

lemma version_drift:
  "version_of st k = Some c \<Longrightarrow>
    \<exists>m \<le> length ops. version_of (cas_run cas ops st) k = Some (c + of_nat m)"
proof (induction ops arbitrary: st c)
  case Nil
  then show ?case by (auto intro: exI [of _ 0])
next
  case (Cons x ops)
  obtain k' e v where x: "x = (k', e, v)" by (cases x) auto
  let ?st' = "snd (cas k' e v st)"
  have "version_of ?st' k = Some c \<or> version_of ?st' k = Some (c + 1)"
    by (rule cas_cases [of st k' e v]) (use Cons.prems in \<open>auto simp: version_applied\<close>)
  then consider "version_of ?st' k = Some c" | "version_of ?st' k = Some (c + 1)" by blast
  then show ?case
  proof cases
    case 1
    from Cons.IH [OF 1] obtain m where "m \<le> length ops"
      and "version_of (cas_run cas ops ?st') k = Some (c + of_nat m)" by blast
    then show ?thesis by (intro exI [of _ m]) (simp add: x)
  next
    case 2
    from Cons.IH [OF 2] obtain m where "m \<le> length ops"
      and "version_of (cas_run cas ops ?st') k = Some (c + 1 + of_nat m)" by blast
    then show ?thesis by (intro exI [of _ "Suc m"]) (simp add: x add.assoc)
  qed
qed

text \<open>
  Of all callers that expect one version, one wins: after it, no other swap with the same
  expected version is applied until the version has wrapped around.
\<close>

lemma one_winner:
  assumes "fst (cas k e a st) = Inr (Applied n)" and "length ops + 1 < 2 ^ 64"
  shows "fst (cas k e b (cas_run cas ops (snd (cas k e a st)))) \<noteq> Inr (Applied n')"
proof
  assume "fst (cas k e b (cas_run cas ops (snd (cas k e a st)))) = Inr (Applied n')"
  then have again: "version_of (cas_run cas ops (snd (cas k e a st))) k = Some e"
    by (simp add: applied_iff)
  from assms(1) have "version_of (snd (cas k e a st)) k = Some (e + 1)"
    by (simp add: applied_iff version_applied)
  from version_drift [OF this] obtain m where m: "m \<le> length ops"
    and "version_of (cas_run cas ops (snd (cas k e a st))) k = Some (e + 1 + of_nat m)" by blast
  with again have "e + 1 + of_nat m = e" by simp
  then have "(of_nat (Suc m) :: i64) = 0" by (simp add: algebra_simps)
  then have "unat (of_nat (Suc m) :: i64) = 0" by simp
  moreover have "Suc m < 2 ^ 64" using m assms(2) by linarith
  then have "unat (of_nat (Suc m) :: i64) = Suc m"
    by (simp only: unat_of_nat) simp
  ultimately show False by simp
qed

end

section \<open>Append-only stores\<close>

fun insert_run ::
  "('r \<Rightarrow> ('st, storage_error, unit) op) \<Rightarrow> 'r list \<Rightarrow> 'st \<Rightarrow> 'st" where
  "insert_run ins [] st = st"
| "insert_run ins (r # rs) st = insert_run ins rs (snd (ins r st))"

locale keyed_store =
  fixes lookup :: "'st \<Rightarrow> string \<Rightarrow> 'r option"
    and ins :: "'r \<Rightarrow> ('st, storage_error, unit) op"
    and key :: "'r \<Rightarrow> string"
  assumes ins_empty: "key r = [] \<Longrightarrow> \<exists>e. ins r st = (Inl e, st)"
    and ins_duplicate: "lookup st (key r) = Some x \<Longrightarrow> \<exists>e. ins r st = (Inl e, st)"
    and ins_new: "key r \<noteq> [] \<Longrightarrow> lookup st (key r) = None \<Longrightarrow> fst (ins r st) = Inr ()"
    and lookup_new:
      "key r \<noteq> [] \<Longrightarrow> lookup st (key r) = None \<Longrightarrow> lookup (snd (ins r st)) = (lookup st)(key r \<mapsto> r)"
begin

lemma ins_ok_iff: "fst (ins r st) = Inr u \<longleftrightarrow> key r \<noteq> [] \<and> lookup st (key r) = None"
proof (cases "key r \<noteq> [] \<and> lookup st (key r) = None")
  case True
  then show ?thesis by (simp add: ins_new)
next
  case False
  then have "\<exists>e. ins r st = (Inl e, st)"
    using ins_empty [of r st] ins_duplicate [of st r] by auto
  with False show ?thesis by auto
qed

lemma ins_error_unchanged: "fst (ins r st) = Inl e \<Longrightarrow> snd (ins r st) = st"
  using ins_empty [of r st] ins_duplicate [of st r] ins_new [of r st]
  by (cases "key r = []"; cases "lookup st (key r)") auto

lemma lookup_ins:
  "lookup (snd (ins r st)) k =
    (if key r \<noteq> [] \<and> lookup st (key r) = None \<and> k = key r then Some r else lookup st k)"
proof (cases "key r \<noteq> [] \<and> lookup st (key r) = None")
  case True
  then show ?thesis by (simp add: lookup_new)
next
  case False
  then have "snd (ins r st) = st"
    using ins_empty [of r st] ins_duplicate [of st r] by auto
  with False show ?thesis by auto
qed

lemma lookup_stable: "lookup st k = Some x \<Longrightarrow> lookup (snd (ins r st)) k = Some x"
  by (auto simp: lookup_ins)

lemma lookup_run_stable: "lookup st k = Some x \<Longrightarrow> lookup (insert_run ins rs st) k = Some x"
  by (induction rs arbitrary: st) (simp_all add: lookup_stable)

text \<open>A key is written once: whatever is inserted in between, a second insert of it fails.\<close>

lemma written_once:
  assumes "fst (ins r st) = Inr u" and "key r' = key r"
  shows "fst (ins r' (insert_run ins rs (snd (ins r st)))) \<noteq> Inr u'"
    and "lookup (insert_run ins rs (snd (ins r st))) (key r) = Some r"
proof -
  from assms(1) have "lookup (snd (ins r st)) (key r) = Some r"
    by (simp add: ins_ok_iff lookup_ins)
  from lookup_run_stable [OF this] show "lookup (insert_run ins rs (snd (ins r st))) (key r) = Some r" .
  then show "fst (ins r' (insert_run ins rs (snd (ins r st)))) \<noteq> Inr u'"
    using assms(2) by (simp add: ins_ok_iff)
qed

end

locale indexed_store = keyed_store +
  fixes by_owner :: "'st \<Rightarrow> string \<Rightarrow> 'r list"
    and owner :: "'r \<Rightarrow> string"
    and invar :: "'st \<Rightarrow> bool"
  assumes invar_ins: "invar st \<Longrightarrow> invar (snd (ins r st))"
    and by_owner_iff:
      "invar st \<Longrightarrow> x \<in> set (by_owner st m) \<longleftrightarrow> lookup st (key x) = Some x \<and> owner x = m"
    and by_owner_new: "invar st \<Longrightarrow> key r \<noteq> [] \<Longrightarrow> lookup st (key r) = None \<Longrightarrow>
      by_owner (snd (ins r st)) m = by_owner st m @ (if owner r = m then [r] else [])"
begin

lemma by_owner_ins:
  "invar st \<Longrightarrow> by_owner (snd (ins r st)) m =
    by_owner st m @ (if fst (ins r st) = Inr () \<and> owner r = m then [r] else [])"
proof (cases "key r \<noteq> [] \<and> lookup st (key r) = None")
  case True
  then show "invar st \<Longrightarrow> ?thesis" by (simp add: by_owner_new ins_new)
next
  case False
  then have "\<exists>e. ins r st = (Inl e, st)"
    using ins_empty [of r st] ins_duplicate [of st r] by auto
  then show "invar st \<Longrightarrow> ?thesis" by auto
qed

lemma invar_run: "invar st \<Longrightarrow> invar (insert_run ins rs st)"
  by (induction rs arbitrary: st) (simp_all add: invar_ins)

text \<open>The index lists a row under its owner forever, and lists it in insertion order.\<close>

lemma by_owner_run_prefix:
  "invar st \<Longrightarrow> \<exists>ys. by_owner (insert_run ins rs st) m = by_owner st m @ ys"
proof (induction rs arbitrary: st)
  case Nil
  then show ?case by simp
next
  case (Cons r rs)
  from Cons.IH [OF invar_ins [OF Cons.prems, of r]] Cons.prems show ?case
    by (auto simp: by_owner_ins)
qed

end

end
