(* ===== verification/Storage_Memory.thy ===== *)
theory Storage_Memory
  imports Storage_Ports
begin

text \<open>
  The in-memory adapters of \<^verbatim>\<open>crates/piteka-storage/src/memory.rs\<close>. Each is the contents of its
  \<open>Mutex\<close>: an operation runs under the lock, so it is one atomic function on the contents. A
  \<open>HashMap\<close> is a partial map; where the code walks over its values the iteration order, which
  the standard library leaves unspecified, is an argument. Locks are never poisoned, since no
  operation panics while it holds one. Every contract of \<open>Storage_Ports\<close> is interpreted here.
\<close>

section \<open>Protocol objects\<close>

type_synonym protocol_object_store = "string \<rightharpoonup> protocol_object"

definition protocol_put :: "protocol_object \<Rightarrow> (protocol_object_store, storage_error, unit) op" where
  "protocol_put r s =
     (if po_object_id_hex r = [] then (Inl (EmptyField ''object_id_hex''), s)
      else case s (po_object_id_hex r) of
        Some existing \<Rightarrow>
          if po_bytes existing \<noteq> po_bytes r
          then (Inl (ImmutableViolation (po_object_id_hex r)), s)
          else (Inr (), s)
      | None \<Rightarrow> (Inr (), s(po_object_id_hex r \<mapsto> r)))"

definition protocol_get :: "protocol_object_store \<Rightarrow> string \<Rightarrow> protocol_object option" where
  "protocol_get s k = s k"

section \<open>Mandate projections\<close>

type_synonym mandate_store = "string \<rightharpoonup> mandate_projection"

definition mandate_insert :: "string \<Rightarrow> string \<Rightarrow> (mandate_store, storage_error, unit) op" where
  "mandate_insert m st s =
     (if m = [] then (Inl (EmptyField ''mandate_id_hex''), s)
      else if s m \<noteq> None
      then (Inl (Backend (''mandate projection `'' @ m @ ''` already exists'')), s)
      else (Inr (), s(m \<mapsto> \<lparr>mp_mandate_id_hex = m, mp_version = 1, mp_state = st\<rparr>)))"

definition mandate_get :: "mandate_store \<Rightarrow> string \<Rightarrow> mandate_projection option" where
  "mandate_get s m = s m"

definition mandate_cas ::
  "string \<Rightarrow> i64 \<Rightarrow> string \<Rightarrow> (mandate_store, storage_error, cas_outcome) op" where
  "mandate_cas m expected new_state s =
     (case s m of
        None \<Rightarrow> (Inr Missing, s)
      | Some p \<Rightarrow>
          if mp_version p \<noteq> expected then (Inr (Conflict (mp_version p)), s)
          else (Inr (Applied (mp_version p + 1)),
                s(m \<mapsto> p\<lparr>mp_version := mp_version p + 1, mp_state := new_state\<rparr>)))"

definition mandate_version :: "mandate_store \<Rightarrow> string \<Rightarrow> i64 option" where
  "mandate_version s m = map_option mp_version (s m)"

definition mandate_state :: "mandate_store \<Rightarrow> string \<Rightarrow> string option" where
  "mandate_state s m = map_option mp_state (s m)"

interpretation mandates: versioned_store mandate_version mandate_state mandate_cas
  by unfold_locales
    (auto simp: mandate_version_def mandate_state_def mandate_cas_def split: option.splits)

section \<open>Webhook receipts\<close>

type_synonym webhook_receipt_store = "string \<rightharpoonup> webhook_receipt"

definition webhook_record ::
  "webhook_receipt \<Rightarrow> (webhook_receipt_store, storage_error, webhook_record_outcome) op" where
  "webhook_record r s =
     (if wr_delivery_id r = [] then (Inl (EmptyField ''delivery_id''), s)
      else if s (wr_delivery_id r) \<noteq> None then (Inr Duplicate, s)
      else (Inr Recorded, s(wr_delivery_id r \<mapsto> r)))"

definition webhook_get :: "webhook_receipt_store \<Rightarrow> string \<Rightarrow> webhook_receipt option" where
  "webhook_get s k = s k"

section \<open>Evidence blobs\<close>

record evidence_store =
  es_blobs :: "bytes \<rightharpoonup> bytes"
  es_descriptors :: "bytes \<rightharpoonup> evidence_descriptor"

definition evidence_put ::
  "ext \<Rightarrow> bytes \<Rightarrow> (evidence_store, storage_error, content_digest) op" where
  "evidence_put E b s =
     (let d = content_digest_of E b in
      (Inr d, case es_blobs s (digest_bytes d) of
                Some _ \<Rightarrow> s
              | None \<Rightarrow> s\<lparr>es_blobs := (es_blobs s)(digest_bytes d \<mapsto> b)\<rparr>))"

definition evidence_get ::
  "ext \<Rightarrow> content_digest \<Rightarrow> evidence_store \<Rightarrow> storage_error + bytes option" where
  "evidence_get E d s =
     (case es_blobs s (digest_bytes d) of
        None \<Rightarrow> Inr None
      | Some b \<Rightarrow>
          (let found = content_digest_of E b in
           if found \<noteq> d then Inl (EvidenceDigestMismatch d found) else Inr (Some b)))"

definition evidence_put_descriptor ::
  "evidence_descriptor \<Rightarrow> (evidence_store, storage_error, unit) op" where
  "evidence_put_descriptor ed s =
     (Inr (), s\<lparr>es_descriptors := (es_descriptors s)(digest_bytes (ed_digest ed) \<mapsto> ed)\<rparr>)"

section \<open>Evidence nodes\<close>

record evidence_node_store =
  ns_nodes :: "string \<rightharpoonup> evidence_node"
  ns_by_mandate :: "string \<rightharpoonup> string list"

definition mandate_prefixes :: "string list" where
  "mandate_prefixes = [''mand-'']"

text \<open>The indexing loop of \<open>insert\<close>: the first matching prefix is pushed, then \<open>break\<close>.\<close>

fun index_by_prefix ::
  "string list \<Rightarrow> string \<Rightarrow> (string \<rightharpoonup> string list) \<Rightarrow> (string \<rightharpoonup> string list)" where
  "index_by_prefix [] node_id idx = idx"
| "index_by_prefix (p # ps) node_id idx =
     (if starts_with node_id p then push_entry idx p node_id else index_by_prefix ps node_id idx)"

definition node_insert :: "evidence_node \<Rightarrow> (evidence_node_store, storage_error, unit) op" where
  "node_insert n s =
     (if en_node_id_hex n = [] then (Inl (EmptyField ''node_id_hex''), s)
      else if ns_nodes s (en_node_id_hex n) \<noteq> None
      then (Inl (Backend (''evidence node `'' @ en_node_id_hex n @ ''` already exists'')), s)
      else (Inr (), s\<lparr>ns_nodes := (ns_nodes s)(en_node_id_hex n \<mapsto> n),
                     ns_by_mandate := index_by_prefix mandate_prefixes (en_node_id_hex n) (ns_by_mandate s)\<rparr>))"

definition node_get :: "evidence_node_store \<Rightarrow> string \<Rightarrow> evidence_node option" where
  "node_get s k = ns_nodes s k"

text \<open>\<open>order\<close> is the iteration order of the map's keys, used only for an empty mandate id.\<close>

definition node_by_mandate :: "string list \<Rightarrow> evidence_node_store \<Rightarrow> string \<Rightarrow> evidence_node list" where
  "node_by_mandate order s m =
     (if m = [] then fetch_all (ns_nodes s) order
      else fetch_all (ns_nodes s) (entry_list (ns_by_mandate s) m))"

interpretation nodes: keyed_store node_get node_insert en_node_id_hex
  by unfold_locales (auto simp: node_get_def node_insert_def)

section \<open>The audit log\<close>

type_synonym audit_log = "audit_event list"

definition audit_append :: "audit_event \<Rightarrow> (audit_log, storage_error, unit) op" where
  "audit_append e s = (Inr (), s @ [e])"

definition audit_recent :: "nat \<Rightarrow> audit_log \<Rightarrow> audit_event list" where
  "audit_recent limit s = drop (length s - limit) s"

section \<open>Action requests\<close>

record action_request_store =
  rs_requests :: "string \<rightharpoonup> action_request"
  rs_versions :: "string \<rightharpoonup> i64"

definition request_insert :: "action_request \<Rightarrow> (action_request_store, storage_error, unit) op" where
  "request_insert r s =
     (if ar_request_id r = [] then (Inl (EmptyField ''request_id''), s)
      else if rs_requests s (ar_request_id r) \<noteq> None
      then (Inl (Backend (''action request `'' @ ar_request_id r @ ''` already exists'')), s)
      else (Inr (), s\<lparr>rs_requests := (rs_requests s)(ar_request_id r \<mapsto> r)\<rparr>))"

definition request_get :: "action_request_store \<Rightarrow> string \<Rightarrow> action_request option" where
  "request_get s k = rs_requests s k"

definition request_list :: "string list \<Rightarrow> action_request_store \<Rightarrow> action_request list" where
  "request_list order s = fetch_all (rs_requests s) order"

definition request_cas ::
  "string \<Rightarrow> i64 \<Rightarrow> action_request_status \<Rightarrow> (action_request_store, storage_error, cas_outcome) op" where
  "request_cas k expected new_status s =
     (case rs_requests s k of
        None \<Rightarrow> (Inr Missing, s)
      | Some r \<Rightarrow>
          (let current = (case rs_versions s k of None \<Rightarrow> 1 | Some v \<Rightarrow> v) in
           if current \<noteq> expected then (Inr (Conflict current), s)
           else (Inr (Applied (current + 1)),
                 s\<lparr>rs_versions := (rs_versions s)(k \<mapsto> current + 1),
                   rs_requests := (rs_requests s)(k \<mapsto> r\<lparr>ar_status := new_status\<rparr>)\<rparr>)))"

definition request_version :: "action_request_store \<Rightarrow> string \<Rightarrow> i64 option" where
  "request_version s k =
     (case rs_requests s k of
        None \<Rightarrow> None
      | Some _ \<Rightarrow> Some (case rs_versions s k of None \<Rightarrow> 1 | Some v \<Rightarrow> v))"

definition request_status :: "action_request_store \<Rightarrow> string \<Rightarrow> action_request_status option" where
  "request_status s k = map_option ar_status (rs_requests s k)"

interpretation requests: versioned_store request_version request_status request_cas
  by unfold_locales
    (auto simp: request_version_def request_status_def request_cas_def fun_eq_iff Let_def
      split: option.splits)

interpretation request_rows: keyed_store request_get request_insert ar_request_id
  by unfold_locales (auto simp: request_get_def request_insert_def)

section \<open>Rows with a secondary index\<close>

text \<open>
  Approval decisions, execution attempts and receipts share one shape: a map of rows and a map
  from an owner to the identifiers of its rows. \<open>insert_row\<close> is the body their \<open>insert\<close>
  functions repeat.
\<close>

record 'r rows =
  row_map :: "string \<rightharpoonup> 'r"
  row_index :: "string \<rightharpoonup> string list"

definition insert_row ::
  "string \<Rightarrow> string \<Rightarrow> ('r \<Rightarrow> string) \<Rightarrow> ('r \<Rightarrow> string) \<Rightarrow> 'r \<Rightarrow> ('r rows, storage_error, unit) op" where
  "insert_row field what key owner r s =
     (if key r = [] then (Inl (EmptyField field), s)
      else if row_map s (key r) \<noteq> None
      then (Inl (Backend (what @ '' `'' @ key r @ ''` already exists'')), s)
      else (Inr (), s\<lparr>row_map := (row_map s)(key r \<mapsto> r),
                     row_index := push_entry (row_index s) (owner r) (key r)\<rparr>))"

definition row_get :: "'r rows \<Rightarrow> string \<Rightarrow> 'r option" where
  "row_get s k = row_map s k"

definition rows_by_owner :: "'r rows \<Rightarrow> string \<Rightarrow> 'r list" where
  "rows_by_owner s m = fetch_all (row_map s) (entry_list (row_index s) m)"

definition empty_rows :: "'r rows" where
  "empty_rows = \<lparr>row_map = Map.empty, row_index = Map.empty\<rparr>"

text \<open>Map and index agree: every row is stored under its key and listed once, by its owner.\<close>

definition rows_ok :: "('r \<Rightarrow> string) \<Rightarrow> ('r \<Rightarrow> string) \<Rightarrow> 'r rows \<Rightarrow> bool" where
  "rows_ok key owner s \<longleftrightarrow>
     (\<forall>k r. row_map s k = Some r \<longrightarrow> key r = k)
     \<and> (\<forall>m. set (entry_list (row_index s) m) = {k. \<exists>r. row_map s k = Some r \<and> owner r = m})
     \<and> (\<forall>m. distinct (entry_list (row_index s) m))"

lemma rows_ok_empty [simp]: "rows_ok key owner empty_rows"
  by (simp add: rows_ok_def empty_rows_def)

lemma fetch_all_fresh: "k \<notin> set ks \<Longrightarrow> fetch_all (m(k \<mapsto> v)) ks = fetch_all m ks"
  by (induction ks) (auto split: option.splits)

lemma indexed_store_rows:
  "indexed_store row_get (insert_row field what key owner) key rows_by_owner owner (rows_ok key owner)"
proof (unfold_locales, goal_cases)
  case (5 st r)
  then show ?case
    by (fastforce simp: insert_row_def rows_ok_def)
next
  case (6 st x m)
  then show ?case
    by (fastforce simp: rows_by_owner_def set_fetch_all rows_ok_def row_get_def)
next
  case (7 st r m)
  then have "key r \<notin> set (entry_list (row_index st) m)"
    by (auto simp: rows_ok_def row_get_def)
  with 7 show ?case
    by (simp add: rows_by_owner_def insert_row_def row_get_def fetch_all_append fetch_all_fresh)
qed (auto simp: insert_row_def row_get_def)

section \<open>Approval decisions\<close>

type_synonym decision_store = "approval_decision rows"

definition decision_insert :: "approval_decision \<Rightarrow> (decision_store, storage_error, unit) op" where
  "decision_insert = insert_row ''decision_id'' ''approval decision'' ad_decision_id ad_request_id"

definition decision_get :: "decision_store \<Rightarrow> string \<Rightarrow> approval_decision option" where
  "decision_get = row_get"

definition decisions_by_request :: "decision_store \<Rightarrow> string \<Rightarrow> approval_decision list" where
  "decisions_by_request = rows_by_owner"

definition decisions_ok :: "decision_store \<Rightarrow> bool" where
  "decisions_ok = rows_ok ad_decision_id ad_request_id"

interpretation decisions: indexed_store decision_get decision_insert ad_decision_id
  decisions_by_request ad_request_id decisions_ok
  unfolding decision_get_def decision_insert_def decisions_by_request_def decisions_ok_def
  by (rule indexed_store_rows)

section \<open>Execution attempts\<close>

type_synonym attempt_store = "execution_attempt rows"

definition attempt_insert :: "execution_attempt \<Rightarrow> (attempt_store, storage_error, unit) op" where
  "attempt_insert =
     insert_row ''attempt_id_hex'' ''execution attempt'' ea_attempt_id_hex ea_mandate_id_hex"

definition attempt_get :: "attempt_store \<Rightarrow> string \<Rightarrow> execution_attempt option" where
  "attempt_get = row_get"

definition attempt_not_found :: "string \<Rightarrow> storage_error" where
  "attempt_not_found a = Backend (''execution attempt `'' @ a @ ''` not found'')"

definition attempt_update_state ::
  "string \<Rightarrow> execution_attempt_state \<Rightarrow> (attempt_store, storage_error, unit) op" where
  "attempt_update_state a new_state s =
     (case row_map s a of
        None \<Rightarrow> (Inl (attempt_not_found a), s)
      | Some r \<Rightarrow> (Inr (), s\<lparr>row_map := (row_map s)(a \<mapsto> r\<lparr>ea_state := new_state\<rparr>)\<rparr>))"

definition attempt_update_deployment_id ::
  "string \<Rightarrow> u64 \<Rightarrow> (attempt_store, storage_error, unit) op" where
  "attempt_update_deployment_id a d s =
     (case row_map s a of
        None \<Rightarrow> (Inl (attempt_not_found a), s)
      | Some r \<Rightarrow>
          (Inr (), s\<lparr>row_map := (row_map s)(a \<mapsto> r\<lparr>ea_github_deployment_id := Some d\<rparr>)\<rparr>))"

definition attempts_by_mandate :: "attempt_store \<Rightarrow> string \<Rightarrow> execution_attempt list" where
  "attempts_by_mandate = rows_by_owner"

text \<open>\<open>attempts.values().find(...)\<close>, the values taken in the map's iteration order.\<close>

definition attempt_by_deployment_id ::
  "string list \<Rightarrow> attempt_store \<Rightarrow> u64 \<Rightarrow> execution_attempt option" where
  "attempt_by_deployment_id order s d =
     find (\<lambda>a. ea_github_deployment_id a = Some d) (fetch_all (row_map s) order)"

definition attempts_ok :: "attempt_store \<Rightarrow> bool" where
  "attempts_ok = rows_ok ea_attempt_id_hex ea_mandate_id_hex"

interpretation attempts: indexed_store attempt_get attempt_insert ea_attempt_id_hex
  attempts_by_mandate ea_mandate_id_hex attempts_ok
  unfolding attempt_get_def attempt_insert_def attempts_by_mandate_def attempts_ok_def
  by (rule indexed_store_rows)

text \<open>The two updates change one field of one row: keys, owners and the index stay.\<close>

lemma rows_ok_update:
  assumes "rows_ok key owner s" and "row_map s a = Some r" and "key r' = key r" and "owner r' = owner r"
  shows "rows_ok key owner (s\<lparr>row_map := (row_map s)(a \<mapsto> r')\<rparr>)"
proof -
  have "{k. \<exists>x. ((row_map s)(a \<mapsto> r')) k = Some x \<and> owner x = m}
      = {k. \<exists>x. row_map s k = Some x \<and> owner x = m}" for m
    using assms(2,4) by auto
  with assms show ?thesis by (simp add: rows_ok_def)
qed

lemma attempts_ok_update_state:
  "attempts_ok s \<Longrightarrow> attempts_ok (snd (attempt_update_state a st s))"
  by (auto simp: attempts_ok_def attempt_update_state_def intro: rows_ok_update split: option.splits)

lemma attempts_ok_update_deployment_id:
  "attempts_ok s \<Longrightarrow> attempts_ok (snd (attempt_update_deployment_id a d s))"
  by (auto simp: attempts_ok_def attempt_update_deployment_id_def intro: rows_ok_update
      split: option.splits)

section \<open>Receipts\<close>

type_synonym receipt_store = "receipt_projection rows"

definition receipt_insert :: "receipt_projection \<Rightarrow> (receipt_store, storage_error, unit) op" where
  "receipt_insert =
     insert_row ''receipt_id_hex'' ''receipt projection'' rp_receipt_id_hex rp_mandate_id_hex"

definition receipt_get :: "receipt_store \<Rightarrow> string \<Rightarrow> receipt_projection option" where
  "receipt_get = row_get"

definition receipts_by_mandate :: "receipt_store \<Rightarrow> string \<Rightarrow> receipt_projection list" where
  "receipts_by_mandate = rows_by_owner"

definition receipts_ok :: "receipt_store \<Rightarrow> bool" where
  "receipts_ok = rows_ok rp_receipt_id_hex rp_mandate_id_hex"

interpretation receipts: indexed_store receipt_get receipt_insert rp_receipt_id_hex
  receipts_by_mandate rp_mandate_id_hex receipts_ok
  unfolding receipt_get_def receipt_insert_def receipts_by_mandate_def receipts_ok_def
  by (rule indexed_store_rows)

section \<open>Properties\<close>

text \<open>
  One concurrent winner: once a compare-and-swap on a mandate is applied for an expected version, every
  later swap of the same mandate that expects the same version is refused, whatever other swaps
  happen in between (until the 64-bit version wraps around).
\<close>

theorem mandate_cas_one_winner:
  assumes "fst (mandate_cas m e a st) = Inr (Applied n)" and "length ops + 1 < 2 ^ 64"
  shows "fst (mandate_cas m e b (cas_run mandate_cas ops (snd (mandate_cas m e a st)))) \<noteq> Inr (Applied n')"
  using assms by (rule mandates.one_winner)

definition example_mandates :: mandate_store where
  "example_mandates = snd (mandate_insert ''m'' ''issued'' Map.empty)"

theorem mandate_cas_one_winner_witness:
  "fst (mandate_cas ''m'' 1 ''reserved'' example_mandates) = Inr (Applied 2)
   \<and> fst (mandate_cas ''m'' 1 ''reserved'' (snd (mandate_cas ''m'' 1 ''reserved'' example_mandates)))
       \<noteq> Inr (Applied 2)"
proof -
  have win: "fst (mandate_cas ''m'' 1 ''reserved'' example_mandates) = Inr (Applied 2)"
    by (simp add: mandate_cas_def example_mandates_def mandate_insert_def)
  from mandate_cas_one_winner [OF win, where ops = "[]"] win show ?thesis by simp
qed

lemma protocol_put_stable:
  "protocol_get s k = Some r \<Longrightarrow> protocol_get (snd (protocol_put r' s)) k = Some r"
  by (auto simp: protocol_put_def protocol_get_def split: option.splits)

lemma protocol_run_stable:
  "protocol_get s k = Some r \<Longrightarrow> protocol_get (insert_run protocol_put rs s) k = Some r"
  by (induction rs arbitrary: s) (simp_all add: protocol_put_stable)

text \<open>
  Canonical objects are immutable: after a successful \<open>put\<close>, whatever is put afterwards, the
  object is still served with the bytes first stored under its id; putting the same bytes again
  is accepted and changes nothing, and different bytes are an \<open>ImmutableViolation\<close>.
\<close>

theorem protocol_objects_immutable:
  assumes "fst (protocol_put r s) = Inr ()"
    and "s' = insert_run protocol_put rs (snd (protocol_put r s))"
    and "po_object_id_hex r' = po_object_id_hex r"
  shows "(\<exists>x. protocol_get s' (po_object_id_hex r) = Some x \<and> po_bytes x = po_bytes r)
    \<and> protocol_put r' s' =
      (if po_bytes r' = po_bytes r then (Inr (), s')
       else (Inl (ImmutableViolation (po_object_id_hex r)), s'))"
proof -
  from assms(1) have "\<exists>x. protocol_get (snd (protocol_put r s)) (po_object_id_hex r) = Some x
      \<and> po_bytes x = po_bytes r" and ne: "po_object_id_hex r \<noteq> []"
    by (auto simp: protocol_put_def protocol_get_def split: if_splits option.splits)
  then obtain x where "protocol_get s' (po_object_id_hex r) = Some x" and "po_bytes x = po_bytes r"
    using assms(2) protocol_run_stable by blast
  then show ?thesis
    using assms(3) ne by (auto simp: protocol_put_def protocol_get_def)
qed

theorem protocol_objects_immutable_witness:
  "fst (protocol_put \<lparr>po_kind = ''k'', po_object_id_hex = ''ab'', po_bytes = ''y''\<rparr>
      (snd (protocol_put \<lparr>po_kind = ''k'', po_object_id_hex = ''ab'', po_bytes = ''x''\<rparr> Map.empty)))
     = Inl (ImmutableViolation ''ab'')"
proof -
  let ?r = "\<lparr>po_kind = ''k'', po_object_id_hex = ''ab'', po_bytes = ''x''\<rparr>"
  let ?r' = "\<lparr>po_kind = ''k'', po_object_id_hex = ''ab'', po_bytes = ''y''\<rparr>"
  have ok: "fst (protocol_put ?r Map.empty) = Inr ()" by (simp add: protocol_put_def)
  from protocol_objects_immutable [OF ok refl, of ?r' "[]"] show ?thesis by simp
qed

text \<open>The contents of the blob store: every blob sits at its own digest.\<close>

definition blobs_ok :: "ext \<Rightarrow> evidence_store \<Rightarrow> bool" where
  "blobs_ok E s \<longleftrightarrow> (\<forall>k b. es_blobs s k = Some b \<longrightarrow> ext_sha256 E b = k)"

lemma blobs_ok_put: "blobs_ok E s \<Longrightarrow> blobs_ok E (snd (evidence_put E b s))"
  by (auto simp: blobs_ok_def evidence_put_def content_digest_of_def Let_def split: option.splits)

lemma blobs_ok_put_descriptor: "blobs_ok E s \<Longrightarrow> blobs_ok E (snd (evidence_put_descriptor d s))"
  by (simp add: blobs_ok_def evidence_put_descriptor_def)

lemma evidence_get_digest:
  "evidence_get E d s =
     (case es_blobs s (digest_bytes d) of
        None \<Rightarrow> Inr None
      | Some b \<Rightarrow> if ext_sha256 E b = digest_bytes d then Inr (Some b)
                else Inl (EvidenceDigestMismatch d (content_digest_of E b)))"
  by (cases d) (simp add: evidence_get_def content_digest_of_def Let_def split: option.split)

lemma evidence_put_read:
  assumes "blobs_ok E s" and "evidence_put E b s = (Inr d, s')"
  shows "\<exists>b'. es_blobs s' (digest_bytes d) = Some b' \<and> ext_sha256 E b' = digest_bytes d
    \<and> (b' = b \<or> es_blobs s (digest_bytes d) = Some b')"
proof -
  from assms(2) have d: "d = content_digest_of E b" and s': "s' = snd (evidence_put E b s)"
    by (auto simp: evidence_put_def Let_def)
  show ?thesis
  proof (cases "es_blobs s (digest_bytes d)")
    case None
    then show ?thesis
      by (simp add: s' d evidence_put_def Let_def content_digest_of_def)
  next
    case (Some c)
    moreover have "ext_sha256 E c = digest_bytes d"
      using assms(1) Some by (simp add: blobs_ok_def)
    ultimately show ?thesis
      by (simp add: s' d evidence_put_def Let_def)
  qed
qed

text \<open>
  The blob store is content addressed: from a store whose blobs sit at their digests, \<open>put\<close>
  returns the digest of the bytes and keeps that invariant, a read of the returned address
  succeeds and yields bytes with that very digest, and they are the bytes put unless an earlier
  blob has the same digest. A read never reports a digest mismatch.
\<close>

theorem evidence_store_content_addressed:
  assumes "blobs_ok E s" and "evidence_put E b s = (Inr d, s')"
  shows "d = content_digest_of E b \<and> blobs_ok E s'
    \<and> (\<exists>b'. evidence_get E d s' = Inr (Some b') \<and> content_digest_of E b' = d
         \<and> (b' = b \<or> es_blobs s (digest_bytes d) = Some b'))
    \<and> (\<forall>a e. evidence_get E a s' \<noteq> Inl e)"
proof -
  have ok: "blobs_ok E s'" using blobs_ok_put [OF assms(1), of b] assms(2) by simp
  have d: "d = content_digest_of E b" using assms(2) by (simp add: evidence_put_def Let_def)
  obtain b' where b': "es_blobs s' (digest_bytes d) = Some b'" "ext_sha256 E b' = digest_bytes d"
    "b' = b \<or> es_blobs s (digest_bytes d) = Some b'"
    using evidence_put_read [OF assms] by blast
  have "evidence_get E d s' = Inr (Some b')" using b' by (simp add: evidence_get_digest)
  moreover have "content_digest_of E b' = d" using b'(2) d by (simp add: content_digest_of_def)
  moreover have "evidence_get E a s' \<noteq> Inl e" for a e
    using ok by (simp add: evidence_get_digest blobs_ok_def split: option.split)
  ultimately show ?thesis using ok d b'(3) by blast
qed

theorem evidence_store_content_addressed_witness:
  "fst (evidence_put ext_ref ''blob'' \<lparr>es_blobs = Map.empty, es_descriptors = Map.empty\<rparr>)
     = Inr (content_digest_of ext_ref ''blob'')
   \<and> (\<exists>b. evidence_get ext_ref (content_digest_of ext_ref ''blob'')
        (snd (evidence_put ext_ref ''blob'' \<lparr>es_blobs = Map.empty, es_descriptors = Map.empty\<rparr>))
          = Inr (Some b))"
proof -
  let ?s = "\<lparr>es_blobs = Map.empty, es_descriptors = Map.empty\<rparr> :: evidence_store"
  have s: "blobs_ok ext_ref ?s" by (simp add: blobs_ok_def)
  obtain d s' where p: "evidence_put ext_ref ''blob'' ?s = (Inr d, s')"
    unfolding evidence_put_def Let_def by blast
  from evidence_store_content_addressed [OF s p]
  have "d = content_digest_of ext_ref ''blob''" and "\<exists>b. evidence_get ext_ref d s' = Inr (Some b)"
    by blast+
  with p show ?thesis by simp
qed

lemma index_by_prefix_ev:
  "starts_with k ''ev-'' \<Longrightarrow> index_by_prefix mandate_prefixes k idx = idx"
  by (auto simp: mandate_prefixes_def starts_with_iff)

text \<open>
  The mandate index of the in-memory evidence store is dead for the nodes the program makes:
  their identifiers start with \<open>ev-\<close>, the only indexed prefix is \<open>mand-\<close>, so after any sequence of
  such inserts into an empty store \<open>by_mandate\<close> finds nothing for any non-empty mandate id.
\<close>

theorem evidence_nodes_by_mandate_empty:
  assumes "list_all (\<lambda>n. starts_with (en_node_id_hex n) ''ev-'') ns" and "m \<noteq> []"
  shows "node_by_mandate order
      (insert_run node_insert ns \<lparr>ns_nodes = Map.empty, ns_by_mandate = Map.empty\<rparr>) m = []"
proof -
  have "ns_by_mandate s = Map.empty \<Longrightarrow> ns_by_mandate (insert_run node_insert ns s) = Map.empty" for s
    using assms(1)
    by (induction ns arbitrary: s) (auto simp: node_insert_def index_by_prefix_ev)
  then show ?thesis using assms(2) by (simp add: node_by_mandate_def)
qed

definition example_node :: evidence_node where
  "example_node =
     \<lparr>en_node_id_hex = ''ev-00'', en_registry_id = ''org.diewan.evidence.claim.v1'',
      en_source = Piteka, en_producer_identity = ''piteka'', en_collected_at = 0,
      en_asserted_event_at = None, en_content_digest = ContentDigest [],
      en_media_type = ''text/plain'', en_disclosure_classification = ''disclosed'',
      en_relationships = []\<rparr>"

theorem evidence_nodes_by_mandate_empty_witness:
  "node_by_mandate [''ev-00'']
     (insert_run node_insert [example_node] \<lparr>ns_nodes = Map.empty, ns_by_mandate = Map.empty\<rparr>) ''m'' = []"
proof -
  have "list_all (\<lambda>n. starts_with (en_node_id_hex n) ''ev-'') [example_node]"
    by (simp add: example_node_def)
  from evidence_nodes_by_mandate_empty [OF this, of "''m''"] show ?thesis by simp
qed

end
