(* ===== verification/World.thy ===== *)
theory World
  imports Storage_Memory
begin

text \<open>
  The state the use cases share: one in-memory store per port, as \<^verbatim>\<open>apps/piteka-api/src/lib.rs\<close>
  assembles them in \<open>TestPorts\<close>, with the mandate store the dispatch use case adds and the ordering tracker
  of webhook ingestion. A use case
  reaches a store through \<open>on\<close>, which runs one store operation on one field; everything else of
  the world is left alone, which the frame rules at the end state once for all proofs.
\<close>

text \<open>
  One call through a provider closure: the correlation key and the attempt digest it is given, and
  the mandate it is made for. \<open>w_provider\<close> lists the calls made so far; it is no store of the
  program but its effect on the outside, so no operation reads it.
\<close>

record provider_call =
  pc_mandate :: string
  pc_correlation_key :: string
  pc_attempt_digest :: bytes

record world =
  w_requests :: action_request_store
  w_decisions :: decision_store
  w_audit :: audit_log
  w_mandates :: mandate_store
  w_attempts :: attempt_store
  w_webhooks :: webhook_receipt_store
  w_receipts :: receipt_store
  w_nodes :: evidence_node_store
  w_blobs :: evidence_store
  w_protocol :: protocol_object_store
  w_provider :: "provider_call list"
  w_tracker :: "u64 \<rightharpoonup> u64"

text \<open>\<open>TestPorts::new\<close>: every store starts empty.\<close>

definition world_new :: world where
  "world_new =
     \<lparr>w_requests = \<lparr>rs_requests = Map.empty, rs_versions = Map.empty\<rparr>,
      w_decisions = empty_rows, w_audit = [], w_mandates = Map.empty,
      w_attempts = empty_rows, w_webhooks = Map.empty, w_receipts = empty_rows,
      w_nodes = \<lparr>ns_nodes = Map.empty, ns_by_mandate = Map.empty\<rparr>,
      w_blobs = \<lparr>es_blobs = Map.empty, es_descriptors = Map.empty\<rparr>,
      w_protocol = Map.empty, w_provider = [],
      w_tracker = Map.empty\<rparr>"

definition on ::
  "('w \<Rightarrow> 's) \<Rightarrow> (('s \<Rightarrow> 's) \<Rightarrow> 'w \<Rightarrow> 'w) \<Rightarrow> ('s, 'e, 'a) op \<Rightarrow> ('w, 'e, 'a) op" where
  "on get upd m w = (case m (get w) of (r, s) \<Rightarrow> (r, upd (\<lambda>_. s) w))"

text \<open>A read that cannot fail.\<close>

definition reading :: "('w \<Rightarrow> 'a) \<Rightarrow> ('w, 'e, 'a) op" where
  "reading f w = (Inr (f w), w)"

abbreviation at_requests :: "(action_request_store, 'e, 'a) op \<Rightarrow> (world, 'e, 'a) op" where
  "at_requests \<equiv> on w_requests w_requests_update"

abbreviation at_decisions :: "(decision_store, 'e, 'a) op \<Rightarrow> (world, 'e, 'a) op" where
  "at_decisions \<equiv> on w_decisions w_decisions_update"

abbreviation at_audit :: "(audit_log, 'e, 'a) op \<Rightarrow> (world, 'e, 'a) op" where
  "at_audit \<equiv> on w_audit w_audit_update"

abbreviation at_mandates :: "(mandate_store, 'e, 'a) op \<Rightarrow> (world, 'e, 'a) op" where
  "at_mandates \<equiv> on w_mandates w_mandates_update"

abbreviation at_attempts :: "(attempt_store, 'e, 'a) op \<Rightarrow> (world, 'e, 'a) op" where
  "at_attempts \<equiv> on w_attempts w_attempts_update"

abbreviation at_webhooks :: "(webhook_receipt_store, 'e, 'a) op \<Rightarrow> (world, 'e, 'a) op" where
  "at_webhooks \<equiv> on w_webhooks w_webhooks_update"

abbreviation at_receipts :: "(receipt_store, 'e, 'a) op \<Rightarrow> (world, 'e, 'a) op" where
  "at_receipts \<equiv> on w_receipts w_receipts_update"

abbreviation at_nodes :: "(evidence_node_store, 'e, 'a) op \<Rightarrow> (world, 'e, 'a) op" where
  "at_nodes \<equiv> on w_nodes w_nodes_update"

abbreviation at_blobs :: "(evidence_store, 'e, 'a) op \<Rightarrow> (world, 'e, 'a) op" where
  "at_blobs \<equiv> on w_blobs w_blobs_update"

abbreviation at_protocol :: "(protocol_object_store, 'e, 'a) op \<Rightarrow> (world, 'e, 'a) op" where
  "at_protocol \<equiv> on w_protocol w_protocol_update"

section \<open>Evaluation rules\<close>

lemma reading_apply [simp]: "reading f w = (Inr (f w), w)"
  by (simp add: reading_def)

lemma on_eq: "on get upd m w = (fst (m (get w)), upd (\<lambda>_. snd (m (get w))) w)"
  by (simp add: on_def split: prod.split)

lemma fst_on [simp]: "fst (on get upd m w) = fst (m (get w))"
  by (simp add: on_eq)

lemma snd_on [simp]: "snd (on get upd m w) = upd (\<lambda>_. snd (m (get w))) w"
  by (simp add: on_eq)

lemma try_op_eq:
  "try_op m k w = (case fst (m w) of Inl e \<Rightarrow> (Inl e, snd (m w)) | Inr a \<Rightarrow> k a (snd (m w)))"
  by (cases "m w") (simp add: try_op_def split: sum.split)

lemma map_err_eq:
  "map_err f m w = (case fst (m w) of Inl e \<Rightarrow> Inl (f e) | Inr a \<Rightarrow> Inr a, snd (m w))"
  by (cases "m w") (simp add: map_err_def split: sum.split)

lemma fst_map_err [simp]:
  "fst (map_err f m w) = (case fst (m w) of Inl e \<Rightarrow> Inl (f e) | Inr a \<Rightarrow> Inr a)"
  by (simp add: map_err_eq)

lemma audit_append_simps [simp]:
  "fst (audit_append e s) = Inr ()" "snd (audit_append e s) = s @ [e]"
  by (simp_all add: audit_append_def)

lemmas run_simps = try_op_eq map_err_eq on_eq

text \<open>The effect of one audit append.\<close>

definition add_audit :: "audit_event \<Rightarrow> world \<Rightarrow> world" where
  "add_audit e w = w\<lparr>w_audit := w_audit w @ [e]\<rparr>"

lemma audit_run [simp]: "at_audit (audit_append e) w = (Inr (), add_audit e w)"
  by (simp add: on_eq add_audit_def)

end
