(* ===== verification/Session_Authority.thy ===== *)
theory Session_Authority
  imports Session_Claims World
begin

text \<open>
  Sessions and authorization: \<open>SessionAuthority\<close> of
  \<^verbatim>\<open>crates/piteka-application/src/session.rs\<close>, the pure policy of \<^verbatim>\<open>authz.rs\<close> and the auditing
  boundary of \<^verbatim>\<open>crates/piteka-auth/src/lib.rs\<close>. The signer is a port without an implementation in
  the repository: it is an argument. So is the reading of the clock an operation makes.
\<close>

section \<open>Signed sessions\<close>

datatype signature_algorithm = DemoLocalV1

record signature =
  sg_algorithm :: signature_algorithm
  sg_bytes :: bytes

record session_signer =
  signer_algorithm :: signature_algorithm
  signer_sign :: "bytes \<Rightarrow> signature"
  signer_verify :: "bytes \<Rightarrow> signature \<Rightarrow> bool"

record signed_session =
  ss_claims :: session_claims
  ss_signature :: signature

record authenticated_session =
  as_identity :: identity
  as_claims :: session_claims

definition as_can :: "authenticated_session \<Rightarrow> capability \<Rightarrow> bool" where
  "as_can s c = grants (id_role (as_identity s)) c"

datatype auth_error =
    UnknownSubject user_id
  | InvalidSignature
  | AlgorithmMismatch signature_algorithm signature_algorithm
  | Expired u64 u64
  | NotYetValid u64 u64
  | RoleMismatch role role
  | CrossOrganization
  | Unauthorized capability

text \<open>
  \<open>issue\<close> unwraps the claims with \<open>expect\<close>: the outer \<open>None\<close> is that panic.
\<close>

definition issue ::
  "session_signer \<Rightarrow> configured_organization \<Rightarrow> u64 \<Rightarrow> user_id \<Rightarrow> session_id \<Rightarrow> u64
    \<Rightarrow> (auth_error + signed_session) option" where
  "issue S dir now subject sid lifetime =
     (case co_member dir subject of
        None \<Rightarrow> Some (Inl (UnknownSubject subject))
      | Some member \<Rightarrow>
          (let expires_at = saturating_add_u64 now (max lifetime 1) in
           case session_claims_new sid (id_user_id member) (id_organization member)
                  (id_role member) now expires_at of
             Inl _ \<Rightarrow> None
           | Inr claims \<Rightarrow>
               Some (Inr \<lparr>ss_claims = claims, ss_signature = signer_sign S (signing_bytes claims)\<rparr>)))"

definition authenticate ::
  "session_signer \<Rightarrow> configured_organization \<Rightarrow> u64 \<Rightarrow> signed_session
    \<Rightarrow> auth_error + authenticated_session" where
  "authenticate S dir now s =
     (let c = ss_claims s in
      if sg_algorithm (ss_signature s) \<noteq> signer_algorithm S
      then Inl (AlgorithmMismatch (signer_algorithm S) (sg_algorithm (ss_signature s)))
      else if \<not> signer_verify S (signing_bytes c) (ss_signature s) then Inl InvalidSignature
      else if sc_expires_at c \<le> now then Inl (Expired (sc_expires_at c) now)
      else if now < sc_issued_at c then Inl (NotYetValid (sc_issued_at c) now)
      else case co_member dir (sc_subject c) of
        None \<Rightarrow> Inl (UnknownSubject (sc_subject c))
      | Some member \<Rightarrow>
          if id_organization member \<noteq> sc_organization c then Inl CrossOrganization
          else if id_role member \<noteq> sc_role c then Inl (RoleMismatch (id_role member) (sc_role c))
          else Inr \<lparr>as_identity = member, as_claims = c\<rparr>)"

definition session_authorize ::
  "authenticated_session \<Rightarrow> capability \<Rightarrow> auth_error + unit" where
  "session_authorize s c = (if as_can s c then Inr () else Inl (Unauthorized c))"

section \<open>The re-authentication policy\<close>

datatype action_sensitivity = Standard | ProductionApproval

record authorization_request =
  rq_capability :: capability
  rq_sensitivity :: action_sensitivity

definition standard :: "capability \<Rightarrow> authorization_request" where
  "standard c = \<lparr>rq_capability = c, rq_sensitivity = Standard\<rparr>"

definition production_approval :: "capability \<Rightarrow> authorization_request" where
  "production_approval c = \<lparr>rq_capability = c, rq_sensitivity = ProductionApproval\<rparr>"

datatype denial =
    Unauthorized capability
  | ReconfirmationRequired u64 u64

text \<open>\<open>{capability:?}\<close>, and \<open>Display\<close> of a denial.\<close>

fun capability_debug :: "capability \<Rightarrow> string" where
  "capability_debug ProposeAction = ''ProposeAction''"
| "capability_debug ReceiveActionStatus = ''ReceiveActionStatus''"
| "capability_debug ExecuteApprovedMandate = ''ExecuteApprovedMandate''"
| "capability_debug ReviewIntent = ''ReviewIntent''"
| "capability_debug ApproveAction = ''ApproveAction''"
| "capability_debug RejectAction = ''RejectAction''"
| "capability_debug RequireConditions = ''RequireConditions''"
| "capability_debug RevokeMandate = ''RevokeMandate''"
| "capability_debug ReadScopedRecords = ''ReadScopedRecords''"
| "capability_debug VerifyBundle = ''VerifyBundle''"
| "capability_debug InspectAssurance = ''InspectAssurance''"

fun denial_display :: "denial \<Rightarrow> string" where
  "denial_display (Unauthorized c) = ''role does not grant capability '' @ capability_debug c"
| "denial_display (ReconfirmationRequired max_age age) =
     ''production approval requires re-authentication within '' @ dec_u64 max_age
       @ ''s (session age '' @ dec_u64 age @ ''s)''"

text \<open>\<open>ReauthPolicy::evaluate\<close>; the policy is its window in seconds.\<close>

definition evaluate ::
  "u64 \<Rightarrow> authenticated_session \<Rightarrow> authorization_request \<Rightarrow> u64 \<Rightarrow> denial + unit" where
  "evaluate window s req now =
     (if \<not> as_can s (rq_capability req) then Inl (denial.Unauthorized (rq_capability req))
      else if rq_sensitivity req = ProductionApproval then
        (let age = saturating_sub_u64 now (sc_issued_at (as_claims s)) in
         if window < age then Inl (ReconfirmationRequired window age) else Inr ())
      else Inr ())"

section \<open>The auditing boundary\<close>

datatype grant = Grant authorization_request

datatype denied = Denied denial

definition boundary_event :: "u64 \<Rightarrow> string \<Rightarrow> string \<Rightarrow> string \<Rightarrow> string \<Rightarrow> audit_event" where
  "boundary_event now actor action decision detail =
     \<lparr>ae_occurred_at = i64_from_u64_or_max now, ae_actor = Some actor, ae_action = action,
      ae_decision = decision, ae_detail = detail\<rparr>"

definition boundary_authorize ::
  "u64 \<Rightarrow> u64 \<Rightarrow> authenticated_session \<Rightarrow> authorization_request \<Rightarrow> string
    \<Rightarrow> (audit_log, storage_error, denied + grant) op" where
  "boundary_authorize window now s req action_detail =
     (let actor = user_id_as_str (id_user_id (as_identity s)) in
      case evaluate window s req now of
        Inr _ \<Rightarrow>
          if rq_sensitivity req = ProductionApproval then
            try_op (audit_append
              (boundary_event now actor action_detail ''granted'' ''production approval''))
              (\<lambda>_. ok (Inr (Grant req)))
          else ok (Inr (Grant req))
      | Inl d \<Rightarrow>
          try_op (audit_append
            (boundary_event now actor action_detail ''denied'' (denial_display d)))
            (\<lambda>_. ok (Inl (Denied d))))"

lemma evaluate_Inr:
  "evaluate window s req now = Inr u \<longleftrightarrow>
    as_can s (rq_capability req)
    \<and> (rq_sensitivity req = Standard
       \<or> unat now - unat (sc_issued_at (as_claims s)) \<le> unat window)"
  by (cases "rq_sensitivity req")
    (auto simp: evaluate_def Let_def word_less_nat_alt unat_saturating_sub_u64)

text \<open>What the signer port promises: it accepts what it signed, under its own algorithm.\<close>

definition signer_laws :: "session_signer \<Rightarrow> bool" where
  "signer_laws S \<longleftrightarrow>
     (\<forall>m. sg_algorithm (signer_sign S m) = signer_algorithm S
        \<and> signer_verify S m (signer_sign S m))"

definition signer_ref :: session_signer where
  "signer_ref =
     \<lparr>signer_algorithm = DemoLocalV1,
      signer_sign = (\<lambda>m. \<lparr>sg_algorithm = DemoLocalV1, sg_bytes = rev m\<rparr>),
      signer_verify = (\<lambda>m s. sg_bytes s = rev m)\<rparr>"

lemma signer_laws_ref: "signer_laws signer_ref"
  by (simp add: signer_laws_def signer_ref_def)

section \<open>Properties\<close>

text \<open>
  C31. \<open>authenticate\<close> fails closed. A session is authenticated exactly when its signature has the
  signer's algorithm and verifies over the claims, the clock is inside the half-open window, and
  the configured directory has the subject with the claimed organization and role. The identity
  returned is the directory's, never the caller's.
\<close>

theorem authenticate_iff:
  "authenticate S dir now s = Inr a \<longleftrightarrow>
     sg_algorithm (ss_signature s) = signer_algorithm S
     \<and> signer_verify S (signing_bytes (ss_claims s)) (ss_signature s)
     \<and> is_active_at (ss_claims s) now
     \<and> as_claims a = ss_claims s
     \<and> co_member dir (sc_subject (ss_claims s)) = Some (as_identity a)
     \<and> id_organization (as_identity a) = sc_organization (ss_claims s)
     \<and> id_role (as_identity a) = sc_role (ss_claims s)"
  by (cases a; cases "co_member dir (sc_subject (ss_claims s))")
    (auto simp: authenticate_def is_active_at_def Let_def not_le not_less)

lemma issue_member:
  assumes "co_member dir u = Some m" and "now \<noteq> u64_max"
    and "user_id_as_str (id_user_id m) \<noteq> []" and "organization_id_as_str (id_organization m) \<noteq> []"
  shows "now < saturating_add_u64 now (max l 1)"
    and "issue S dir now u sid l = Some (Inr
      \<lparr>ss_claims = \<lparr>sc_session_id = sid, sc_subject = u, sc_organization = id_organization m,
          sc_role = id_role m, sc_issued_at = now,
          sc_expires_at = saturating_add_u64 now (max l 1)\<rparr>,
       ss_signature = signer_sign S (signing_bytes
        \<lparr>sc_session_id = sid, sc_subject = u, sc_organization = id_organization m,
          sc_role = id_role m, sc_issued_at = now,
          sc_expires_at = saturating_add_u64 now (max l 1)\<rparr>)\<rparr>)"
proof -
  have "unat now \<noteq> 2 ^ 64 - 1"
    using assms(2) unat_u64_max by (metis word_unat_eq_iff)
  then have "unat now < 2 ^ 64 - 1" using unat_bound [of now] by simp
  moreover have "1 \<le> unat (max l 1)"
    by (simp add: max_def word_le_nat_alt)
  ultimately show lt: "now < saturating_add_u64 now (max l 1)"
    by (simp add: word_less_nat_alt unat_saturating_add_u64)
  have "id_user_id m = u" using assms(1) by (simp add: co_member_user)
  with lt assms show "issue S dir now u sid l = Some (Inr
      \<lparr>ss_claims = \<lparr>sc_session_id = sid, sc_subject = u, sc_organization = id_organization m,
          sc_role = id_role m, sc_issued_at = now,
          sc_expires_at = saturating_add_u64 now (max l 1)\<rparr>,
       ss_signature = signer_sign S (signing_bytes
        \<lparr>sc_session_id = sid, sc_subject = u, sc_organization = id_organization m,
          sc_role = id_role m, sc_issued_at = now,
          sc_expires_at = saturating_add_u64 now (max l 1)\<rparr>)\<rparr>)"
    by (simp add: issue_def Let_def session_claims_new_def not_le)
qed

lemma issue_at_max_panics:
  assumes "co_member dir u = Some m"
  shows "issue S dir u64_max u sid l = None"
proof -
  have "unat (saturating_add_u64 u64_max (max l 1)) = unat u64_max"
    by (simp add: unat_saturating_add_u64)
  then have "saturating_add_u64 u64_max (max l 1) = u64_max"
    by (metis word_unat_eq_iff)
  with assms show ?thesis by (simp add: issue_def Let_def session_claims_new_def)
qed

text \<open>
  Issuing and authenticating agree. For a directory member with non-empty identifiers and a
  signer that accepts what it signed, a session issued before the last representable second
  authenticates as that member, with the directory's role, at every instant from issue until
  issue plus the lifetime (at least one second, saturating), and at no other instant. At the
  last representable second issuing panics instead.
\<close>

theorem issue_authenticate:
  assumes "signer_laws S" and "co_member dir u = Some m"
    and "user_id_as_str u \<noteq> []" and "organization_id_as_str (id_organization m) \<noteq> []"
  shows "issue S dir u64_max u sid l = None
    \<and> (now \<noteq> u64_max \<longrightarrow>
        (\<exists>s. issue S dir now u sid l = Some (Inr s) \<and> sc_role (ss_claims s) = id_role m
          \<and> (\<forall>t. authenticate S dir t s = Inr \<lparr>as_identity = m, as_claims = ss_claims s\<rparr> \<longleftrightarrow>
                 now \<le> t \<and> unat t < min (unat now + max (unat l) 1) (2 ^ 64 - 1))))"
proof (intro conjI impI)
  show "issue S dir u64_max u sid l = None" using assms(2) by (rule issue_at_max_panics)
  assume "now \<noteq> u64_max"
  have "id_user_id m = u" using assms(2) by (simp add: co_member_user)
  with assms have ne: "user_id_as_str (id_user_id m) \<noteq> []" by simp
  note iss = issue_member(2) [OF assms(2) \<open>now \<noteq> u64_max\<close> ne assms(4), where l = l and S = S and sid = sid]
  have "unat (max l 1) = max (unat l) 1"
    by (simp add: max_def word_le_nat_alt)
  then have exp: "t < saturating_add_u64 now (max l 1) \<longleftrightarrow>
      unat t < min (unat now + max (unat l) 1) (2 ^ 64 - 1)" for t
    by (simp add: word_less_nat_alt unat_saturating_add_u64)
  show "\<exists>s. issue S dir now u sid l = Some (Inr s) \<and> sc_role (ss_claims s) = id_role m
      \<and> (\<forall>t. authenticate S dir t s = Inr \<lparr>as_identity = m, as_claims = ss_claims s\<rparr> \<longleftrightarrow>
             now \<le> t \<and> unat t < min (unat now + max (unat l) 1) (2 ^ 64 - 1))"
    unfolding iss authenticate_iff
    using assms(1,2) by (simp add: signer_laws_def is_active_at_def exp)
qed

theorem issue_authenticate_witness:
  "(\<exists>s. issue signer_ref demo 1000 (UserId ''approver'') (SessionId []) 60 = Some (Inr s)
      \<and> authenticate signer_ref demo 1059 s
          = Inr \<lparr>as_identity = demo_member ''approver'' ''Demo Approver'' Approver,
                 as_claims = ss_claims s\<rparr>)"
proof -
  let ?m = "demo_member ''approver'' ''Demo Approver'' Approver"
  have m: "co_member demo (UserId ''approver'') = Some ?m"
    by (simp add: co_member_def demo_def demo_members_def demo_member_def)
  have ne: "user_id_as_str (UserId ''approver'') \<noteq> []"
    "organization_id_as_str (id_organization ?m) \<noteq> []"
    by (simp_all add: demo_member_def demo_organization_id_def)
  have "(1000 :: u64) \<noteq> u64_max" by (simp add: u64_max_def)
  with issue_authenticate [OF signer_laws_ref m ne, of "SessionId []" 60 1000]
  show ?thesis by (fastforce simp: word_le_nat_alt)
qed

text \<open>
  The boundary grants exactly what the policy allows and audits what it must: a request is granted
  exactly when the session's role grants the capability and, for a production approval, the
  session is at most the window old; a denial and a production grant each append exactly one
  event that names the session's user and the decision, a standard grant appends nothing, and the
  log is otherwise unchanged.
\<close>

theorem boundary_authorize_audits:
  "\<exists>out evs. boundary_authorize window now s req what log = (Inr out, log @ evs)
    \<and> (out = Inr (Grant req) \<longleftrightarrow>
         as_can s (rq_capability req)
         \<and> (rq_sensitivity req = Standard
            \<or> unat now - unat (sc_issued_at (as_claims s)) \<le> unat window))
    \<and> evs = (if out = Inr (Grant req) \<and> rq_sensitivity req = Standard then []
         else [\<lparr>ae_occurred_at = i64_from_u64_or_max now,
                ae_actor = Some (user_id_as_str (id_user_id (as_identity s))), ae_action = what,
                ae_decision = (if out = Inr (Grant req) then ''granted'' else ''denied''),
                ae_detail = (case out of Inr _ \<Rightarrow> ''production approval''
                               | Inl (Denied d) \<Rightarrow> denial_display d)\<rparr>])"
proof (cases "evaluate window s req now")
  case (Inl d)
  then have "\<not> (as_can s (rq_capability req)
      \<and> (rq_sensitivity req = Standard
         \<or> unat now - unat (sc_issued_at (as_claims s)) \<le> unat window))"
    using evaluate_Inr [of window s req now "()"] by auto
  with Inl show ?thesis
    by (auto simp: boundary_authorize_def try_op_eq Let_def boundary_event_def)
next
  case (Inr u)
  then have "as_can s (rq_capability req)
      \<and> (rq_sensitivity req = Standard
         \<or> unat now - unat (sc_issued_at (as_claims s)) \<le> unat window)"
    using evaluate_Inr [of window s req now u] by simp
  with Inr show ?thesis
    by (cases "rq_sensitivity req")
      (auto simp: boundary_authorize_def try_op_eq Let_def boundary_event_def)
qed

text \<open>
  A production approval needs a fresh approver. If a presented session authenticates at one
  instant and the boundary then grants it a production approval of \<open>ApproveAction\<close>, the subject is a member
  of the directory whose configured role is \<open>Approver\<close>, the signature verified over exactly these
  claims, and the session was issued at most the re-authentication window before the decision.
\<close>

theorem production_approval_needs_approver:
  assumes "authenticate S dir now s = Inr a"
    and "fst (boundary_authorize window now' a (production_approval ApproveAction) what log) = Inr (Inr g)"
  shows "\<exists>m. co_member dir (sc_subject (ss_claims s)) = Some m \<and> id_role m = Approver
    \<and> signer_verify S (signing_bytes (ss_claims s)) (ss_signature s)
    \<and> unat now' - unat (sc_issued_at (ss_claims s)) \<le> unat window"
proof -
  have "as_can a ApproveAction \<and> unat now' - unat (sc_issued_at (as_claims a)) \<le> unat window"
  proof (cases "evaluate window a (production_approval ApproveAction) now'")
    case (Inl d)
    with assms(2) show ?thesis by (simp add: boundary_authorize_def try_op_eq Let_def)
  next
    case (Inr u)
    then show ?thesis by (simp add: evaluate_Inr production_approval_def)
  qed
  with assms(1) show ?thesis
    by (auto simp: authenticate_iff as_can_def grants_iff_role_of)
qed

definition example_session :: signed_session where
  "example_session =
     (let c = \<lparr>sc_session_id = SessionId [], sc_subject = UserId ''approver'',
               sc_organization = demo_organization_id, sc_role = Approver,
               sc_issued_at = 1000, sc_expires_at = 4600\<rparr>
      in \<lparr>ss_claims = c, ss_signature = signer_sign signer_ref (signing_bytes c)\<rparr>)"

theorem production_approval_needs_approver_witness:
  "\<exists>m. co_member demo (UserId ''approver'') = Some m \<and> id_role m = Approver"
proof -
  let ?m = "demo_member ''approver'' ''Demo Approver'' Approver"
  let ?a = "\<lparr>as_identity = ?m, as_claims = ss_claims example_session\<rparr>"
  have m: "co_member demo (UserId ''approver'') = Some ?m"
    by (simp add: co_member_def demo_def demo_members_def demo_member_def)
  have auth: "authenticate signer_ref demo 1100 example_session = Inr ?a"
    by (simp add: authenticate_def example_session_def Let_def signer_ref_def m demo_member_def)
  have "evaluate 300 ?a (production_approval ApproveAction) 1100 = Inr ()"
    by (simp add: evaluate_def production_approval_def as_can_def demo_member_def grants_def
        example_session_def saturating_sub_u64_def Let_def)
  then have "fst (boundary_authorize 300 1100 ?a (production_approval ApproveAction) ''deploy'' [])
      = Inr (Inr (Grant (production_approval ApproveAction)))"
    by (simp add: boundary_authorize_def try_op_eq Let_def production_approval_def)
  from production_approval_needs_approver [OF auth this]
  have "\<exists>m. co_member demo (sc_subject (ss_claims example_session)) = Some m \<and> id_role m = Approver"
    by blast
  then show ?thesis by (simp add: example_session_def Let_def)
qed

end
