(* ===== verification/Action_Requests.thy ===== *)
theory Action_Requests
  imports World Identity
begin

text \<open>
  The propose, approve, reject, revoke life cycle of
  \<^verbatim>\<open>crates/piteka-application/src/action_request.rs\<close> over the in-memory stores. Each operation is
  the whole method: the reading of the clock it starts with is its first argument, a read of a
  store that cannot fail is \<open>reading\<close>, and an \<open>expect\<close> that fails is the error \<open>Panicked\<close>, which
  the source does not have as a value. The methods are split where the code is at an \<open>await\<close>
  between its status check and its compare-and-swap, so that the theory can also talk about
  another caller acting in between.
\<close>

section \<open>Results and errors\<close>

datatype action_request_error =
    Storage storage_error
  | NotFound string
  | InvalidTransition action_request_status string
  | Conflict i64 i64
  | Panicked string

type_synonym 'a request_op = "(world, action_request_error, 'a) op"

section \<open>Proposing\<close>

definition propose :: "u64 \<Rightarrow> string \<Rightarrow> user_id \<Rightarrow> string option \<Rightarrow> action_request request_op" where
  "propose now request_id requested_by intent =
     (let request = \<lparr>ar_request_id = request_id, ar_requested_by = user_id_as_str requested_by,
                     ar_intent_id_hex = intent, ar_status = Pending, ar_created_at = now\<rparr> in
      try_op (map_err Storage (at_requests (request_insert request))) (\<lambda>_.
      try_op (map_err Storage (at_audit (audit_append
        \<lparr>ae_occurred_at = now, ae_actor = Some (user_id_as_str requested_by),
         ae_action = ''propose_action'', ae_decision = ''granted'',
         ae_detail = ''action request '' @ request_id @ '' proposed, intent='' @ debug_option intent\<rparr>)))
      (\<lambda>_. ok request)))"

section \<open>Deciding\<close>

text \<open>The guard the three transitions start with: the request exists and has the given status.\<close>

definition require_status ::
  "string \<Rightarrow> action_request_status \<Rightarrow> string \<Rightarrow> action_request request_op" where
  "require_status request_id required attempted =
     try_op (reading (\<lambda>w. request_get (w_requests w) request_id)) (\<lambda>found.
       case found of
         None \<Rightarrow> fail (NotFound request_id)
       | Some request \<Rightarrow>
           if ar_status request \<noteq> required
           then fail (InvalidTransition (ar_status request) attempted)
           else ok request)"

text \<open>The refresh they end with.\<close>

definition updated_request :: "string \<Rightarrow> action_request request_op" where
  "updated_request request_id =
     try_op (reading (\<lambda>w. request_get (w_requests w) request_id)) (\<lambda>found.
       case found of
         None \<Rightarrow> fail (Panicked ''CAS applied but request vanished'')
       | Some request \<Rightarrow> ok request)"

definition approve_commit ::
  "u64 \<Rightarrow> string \<Rightarrow> user_id \<Rightarrow> string option \<Rightarrow> i64 \<Rightarrow> (action_request \<times> approval_decision) request_op" where
  "approve_commit now request_id approver intent expected =
     try_op (map_err Storage
       (at_requests (request_cas request_id expected action_request_status.Approved))) (\<lambda>outcome.
       case outcome of
         Applied new_version \<Rightarrow>
           (let decision = \<lparr>ad_decision_id = ''dec-'' @ request_id, ad_request_id = request_id,
                            ad_decided_by = user_id_as_str approver, ad_decision = ''approved'',
                            ad_intent_id_hex = intent, ad_decided_at = now\<rparr> in
            try_op (map_err Storage (at_decisions (decision_insert decision))) (\<lambda>_.
            try_op (map_err Storage (at_audit (audit_append
              \<lparr>ae_occurred_at = now, ae_actor = Some (user_id_as_str approver),
               ae_action = ''approve_action'', ae_decision = ''granted'',
               ae_detail = ''action request '' @ request_id @ '' approved by ''
                 @ user_id_as_str approver @ '', intent='' @ debug_option intent
                 @ '', version='' @ dec_i64 new_version\<rparr>))) (\<lambda>_.
            try_op (updated_request request_id) (\<lambda>request. ok (request, decision)))))
       | cas_outcome.Conflict current \<Rightarrow> fail (Conflict expected current)
       | Missing \<Rightarrow> fail (NotFound request_id))"

definition approve ::
  "u64 \<Rightarrow> string \<Rightarrow> user_id \<Rightarrow> string option \<Rightarrow> i64 \<Rightarrow> (action_request \<times> approval_decision) request_op" where
  "approve now request_id approver intent expected =
     try_op (require_status request_id Pending ''approve'')
       (\<lambda>_. approve_commit now request_id approver intent expected)"

definition reject_commit ::
  "u64 \<Rightarrow> string \<Rightarrow> user_id \<Rightarrow> string option \<Rightarrow> i64 \<Rightarrow> (action_request \<times> approval_decision) request_op" where
  "reject_commit now request_id approver intent expected =
     try_op (map_err Storage
       (at_requests (request_cas request_id expected action_request_status.Rejected))) (\<lambda>outcome.
       case outcome of
         Applied _ \<Rightarrow>
           (let decision = \<lparr>ad_decision_id = ''dec-'' @ request_id, ad_request_id = request_id,
                            ad_decided_by = user_id_as_str approver, ad_decision = ''rejected'',
                            ad_intent_id_hex = intent, ad_decided_at = now\<rparr> in
            try_op (map_err Storage (at_decisions (decision_insert decision))) (\<lambda>_.
            try_op (map_err Storage (at_audit (audit_append
              \<lparr>ae_occurred_at = now, ae_actor = Some (user_id_as_str approver),
               ae_action = ''reject_action'', ae_decision = ''denied'',
               ae_detail = ''action request '' @ request_id @ '' rejected by ''
                 @ user_id_as_str approver\<rparr>))) (\<lambda>_.
            try_op (updated_request request_id) (\<lambda>request. ok (request, decision)))))
       | cas_outcome.Conflict current \<Rightarrow> fail (Conflict expected current)
       | Missing \<Rightarrow> fail (NotFound request_id))"

definition reject ::
  "u64 \<Rightarrow> string \<Rightarrow> user_id \<Rightarrow> string option \<Rightarrow> i64 \<Rightarrow> (action_request \<times> approval_decision) request_op" where
  "reject now request_id approver intent expected =
     try_op (require_status request_id Pending ''reject'')
       (\<lambda>_. reject_commit now request_id approver intent expected)"

definition revoke_commit ::
  "u64 \<Rightarrow> string \<Rightarrow> user_id \<Rightarrow> i64 \<Rightarrow> action_request request_op" where
  "revoke_commit now request_id approver expected =
     try_op (map_err Storage
       (at_requests (request_cas request_id expected action_request_status.Revoked))) (\<lambda>outcome.
       case outcome of
         Applied _ \<Rightarrow>
           try_op (map_err Storage (at_audit (audit_append
             \<lparr>ae_occurred_at = now, ae_actor = Some (user_id_as_str approver),
              ae_action = ''revoke_mandate'', ae_decision = ''granted'',
              ae_detail = ''action request '' @ request_id @ '' revoked by ''
                @ user_id_as_str approver\<rparr>))) (\<lambda>_.
           updated_request request_id)
       | cas_outcome.Conflict current \<Rightarrow> fail (Conflict expected current)
       | Missing \<Rightarrow> fail (NotFound request_id))"

definition revoke :: "u64 \<Rightarrow> string \<Rightarrow> user_id \<Rightarrow> i64 \<Rightarrow> action_request request_op" where
  "revoke now request_id approver expected =
     try_op (require_status request_id action_request_status.Approved ''revoke'')
       (\<lambda>_. revoke_commit now request_id approver expected)"

section \<open>Queries\<close>

definition get_request :: "world \<Rightarrow> string \<Rightarrow> action_request option" where
  "get_request w request_id = request_get (w_requests w) request_id"

definition list_requests :: "string list \<Rightarrow> world \<Rightarrow> action_request list" where
  "list_requests order w = request_list order (w_requests w)"

definition get_decisions :: "world \<Rightarrow> string \<Rightarrow> approval_decision list" where
  "get_decisions w request_id = decisions_by_request (w_decisions w) request_id"

section \<open>The life-cycle invariant\<close>

definition explains :: "string \<Rightarrow> action_request_status \<Rightarrow> bool" where
  "explains decision st =
     ((decision = ''approved''
        \<and> (st = action_request_status.Approved \<or> st = action_request_status.Revoked))
      \<or> (decision = ''rejected'' \<and> st = action_request_status.Rejected))"

definition lifecycle_ok :: "world \<Rightarrow> bool" where
  "lifecycle_ok w \<longleftrightarrow>
     decisions_ok (w_decisions w)
     \<and> (\<forall>k r. rs_requests (w_requests w) k = Some r \<longrightarrow> ar_request_id r = k)
     \<and> (\<forall>k. rs_requests (w_requests w) k = None \<longrightarrow> rs_versions (w_requests w) k = None)
     \<and> (\<forall>k r. rs_requests (w_requests w) k = Some r \<longrightarrow> ar_status r \<noteq> Pending \<longrightarrow>
            row_map (w_decisions w) (''dec-'' @ k) \<noteq> None)
     \<and> (\<forall>x d. row_map (w_decisions w) x = Some d \<longrightarrow>
            x = ''dec-'' @ ad_request_id d
            \<and> (\<exists>r. rs_requests (w_requests w) (ad_request_id d) = Some r
                 \<and> explains (ad_decision d) (ar_status r)))"

lemma lifecycle_ok_new: "lifecycle_ok world_new"
  by (simp add: lifecycle_ok_def world_new_def decisions_ok_def rows_ok_empty)
    (simp add: empty_rows_def)

lemma pending_undecided:
  "lifecycle_ok w \<Longrightarrow> rs_requests (w_requests w) k = Some r \<Longrightarrow> ar_status r = Pending \<Longrightarrow>
    row_map (w_decisions w) (''dec-'' @ k) = None"
  by (cases "row_map (w_decisions w) (''dec-'' @ k)")
    (fastforce simp: lifecycle_ok_def explains_def)+

text \<open>The new world of an applied swap, of a recorded decision and of an audited action.\<close>

definition current_version :: "world \<Rightarrow> string \<Rightarrow> i64" where
  "current_version w k = (case rs_versions (w_requests w) k of None \<Rightarrow> 1 | Some v \<Rightarrow> v)"

definition set_status :: "string \<Rightarrow> action_request \<Rightarrow> action_request_status \<Rightarrow> world \<Rightarrow> world" where
  "set_status k r st w =
     w\<lparr>w_requests :=
        \<lparr>rs_requests = (rs_requests (w_requests w))(k \<mapsto> r\<lparr>ar_status := st\<rparr>),
         rs_versions = (rs_versions (w_requests w))(k \<mapsto> current_version w k + 1)\<rparr>\<rparr>"

definition add_decision :: "approval_decision \<Rightarrow> world \<Rightarrow> world" where
  "add_decision d w = w\<lparr>w_decisions := snd (decision_insert d (w_decisions w))\<rparr>"

lemma request_cas_run:
  "rs_requests (w_requests w) k = Some r \<Longrightarrow>
    at_requests (request_cas k e st) w =
      (if current_version w k = e then (Inr (Applied (e + 1)), set_status k r st w)
       else (Inr (cas_outcome.Conflict (current_version w k)), w))"
  by (auto simp: on_eq request_cas_def current_version_def set_status_def Let_def)

lemma decision_insert_run:
  "row_map (w_decisions w) (ad_decision_id d) = None \<Longrightarrow> ad_decision_id d \<noteq> [] \<Longrightarrow>
    at_decisions (decision_insert d) w = (Inr (), add_decision d w)"
  by (simp add: on_eq add_decision_def decision_insert_def insert_row_def)

lemma world_frame [frame_simps]:
  "rs_requests (w_requests (set_status k r st w)) = (rs_requests (w_requests w))(k \<mapsto> r\<lparr>ar_status := st\<rparr>)"
  "rs_versions (w_requests (set_status k r st w)) = (rs_versions (w_requests w))(k \<mapsto> current_version w k + 1)"
  "w_decisions (set_status k r st w) = w_decisions w"
  "w_audit (set_status k r st w) = w_audit w"
  "w_requests (add_decision d w) = w_requests w"
  "w_audit (add_decision d w) = w_audit w"
  "w_requests (add_audit e w) = w_requests w"
  "w_decisions (add_audit e w) = w_decisions w"
  "w_audit (add_audit e w) = w_audit w @ [e]"
  by (simp_all add: set_status_def add_decision_def add_audit_def)

lemma row_map_add_decision [frame_simps]:
  "ad_decision_id d \<noteq> [] \<Longrightarrow> row_map (w_decisions w) (ad_decision_id d) = None \<Longrightarrow>
    row_map (w_decisions (add_decision d w)) = (row_map (w_decisions w))(ad_decision_id d \<mapsto> d)"
  by (simp add: add_decision_def decision_insert_def insert_row_def)

lemma decisions_ok_add [frame_simps]:
  "decisions_ok (w_decisions w) \<Longrightarrow> decisions_ok (w_decisions (add_decision d w))"
  by (simp add: add_decision_def decisions.invar_ins)

section \<open>The operations on every branch\<close>

text \<open>
  Under the invariant each transition is an all-or-nothing update: the branch taken depends on
  the status and version alone, and no later call of the method fails.
\<close>

definition approval_of ::
  "string \<Rightarrow> u64 \<Rightarrow> string \<Rightarrow> user_id \<Rightarrow> string option \<Rightarrow> approval_decision" where
  "approval_of verdict now k u i =
     \<lparr>ad_decision_id = ''dec-'' @ k, ad_request_id = k, ad_decided_by = user_id_as_str u,
      ad_decision = verdict, ad_intent_id_hex = i, ad_decided_at = now\<rparr>"

lemma require_status_run:
  "require_status k st what w =
    (case rs_requests (w_requests w) k of
       None \<Rightarrow> (Inl (NotFound k), w)
     | Some r \<Rightarrow> if ar_status r \<noteq> st then (Inl (InvalidTransition (ar_status r) what), w)
                else (Inr r, w))"
  by (simp add: require_status_def request_get_def split: option.split)

lemma updated_request_run:
  "rs_requests (w_requests w) k = Some r \<Longrightarrow> updated_request k w = (Inr r, w)"
  by (simp add: updated_request_def request_get_def)

lemma approve_commit_run:
  assumes "rs_requests (w_requests w) k = Some r"
    and "row_map (w_decisions w) (''dec-'' @ k) = None"
  shows "approve_commit now k u i e w =
    (if current_version w k \<noteq> e then (Inl (Conflict e (current_version w k)), w)
     else (Inr (r\<lparr>ar_status := action_request_status.Approved\<rparr>, approval_of ''approved'' now k u i),
       add_audit \<lparr>ae_occurred_at = now, ae_actor = Some (user_id_as_str u),
          ae_action = ''approve_action'', ae_decision = ''granted'',
          ae_detail = ''action request '' @ k @ '' approved by '' @ user_id_as_str u
            @ '', intent='' @ debug_option i @ '', version='' @ dec_i64 (e + 1)\<rparr>
        (add_decision (approval_of ''approved'' now k u i)
          (set_status k r action_request_status.Approved w))))"
  using assms
  by (simp add: approve_commit_def request_cas_run decision_insert_run frame_simps
      updated_request_run approval_of_def Let_def)

lemma reject_commit_run:
  assumes "rs_requests (w_requests w) k = Some r"
    and "row_map (w_decisions w) (''dec-'' @ k) = None"
  shows "reject_commit now k u i e w =
    (if current_version w k \<noteq> e then (Inl (Conflict e (current_version w k)), w)
     else (Inr (r\<lparr>ar_status := action_request_status.Rejected\<rparr>, approval_of ''rejected'' now k u i),
       add_audit \<lparr>ae_occurred_at = now, ae_actor = Some (user_id_as_str u),
          ae_action = ''reject_action'', ae_decision = ''denied'',
          ae_detail = ''action request '' @ k @ '' rejected by '' @ user_id_as_str u\<rparr>
        (add_decision (approval_of ''rejected'' now k u i)
          (set_status k r action_request_status.Rejected w))))"
  using assms
  by (simp add: reject_commit_def request_cas_run decision_insert_run frame_simps
      updated_request_run approval_of_def Let_def)

lemma revoke_commit_run:
  assumes "rs_requests (w_requests w) k = Some r"
  shows "revoke_commit now k u e w =
    (if current_version w k \<noteq> e then (Inl (Conflict e (current_version w k)), w)
     else (Inr (r\<lparr>ar_status := action_request_status.Revoked\<rparr>),
       add_audit \<lparr>ae_occurred_at = now, ae_actor = Some (user_id_as_str u),
          ae_action = ''revoke_mandate'', ae_decision = ''granted'',
          ae_detail = ''action request '' @ k @ '' revoked by '' @ user_id_as_str u\<rparr>
        (set_status k r action_request_status.Revoked w)))"
  using assms
  by (simp add: revoke_commit_def request_cas_run frame_simps updated_request_run)

section \<open>Commands and their specification\<close>

text \<open>
  One call of the use case with its arguments, and what it does to the world: whether it
  returned \<open>Ok\<close>, and the world it leaves.
\<close>

datatype request_command =
    Propose u64 string user_id "string option"
  | Approve u64 string user_id "string option" i64
  | Reject u64 string user_id "string option" i64
  | Revoke u64 string user_id i64

fun run_command :: "request_command \<Rightarrow> world \<Rightarrow> bool \<times> world" where
  "run_command (Propose now k u i) w = (case propose now k u i w of (r, w') \<Rightarrow> (succeeded r, w'))"
| "run_command (Approve now k u i e) w = (case approve now k u i e w of (r, w') \<Rightarrow> (succeeded r, w'))"
| "run_command (Reject now k u i e) w = (case reject now k u i e w of (r, w') \<Rightarrow> (succeeded r, w'))"
| "run_command (Revoke now k u e) w = (case revoke now k u e w of (r, w') \<Rightarrow> (succeeded r, w'))"

fun run_commands :: "request_command list \<Rightarrow> world \<Rightarrow> world" where
  "run_commands [] w = w"
| "run_commands (c # cs) w = run_commands cs (snd (run_command c w))"

text \<open>The specification: a versioned status per request, and four guarded transitions.\<close>

type_synonym lifecycle = "string \<rightharpoonup> action_request_status \<times> i64"

definition lifecycle_of :: "world \<Rightarrow> lifecycle" where
  "lifecycle_of w k =
     map_option (\<lambda>r. (ar_status r, current_version w k)) (rs_requests (w_requests w) k)"

definition transition ::
  "string \<Rightarrow> action_request_status \<Rightarrow> i64 \<Rightarrow> action_request_status \<Rightarrow> lifecycle \<Rightarrow> bool \<times> lifecycle" where
  "transition k from e to s =
     (if s k = Some (from, e) then (True, s(k \<mapsto> (to, e + 1))) else (False, s))"

fun spec_command :: "request_command \<Rightarrow> lifecycle \<Rightarrow> bool \<times> lifecycle" where
  "spec_command (Propose now k u i) s =
     (if k \<noteq> [] \<and> s k = None then (True, s(k \<mapsto> (Pending, 1))) else (False, s))"
| "spec_command (Approve now k u i e) s = transition k Pending e action_request_status.Approved s"
| "spec_command (Reject now k u i e) s = transition k Pending e action_request_status.Rejected s"
| "spec_command (Revoke now k u e) s =
     transition k action_request_status.Approved e action_request_status.Revoked s"

subsection \<open>Proposing\<close>

lemma propose_run:
  "propose now k u i w =
    (let r = \<lparr>ar_request_id = k, ar_requested_by = user_id_as_str u, ar_intent_id_hex = i,
              ar_status = Pending, ar_created_at = now\<rparr> in
     if k = [] then (Inl (Storage (storage_error.EmptyField ''request_id'')), w)
     else if rs_requests (w_requests w) k \<noteq> None
     then (Inl (Storage (Backend (''action request `'' @ k @ ''` already exists''))), w)
     else (Inr r,
       add_audit \<lparr>ae_occurred_at = now, ae_actor = Some (user_id_as_str u),
           ae_action = ''propose_action'', ae_decision = ''granted'',
           ae_detail = ''action request '' @ k @ '' proposed, intent='' @ debug_option i\<rparr>
         (w\<lparr>w_requests := (w_requests w)\<lparr>rs_requests := (rs_requests (w_requests w))(k \<mapsto> r)\<rparr>\<rparr>)))"
  by (simp add: propose_def Let_def try_op_eq map_err_eq on_eq request_insert_def add_audit_def)

lemma lifecycle_ok_audit [simp]: "lifecycle_ok (add_audit e w) = lifecycle_ok w"
  by (simp add: lifecycle_ok_def frame_simps)

lemma lifecycle_okD:
  assumes "lifecycle_ok w"
  shows "decisions_ok (w_decisions w)"
    and "rs_requests (w_requests w) k = Some r \<Longrightarrow> ar_request_id r = k"
    and "rs_requests (w_requests w) k = None \<Longrightarrow> rs_versions (w_requests w) k = None"
    and "rs_requests (w_requests w) k = Some r \<Longrightarrow> ar_status r \<noteq> Pending \<Longrightarrow>
      row_map (w_decisions w) (''dec-'' @ k) \<noteq> None"
    and "row_map (w_decisions w) x = Some d \<Longrightarrow> x = ''dec-'' @ ad_request_id d"
    and "row_map (w_decisions w) x = Some d \<Longrightarrow>
      \<exists>r. rs_requests (w_requests w) (ad_request_id d) = Some r \<and> explains (ad_decision d) (ar_status r)"
  using assms unfolding lifecycle_ok_def by blast+

lemma lifecycle_okI:
  assumes "decisions_ok (w_decisions w)"
    and "\<And>k r. rs_requests (w_requests w) k = Some r \<Longrightarrow> ar_request_id r = k"
    and "\<And>k. rs_requests (w_requests w) k = None \<Longrightarrow> rs_versions (w_requests w) k = None"
    and "\<And>k r. rs_requests (w_requests w) k = Some r \<Longrightarrow> ar_status r \<noteq> Pending \<Longrightarrow>
      row_map (w_decisions w) (''dec-'' @ k) \<noteq> None"
    and "\<And>x d. row_map (w_decisions w) x = Some d \<Longrightarrow> x = ''dec-'' @ ad_request_id d"
    and "\<And>x d. row_map (w_decisions w) x = Some d \<Longrightarrow>
      \<exists>r. rs_requests (w_requests w) (ad_request_id d) = Some r \<and> explains (ad_decision d) (ar_status r)"
  shows "lifecycle_ok w"
  using assms unfolding lifecycle_ok_def by blast

lemma lifecycle_ok_propose:
  assumes "lifecycle_ok w" and "rs_requests (w_requests w) k = None" and "ar_request_id r = k"
    and "ar_status r = Pending"
  shows "lifecycle_ok
    (w\<lparr>w_requests := (w_requests w)\<lparr>rs_requests := (rs_requests (w_requests w))(k \<mapsto> r)\<rparr>\<rparr>)"
proof (rule lifecycle_okI, goal_cases)
  case 1
  show ?case using lifecycle_okD(1) [OF assms(1)] by simp
next
  case (2 k' r')
  then show ?case using lifecycle_okD(2) [OF assms(1), of k' r'] assms(3) by (simp split: if_splits)
next
  case (3 k')
  then show ?case using lifecycle_okD(3) [OF assms(1), of k'] by (simp split: if_splits)
next
  case (4 k' r')
  then show ?case using lifecycle_okD(4) [OF assms(1), of k' r'] assms(4) by (simp split: if_splits)
next
  case (5 x d)
  then show ?case using lifecycle_okD(5) [OF assms(1), of x d] by simp
next
  case (6 x d)
  then show ?case using lifecycle_okD(6) [OF assms(1), of x d] assms(2) by auto
qed

subsection \<open>Transitions\<close>

lemma lifecycle_ok_revoke:
  assumes "lifecycle_ok w" and "rs_requests (w_requests w) k = Some r"
    and "ar_status r = action_request_status.Approved"
  shows "lifecycle_ok (set_status k r action_request_status.Revoked w)"
proof (rule lifecycle_okI, goal_cases)
  case 1
  show ?case using lifecycle_okD(1) [OF assms(1)] by (simp add: frame_simps)
next
  case (2 k' r')
  then show ?case
    using lifecycle_okD(2) [OF assms(1), of k' r'] lifecycle_okD(2) [OF assms(1,2)]
      by (cases "k' = k") (auto simp: frame_simps)
next
  case (3 k')
  then show ?case
    using lifecycle_okD(3) [OF assms(1), of k'] by (simp add: frame_simps split: if_splits)
next
  case (4 k' r')
  then show ?case
    using lifecycle_okD(4) [OF assms(1), of k'] assms(2,3)
    by (cases "k' = k") (simp_all add: frame_simps)
next
  case (5 x d)
  then show ?case using lifecycle_okD(5) [OF assms(1), of x d] by (simp add: frame_simps)
next
  case (6 x d)
  then show ?case
    using lifecycle_okD(6) [OF assms(1), of x d] assms(2,3) by (auto simp: frame_simps explains_def)
qed

lemma lifecycle_ok_decide:
  assumes "lifecycle_ok w" and "rs_requests (w_requests w) k = Some r" and "ar_status r = Pending"
    and "ad_decision_id d = ''dec-'' @ k" and "ad_request_id d = k" and "explains (ad_decision d) st"
  shows "lifecycle_ok (add_decision d (set_status k r st w))"
proof -
  let ?w = "set_status k r st w"
  have none: "row_map (w_decisions ?w) (ad_decision_id d) = None"
    using pending_undecided [OF assms(1-3)] assms(4) by (simp add: frame_simps)
  have rows: "row_map (w_decisions (add_decision d ?w)) =
      (row_map (w_decisions w))(''dec-'' @ k \<mapsto> d)"
    using row_map_add_decision [OF _ none] assms(4) by (simp add: frame_simps)
  have other: "ad_request_id d' \<noteq> k" if "row_map (w_decisions w) x = Some d'" for x d'
    using lifecycle_okD(5) [OF assms(1) that] that none assms(4) by (auto simp: frame_simps)
  show ?thesis
  proof (rule lifecycle_okI, goal_cases)
    case 1
    show ?case using lifecycle_okD(1) [OF assms(1)] by (simp add: frame_simps)
  next
    case (6 x d')
    then have "d' = d \<or> row_map (w_decisions w) x = Some d'"
      by (cases "x = ''dec-'' @ k") (simp_all add: rows)
    then consider "d' = d" | "row_map (w_decisions w) x = Some d'" by blast
    then show ?case
    proof cases
      case 1
      then show ?thesis using assms(5,6) by (simp add: frame_simps)
    next
      case 2
      with other lifecycle_okD(6) [OF assms(1) 2] show ?thesis by (auto simp: frame_simps)
    qed
  next
    case (5 x d')
    then show ?case
      using lifecycle_okD(5) [OF assms(1), of x d'] assms(5)
      by (cases "x = ''dec-'' @ k") (simp_all add: rows)
  next
    case (4 k' r')
    then show ?case
      using lifecycle_okD(4) [OF assms(1), of k']
      by (cases "k' = k") (simp_all add: rows frame_simps)
  next
    case (2 k' r')
    then show ?case
      using lifecycle_okD(2) [OF assms(1), of k' r'] lifecycle_okD(2) [OF assms(1,2)]
      by (cases "k' = k") (auto simp: frame_simps)
  next
    case (3 k')
    then show ?case
      using lifecycle_okD(3) [OF assms(1), of k'] by (simp add: frame_simps split: if_splits)
  qed
qed

lemma lifecycle_of_set_status:
  "rs_requests (w_requests w) k = Some r \<Longrightarrow>
    lifecycle_of (set_status k r st w) = (lifecycle_of w)(k \<mapsto> (st, current_version w k + 1))"
  by (auto simp: lifecycle_of_def fun_eq_iff current_version_def frame_simps)

lemma lifecycle_of_frame [simp]:
  "lifecycle_of (add_audit e w) = lifecycle_of w"
  "lifecycle_of (add_decision d w) = lifecycle_of w"
  by (simp_all add: lifecycle_of_def fun_eq_iff current_version_def frame_simps)

lemma lifecycle_of_propose:
  "lifecycle_ok w \<Longrightarrow> rs_requests (w_requests w) k = None \<Longrightarrow>
    lifecycle_of (w\<lparr>w_requests := (w_requests w)\<lparr>rs_requests := (rs_requests (w_requests w))(k \<mapsto> r)\<rparr>\<rparr>)
      = (lifecycle_of w)(k \<mapsto> (ar_status r, 1))"
  by (auto simp: lifecycle_of_def fun_eq_iff current_version_def lifecycle_ok_def)

text \<open>Each method under the invariant, as one case distinction.\<close>

lemma approve_run:
  assumes "lifecycle_ok w"
  shows "approve now k u i e w =
    (case rs_requests (w_requests w) k of
       None \<Rightarrow> (Inl (NotFound k), w)
     | Some r \<Rightarrow>
         if ar_status r \<noteq> Pending then (Inl (InvalidTransition (ar_status r) ''approve''), w)
         else if current_version w k \<noteq> e then (Inl (Conflict e (current_version w k)), w)
         else (Inr (r\<lparr>ar_status := action_request_status.Approved\<rparr>, approval_of ''approved'' now k u i),
           add_audit \<lparr>ae_occurred_at = now, ae_actor = Some (user_id_as_str u),
              ae_action = ''approve_action'', ae_decision = ''granted'',
              ae_detail = ''action request '' @ k @ '' approved by '' @ user_id_as_str u
                @ '', intent='' @ debug_option i @ '', version='' @ dec_i64 (e + 1)\<rparr>
            (add_decision (approval_of ''approved'' now k u i)
              (set_status k r action_request_status.Approved w))))"
  using pending_undecided [OF assms, of k]
  by (simp add: approve_def try_op_eq require_status_run approve_commit_run split: option.split)

lemma reject_run:
  assumes "lifecycle_ok w"
  shows "reject now k u i e w =
    (case rs_requests (w_requests w) k of
       None \<Rightarrow> (Inl (NotFound k), w)
     | Some r \<Rightarrow>
         if ar_status r \<noteq> Pending then (Inl (InvalidTransition (ar_status r) ''reject''), w)
         else if current_version w k \<noteq> e then (Inl (Conflict e (current_version w k)), w)
         else (Inr (r\<lparr>ar_status := action_request_status.Rejected\<rparr>, approval_of ''rejected'' now k u i),
           add_audit \<lparr>ae_occurred_at = now, ae_actor = Some (user_id_as_str u),
              ae_action = ''reject_action'', ae_decision = ''denied'',
              ae_detail = ''action request '' @ k @ '' rejected by '' @ user_id_as_str u\<rparr>
            (add_decision (approval_of ''rejected'' now k u i)
              (set_status k r action_request_status.Rejected w))))"
  using pending_undecided [OF assms, of k]
  by (simp add: reject_def try_op_eq require_status_run reject_commit_run split: option.split)

lemma revoke_run:
  "revoke now k u e w =
    (case rs_requests (w_requests w) k of
       None \<Rightarrow> (Inl (NotFound k), w)
     | Some r \<Rightarrow>
         if ar_status r \<noteq> action_request_status.Approved
         then (Inl (InvalidTransition (ar_status r) ''revoke''), w)
         else if current_version w k \<noteq> e then (Inl (Conflict e (current_version w k)), w)
         else (Inr (r\<lparr>ar_status := action_request_status.Revoked\<rparr>),
           add_audit \<lparr>ae_occurred_at = now, ae_actor = Some (user_id_as_str u),
              ae_action = ''revoke_mandate'', ae_decision = ''granted'',
              ae_detail = ''action request '' @ k @ '' revoked by '' @ user_id_as_str u\<rparr>
            (set_status k r action_request_status.Revoked w)))"
  by (simp add: revoke_def try_op_eq require_status_run revoke_commit_run split: option.split)

lemma approval_of_sel [simp]:
  "ad_decision_id (approval_of v now k u i) = ''dec-'' @ k"
  "ad_request_id (approval_of v now k u i) = k"
  "ad_decision (approval_of v now k u i) = v"
  by (simp_all add: approval_of_def)

lemma explains_simps [simp]:
  "explains ''approved'' action_request_status.Approved"
  "explains ''rejected'' action_request_status.Rejected"
  by (simp_all add: explains_def)

lemma lifecycle_of_eq_Some:
  "lifecycle_of w k = Some (st, v) \<longleftrightarrow>
    (\<exists>r. rs_requests (w_requests w) k = Some r \<and> ar_status r = st \<and> v = current_version w k)"
  by (auto simp: lifecycle_of_def)

lemma lifecycle_of_None: "lifecycle_of w k = None \<longleftrightarrow> rs_requests (w_requests w) k = None"
  by (simp add: lifecycle_of_def)

lemma run_approve_refines:
  assumes "lifecycle_ok w"
  shows "lifecycle_ok (snd (approve now k u i e w))
    \<and> (succeeded (fst (approve now k u i e w)), lifecycle_of (snd (approve now k u i e w)))
      = transition k Pending e action_request_status.Approved (lifecycle_of w)"
proof (cases "rs_requests (w_requests w) k")
  case None
  then show ?thesis
    using assms by (simp add: approve_run [OF assms] transition_def lifecycle_of_eq_Some)
next
  case (Some r)
  then show ?thesis
    using assms lifecycle_ok_decide [OF assms Some, of "approval_of ''approved'' now k u i"]
    by (simp add: approve_run [OF assms] transition_def lifecycle_of_eq_Some lifecycle_of_set_status)
qed

lemma run_reject_refines:
  assumes "lifecycle_ok w"
  shows "lifecycle_ok (snd (reject now k u i e w))
    \<and> (succeeded (fst (reject now k u i e w)), lifecycle_of (snd (reject now k u i e w)))
      = transition k Pending e action_request_status.Rejected (lifecycle_of w)"
proof (cases "rs_requests (w_requests w) k")
  case None
  then show ?thesis
    using assms by (simp add: reject_run [OF assms] transition_def lifecycle_of_eq_Some)
next
  case (Some r)
  then show ?thesis
    using assms lifecycle_ok_decide [OF assms Some, of "approval_of ''rejected'' now k u i"]
    by (simp add: reject_run [OF assms] transition_def lifecycle_of_eq_Some lifecycle_of_set_status)
qed

lemma run_revoke_refines:
  assumes "lifecycle_ok w"
  shows "lifecycle_ok (snd (revoke now k u e w))
    \<and> (succeeded (fst (revoke now k u e w)), lifecycle_of (snd (revoke now k u e w)))
      = transition k action_request_status.Approved e action_request_status.Revoked (lifecycle_of w)"
proof (cases "rs_requests (w_requests w) k")
  case None
  then show ?thesis
    using assms by (simp add: revoke_run transition_def lifecycle_of_eq_Some)
next
  case (Some r)
  then show ?thesis
    using assms lifecycle_ok_revoke [OF assms Some]
    by (simp add: revoke_run transition_def lifecycle_of_eq_Some lifecycle_of_set_status)
qed

lemma run_propose_refines:
  assumes "lifecycle_ok w"
  shows "lifecycle_ok (snd (propose now k u i w))
    \<and> (succeeded (fst (propose now k u i w)), lifecycle_of (snd (propose now k u i w)))
      = spec_command (Propose now k u i) (lifecycle_of w)"
proof (cases "k = [] \<or> rs_requests (w_requests w) k \<noteq> None")
  case True
  then show ?thesis
    using assms by (auto simp: propose_run lifecycle_of_None Let_def)
next
  case False
  then show ?thesis
    using assms lifecycle_ok_propose [OF assms, of k] lifecycle_of_propose [OF assms, of k]
    by (simp add: propose_run lifecycle_of_None Let_def)
qed

lemma run_command_ok: "lifecycle_ok w \<Longrightarrow> lifecycle_ok (snd (run_command c w))"
  using run_propose_refines run_approve_refines run_reject_refines run_revoke_refines
  by (cases c) (simp_all add: case_prod_unfold)

lemma run_commands_ok: "lifecycle_ok w \<Longrightarrow> lifecycle_ok (run_commands cs w)"
  by (induction cs arbitrary: w) (simp_all add: run_command_ok)

lemma run_command_refines:
  assumes "lifecycle_ok w"
  shows "(fst (run_command c w), lifecycle_of (snd (run_command c w))) = spec_command c (lifecycle_of w)"
  using run_propose_refines [OF assms] run_approve_refines [OF assms]
    run_reject_refines [OF assms] run_revoke_refines [OF assms]
  by (cases c) (simp_all add: case_prod_unfold)

text \<open>The decisions of a request are read off its status.\<close>

lemma get_decisions_ok:
  assumes "lifecycle_ok w"
  shows "get_decisions w k =
    (case row_map (w_decisions w) (''dec-'' @ k) of None \<Rightarrow> [] | Some d \<Rightarrow> [d])"
proof -
  let ?idx = "entry_list (row_index (w_decisions w)) k"
  note D = lifecycle_okD [OF assms]
  have rows: "set ?idx = {x. \<exists>d. row_map (w_decisions w) x = Some d \<and> ad_request_id d = k}"
    and "distinct ?idx"
    using D(1) by (simp_all add: decisions_ok_def rows_ok_def)
  have "set ?idx = (case row_map (w_decisions w) (''dec-'' @ k) of None \<Rightarrow> {} | Some d \<Rightarrow> {''dec-'' @ k})"
    unfolding rows using D(5) by (fastforce split: option.splits)
  with \<open>distinct ?idx\<close> have "?idx = (case row_map (w_decisions w) (''dec-'' @ k) of
      None \<Rightarrow> [] | Some d \<Rightarrow> [''dec-'' @ k])"
    by (cases ?idx; cases "tl ?idx") (auto split: option.splits)
  then show ?thesis
    by (simp add: get_decisions_def decisions_by_request_def rows_by_owner_def split: option.splits)
qed

lemma row_map_add_decision_stable:
  "row_map (w_decisions w) x = Some d \<Longrightarrow> row_map (w_decisions (add_decision d' w)) x = Some d"
  using decisions.lookup_stable [of "w_decisions w" x d d']
  by (simp add: add_decision_def decision_get_def row_get_def)

lemma decision_stable:
  assumes "lifecycle_ok w" and "row_map (w_decisions w) x = Some d"
  shows "row_map (w_decisions (snd (run_command c w))) x = Some d"
  using assms row_map_add_decision_stable
  by (cases c)
    (auto simp: propose_run approve_run reject_run revoke_run Let_def frame_simps
      split: option.split)

lemma decision_stable_run:
  "lifecycle_ok w \<Longrightarrow> row_map (w_decisions w) x = Some d \<Longrightarrow>
    row_map (w_decisions (run_commands cs w)) x = Some d"
  by (induction cs arbitrary: w) (simp_all add: decision_stable run_command_ok)

lemma decided_status:
  assumes "lifecycle_ok w" and "row_map (w_decisions w) (''dec-'' @ k) = Some d"
  shows "\<exists>r. rs_requests (w_requests w) k = Some r \<and> ar_status r \<noteq> Pending
    \<and> explains (ad_decision d) (ar_status r)"
  using lifecycle_okD(5,6) [OF assms] by (auto simp: explains_def)

fun spec_commands :: "request_command list \<Rightarrow> lifecycle \<Rightarrow> lifecycle" where
  "spec_commands [] s = s"
| "spec_commands (c # cs) s = spec_commands cs (snd (spec_command c s))"

lemma run_commands_refine:
  "lifecycle_ok w \<Longrightarrow> lifecycle_of (run_commands cs w) = spec_commands cs (lifecycle_of w)"
proof (induction cs arbitrary: w)
  case Nil
  then show ?case by simp
next
  case (Cons c cs)
  from run_command_refines [OF Cons.prems, of c]
  have "lifecycle_of (snd (run_command c w)) = snd (spec_command c (lifecycle_of w))"
    by (metis snd_conv)
  with Cons.IH [OF run_command_ok [OF Cons.prems]] show ?case by simp
qed

lemma lifecycle_of_new [simp]: "lifecycle_of world_new = Map.empty"
  by (simp add: lifecycle_of_def fun_eq_iff world_new_def)

lemma decisions_explained:
  assumes "lifecycle_ok w"
  shows "case get_request w k of
       None \<Rightarrow> get_decisions w k = []
     | Some r \<Rightarrow>
         if ar_status r = Pending then get_decisions w k = []
         else \<exists>d. get_decisions w k = [d] \<and> ad_request_id d = k
                \<and> explains (ad_decision d) (ar_status r)"
proof (cases "row_map (w_decisions w) (''dec-'' @ k)")
  case None
  with lifecycle_okD(4) [OF assms, of k] show ?thesis
    by (auto simp: get_decisions_ok [OF assms] get_request_def request_get_def split: option.split)
next
  case (Some d)
  with decided_status [OF assms Some] lifecycle_okD(5) [OF assms Some] show ?thesis
    by (auto simp: get_decisions_ok [OF assms] get_request_def request_get_def)
qed

section \<open>Properties\<close>

text \<open>
  What \<open>approve\<close> does, on every branch, from any world that satisfies the life-cycle
  invariant: an unknown request, a request that is not pending and a stale version are refused
  and change nothing; otherwise the request becomes \<open>Approved\<close>, its only decision is the caller's
  with exactly the intent the caller passed, one audit event is appended, and no storage error or
  panic is possible.
\<close>

theorem approve_functional:
  assumes "lifecycle_ok w" and "approve now k u i e w = (res, w')"
  shows "case get_request w k of
      None \<Rightarrow> res = Inl (NotFound k) \<and> w' = w
    | Some r \<Rightarrow>
        if ar_status r \<noteq> Pending
        then res = Inl (InvalidTransition (ar_status r) ''approve'') \<and> w' = w
        else if current_version w k \<noteq> e then res = Inl (Conflict e (current_version w k)) \<and> w' = w
        else (let r' = r\<lparr>ar_status := action_request_status.Approved\<rparr>;
                  d = \<lparr>ad_decision_id = ''dec-'' @ k, ad_request_id = k,
                       ad_decided_by = user_id_as_str u, ad_decision = ''approved'',
                       ad_intent_id_hex = i, ad_decided_at = now\<rparr>
              in res = Inr (r', d) \<and> get_request w' = (get_request w)(k \<mapsto> r')
                 \<and> current_version w' k = e + 1 \<and> get_decisions w' k = [d]
                 \<and> (\<exists>ev. w_audit w' = w_audit w @ [ev] \<and> ae_actor ev = Some (user_id_as_str u)
                      \<and> ae_action ev = ''approve_action'' \<and> ae_decision ev = ''granted''))"
proof (cases "rs_requests (w_requests w) k")
  case None
  with assms(2) show ?thesis by (simp add: get_request_def request_get_def approve_run [OF assms(1)])
next
  case (Some r)
  let ?d = "approval_of ''approved'' now k u i"
  have dec: "get_decisions w' k = [?d]" if "ar_status r = Pending" "current_version w k = e"
  proof -
    have "lifecycle_ok w'"
      using run_approve_refines [OF assms(1), of now k u i e] assms(2) by simp
    moreover have "row_map (w_decisions w') (''dec-'' @ k) = Some ?d"
      using assms(2) that Some pending_undecided [OF assms(1) Some]
      by (auto simp: approve_run [OF assms(1)] frame_simps row_map_add_decision)
    ultimately show ?thesis by (simp add: get_decisions_ok)
  qed
  show ?thesis
    using assms(2) Some dec
    by (auto simp: get_request_def request_get_def approve_run [OF assms(1)] Let_def frame_simps
        fun_eq_iff current_version_def approval_of_def split: if_splits)
qed

definition example_world :: world where
  "example_world =
     run_commands [Propose 100 ''r1'' (UserId ''requester'') (Some ''ab'')] world_new"

lemma example_world_ok: "lifecycle_ok example_world"
  by (simp only: example_world_def run_commands_ok lifecycle_ok_new)

lemma example_world_request:
  "get_request example_world ''r1'' =
    Some \<lparr>ar_request_id = ''r1'', ar_requested_by = ''requester'', ar_intent_id_hex = Some ''ab'',
          ar_status = Pending, ar_created_at = 100\<rparr>"
  "current_version example_world ''r1'' = 1"
  by (simp_all add: example_world_def propose_run Let_def get_request_def request_get_def
      frame_simps current_version_def world_new_def)

theorem approve_functional_witness:
  "get_decisions (snd (approve 200 ''r1'' (UserId ''approver'') (Some ''ab'') 1 example_world)) ''r1''
    = [\<lparr>ad_decision_id = ''dec-r1'', ad_request_id = ''r1'', ad_decided_by = ''approver'',
        ad_decision = ''approved'', ad_intent_id_hex = Some ''ab'', ad_decided_at = 200\<rparr>]"
proof -
  obtain res w' where run: "approve 200 ''r1'' (UserId ''approver'') (Some ''ab'') 1 example_world = (res, w')"
    by (cases "approve 200 ''r1'' (UserId ''approver'') (Some ''ab'') 1 example_world")
  from approve_functional [OF example_world_ok run] run show ?thesis
    by (simp add: example_world_request Let_def)
qed

text \<open>
  C6. The use case implements the life-cycle specification: after any sequence of calls from the
  empty stores, the statuses and versions are those of the specification machine (a request is
  proposed once, leaves \<open>Pending\<close> once, and only an approved one is revoked, each time at the
  caller's expected version), and the next call succeeds exactly when the machine accepts it.
\<close>

theorem lifecycle_refinement:
  "lifecycle_of (run_commands cs world_new) = spec_commands cs Map.empty
   \<and> fst (run_command c (run_commands cs world_new)) = fst (spec_command c (spec_commands cs Map.empty))"
proof -
  have ok: "lifecycle_ok (run_commands cs world_new)"
    by (simp add: run_commands_ok lifecycle_ok_new)
  have eq: "lifecycle_of (run_commands cs world_new) = spec_commands cs Map.empty"
    using run_commands_refine [OF lifecycle_ok_new, of cs] by simp
  from run_command_refines [OF ok, of c] eq show ?thesis
    by (metis fst_conv)
qed

text \<open>
  In every reachable state a request that does not exist or is pending has no decision, and
  any other request has exactly one, stored for it and explaining its status (approved for
  \<open>Approved\<close> and \<open>Revoked\<close>, rejected for \<open>Rejected\<close>).
\<close>

theorem reachable_decisions:
  "let w = run_commands cs world_new in
    (case get_request w k of
       None \<Rightarrow> get_decisions w k = []
     | Some r \<Rightarrow>
         if ar_status r = Pending then get_decisions w k = []
         else \<exists>d. get_decisions w k = [d] \<and> ad_request_id d = k
                \<and> explains (ad_decision d) (ar_status r))"
  unfolding Let_def by (rule decisions_explained) (simp add: run_commands_ok lifecycle_ok_new)

text \<open>
  C7. A decision is final. In a reachable state where a request has left \<open>Pending\<close>, no later call
  sequence adds, removes or changes its decision, no later approve or reject of it succeeds, and
  it never becomes pending again.
\<close>

theorem decision_final:
  assumes "w = run_commands cs world_new" and "get_request w k = Some r" and "ar_status r \<noteq> Pending"
    and "w' = run_commands cs' w"
  shows "get_decisions w' k = get_decisions w k
    \<and> \<not> fst (run_command (Approve now k u i e) w') \<and> \<not> fst (run_command (Reject now k u i e) w')
    \<and> (\<exists>r'. get_request w' k = Some r' \<and> ar_status r' \<noteq> Pending)"
proof -
  have ok: "lifecycle_ok w" "lifecycle_ok w'"
    using assms(1,4) by (simp_all add: run_commands_ok lifecycle_ok_new)
  obtain d where d: "row_map (w_decisions w) (''dec-'' @ k) = Some d"
    using lifecycle_okD(4) [OF ok(1)] assms(2,3) by (auto simp: get_request_def request_get_def)
  then have d': "row_map (w_decisions w') (''dec-'' @ k) = Some d"
    using decision_stable_run [OF ok(1)] assms(4) by blast
  from decided_status [OF ok(2) d'] obtain r' where r': "rs_requests (w_requests w') k = Some r'"
    and "ar_status r' \<noteq> Pending" by blast
  then show ?thesis
    using d d' by (simp add: get_decisions_ok ok approve_run reject_run get_request_def request_get_def)
qed

theorem decision_final_witness:
  "\<not> fst (run_command (Reject 400 ''r1'' (UserId ''approver'') None 3)
      (run_commands [Revoke 300 ''r1'' (UserId ''approver'') 2]
        (run_commands [Propose 100 ''r1'' (UserId ''requester'') (Some ''ab''),
                       Approve 200 ''r1'' (UserId ''approver'') (Some ''ab'') 1] world_new)))"
proof -
  let ?w = "run_commands [Propose 100 ''r1'' (UserId ''requester'') (Some ''ab''),
                       Approve 200 ''r1'' (UserId ''approver'') (Some ''ab'') 1] world_new"
  have eq: "?w = snd (approve 200 ''r1'' (UserId ''approver'') (Some ''ab'') 1 example_world)"
    by (simp add: example_world_def case_prod_unfold)
  have "\<exists>r. get_request ?w ''r1'' = Some r \<and> ar_status r \<noteq> Pending"
    unfolding eq using example_world_request
    by (simp add: approve_run [OF example_world_ok] get_request_def request_get_def frame_simps)
  then obtain r where "get_request ?w ''r1'' = Some r" and "ar_status r \<noteq> Pending" by blast
  from decision_final [OF refl this refl] show ?thesis by blast
qed

lemma current_version_frame [simp]:
  "current_version (add_audit e w) k = current_version w k"
  "current_version (add_decision d w) k = current_version w k"
  "current_version (set_status k r st w) k' = (if k' = k then current_version w k + 1 else current_version w k')"
  by (simp_all add: current_version_def frame_simps)

lemma decision_insert_taken:
  "row_map (w_decisions w) (ad_decision_id d) = Some d' \<Longrightarrow> ad_decision_id d \<noteq> [] \<Longrightarrow>
    at_decisions (decision_insert d) w =
      (Inl (Backend (''approval decision `'' @ ad_decision_id d @ ''` already exists'')), w)"
  by (simp add: on_eq decision_insert_def insert_row_def)

lemma reject_commit_taken:
  "rs_requests (w_requests w) k = Some r \<Longrightarrow> row_map (w_decisions w) (''dec-'' @ k) = Some d \<Longrightarrow>
    reject_commit now k u i (current_version w k) w =
      (Inl (Storage (Backend (''approval decision `'' @ (''dec-'' @ k) @ ''` already exists''))),
       set_status k r action_request_status.Rejected w)"
  by (simp add: reject_commit_def request_cas_run decision_insert_taken frame_simps Let_def)

text \<open>
  C35. The status check is not tied to the version. If one caller's \<open>reject\<close> has passed its status
  check and another caller's \<open>approve\<close> runs to completion before the first resumes at its
  compare-and-swap, an expected version one ahead of the one checked is accepted: the first caller
  gets a storage error, but the approved request is left \<open>Rejected\<close> with only the
  approval on record.
\<close>

theorem reject_race_overwrites_approval:
  assumes "lifecycle_ok w" and "get_request w k = Some r" and "ar_status r = Pending"
  shows "require_status k Pending ''reject'' w = (Inr r, w)
    \<and> (let w1 = snd (approve t k a i (current_version w k) w);
           (res, w2) = reject_commit t' k b j (current_version w k + 1) w1
       in res = Inl (Storage (Backend (''approval decision `'' @ (''dec-'' @ k) @ ''` already exists'')))
          \<and> map_option ar_status (get_request w2 k) = Some action_request_status.Rejected
          \<and> row_map (w_decisions w2) (''dec-'' @ k)
              = Some \<lparr>ad_decision_id = ''dec-'' @ k, ad_request_id = k,
                  ad_decided_by = user_id_as_str a, ad_decision = ''approved'',
                  ad_intent_id_hex = i, ad_decided_at = t\<rparr>)"
proof -
  let ?d = "approval_of ''approved'' t k a i"
  let ?w1 = "snd (approve t k a i (current_version w k) w)"
  have r: "rs_requests (w_requests w) k = Some r"
    using assms(2) by (simp add: get_request_def request_get_def)
  have w1: "rs_requests (w_requests ?w1) k = Some (r\<lparr>ar_status := action_request_status.Approved\<rparr>)"
    "current_version ?w1 k = current_version w k + 1"
    using r assms(3) by (simp_all add: approve_run [OF assms(1)] frame_simps)
  have d: "row_map (w_decisions ?w1) (''dec-'' @ k) = Some ?d"
    using r assms(3) pending_undecided [OF assms(1) r]
    by (simp add: approve_run [OF assms(1)] frame_simps row_map_add_decision)
  show ?thesis
    using r assms(3) d reject_commit_taken [OF w1(1) d] w1(2)
    by (simp add: require_status_run frame_simps Let_def get_request_def request_get_def
        approval_of_def)
qed

theorem reject_race_overwrites_approval_witness:
  "map_option ar_status (get_request
     (snd (reject_commit 201 ''r1'' (UserId ''b'') None 2
       (snd (approve 200 ''r1'' (UserId ''a'') (Some ''ab'') 1 example_world)))) ''r1'')
   = Some action_request_status.Rejected"
  using reject_race_overwrites_approval [OF example_world_ok example_world_request(1),
      of 200 "UserId ''a''" "Some ''ab''" 201 "UserId ''b''" None]
  by (simp add: example_world_request(2) Let_def case_prod_unfold)

end
