(* ===== verification/Dispatch.thy ===== *)
theory Dispatch
  imports World
begin

text \<open>
  The reserve-and-dispatch use case of \<^verbatim>\<open>crates/piteka-application/src/dispatch.rs\<close>. Each
  operation is the whole method over the stores of \<open>World\<close>; the clock reading it starts with is its
  first argument. The provider closure is an argument, and calling it appends to \<open>w_provider\<close>.
  A Rust \<open>i64\<close> addition that overflows is taken to wrap, as in a release build.
\<close>

section \<open>Results and errors\<close>

datatype dispatch_error =
    Storage storage_error
  | NotFound string
  | InvalidTransition action_request_status
  | MandateNotFound string
  | ReservationConflict i64
  | AlreadyConsumed string
  | DispatchFailedError string
  | InvalidProviderResponse string
  | UnauthorizedExecutor string

record dispatched =
  di_mandate_id_hex :: string
  di_attempt_id_hex :: string
  di_intent_id_hex :: string
  di_executor_identity :: string
  di_correlation_key :: string
  di_provider_accepted :: bool
  di_github_deployment_id :: "u64 option"

record reservation_failed =
  rf_mandate_id_hex :: string
  rf_winner_version :: i64

record replay_rejection =
  rr_reason_code :: string
  rr_mandate_id_hex :: string
  rr_request_id :: string
  rr_executor_identity :: string
  rr_mandate_state :: string
  rr_message :: string

datatype dispatch_outcome =
    Dispatched dispatched
  | ReservationFailed reservation_failed
  | ReplayRejected replay_rejection
  | DispatchFailed string string string

type_synonym 'a dispatch_op = "(world, dispatch_error, 'a) op"

text \<open>The closure: correlation key and attempt digest to the deployment id, if accepted.\<close>

type_synonym dispatch_fn = "string \<Rightarrow> bytes \<Rightarrow> u64 option"

definition attempt_digest_preimage :: "string \<Rightarrow> string \<Rightarrow> string \<Rightarrow> bytes" where
  "attempt_digest_preimage attempt mandate intent = attempt @ ''|'' @ mandate @ ''|'' @ intent"

definition compute_attempt_digest :: "ext \<Rightarrow> string \<Rightarrow> string \<Rightarrow> string \<Rightarrow> bytes" where
  "compute_attempt_digest E attempt mandate intent =
     ext_sha256 E (attempt_digest_preimage attempt mandate intent)"

section \<open>Reserving\<close>

text \<open>The arguments every dispatch method shares.\<close>

record dispatch_args =
  da_request_id :: string
  da_mandate_id_hex :: string
  da_intent_id_hex :: string
  da_executor_identity :: string
  da_reservation_token_digest :: string
  da_correlation_key :: string
  da_expected_mandate_version :: i64

definition attempt_id_of :: "string \<Rightarrow> string" where
  "attempt_id_of mandate = ''att-'' @ mandate"

definition new_attempt :: "u64 \<Rightarrow> dispatch_args \<Rightarrow> execution_attempt" where
  "new_attempt now a =
     \<lparr>ea_attempt_id_hex = attempt_id_of (da_mandate_id_hex a),
      ea_mandate_id_hex = da_mandate_id_hex a, ea_intent_id_hex = da_intent_id_hex a,
      ea_reservation_token_digest = da_reservation_token_digest a,
      ea_executor_identity = da_executor_identity a, ea_correlation_key = da_correlation_key a,
      ea_started_at = now, ea_dispatch_boundary_at = None, ea_state = Prepared,
      ea_github_deployment_id = None\<rparr>"

definition reserve_event :: "u64 \<Rightarrow> dispatch_args \<Rightarrow> audit_event" where
  "reserve_event now a =
     \<lparr>ae_occurred_at = now, ae_actor = Some (da_executor_identity a),
      ae_action = ''reserve_mandate'', ae_decision = ''granted'',
      ae_detail = ''mandate '' @ da_mandate_id_hex a @ '' reserved for request ''
        @ da_request_id a @ '', attempt '' @ attempt_id_of (da_mandate_id_hex a)
        @ '', version '' @ dec_i64 (da_expected_mandate_version a)\<rparr>"

definition reserved_result :: "dispatch_args \<Rightarrow> dispatched" where
  "reserved_result a =
     \<lparr>di_mandate_id_hex = da_mandate_id_hex a,
      di_attempt_id_hex = attempt_id_of (da_mandate_id_hex a),
      di_intent_id_hex = da_intent_id_hex a, di_executor_identity = da_executor_identity a,
      di_correlation_key = da_correlation_key a, di_provider_accepted = False,
      di_github_deployment_id = None\<rparr>"

definition replay_states :: "string list" where
  "replay_states = [''consumed'', ''quarantined'', ''abandoned'']"

definition replay_event :: "u64 \<Rightarrow> dispatch_args \<Rightarrow> string \<Rightarrow> audit_event" where
  "replay_event now a state =
     \<lparr>ae_occurred_at = now, ae_actor = Some (da_executor_identity a),
      ae_action = ''execute_approved_deployment'', ae_decision = ''denied'',
      ae_detail = ''MANDATE.REPLAY_DETECTED: mandate '' @ da_mandate_id_hex a @ '' is '' @ state
        @ ''; request '' @ da_request_id a @ ''; provider dispatch suppressed''\<rparr>"

definition replay_result :: "dispatch_args \<Rightarrow> string \<Rightarrow> replay_rejection" where
  "replay_result a state =
     \<lparr>rr_reason_code = ''MANDATE.REPLAY_DETECTED'', rr_mandate_id_hex = da_mandate_id_hex a,
      rr_request_id = da_request_id a, rr_executor_identity = da_executor_identity a,
      rr_mandate_state = state,
      rr_message = ''Repeat use rejected. Approval '' @ da_mandate_id_hex a
        @ '' was already used; nothing was sent to GitHub.''\<rparr>"

definition check_request :: "dispatch_args \<Rightarrow> unit dispatch_op" where
  "check_request a =
     try_op (reading (\<lambda>w. request_get (w_requests w) (da_request_id a))) (\<lambda>found.
       case found of
         None \<Rightarrow> fail (NotFound (da_request_id a))
       | Some request \<Rightarrow>
           if ar_status request \<noteq> action_request_status.Approved
           then fail (InvalidTransition (ar_status request)) else ok ())"

definition record_reservation :: "u64 \<Rightarrow> dispatch_args \<Rightarrow> dispatch_outcome dispatch_op" where
  "record_reservation now a =
     try_op (map_err Storage (at_attempts (attempt_insert (new_attempt now a)))) (\<lambda>_.
     try_op (map_err Storage
       (at_attempts (attempt_update_state (attempt_id_of (da_mandate_id_hex a)) Dispatching))) (\<lambda>_.
     try_op (map_err Storage (at_audit (audit_append (reserve_event now a)))) (\<lambda>_.
     ok (Dispatched (reserved_result a)))))"

definition report_conflict :: "u64 \<Rightarrow> dispatch_args \<Rightarrow> i64 \<Rightarrow> dispatch_outcome dispatch_op" where
  "report_conflict now a current =
     try_op (reading (\<lambda>w. mandate_get (w_mandates w) (da_mandate_id_hex a))) (\<lambda>found.
       let lost = ok (ReservationFailed \<lparr>rf_mandate_id_hex = da_mandate_id_hex a,
                                        rf_winner_version = current\<rparr>) in
       case found of
         None \<Rightarrow> lost
       | Some projection \<Rightarrow>
           if mp_state projection \<in> set replay_states then
             try_op (map_err Storage (at_audit (audit_append
               (replay_event now a (mp_state projection)))))
               (\<lambda>_. ok (ReplayRejected (replay_result a (mp_state projection))))
           else lost)"

definition reserve :: "u64 \<Rightarrow> dispatch_args \<Rightarrow> dispatch_outcome dispatch_op" where
  "reserve now a =
     try_op (check_request a) (\<lambda>_.
     try_op (map_err Storage (at_mandates (mandate_cas (da_mandate_id_hex a)
       (da_expected_mandate_version a) ''reserved''))) (\<lambda>cas.
       case cas of
         Applied _ \<Rightarrow> record_reservation now a
       | Conflict current \<Rightarrow> report_conflict now a current
       | Missing \<Rightarrow> fail (MandateNotFound (da_mandate_id_hex a))))"

section \<open>Completing\<close>

definition consume_event :: "u64 \<Rightarrow> string \<Rightarrow> string \<Rightarrow> string \<Rightarrow> audit_event" where
  "consume_event now attempt mandate executor =
     \<lparr>ae_occurred_at = now, ae_actor = Some executor, ae_action = ''consume_mandate'',
      ae_decision = ''granted'',
      ae_detail = ''mandate '' @ mandate @ '' consumed after provider acceptance, attempt '' @ attempt\<rparr>"

definition quarantine_event :: "u64 \<Rightarrow> string \<Rightarrow> string \<Rightarrow> string \<Rightarrow> audit_event" where
  "quarantine_event now attempt mandate executor =
     \<lparr>ae_occurred_at = now, ae_actor = Some executor, ae_action = ''quarantine_mandate'',
      ae_decision = ''denied'',
      ae_detail = ''mandate '' @ mandate @ '' quarantined after provider failure, attempt '' @ attempt\<rparr>"

definition record_accepted ::
  "u64 \<Rightarrow> string \<Rightarrow> string \<Rightarrow> u64 \<Rightarrow> string \<Rightarrow> i64 \<Rightarrow> unit dispatch_op" where
  "record_accepted now attempt mandate deployment executor expected =
     try_op (map_err Storage (at_attempts (attempt_update_state attempt Accepted))) (\<lambda>_.
     try_op (map_err Storage (at_attempts (attempt_update_deployment_id attempt deployment))) (\<lambda>_.
     try_op (map_err Storage (at_mandates (mandate_cas mandate expected ''consumed''))) (\<lambda>cas.
       case cas of
         Applied _ \<Rightarrow>
           map_err Storage (at_audit (audit_append (consume_event now attempt mandate executor)))
       | Conflict _ \<Rightarrow> fail (AlreadyConsumed mandate)
       | Missing \<Rightarrow> fail (MandateNotFound mandate))))"

definition record_ambiguous ::
  "u64 \<Rightarrow> string \<Rightarrow> string \<Rightarrow> string \<Rightarrow> i64 \<Rightarrow> unit dispatch_op" where
  "record_ambiguous now attempt mandate executor expected =
     try_op (map_err Storage (at_attempts (attempt_update_state attempt OutcomeAmbiguous))) (\<lambda>_.
     try_op (map_err Storage (at_mandates (mandate_cas mandate expected ''quarantined''))) (\<lambda>cas.
       case cas of
         Applied _ \<Rightarrow>
           map_err Storage (at_audit (audit_append (quarantine_event now attempt mandate executor)))
       | Conflict _ \<Rightarrow> ok ()
       | Missing \<Rightarrow> fail (MandateNotFound mandate)))"

definition complete_dispatch ::
  "u64 \<Rightarrow> string \<Rightarrow> string \<Rightarrow> bool \<Rightarrow> u64 option \<Rightarrow> string \<Rightarrow> i64 \<Rightarrow> unit dispatch_op" where
  "complete_dispatch now attempt mandate accepted deployment executor expected =
     (let missing_deployment_id = accepted \<and> deployment = None in
      try_op
        (case (accepted, deployment) of
           (True, Some d) \<Rightarrow> record_accepted now attempt mandate d executor expected
         | _ \<Rightarrow> record_ambiguous now attempt mandate executor expected)
        (\<lambda>_. if missing_deployment_id
              then fail (InvalidProviderResponse
                ''accepted GitHub deployment response did not include a deployment ID'')
              else ok ()))"

section \<open>The whole flow\<close>

definition call_provider :: "ext \<Rightarrow> dispatch_args \<Rightarrow> dispatch_fn \<Rightarrow> (world, 'e, u64 option) op" where
  "call_provider E a f w =
     (let digest = compute_attempt_digest E (attempt_id_of (da_mandate_id_hex a))
                     (da_mandate_id_hex a) (da_intent_id_hex a) in
      (Inr (f (da_correlation_key a) digest),
       w\<lparr>w_provider := w_provider w @ [\<lparr>pc_mandate = da_mandate_id_hex a,
           pc_correlation_key = da_correlation_key a, pc_attempt_digest = digest\<rparr>]\<rparr>))"

text \<open>\<open>now\<close> and \<open>later\<close> are the clock readings of the reservation and of the completion.\<close>

definition reserve_and_dispatch ::
  "ext \<Rightarrow> u64 \<Rightarrow> u64 \<Rightarrow> dispatch_args \<Rightarrow> dispatch_fn \<Rightarrow> dispatch_outcome dispatch_op" where
  "reserve_and_dispatch E now later a f =
     try_op (reserve now a) (\<lambda>reserved.
       case reserved of
         Dispatched d \<Rightarrow>
           try_op (call_provider E a f) (\<lambda>deployment_id.
             let cas_version = da_expected_mandate_version a + 1 in
             case deployment_id of
               Some deploy_id \<Rightarrow>
                 try_op (complete_dispatch later (di_attempt_id_hex d) (da_mandate_id_hex a) True
                   (Some deploy_id) (da_executor_identity a) cas_version) (\<lambda>_.
                 ok (Dispatched (d\<lparr>di_provider_accepted := True,
                                 di_github_deployment_id := Some deploy_id\<rparr>)))
             | None \<Rightarrow>
                 try_op (complete_dispatch later (di_attempt_id_hex d) (da_mandate_id_hex a) False
                   None (da_executor_identity a) cas_version) (\<lambda>_.
                 ok (DispatchFailed (da_mandate_id_hex a) (di_attempt_id_hex d)
                   ''provider rejected or timeout'')))
       | _ \<Rightarrow> ok reserved)"

section \<open>Evaluation\<close>

text \<open>The effect of an applied swap, of a stored attempt and of an updated one.\<close>

definition set_mandate :: "string \<Rightarrow> i64 \<Rightarrow> string \<Rightarrow> world \<Rightarrow> world" where
  "set_mandate m v st w =
     w\<lparr>w_mandates := (w_mandates w)(m \<mapsto> \<lparr>mp_mandate_id_hex =
         (case w_mandates w m of None \<Rightarrow> m | Some p \<Rightarrow> mp_mandate_id_hex p),
       mp_version = v, mp_state = st\<rparr>)\<rparr>"

definition set_attempt :: "execution_attempt \<Rightarrow> world \<Rightarrow> world" where
  "set_attempt x w =
     w\<lparr>w_attempts := (w_attempts w)\<lparr>row_map := (row_map (w_attempts w))(ea_attempt_id_hex x \<mapsto> x)\<rparr>\<rparr>"

definition index_attempt :: "execution_attempt \<Rightarrow> world \<Rightarrow> world" where
  "index_attempt x w =
     w\<lparr>w_attempts := (w_attempts w)\<lparr>row_index :=
         push_entry (row_index (w_attempts w)) (ea_mandate_id_hex x) (ea_attempt_id_hex x)\<rparr>\<rparr>"

definition add_call :: "provider_call \<Rightarrow> world \<Rightarrow> world" where
  "add_call c w = w\<lparr>w_provider := w_provider w @ [c]\<rparr>"

named_theorems dispatch_frame \<open>fields the effects of a dispatch leave alone\<close>

lemma dispatch_frames [dispatch_frame]:
  "w_mandates (set_mandate m v st w) m' =
     (if m' = m then Some \<lparr>mp_mandate_id_hex =
         (case w_mandates w m of None \<Rightarrow> m | Some p \<Rightarrow> mp_mandate_id_hex p),
       mp_version = v, mp_state = st\<rparr> else w_mandates w m')"
  "w_attempts (set_mandate m v st w) = w_attempts w"
  "w_audit (set_mandate m v st w) = w_audit w"
  "w_provider (set_mandate m v st w) = w_provider w"
  "w_requests (set_mandate m v st w) = w_requests w"
  "w_mandates (set_attempt x w) = w_mandates w"
  "w_audit (set_attempt x w) = w_audit w"
  "w_provider (set_attempt x w) = w_provider w"
  "w_requests (set_attempt x w) = w_requests w"
  "row_map (w_attempts (set_attempt x w)) = (row_map (w_attempts w))(ea_attempt_id_hex x \<mapsto> x)"
  "row_index (w_attempts (set_attempt x w)) = row_index (w_attempts w)"
  "w_mandates (index_attempt x w) = w_mandates w"
  "w_audit (index_attempt x w) = w_audit w"
  "w_provider (index_attempt x w) = w_provider w"
  "w_requests (index_attempt x w) = w_requests w"
  "row_map (w_attempts (index_attempt x w)) = row_map (w_attempts w)"
  "w_mandates (add_audit e w) = w_mandates w"
  "w_attempts (add_audit e w) = w_attempts w"
  "w_audit (add_audit e w) = w_audit w @ [e]"
  "w_provider (add_audit e w) = w_provider w"
  "w_requests (add_audit e w) = w_requests w"
  "w_mandates (add_call c w) = w_mandates w"
  "w_attempts (add_call c w) = w_attempts w"
  "w_audit (add_call c w) = w_audit w"
  "w_provider (add_call c w) = w_provider w @ [c]"
  "w_requests (add_call c w) = w_requests w"
  by (simp_all add: set_mandate_def set_attempt_def index_attempt_def add_audit_def add_call_def)

lemma mandate_projection_update:
  "p\<lparr>mp_version := v, mp_state := st\<rparr> =
    \<lparr>mp_mandate_id_hex = mp_mandate_id_hex p, mp_version = v, mp_state = st\<rparr>"
  by (cases p) simp

lemma mandate_cas_run:
  "at_mandates (mandate_cas m e st) w =
    (case w_mandates w m of
       None \<Rightarrow> (Inr Missing, w)
     | Some p \<Rightarrow> if mp_version p = e then (Inr (Applied (e + 1)), set_mandate m (e + 1) st w)
                else (Inr (Conflict (mp_version p)), w))"
  by (simp add: on_eq mandate_cas_def set_mandate_def mandate_projection_update
      split: option.split)

lemma attempt_insert_run:
  "ea_attempt_id_hex x \<noteq> [] \<Longrightarrow>
    at_attempts (attempt_insert x) w =
      (if row_map (w_attempts w) (ea_attempt_id_hex x) = None
       then (Inr (), index_attempt x (set_attempt x w))
       else (Inl (Backend (''execution attempt `'' @ ea_attempt_id_hex x @ ''` already exists'')), w))"
  by (simp add: on_eq attempt_insert_def insert_row_def set_attempt_def index_attempt_def)

lemma attempt_update_state_run:
  "row_map (w_attempts w) k = Some x \<Longrightarrow> ea_attempt_id_hex x = k \<Longrightarrow>
    at_attempts (attempt_update_state k st) w = (Inr (), set_attempt (x\<lparr>ea_state := st\<rparr>) w)"
  by (simp add: on_eq attempt_update_state_def set_attempt_def)

lemma attempt_update_deployment_run:
  "row_map (w_attempts w) k = Some x \<Longrightarrow> ea_attempt_id_hex x = k \<Longrightarrow>
    at_attempts (attempt_update_deployment_id k d) w =
      (Inr (), set_attempt (x\<lparr>ea_github_deployment_id := Some d\<rparr>) w)"
  by (simp add: on_eq attempt_update_deployment_id_def set_attempt_def)

lemma set_attempt_twice:
  "ea_attempt_id_hex x = ea_attempt_id_hex y \<Longrightarrow>
    set_attempt y (set_attempt x w) = set_attempt y w"
  by (simp add: set_attempt_def)

lemma attempt_id_of_nonempty [simp]: "attempt_id_of m \<noteq> []"
  by (simp add: attempt_id_of_def)

lemma attempt_id_of_inject [simp]: "attempt_id_of m = attempt_id_of m' \<longleftrightarrow> m = m'"
  by (simp add: attempt_id_of_def)

lemma new_attempt_sel [simp]:
  "ea_attempt_id_hex (new_attempt now a) = attempt_id_of (da_mandate_id_hex a)"
  "ea_mandate_id_hex (new_attempt now a) = da_mandate_id_hex a"
  by (simp_all add: new_attempt_def)

lemmas dispatch_runs = mandate_cas_run audit_run attempt_insert_run attempt_update_state_run
  attempt_update_deployment_run

lemma check_request_run:
  "check_request a w =
    (case rs_requests (w_requests w) (da_request_id a) of
       None \<Rightarrow> (Inl (NotFound (da_request_id a)), w)
     | Some r \<Rightarrow> if ar_status r \<noteq> action_request_status.Approved
                then (Inl (InvalidTransition (ar_status r)), w) else (Inr (), w))"
  by (simp add: check_request_def request_get_def split: option.split)

definition approved :: "world \<Rightarrow> string \<Rightarrow> bool" where
  "approved w k =
     (map_option ar_status (rs_requests (w_requests w) k) = Some action_request_status.Approved)"

lemma check_request_ok: "check_request a w = (r, w') \<Longrightarrow>
    w' = w \<and> (r = Inr () \<longleftrightarrow> approved w (da_request_id a))"
  by (auto simp: check_request_run approved_def split: option.splits if_splits)

lemma check_request_approved: "approved w (da_request_id a) \<Longrightarrow> check_request a w = (Inr (), w)"
  by (auto simp: check_request_run approved_def)

text \<open>The world a granted reservation leaves.\<close>

definition reserved_world :: "u64 \<Rightarrow> dispatch_args \<Rightarrow> world \<Rightarrow> world" where
  "reserved_world now a w =
     (let m = da_mandate_id_hex a; x = new_attempt now a in
      add_audit (reserve_event now a)
        (set_attempt (x\<lparr>ea_state := Dispatching\<rparr>)
          (index_attempt x (set_mandate m (da_expected_mandate_version a + 1) ''reserved'' w))))"

lemma index_set_attempt: "index_attempt x (set_attempt y w) = set_attempt y (index_attempt x w)"
  by (simp add: index_attempt_def set_attempt_def)

lemma record_reservation_fresh:
  "row_map (w_attempts w) (attempt_id_of (da_mandate_id_hex a)) = None \<Longrightarrow>
    record_reservation now a w = (Inr (Dispatched (reserved_result a)),
      add_audit (reserve_event now a)
        (set_attempt ((new_attempt now a)\<lparr>ea_state := Dispatching\<rparr>)
          (index_attempt (new_attempt now a) w)))"
  by (simp add: record_reservation_def dispatch_runs dispatch_frame index_set_attempt
      set_attempt_twice)

lemma record_reservation_taken:
  "row_map (w_attempts w) (attempt_id_of (da_mandate_id_hex a)) = Some x \<Longrightarrow>
    record_reservation now a w =
      (Inl (Storage (Backend (''execution attempt `'' @ attempt_id_of (da_mandate_id_hex a)
        @ ''` already exists''))), w)"
  by (simp add: record_reservation_def dispatch_runs)

text \<open>\<open>reserve\<close> on every branch.\<close>

lemma reserve_run:
  assumes "approved w (da_request_id a)"
  shows "reserve now a w =
    (case w_mandates w (da_mandate_id_hex a) of
       None \<Rightarrow> (Inl (MandateNotFound (da_mandate_id_hex a)), w)
     | Some p \<Rightarrow>
         if mp_version p \<noteq> da_expected_mandate_version a then
           (if mp_state p \<in> set replay_states
            then (Inr (ReplayRejected (replay_result a (mp_state p))),
                  add_audit (replay_event now a (mp_state p)) w)
            else (Inr (ReservationFailed \<lparr>rf_mandate_id_hex = da_mandate_id_hex a,
                    rf_winner_version = mp_version p\<rparr>), w))
         else if row_map (w_attempts w) (attempt_id_of (da_mandate_id_hex a)) = None
         then (Inr (Dispatched (reserved_result a)), reserved_world now a w)
         else (Inl (Storage (Backend (''execution attempt `''
                 @ attempt_id_of (da_mandate_id_hex a) @ ''` already exists''))),
               set_mandate (da_mandate_id_hex a) (da_expected_mandate_version a + 1) ''reserved'' w))"
proof (cases "w_mandates w (da_mandate_id_hex a)")
  case None
  with assms show ?thesis
    by (simp add: reserve_def check_request_approved dispatch_runs)
next
  case (Some p)
  show ?thesis
  proof (cases "mp_version p = da_expected_mandate_version a")
    case False
    with assms Some show ?thesis
      by (simp add: reserve_def check_request_approved dispatch_runs report_conflict_def
          mandate_get_def Let_def)
  next
    case True
    let ?w = "set_mandate (da_mandate_id_hex a) (da_expected_mandate_version a + 1) ''reserved'' w"
    have att: "w_attempts ?w = w_attempts w" by (simp add: dispatch_frame)
    show ?thesis
    proof (cases "row_map (w_attempts w) (attempt_id_of (da_mandate_id_hex a))")
      case None
      with assms Some True att record_reservation_fresh [of ?w a now] show ?thesis
        by (simp add: reserve_def check_request_approved dispatch_runs reserved_world_def Let_def)
    next
      case Row: (Some x)
      with assms Some True att record_reservation_taken [of ?w a x now] show ?thesis
        by (simp add: reserve_def check_request_approved dispatch_runs)
    qed
  qed
qed

lemma reserve_not_approved:
  assumes "\<not> approved w (da_request_id a)"
  shows "reserve now a w = (Inl
    (case rs_requests (w_requests w) (da_request_id a) of
       None \<Rightarrow> NotFound (da_request_id a) | Some r \<Rightarrow> InvalidTransition (ar_status r)), w)"
  using assms
  by (auto simp: reserve_def check_request_run approved_def try_op_eq split: option.split)

lemma record_accepted_run:
  assumes "row_map (w_attempts w) k = Some x" and "ea_attempt_id_hex x = k"
  shows "record_accepted now k m d ex e w =
    (let w' = set_attempt (x\<lparr>ea_state := Accepted, ea_github_deployment_id := Some d\<rparr>) w in
     case w_mandates w m of
       None \<Rightarrow> (Inl (MandateNotFound m), w')
     | Some p \<Rightarrow>
         if mp_version p = e
         then (Inr (), add_audit (consume_event now k m ex) (set_mandate m (e + 1) ''consumed'' w'))
         else (Inl (AlreadyConsumed m), w'))"
  using assms
  by (simp add: record_accepted_def attempt_update_state_run attempt_update_deployment_run
      mandate_cas_run dispatch_frame set_attempt_twice Let_def split: option.split)

lemma record_ambiguous_run:
  assumes "row_map (w_attempts w) k = Some x" and "ea_attempt_id_hex x = k"
  shows "record_ambiguous now k m ex e w =
    (let w' = set_attempt (x\<lparr>ea_state := OutcomeAmbiguous\<rparr>) w in
     case w_mandates w m of
       None \<Rightarrow> (Inl (MandateNotFound m), w')
     | Some p \<Rightarrow>
         if mp_version p = e
         then (Inr (), add_audit (quarantine_event now k m ex) (set_mandate m (e + 1) ''quarantined'' w'))
         else (Inr (), w'))"
  using assms
  by (simp add: record_ambiguous_def attempt_update_state_run mandate_cas_run dispatch_frame
      Let_def split: option.split)

text \<open>The provider call of a dispatch.\<close>

definition call_of :: "ext \<Rightarrow> dispatch_args \<Rightarrow> provider_call" where
  "call_of E a =
     \<lparr>pc_mandate = da_mandate_id_hex a, pc_correlation_key = da_correlation_key a,
      pc_attempt_digest = compute_attempt_digest E (attempt_id_of (da_mandate_id_hex a))
        (da_mandate_id_hex a) (da_intent_id_hex a)\<rparr>"

lemma call_provider_run:
  "call_provider E a f w =
    (Inr (f (da_correlation_key a) (pc_attempt_digest (call_of E a))), add_call (call_of E a) w)"
  by (simp add: call_provider_def call_of_def add_call_def Let_def)

lemma reserved_world_frame [dispatch_frame]:
  "w_requests (reserved_world now a w) = w_requests w"
  "w_provider (reserved_world now a w) = w_provider w"
  "w_audit (reserved_world now a w) = w_audit w @ [reserve_event now a]"
  "row_map (w_attempts (reserved_world now a w)) = (row_map (w_attempts w))
     (attempt_id_of (da_mandate_id_hex a) \<mapsto> (new_attempt now a)\<lparr>ea_state := Dispatching\<rparr>)"
  by (simp_all add: reserved_world_def dispatch_frame Let_def)

lemma reserved_world_mandate [dispatch_frame]:
  "w_mandates w (da_mandate_id_hex a) = Some p \<Longrightarrow>
    w_mandates (reserved_world now a w) (da_mandate_id_hex a) =
      Some (p\<lparr>mp_version := da_expected_mandate_version a + 1, mp_state := ''reserved''\<rparr>)"
  by (simp add: reserved_world_def dispatch_frame Let_def mandate_projection_update)

lemma reserved_result_sel [simp]:
  "di_attempt_id_hex (reserved_result a) = attempt_id_of (da_mandate_id_hex a)"
  by (simp add: reserved_result_def)

text \<open>What a dispatch that got its reservation does, for either answer of the provider.\<close>

lemma reserve_and_dispatch_granted:
  assumes "approved w (da_request_id a)"
    and "w_mandates w (da_mandate_id_hex a) = Some p"
    and "mp_version p = da_expected_mandate_version a"
    and "row_map (w_attempts w) (attempt_id_of (da_mandate_id_hex a)) = None"
  shows "reserve_and_dispatch E now later a f w =
    (let m = da_mandate_id_hex a; k = attempt_id_of m;
         w' = add_call (call_of E a) (reserved_world now a w);
         v = da_expected_mandate_version a + 1 + 1
     in case f (da_correlation_key a) (pc_attempt_digest (call_of E a)) of
          Some d \<Rightarrow>
            (Inr (Dispatched ((reserved_result a)\<lparr>di_provider_accepted := True,
                                di_github_deployment_id := Some d\<rparr>)),
             add_audit (consume_event later k m (da_executor_identity a))
              (set_mandate m v ''consumed''
                (set_attempt ((new_attempt now a)\<lparr>ea_state := Accepted, ea_github_deployment_id := Some d\<rparr>) w')))
        | None \<Rightarrow>
            (Inr (DispatchFailed m k ''provider rejected or timeout''),
             add_audit (quarantine_event later k m (da_executor_identity a))
              (set_mandate m v ''quarantined''
                (set_attempt ((new_attempt now a)\<lparr>ea_state := OutcomeAmbiguous\<rparr>) w'))))"
proof -
  let ?m = "da_mandate_id_hex a" and ?k = "attempt_id_of (da_mandate_id_hex a)"
  let ?w = "add_call (call_of E a) (reserved_world now a w)"
  let ?x = "(new_attempt now a)\<lparr>ea_state := Dispatching\<rparr>"
  have res: "reserve now a w = (Inr (Dispatched (reserved_result a)), reserved_world now a w)"
    using assms by (simp add: reserve_run)
  have x: "row_map (w_attempts ?w) ?k = Some ?x" "ea_attempt_id_hex ?x = ?k"
    by (simp_all add: dispatch_frame)
  have m: "w_mandates ?w ?m = Some (p\<lparr>mp_version := da_expected_mandate_version a + 1, mp_state := ''reserved''\<rparr>)"
    using assms(2) by (simp add: dispatch_frame)
  show ?thesis
    by (simp add: reserve_and_dispatch_def res call_provider_run complete_dispatch_def m record_accepted_run [OF x]
        record_ambiguous_run [OF x] Let_def split: option.split)
qed

text \<open>Every other dispatch leaves the provider alone.\<close>

lemma reserve_and_dispatch_refused:
  assumes "\<not> (approved w (da_request_id a)
    \<and> (\<exists>p. w_mandates w (da_mandate_id_hex a) = Some p \<and> mp_version p = da_expected_mandate_version a)
    \<and> row_map (w_attempts w) (attempt_id_of (da_mandate_id_hex a)) = None)"
  shows "reserve_and_dispatch E now later a f w = reserve now a w
    \<and> w_provider (snd (reserve now a w)) = w_provider w
    \<and> (\<forall>d. fst (reserve now a w) \<noteq> Inr (Dispatched d))"
proof (cases "approved w (da_request_id a)")
  case False
  then show ?thesis by (simp add: reserve_and_dispatch_def reserve_not_approved)
next
  case True
  show ?thesis
  proof (cases "w_mandates w (da_mandate_id_hex a)")
    case None
    then show ?thesis by (simp add: reserve_and_dispatch_def reserve_run [OF True])
  next
    case (Some p)
    then show ?thesis
      using assms True
      by (auto simp: reserve_and_dispatch_def try_op_eq reserve_run [OF True] dispatch_frame)
  qed
qed

lemma receipts_frame [dispatch_frame]:
  "w_receipts (set_mandate m v st w) = w_receipts w" "w_receipts (set_attempt x w) = w_receipts w"
  "w_receipts (index_attempt x w) = w_receipts w" "w_receipts (add_audit e w) = w_receipts w"
  "w_receipts (add_call c w) = w_receipts w" "w_receipts (reserved_world now a w) = w_receipts w"
  by (simp_all add: set_mandate_def set_attempt_def index_attempt_def add_audit_def add_call_def
      reserved_world_def Let_def)

definition example_args :: dispatch_args where
  "example_args =
     \<lparr>da_request_id = ''r1'', da_mandate_id_hex = ''m'', da_intent_id_hex = ''ab'',
      da_executor_identity = ''executor'', da_reservation_token_digest = ''tok'',
      da_correlation_key = ''key'', da_expected_mandate_version = 1\<rparr>"

definition example_ready :: world where
  "example_ready =
     world_new\<lparr>w_requests := \<lparr>rs_requests = [''r1'' \<mapsto> \<lparr>ar_request_id = ''r1'',
           ar_requested_by = ''requester'', ar_intent_id_hex = Some ''ab'',
           ar_status = action_request_status.Approved, ar_created_at = 100\<rparr>],
         rs_versions = [''r1'' \<mapsto> 2]\<rparr>,
       w_mandates := example_mandates\<rparr>"

lemma example_ready_facts:
  "approved example_ready (da_request_id example_args)"
  "w_mandates example_ready (da_mandate_id_hex example_args)
     = Some \<lparr>mp_mandate_id_hex = ''m'', mp_version = 1, mp_state = ''issued''\<rparr>"
  "row_map (w_attempts example_ready) (attempt_id_of (da_mandate_id_hex example_args)) = None"
  by (simp_all add: example_ready_def example_args_def approved_def world_new_def empty_rows_def
      example_mandates_def mandate_insert_def)

section \<open>Properties\<close>

text \<open>
  C4. A dispatch that meets its guards, in full: exactly one provider call is made, with the
  digest of this attempt, mandate and intent. If the provider answers with a deployment id the
  mandate ends \<open>consumed\<close> two versions later and the attempt \<open>Accepted\<close> with that id; otherwise the
  mandate ends \<open>quarantined\<close> and the attempt \<open>OutcomeAmbiguous\<close> with no id. Both append two audit
  events, leave the request untouched and fabricate no receipt.
\<close>

theorem dispatch_functional:
  assumes "approved w (da_request_id a)"
    and "w_mandates w (da_mandate_id_hex a) = Some p"
    and "mp_version p = da_expected_mandate_version a"
    and "attempt_get (w_attempts w) (attempt_id_of (da_mandate_id_hex a)) = None"
    and "reserve_and_dispatch E now later a f w = (res, w')"
    and "answer = f (da_correlation_key a) (pc_attempt_digest (call_of E a))"
  shows "res = (case answer of
            Some d \<Rightarrow> Inr (Dispatched ((reserved_result a)\<lparr>di_provider_accepted := True,
                             di_github_deployment_id := Some d\<rparr>))
          | None \<Rightarrow> Inr (DispatchFailed (da_mandate_id_hex a) (attempt_id_of (da_mandate_id_hex a))
                      ''provider rejected or timeout''))
    \<and> mandate_get (w_mandates w') (da_mandate_id_hex a) =
        Some (p\<lparr>mp_version := da_expected_mandate_version a + 2,
                mp_state := (if answer = None then ''quarantined'' else ''consumed'')\<rparr>)
    \<and> attempt_get (w_attempts w') (attempt_id_of (da_mandate_id_hex a)) =
        Some ((new_attempt now a)\<lparr>ea_state := (if answer = None then OutcomeAmbiguous else Accepted),
                                  ea_github_deployment_id := answer\<rparr>)
    \<and> w_provider w' = w_provider w @ [call_of E a]
    \<and> (\<exists>e. w_audit w' = w_audit w @ [reserve_event now a, e])
    \<and> w_requests w' = w_requests w \<and> w_receipts w' = w_receipts w"
proof -
  have none: "row_map (w_attempts w) (attempt_id_of (da_mandate_id_hex a)) = None"
    using assms(4) by (simp add: attempt_get_def row_get_def)
  note run = reserve_and_dispatch_granted [OF assms(1-3) none, of E now later f, unfolded assms(5)]
  have na: "(new_attempt now a)\<lparr>ea_state := st\<rparr> =
      (new_attempt now a)\<lparr>ea_state := st, ea_github_deployment_id := None\<rparr>" for st
    by (simp add: new_attempt_def)
  have f: "f (da_correlation_key a) (pc_attempt_digest (call_of E a)) = answer"
    using assms(6) by simp
  show ?thesis
  proof (cases answer)
    case None
    with run f assms(2) na [of OutcomeAmbiguous] show ?thesis
      by (simp add: Let_def dispatch_frame mandate_get_def attempt_get_def row_get_def
          mandate_projection_update)
  next
    case (Some d)
    with run f assms(2) show ?thesis
      by (simp add: Let_def dispatch_frame mandate_get_def attempt_get_def row_get_def
          mandate_projection_update)
  qed
qed

theorem dispatch_functional_witness:
  "map_option mp_state (mandate_get (w_mandates (snd (reserve_and_dispatch ext_ref 200 201
      example_args (\<lambda>k g. None) example_ready))) ''m'') = Some ''quarantined''
   \<and> map_option mp_state (mandate_get (w_mandates (snd (reserve_and_dispatch ext_ref 200 201
      example_args (\<lambda>k g. Some 7) example_ready))) ''m'') = Some ''consumed''"
proof -
  have none: "attempt_get (w_attempts example_ready) (attempt_id_of (da_mandate_id_hex example_args)) = None"
    using example_ready_facts(3) by (simp add: attempt_get_def row_get_def)
  have v: "mp_version \<lparr>mp_mandate_id_hex = ''m'', mp_version = 1, mp_state = ''issued''\<rparr>
      = da_expected_mandate_version example_args"
    by (simp add: example_args_def)
  have state: "map_option mp_state (mandate_get (w_mandates (snd (reserve_and_dispatch ext_ref 200 201
      example_args (\<lambda>k g. r) example_ready))) ''m'')
    = Some (if r = None then ''quarantined'' else ''consumed'')" for r
  proof -
    obtain res w' where run: "reserve_and_dispatch ext_ref 200 201 example_args (\<lambda>k g. r) example_ready = (res, w')"
      by (cases "reserve_and_dispatch ext_ref 200 201 example_args (\<lambda>k g. r) example_ready")
    have m: "da_mandate_id_hex example_args = ''m''" by (simp add: example_args_def)
    from dispatch_functional [OF example_ready_facts(1,2) v none run refl] show ?thesis
      unfolding m run by simp
  qed
  show ?thesis using state [of None] state [of "Some 7"] by simp
qed

text \<open>
  No dispatch without a reservation: the provider is called only when the request is approved, the
  mandate is at the caller's expected version and has no attempt yet, and then exactly once and
  for that mandate; in every other case, errors included, no call is made.
\<close>

theorem provider_called_exactly_when_reserved:
  "w_provider (snd (reserve_and_dispatch E now later a f w)) =
     w_provider w @
       (if approved w (da_request_id a)
          \<and> mandate_version (w_mandates w) (da_mandate_id_hex a) = Some (da_expected_mandate_version a)
          \<and> attempt_get (w_attempts w) (attempt_id_of (da_mandate_id_hex a)) = None
        then [call_of E a] else [])"
proof (cases "approved w (da_request_id a)
    \<and> (\<exists>p. w_mandates w (da_mandate_id_hex a) = Some p \<and> mp_version p = da_expected_mandate_version a)
    \<and> row_map (w_attempts w) (attempt_id_of (da_mandate_id_hex a)) = None")
  case True
  then show ?thesis
    by (auto simp: reserve_and_dispatch_granted Let_def dispatch_frame mandate_version_def
        attempt_get_def row_get_def split: option.split)
next
  case False
  then show ?thesis
    using reserve_and_dispatch_refused [OF False, of E now later f]
    by (auto simp: mandate_version_def attempt_get_def row_get_def)
qed

text \<open>
  Repeat use is rejected and recorded: once a mandate is consumed, quarantined or abandoned,
  an approved request that presents it at a stale version gets the structured rejection naming
  the state; exactly one denying audit event is appended, nothing is sent to the provider and no
  other state changes.
\<close>

theorem replay_rejected:
  assumes "approved w (da_request_id a)"
    and "w_mandates w (da_mandate_id_hex a) = Some p"
    and "mp_state p \<in> set [''consumed'', ''quarantined'', ''abandoned'']"
    and "mp_version p \<noteq> da_expected_mandate_version a"
  shows "reserve_and_dispatch E now later a f w =
    (Inr (ReplayRejected (replay_result a (mp_state p))),
     w\<lparr>w_audit := w_audit w @ [replay_event now a (mp_state p)]\<rparr>)"
  using assms
  by (simp add: reserve_and_dispatch_def reserve_run replay_states_def add_audit_def)

theorem replay_rejected_witness:
  "w_audit (snd (reserve_and_dispatch ext_ref 300 301 example_args (\<lambda>k g. Some 9)
      (example_ready\<lparr>w_mandates := [''m'' \<mapsto> \<lparr>mp_mandate_id_hex = ''m'', mp_version = 3, mp_state = ''consumed''\<rparr>]\<rparr>)))
    = [replay_event 300 example_args ''consumed'']"
proof -
  let ?w = "example_ready\<lparr>w_mandates := [''m'' \<mapsto> \<lparr>mp_mandate_id_hex = ''m'', mp_version = 3, mp_state = ''consumed''\<rparr>]\<rparr>"
  have "approved ?w (da_request_id example_args)"
    using example_ready_facts(1) by (simp add: approved_def)
  from replay_rejected [OF this, of "\<lparr>mp_mandate_id_hex = ''m'', mp_version = 3, mp_state = ''consumed''\<rparr>"]
  show ?thesis by (simp add: example_args_def example_ready_def world_new_def)
qed

text \<open>
  C34. The reservation ignores the mandate's state. Presented at its current version, a mandate
  that was already dispatched (whatever its state: consumed, quarantined, abandoned) is set back
  to \<open>reserved\<close>; only the taken attempt id then stops the dispatch, with a storage error instead
  of the documented rejection, no audit event and no provider call.
\<close>

theorem reserve_revives_terminal_mandate:
  assumes "approved w (da_request_id a)"
    and "w_mandates w (da_mandate_id_hex a) = Some p"
    and "mp_version p = da_expected_mandate_version a"
    and "attempt_get (w_attempts w) (attempt_id_of (da_mandate_id_hex a)) = Some x"
    and "reserve_and_dispatch E now later a f w = (res, w')"
  shows "(\<exists>e. res = Inl (Storage e))
    \<and> mandate_get (w_mandates w') (da_mandate_id_hex a) =
        Some (p\<lparr>mp_version := mp_version p + 1, mp_state := ''reserved''\<rparr>)
    \<and> w_audit w' = w_audit w \<and> w_provider w' = w_provider w \<and> w_attempts w' = w_attempts w"
  using assms
  by (auto simp: reserve_and_dispatch_def try_op_eq reserve_run attempt_get_def row_get_def
      dispatch_frame mandate_get_def mandate_projection_update)

theorem reserve_revives_terminal_mandate_witness:
  "let w = snd (reserve_and_dispatch ext_ref 200 201 example_args (\<lambda>k g. None) example_ready);
       w' = snd (reserve_and_dispatch ext_ref 300 301
              (example_args\<lparr>da_expected_mandate_version := 3\<rparr>) (\<lambda>k g. None) w)
   in map_option mp_state (w_mandates w ''m'') = Some ''quarantined''
      \<and> map_option mp_state (mandate_get (w_mandates w') ''m'') = Some ''reserved''"
proof -
  let ?w = "snd (reserve_and_dispatch ext_ref 200 201 example_args (\<lambda>k g. None) example_ready)"
  let ?a = "example_args\<lparr>da_expected_mandate_version := 3\<rparr>"
  have v: "mp_version \<lparr>mp_mandate_id_hex = ''m'', mp_version = 1, mp_state = ''issued''\<rparr>
      = da_expected_mandate_version example_args"
    by (simp add: example_args_def)
  note run = reserve_and_dispatch_granted [OF example_ready_facts(1,2) v example_ready_facts(3),
      of ext_ref 200 201 "\<lambda>k g. None"]
  have a: "approved ?w (da_request_id ?a)"
    using example_ready_facts(1) by (simp add: run Let_def approved_def dispatch_frame)
  have m: "w_mandates ?w (da_mandate_id_hex ?a) =
      Some \<lparr>mp_mandate_id_hex = ''m'', mp_version = 3, mp_state = ''quarantined''\<rparr>"
    using example_ready_facts(2)
    by (simp add: run Let_def dispatch_frame) (simp add: example_args_def)
  have x: "attempt_get (w_attempts ?w) (attempt_id_of (da_mandate_id_hex ?a)) =
      Some ((new_attempt 200 example_args)\<lparr>ea_state := OutcomeAmbiguous\<rparr>)"
    by (simp add: run Let_def dispatch_frame attempt_get_def row_get_def)
  have v': "mp_version \<lparr>mp_mandate_id_hex = ''m'', mp_version = 3, mp_state = ''quarantined''\<rparr>
      = da_expected_mandate_version ?a" by simp
  obtain res w' where run': "reserve_and_dispatch ext_ref 300 301 ?a (\<lambda>k g. None) ?w = (res, w')"
    by (cases "reserve_and_dispatch ext_ref 300 301 ?a (\<lambda>k g. None) ?w")
  have m': "da_mandate_id_hex ?a = ''m''" by (simp add: example_args_def)
  from reserve_revives_terminal_mandate [OF a m v' x run'] m run' show ?thesis
    unfolding m' by (simp add: Let_def)
qed

text \<open>
  The digest sent to the provider identifies the dispatch: what is hashed for two dispatches
  is equal only if attempt, mandate and intent are, for identifiers without the separator
  \<open>|\<close> in the attempt and mandate ids (hexadecimal ids never have it).
\<close>

theorem attempt_digest_preimage_inject:
  assumes "CHR ''|'' \<notin> set a" and "CHR ''|'' \<notin> set a'"
    and "CHR ''|'' \<notin> set m" and "CHR ''|'' \<notin> set m'"
    and "attempt_digest_preimage a m i = attempt_digest_preimage a' m' i'"
  shows "a = a' \<and> m = m' \<and> i = i'"
proof -
  from assms(5) have "a @ CHR ''|'' # (m @ CHR ''|'' # i) = a' @ CHR ''|'' # (m' @ CHR ''|'' # i')"
    by (simp add: attempt_digest_preimage_def)
  with assms(1,2) have "a = a' \<and> m @ CHR ''|'' # i = m' @ CHR ''|'' # i'"
    by (simp add: append_separator_inject)
  with assms(3,4) show ?thesis by (simp add: append_separator_inject)
qed

theorem attempt_digest_preimage_inject_witness:
  "attempt_digest_preimage ''att-m'' ''m'' ''ab'' \<noteq> attempt_digest_preimage ''att-m'' ''m'' ''ac''"
proof
  assume eq: "attempt_digest_preimage ''att-m'' ''m'' ''ab'' = attempt_digest_preimage ''att-m'' ''m'' ''ac''"
  have a: "CHR ''|'' \<notin> set ''att-m''" and m: "CHR ''|'' \<notin> set ''m''" by simp_all
  from attempt_digest_preimage_inject [OF a a m m eq] show False by simp
qed

end
