(* ===== verification/Dispatch_Concurrency.thy ===== *)
theory Dispatch_Concurrency
  imports Dispatch
begin

text \<open>
  \<open>reserve_and_dispatch\<close> at the grain of its \<open>await\<close> points. A task is at a program counter; one
  step performs the one store operation (or the provider call) between two \<open>await\<close>s, each atomic
  because an adapter holds its lock while it runs. Any number of tasks interleave, and other code
  may change the world in between as long as it neither removes attempts nor calls the provider.
  A task that runs alone does what \<open>reserve_and_dispatch\<close> of the theory \<open>Dispatch\<close> does.
\<close>

section \<open>Program counters\<close>

datatype dispatch_pc =
    CheckRequest
  | SwapReserved
  | LookUpConflict i64
  | AuditReplay string
  | InsertAttempt
  | MarkDispatching
  | AuditReserve
  | CallProvider
  | MarkAccepted u64
  | RecordDeployment u64
  | SwapConsumed u64
  | AuditConsume u64
  | MarkAmbiguous
  | SwapQuarantined
  | AuditQuarantine
  | Finished "dispatch_error + dispatch_outcome"

record task =
  t_args :: dispatch_args
  t_fn :: dispatch_fn
  t_now :: u64
  t_later :: u64
  t_pc :: dispatch_pc

text \<open>One operation, then the next counter; its storage error ends the task.\<close>

definition then_pc ::
  "(world, storage_error, 'a) op \<Rightarrow> ('a \<Rightarrow> dispatch_pc) \<Rightarrow> world \<Rightarrow> dispatch_pc \<times> world" where
  "then_pc m next w =
     (case m w of
        (Inl e, w') \<Rightarrow> (Finished (Inl (Storage e)), w')
      | (Inr x, w') \<Rightarrow> (next x, w'))"

definition accepted_outcome :: "dispatch_args \<Rightarrow> u64 \<Rightarrow> dispatch_outcome" where
  "accepted_outcome a d =
     Dispatched ((reserved_result a)\<lparr>di_provider_accepted := True, di_github_deployment_id := Some d\<rparr>)"

definition failed_outcome :: "dispatch_args \<Rightarrow> dispatch_outcome" where
  "failed_outcome a =
     DispatchFailed (da_mandate_id_hex a) (attempt_id_of (da_mandate_id_hex a))
       ''provider rejected or timeout''"

text \<open>The step at each counter; \<open>v\<close> is the version the reservation produced.\<close>

fun atom :: "ext \<Rightarrow> task \<Rightarrow> dispatch_pc \<Rightarrow> world \<Rightarrow> dispatch_pc \<times> world" where
  "atom E t CheckRequest w =
     (case check_request (t_args t) w of
        (Inl e, w') \<Rightarrow> (Finished (Inl e), w')
      | (Inr _, w') \<Rightarrow> (SwapReserved, w'))"
| "atom E t SwapReserved w =
     then_pc (at_mandates (mandate_cas (da_mandate_id_hex (t_args t))
         (da_expected_mandate_version (t_args t)) ''reserved''))
       (\<lambda>cas. case cas of
          Applied _ \<Rightarrow> InsertAttempt
        | Conflict current \<Rightarrow> LookUpConflict current
        | Missing \<Rightarrow> Finished (Inl (MandateNotFound (da_mandate_id_hex (t_args t))))) w"
| "atom E t (LookUpConflict current) w =
     (let lost = Finished (Inr (ReservationFailed
                   \<lparr>rf_mandate_id_hex = da_mandate_id_hex (t_args t), rf_winner_version = current\<rparr>)) in
      (case mandate_get (w_mandates w) (da_mandate_id_hex (t_args t)) of
         None \<Rightarrow> lost
       | Some p \<Rightarrow> if mp_state p \<in> set replay_states then AuditReplay (mp_state p) else lost, w))"
| "atom E t (AuditReplay st) w =
     then_pc (at_audit (audit_append (replay_event (t_now t) (t_args t) st)))
       (\<lambda>_. Finished (Inr (ReplayRejected (replay_result (t_args t) st)))) w"
| "atom E t InsertAttempt w =
     then_pc (at_attempts (attempt_insert (new_attempt (t_now t) (t_args t)))) (\<lambda>_. MarkDispatching) w"
| "atom E t MarkDispatching w =
     then_pc (at_attempts (attempt_update_state (attempt_id_of (da_mandate_id_hex (t_args t))) Dispatching))
       (\<lambda>_. AuditReserve) w"
| "atom E t AuditReserve w =
     then_pc (at_audit (audit_append (reserve_event (t_now t) (t_args t)))) (\<lambda>_. CallProvider) w"
| "atom E t CallProvider w =
     then_pc (call_provider E (t_args t) (t_fn t))
       (\<lambda>answer. case answer of None \<Rightarrow> MarkAmbiguous | Some d \<Rightarrow> MarkAccepted d) w"
| "atom E t (MarkAccepted d) w =
     then_pc (at_attempts (attempt_update_state (attempt_id_of (da_mandate_id_hex (t_args t))) Accepted))
       (\<lambda>_. RecordDeployment d) w"
| "atom E t (RecordDeployment d) w =
     then_pc (at_attempts (attempt_update_deployment_id (attempt_id_of (da_mandate_id_hex (t_args t))) d))
       (\<lambda>_. SwapConsumed d) w"
| "atom E t (SwapConsumed d) w =
     then_pc (at_mandates (mandate_cas (da_mandate_id_hex (t_args t))
         (da_expected_mandate_version (t_args t) + 1) ''consumed''))
       (\<lambda>cas. case cas of
          Applied _ \<Rightarrow> AuditConsume d
        | Conflict _ \<Rightarrow> Finished (Inl (AlreadyConsumed (da_mandate_id_hex (t_args t))))
        | Missing \<Rightarrow> Finished (Inl (MandateNotFound (da_mandate_id_hex (t_args t))))) w"
| "atom E t (AuditConsume d) w =
     then_pc (at_audit (audit_append (consume_event (t_later t)
         (attempt_id_of (da_mandate_id_hex (t_args t))) (da_mandate_id_hex (t_args t))
         (da_executor_identity (t_args t)))))
       (\<lambda>_. Finished (Inr (accepted_outcome (t_args t) d))) w"
| "atom E t MarkAmbiguous w =
     then_pc (at_attempts (attempt_update_state (attempt_id_of (da_mandate_id_hex (t_args t))) OutcomeAmbiguous))
       (\<lambda>_. SwapQuarantined) w"
| "atom E t SwapQuarantined w =
     then_pc (at_mandates (mandate_cas (da_mandate_id_hex (t_args t))
         (da_expected_mandate_version (t_args t) + 1) ''quarantined''))
       (\<lambda>cas. case cas of
          Applied _ \<Rightarrow> AuditQuarantine
        | Conflict _ \<Rightarrow> Finished (Inr (failed_outcome (t_args t)))
        | Missing \<Rightarrow> Finished (Inl (MandateNotFound (da_mandate_id_hex (t_args t))))) w"
| "atom E t AuditQuarantine w =
     then_pc (at_audit (audit_append (quarantine_event (t_later t)
         (attempt_id_of (da_mandate_id_hex (t_args t))) (da_mandate_id_hex (t_args t))
         (da_executor_identity (t_args t)))))
       (\<lambda>_. Finished (Inr (failed_outcome (t_args t)))) w"
| "atom E t (Finished r) w = (Finished r, w)"

text \<open>A task that runs alone.\<close>

fun run_task :: "ext \<Rightarrow> task \<Rightarrow> nat \<Rightarrow> dispatch_pc \<times> world \<Rightarrow> dispatch_pc \<times> world" where
  "run_task E t 0 s = s"
| "run_task E t (Suc n) (pc, w) = run_task E t n (atom E t pc w)"

section \<open>A task alone is the use case\<close>

lemma run_task_Finished [simp]: "run_task E t n (Finished r, w) = (Finished r, w)"
  by (induction n) simp_all

lemma then_pc_map_err:
  "then_pc m next w =
    (case map_err Storage m w of
       (Inl e, w') \<Rightarrow> (Finished (Inl e), w')
     | (Inr x, w') \<Rightarrow> (next x, w'))"
  by (cases "m w") (simp add: then_pc_def map_err_def split: sum.split)

definition finish ::
  "('a \<Rightarrow> world \<Rightarrow> dispatch_pc \<times> world) \<Rightarrow> (dispatch_error + 'a) \<times> world \<Rightarrow> dispatch_pc \<times> world" where
  "finish k r = (case r of (Inl e, w') \<Rightarrow> (Finished (Inl e), w') | (Inr x, w') \<Rightarrow> k x w')"

lemma finish_simps [simp]:
  "finish k (Inl e, w) = (Finished (Inl e), w)" "finish k (Inr x, w) = k x w"
  by (simp_all add: finish_def)

lemma finish_try_op: "finish k (try_op m f w) = finish (\<lambda>x w'. finish k (f x w')) (m w)"
  by (cases "m w") (simp add: finish_def try_op_def split: sum.split)

lemma run_task_then:
  "run_task E t n (then_pc m next w) = finish (\<lambda>x w'. run_task E t n (next x, w')) (map_err Storage m w)"
  by (cases "m w") (simp add: then_pc_map_err finish_def map_err_def split: sum.split)

lemma run_task_Suc: "run_task E t (Suc n) (pc, w) = run_task E t n (atom E t pc w)"
  by simp

lemma finish_cong: "(\<And>x w'. k x w' = k' x w') \<Longrightarrow> finish k r = finish k' r"
  by (simp add: finish_def split: prod.split sum.split)

lemma run_record_accepted:
  "run_task E t (4 + n) (MarkAccepted d, w) =
    finish (\<lambda>_ w'. (Finished (Inr (accepted_outcome (t_args t) d)), w'))
      (record_accepted (t_later t) (attempt_id_of (da_mandate_id_hex (t_args t)))
        (da_mandate_id_hex (t_args t)) d (da_executor_identity (t_args t))
        (da_expected_mandate_version (t_args t) + 1) w)"
  unfolding record_accepted_def finish_try_op
  by (simp add: numeral_eq_Suc run_task_then)
     (auto intro!: finish_cong simp: run_task_then split: cas_outcome.split)

lemma run_record_ambiguous:
  "run_task E t (3 + n) (MarkAmbiguous, w) =
    finish (\<lambda>_ w'. (Finished (Inr (failed_outcome (t_args t))), w'))
      (record_ambiguous (t_later t) (attempt_id_of (da_mandate_id_hex (t_args t)))
        (da_mandate_id_hex (t_args t)) (da_executor_identity (t_args t))
        (da_expected_mandate_version (t_args t) + 1) w)"
  unfolding record_ambiguous_def finish_try_op
  by (simp add: numeral_eq_Suc run_task_then)
     (auto intro!: finish_cong simp: run_task_then split: cas_outcome.split)

lemma run_call_provider:
  "run_task E t (5 + n) (CallProvider, w) =
    finish (\<lambda>answer w'. case answer of
        Some d \<Rightarrow> finish (\<lambda>_ w'. (Finished (Inr (accepted_outcome (t_args t) d)), w'))
          (record_accepted (t_later t) (attempt_id_of (da_mandate_id_hex (t_args t)))
            (da_mandate_id_hex (t_args t)) d (da_executor_identity (t_args t))
            (da_expected_mandate_version (t_args t) + 1) w')
      | None \<Rightarrow> finish (\<lambda>_ w'. (Finished (Inr (failed_outcome (t_args t))), w'))
          (record_ambiguous (t_later t) (attempt_id_of (da_mandate_id_hex (t_args t)))
            (da_mandate_id_hex (t_args t)) (da_executor_identity (t_args t))
            (da_expected_mandate_version (t_args t) + 1) w'))
      (call_provider E (t_args t) (t_fn t) w)"
proof -
  have five: "5 + n = Suc (4 + n)" and four: "4 + n = 3 + Suc n" by simp_all
  have "run_task E t (5 + n) (CallProvider, w) =
      run_task E t (4 + n) (case t_fn t (da_correlation_key (t_args t)) (pc_attempt_digest (call_of E (t_args t))) of
        None \<Rightarrow> MarkAmbiguous | Some d \<Rightarrow> MarkAccepted d, add_call (call_of E (t_args t)) w)"
    unfolding five run_task_Suc atom.simps run_task_then
    by (simp only: call_provider_run map_err_Inr finish_simps)
  then show ?thesis
    unfolding call_provider_run finish_simps
    using run_record_accepted [of E t n] run_record_ambiguous [of E t "Suc n"]
    by (simp only: four split: option.split) simp
qed

lemma run_record_reservation:
  "run_task E t (3 + n) (InsertAttempt, w) =
    finish (\<lambda>_ w'. run_task E t n (CallProvider, w')) (record_reservation (t_now t) (t_args t) w)"
  unfolding record_reservation_def finish_try_op
  by (simp add: numeral_eq_Suc run_task_then)

lemma run_report_conflict:
  "run_task E t (2 + n) (LookUpConflict c, w) =
    finish (\<lambda>out w'. (Finished (Inr out), w')) (report_conflict (t_now t) (t_args t) c w)"
  by (simp add: report_conflict_def numeral_eq_Suc run_task_then finish_try_op Let_def
      split: option.split)

lemma report_conflict_not_dispatched:
  "fst (report_conflict now a c w) \<noteq> Inr (Dispatched d)"
  by (simp add: report_conflict_def Let_def split: option.split)

abbreviation finished :: "dispatch_outcome \<Rightarrow> world \<Rightarrow> dispatch_pc \<times> world" where
  "finished out w \<equiv> (Finished (Inr out), w)"

lemma finish_cong_run:
  "(\<And>x w'. r = (Inr x, w') \<Longrightarrow> k x w' = k' x w') \<Longrightarrow> finish k r = finish k' r"
  by (simp add: finish_def split: prod.split sum.split)

lemma finish_complete:
  "finish k (complete_dispatch now att m True (Some d) ex v w) =
    finish (\<lambda>_ w'. k () w') (record_accepted now att m d ex v w)"
  "finish k (complete_dispatch now att m False None ex v w) =
    finish (\<lambda>_ w'. k () w') (record_ambiguous now att m ex v w)"
  by (simp_all add: complete_dispatch_def finish_try_op)

lemma record_reservation_result:
  "record_reservation now a w = (Inr out, w') \<Longrightarrow> out = Dispatched (reserved_result a)"
  by (auto simp: record_reservation_def elim!: try_op_InrE)

text \<open>The continuation of \<open>reserve_and_dispatch\<close> after the reservation, on each of its results.\<close>

lemma run_dispatched:
  "run_task E t 5 (CallProvider, w) =
    finish finished (try_op (call_provider E (t_args t) (t_fn t)) (\<lambda>answer.
      case answer of
        Some d \<Rightarrow> try_op (complete_dispatch (t_later t) (attempt_id_of (da_mandate_id_hex (t_args t)))
            (da_mandate_id_hex (t_args t)) True (Some d) (da_executor_identity (t_args t))
            (da_expected_mandate_version (t_args t) + 1)) (\<lambda>_. ok (accepted_outcome (t_args t) d))
      | None \<Rightarrow> try_op (complete_dispatch (t_later t) (attempt_id_of (da_mandate_id_hex (t_args t)))
            (da_mandate_id_hex (t_args t)) False None (da_executor_identity (t_args t))
            (da_expected_mandate_version (t_args t) + 1)) (\<lambda>_. ok (failed_outcome (t_args t)))) w)"
proof -
  have five: "5 = 5 + (0 :: nat)" by simp
  show ?thesis
    by (subst five, unfold run_call_provider)
      (simp add: finish_try_op call_provider_run finish_complete split: option.split)
qed

definition after_reserve :: "ext \<Rightarrow> task \<Rightarrow> dispatch_outcome \<Rightarrow> dispatch_outcome dispatch_op" where
  "after_reserve E t reserved =
     (case reserved of
        Dispatched d \<Rightarrow>
          try_op (call_provider E (t_args t) (t_fn t)) (\<lambda>deployment_id.
            case deployment_id of
              Some deploy_id \<Rightarrow>
                try_op (complete_dispatch (t_later t) (di_attempt_id_hex d) (da_mandate_id_hex (t_args t))
                  True (Some deploy_id) (da_executor_identity (t_args t))
                  (da_expected_mandate_version (t_args t) + 1)) (\<lambda>_.
                ok (Dispatched (d\<lparr>di_provider_accepted := True,
                                di_github_deployment_id := Some deploy_id\<rparr>)))
            | None \<Rightarrow>
                try_op (complete_dispatch (t_later t) (di_attempt_id_hex d) (da_mandate_id_hex (t_args t))
                  False None (da_executor_identity (t_args t))
                  (da_expected_mandate_version (t_args t) + 1)) (\<lambda>_.
                ok (DispatchFailed (da_mandate_id_hex (t_args t)) (di_attempt_id_hex d)
                  ''provider rejected or timeout'')))
      | _ \<Rightarrow> ok reserved)"

lemma reserve_and_dispatch_after:
  "reserve_and_dispatch E (t_now t) (t_later t) (t_args t) (t_fn t) =
    try_op (reserve (t_now t) (t_args t)) (after_reserve E t)"
  unfolding reserve_and_dispatch_def after_reserve_def [abs_def] Let_def by (rule refl)

lemma finish_after_reserve:
  "finish finished (after_reserve E t (Dispatched (reserved_result (t_args t))) w) =
    run_task E t 5 (CallProvider, w)"
  "(\<And>d. out \<noteq> Dispatched d) \<Longrightarrow> finish finished (after_reserve E t out w) = finished out w"
  unfolding run_dispatched after_reserve_def accepted_outcome_def failed_outcome_def
  by (simp_all split: dispatch_outcome.split)

lemma run_reserved:
  "run_task E t 8 (InsertAttempt, w) =
    finish (\<lambda>out w'. finish finished (after_reserve E t out w')) (record_reservation (t_now t) (t_args t) w)"
  using run_record_reservation [of E t 5 w]
  by (auto intro!: finish_cong_run dest: record_reservation_result simp: finish_after_reserve)

lemma run_conflict:
  "run_task E t 8 (LookUpConflict c, w) =
    finish (\<lambda>out w'. finish finished (after_reserve E t out w')) (report_conflict (t_now t) (t_args t) c w)"
proof -
  have "finish (\<lambda>out w'. finish finished (after_reserve E t out w')) (report_conflict (t_now t) (t_args t) c w)
      = finish finished (report_conflict (t_now t) (t_args t) c w)"
    using report_conflict_not_dispatched [of "t_now t" "t_args t" c w]
    by (intro finish_cong_run) (auto simp: finish_after_reserve)
  then show ?thesis using run_report_conflict [of E t 6 c w] by simp
qed

lemma run_swap:
  "run_task E t 9 (SwapReserved, w) =
    finish (\<lambda>out w'. finish finished (after_reserve E t out w'))
      (try_op (map_err Storage (at_mandates (mandate_cas (da_mandate_id_hex (t_args t))
         (da_expected_mandate_version (t_args t)) ''reserved''))) (\<lambda>cas.
       case cas of
         Applied _ \<Rightarrow> record_reservation (t_now t) (t_args t)
       | Conflict current \<Rightarrow> report_conflict (t_now t) (t_args t) current
       | Missing \<Rightarrow> fail (MandateNotFound (da_mandate_id_hex (t_args t)))) w)"
proof -
  have nine: "9 = Suc 8" by simp
  show ?thesis
    unfolding nine run_task_Suc atom.simps run_task_then finish_try_op
    by (rule finish_cong) (simp add: run_reserved run_conflict split: cas_outcome.split)
qed

lemma run_check:
  "run_task E t 10 (CheckRequest, w) =
    finish finished (reserve_and_dispatch E (t_now t) (t_later t) (t_args t) (t_fn t) w)"
proof -
  have ten: "10 = Suc 9" by simp
  obtain r w' where check: "check_request (t_args t) w = (r, w')"
    by (cases "check_request (t_args t) w")
  show ?thesis
    unfolding ten run_task_Suc atom.simps reserve_and_dispatch_after reserve_def finish_try_op check
    by (cases r) (simp_all add: run_swap finish_try_op)
qed

section \<open>Interleavings\<close>

type_synonym pool = "nat \<Rightarrow> task"

text \<open>
  Other code of the program: it may do anything to the world but remove an attempt or call the
  provider. No operation of the attempt store removes a row, and only this use case has the
  provider closure.
\<close>

definition environment :: "world \<Rightarrow> world \<Rightarrow> bool" where
  "environment w w' \<longleftrightarrow>
     w_provider w' = w_provider w
     \<and> (\<forall>k. row_map (w_attempts w) k \<noteq> None \<longrightarrow> row_map (w_attempts w') k \<noteq> None)"

fun finished_pc :: "dispatch_pc \<Rightarrow> bool" where
  "finished_pc (Finished r) = True"
| "finished_pc _ = False"

inductive pool_step :: "ext \<Rightarrow> pool \<times> world \<Rightarrow> pool \<times> world \<Rightarrow> bool" for E where
  task: "\<not> finished_pc (t_pc (T i)) \<Longrightarrow> atom E (T i) (t_pc (T i)) w = (pc', w') \<Longrightarrow>
    pool_step E (T, w) (T(i := (T i)\<lparr>t_pc := pc'\<rparr>), w')"
| other: "environment w w' \<Longrightarrow> pool_step E (T, w) (T, w')"

inductive pool_reachable :: "ext \<Rightarrow> pool \<times> world \<Rightarrow> bool" for E where
  start: "(\<And>i. t_pc (T i) = CheckRequest) \<Longrightarrow> w_provider w = [] \<Longrightarrow> pool_reachable E (T, w)"
| step: "pool_reachable E s \<Longrightarrow> pool_step E s s' \<Longrightarrow> pool_reachable E s'"

inductive_cases pool_stepE: "pool_step E (T, w) s'"

text \<open>The tasks between their attempt insert and their provider call.\<close>

fun holds_attempt :: "dispatch_pc \<Rightarrow> bool" where
  "holds_attempt MarkDispatching = True"
| "holds_attempt AuditReserve = True"
| "holds_attempt CallProvider = True"
| "holds_attempt _ = False"

definition mandate_of :: "task \<Rightarrow> string" where
  "mandate_of t = da_mandate_id_hex (t_args t)"

definition has_attempt :: "world \<Rightarrow> string \<Rightarrow> bool" where
  "has_attempt w m \<longleftrightarrow> row_map (w_attempts w) (attempt_id_of m) \<noteq> None"

definition called :: "world \<Rightarrow> string list" where
  "called w = map pc_mandate (w_provider w)"

lemma mandate_of_pc [simp]: "mandate_of (t\<lparr>t_pc := pc\<rparr>) = mandate_of t"
  by (simp add: mandate_of_def)

text \<open>The invariant of the pool.\<close>

definition pool_inv :: "pool \<Rightarrow> world \<Rightarrow> bool" where
  "pool_inv T w \<longleftrightarrow>
     distinct (called w)
     \<and> (\<forall>m \<in> set (called w). has_attempt w m)
     \<and> (\<forall>i. holds_attempt (t_pc (T i)) \<longrightarrow>
            has_attempt w (mandate_of (T i)) \<and> mandate_of (T i) \<notin> set (called w))
     \<and> (\<forall>i j. holds_attempt (t_pc (T i)) \<and> holds_attempt (t_pc (T j))
              \<and> mandate_of (T i) = mandate_of (T j) \<longrightarrow> i = j)"

text \<open>What a single step of a task does to attempts and calls.\<close>

lemma attempts_updates_keep:
  "row_map s k = Some y \<Longrightarrow> row_map (snd (attempt_insert x s)) k = Some y"
  "row_map (snd (attempt_update_state a st s)) k = None \<longleftrightarrow> row_map s k = None"
  "row_map (snd (attempt_update_deployment_id a d s)) k = None \<longleftrightarrow> row_map s k = None"
  by (auto simp: attempt_insert_def insert_row_def attempt_update_state_def
      attempt_update_deployment_id_def split: option.splits)

lemma then_pc_snd [simp]: "snd (then_pc m next w) = snd (m w)"
  by (simp add: then_pc_def split: prod.split sum.split)

lemma check_request_snd [simp]: "snd (check_request a w) = w"
  by (simp add: check_request_run split: option.split)

lemma call_provider_snd [simp]: "snd (call_provider E a f w) = add_call (call_of E a) w"
  by (simp add: call_provider_run)

lemma atom_attempts_keep:
  assumes "row_map (w_attempts w) k \<noteq> None"
  shows "row_map (w_attempts (snd (atom E t pc w))) k \<noteq> None"
proof -
  obtain y where y: "row_map (w_attempts w) k = Some y" using assms by blast
  show ?thesis
    by (cases pc)
      (simp_all add: y attempts_updates_keep dispatch_frame case_prod_unfold Let_def split: sum.split)
qed

text \<open>Only the step at \<open>CallProvider\<close> calls, and it leaves the attempt-holding counters.\<close>

lemma atom_called:
  "called (snd (atom E t pc w)) = called w @ (if pc = CallProvider then [mandate_of t] else [])"
  by (cases pc)
    (simp_all add: called_def dispatch_frame case_prod_unfold Let_def call_of_def mandate_of_def
      split: sum.split)

lemma then_pc_fst:
  "fst (then_pc m next w) = (case fst (m w) of Inl e \<Rightarrow> Finished (Inl (Storage e)) | Inr x \<Rightarrow> next x)"
  by (simp add: then_pc_def split: prod.split sum.split)

lemma attempt_insert_ok:
  "fst (attempt_insert x s) = Inr u \<longleftrightarrow>
    ea_attempt_id_hex x \<noteq> [] \<and> row_map s (ea_attempt_id_hex x) = None"
  using attempts.ins_ok_iff [of x s u] by (simp add: attempt_get_def row_get_def)

text \<open>A task gets to hold an attempt only by inserting the row, and only if there was none.\<close>

lemma atom_holds:
  assumes "holds_attempt (fst (atom E t pc w))"
  shows "(holds_attempt pc \<and> pc \<noteq> CallProvider)
    \<or> (pc = InsertAttempt \<and> \<not> has_attempt w (mandate_of t)
       \<and> has_attempt (snd (atom E t pc w)) (mandate_of t))"
proof (cases "pc = InsertAttempt")
  case True
  let ?x = "new_attempt (t_now t) (t_args t)"
  have "fst (attempt_insert ?x (w_attempts w)) = Inr ()"
    using assms True by (simp add: then_pc_fst split: sum.splits)
  then have none: "row_map (w_attempts w) (attempt_id_of (mandate_of t)) = None"
    by (simp add: attempt_insert_ok mandate_of_def)
  then have "row_map (snd (attempt_insert ?x (w_attempts w))) (attempt_id_of (mandate_of t)) = Some ?x"
    by (simp add: attempt_insert_def insert_row_def mandate_of_def)
  with True none show ?thesis by (simp add: has_attempt_def)
next
  case False
  then show ?thesis
    using assms
    by (cases pc) (auto simp: then_pc_fst Let_def call_provider_run split: sum.splits prod.splits
        cas_outcome.splits option.splits if_splits)
qed

section \<open>The invariant is inductive\<close>

lemma pool_inv_task:
  assumes inv: "pool_inv T w" and run: "atom E (T i) (t_pc (T i)) w = (pc', w')"
  shows "pool_inv (T(i := (T i)\<lparr>t_pc := pc'\<rparr>)) w'"
proof -
  let ?T = "T(i := (T i)\<lparr>t_pc := pc'\<rparr>)"
  let ?call = "t_pc (T i) = CallProvider"
  have keep: "has_attempt w' m" if "has_attempt w m" for m
    using atom_attempts_keep [of w "attempt_id_of m" E "T i" "t_pc (T i)"] that run
    by (simp add: has_attempt_def)
  have calls: "called w' = called w @ (if ?call then [mandate_of (T i)] else [])"
    using atom_called [of E "T i" "t_pc (T i)" w] run by simp
  have holds: "(holds_attempt (t_pc (T i)) \<and> \<not> ?call)
      \<or> (t_pc (T i) = InsertAttempt \<and> \<not> has_attempt w (mandate_of (T i)) \<and> has_attempt w' (mandate_of (T i)))"
    if "holds_attempt pc'"
    using atom_holds [of E "T i" "t_pc (T i)" w] run that by simp
  note I = inv [unfolded pool_inv_def]
  have caller: "has_attempt w (mandate_of (T i)) \<and> mandate_of (T i) \<notin> set (called w)
      \<and> (\<forall>j. holds_attempt (t_pc (T j)) \<and> mandate_of (T j) = mandate_of (T i) \<longrightarrow> j = i)" if ?call
    using I that by (metis holds_attempt.simps(3))
  have other: "mandate_of (T j) \<noteq> mandate_of (T i)" if "holds_attempt (t_pc (T j))" "j \<noteq> i" "holds_attempt pc'" for j
    using holds [OF that(3)] I that by metis
  have self: "has_attempt w' (mandate_of (T i)) \<and> mandate_of (T i) \<notin> set (called w')" if "holds_attempt pc'"
    using holds [OF that] I keep calls by auto
  show ?thesis
    unfolding pool_inv_def
  proof (intro conjI ballI allI impI, goal_cases)
    case 1
    then show ?case using I caller calls by auto
  next
    case (2 m)
    then show ?case using I caller calls keep by (auto split: if_splits)
  next
    case (3 j)
    then show ?case using I keep self by (cases "j = i") auto
  next
    case (4 j)
    show ?case
    proof (cases "j = i")
      case True
      with 4 self show ?thesis by simp
    next
      case False
      with 4 I caller calls show ?thesis by (auto split: if_splits)
    qed
  next
    case (5 j k)
    then show ?case using I other [of j] other [of k]
      by (cases "j = i"; cases "k = i") auto
  qed
qed

lemma pool_inv_environment:
  assumes "pool_inv T w" and "environment w w'"
  shows "pool_inv T w'"
proof -
  have calls: "called w' = called w" using assms(2) by (simp add: environment_def called_def)
  have keep: "has_attempt w m \<Longrightarrow> has_attempt w' m" for m
    using assms(2) by (simp add: environment_def has_attempt_def)
  show ?thesis
    using assms(1) keep unfolding pool_inv_def calls by blast
qed

lemma pool_inv_reachable: "pool_reachable E (T, w) \<Longrightarrow> pool_inv T w"
proof (induction "(T, w)" arbitrary: T w rule: pool_reachable.induct)
  case (start T w)
  then show ?case by (simp add: pool_inv_def called_def)
next
  case (step s T' w')
  obtain T w where s: "s = (T, w)" by (cases s)
  with step have inv: "pool_inv T w" by blast
  from step(3) [unfolded s] show ?case
    by (rule pool_stepE) (use inv pool_inv_task pool_inv_environment in auto)
qed

text \<open>The number of steps a task has left at most.\<close>

fun steps_left :: "dispatch_pc \<Rightarrow> nat" where
  "steps_left CheckRequest = 10"
| "steps_left SwapReserved = 9"
| "steps_left (LookUpConflict c) = 2"
| "steps_left (AuditReplay st) = 1"
| "steps_left InsertAttempt = 8"
| "steps_left MarkDispatching = 7"
| "steps_left AuditReserve = 6"
| "steps_left CallProvider = 5"
| "steps_left (MarkAccepted d) = 4"
| "steps_left (RecordDeployment d) = 3"
| "steps_left (SwapConsumed d) = 2"
| "steps_left (AuditConsume d) = 1"
| "steps_left MarkAmbiguous = 3"
| "steps_left SwapQuarantined = 2"
| "steps_left AuditQuarantine = 1"
| "steps_left (Finished r) = 0"

lemma atom_steps_left:
  "\<not> finished_pc pc \<Longrightarrow> steps_left (fst (atom E t pc w)) < steps_left pc"
  by (cases pc) (auto simp: then_pc_fst Let_def call_provider_run split: sum.splits prod.splits
        cas_outcome.splits option.splits)

section \<open>Properties\<close>

text \<open>
  C1. At most one provider call per mandate, under every interleaving: however many
  dispatch tasks run concurrently, with whatever arguments and expected versions, and whatever
  else the program does in between short of deleting attempts, no two provider calls are ever
  made for the same mandate, and every call was journaled as an execution attempt first.
\<close>

theorem one_provider_call_per_mandate:
  assumes "pool_reachable E (T, w)"
  shows "distinct (map pc_mandate (w_provider w))
    \<and> (\<forall>c \<in> set (w_provider w). attempt_get (w_attempts w) (''att-'' @ pc_mandate c) \<noteq> None)"
proof -
  have "has_attempt w m \<longleftrightarrow> attempt_get (w_attempts w) (''att-'' @ m) \<noteq> None" for m
    unfolding has_attempt_def attempt_id_of_def attempt_get_def row_get_def by (rule refl)
  with pool_inv_reachable [OF assms] show ?thesis
    by (simp add: pool_inv_def called_def)
qed

definition example_task :: task where
  "example_task = \<lparr>t_args = example_args, t_fn = (\<lambda>k g. Some 7), t_now = 200, t_later = 201,
                   t_pc = CheckRequest\<rparr>"

theorem one_provider_call_per_mandate_witness:
  "\<exists>T w. pool_reachable ext_ref (T, w) \<and> distinct (map pc_mandate (w_provider w))
    \<and> t_pc (T 0) = SwapReserved"
proof -
  let ?T = "\<lambda>i :: nat. example_task"
  let ?T' = "?T(0 := example_task\<lparr>t_pc := SwapReserved\<rparr>)"
  have start: "pool_reachable ext_ref (?T, example_ready)"
    by (rule pool_reachable.start) (simp_all add: example_task_def example_ready_def world_new_def)
  have "atom ext_ref example_task (t_pc example_task) example_ready = (SwapReserved, example_ready)"
    using check_request_approved [OF example_ready_facts(1)] by (simp add: example_task_def)
  then have "pool_step ext_ref (?T, example_ready) (?T', example_ready)"
    using pool_step.task [of ?T 0] by (simp add: example_task_def)
  with start have "pool_reachable ext_ref (?T', example_ready)" by (rule pool_reachable.step)
  with one_provider_call_per_mandate [OF this] show ?thesis by fastforce
qed

text \<open>
  C8. The step semantics is the program: a task that runs alone from its start, in any world, is
  finished after ten steps with exactly the result and the world of \<open>reserve_and_dispatch\<close>. And no
  task can be kept from finishing: each of its steps, in any world, uses up one of the steps it
  has left.
\<close>

theorem small_step_refines_use_case:
  "run_task E t 10 (CheckRequest, w) =
     (case reserve_and_dispatch E (t_now t) (t_later t) (t_args t) (t_fn t) w of
        (r, w') \<Rightarrow> (Finished r, w'))
   \<and> (finished_pc pc \<or> steps_left (fst (atom E t' pc w')) < steps_left pc)"
  using run_check [of E t w] atom_steps_left [of pc E t' w']
  by (auto simp: finish_def split: prod.split sum.split)

end
