(* ===== verification/Reconciliation.thy ===== *)
theory Reconciliation
  imports Dispatch
begin

text \<open>
  Reconciliation of quarantined mandates: \<^verbatim>\<open>crates/piteka-application/src/reconciliation.rs\<close> and
  the worker entry point \<^verbatim>\<open>apps/piteka-worker/src/lib.rs\<close>. The provider query is a port without an
  in-memory implementation: it is a function from the attempt to its answer, an argument.
\<close>

section \<open>Results and errors\<close>

datatype reconciliation_error =
    Storage storage_error
  | MandateNotFound string
  | NotQuarantined string
  | AlreadyTerminal string
  | CasConflict i64
  | ProviderUnavailable string
  | UnauthorizedExecutor string

datatype reconciliation_outcome =
    ReconciledAccepted string string i64
  | AbandonedAmbiguous string string i64
  | Unresolved string string

type_synonym 'a reconciliation_op = "(world, reconciliation_error, 'a) op"

text \<open>\<open>DeploymentStatusProvider\<close>: the id of the correlated deployment, if one is known.\<close>

type_synonym deployment_provider = "execution_attempt \<Rightarrow> storage_error + u64 option"

definition is_terminal_state :: "string \<Rightarrow> bool" where
  "is_terminal_state state =
     (state \<in> set [''consumed'', ''expired'', ''revoked'', ''abandoned'', ''released''])"

section \<open>Reconciling\<close>

definition find_ambiguous :: "string \<Rightarrow> execution_attempt reconciliation_op" where
  "find_ambiguous mandate =
     try_op (reading (\<lambda>w. attempts_by_mandate (w_attempts w) mandate)) (\<lambda>attempts.
       case find (\<lambda>x. ea_state x = OutcomeAmbiguous) attempts of
         None \<Rightarrow> fail (NotQuarantined ''no ambiguous attempt found'')
       | Some x \<Rightarrow> ok x)"

definition accept_reconciled ::
  "u64 \<Rightarrow> string \<Rightarrow> string \<Rightarrow> i64 \<Rightarrow> execution_attempt \<Rightarrow> u64 \<Rightarrow> reconciliation_outcome reconciliation_op" where
  "accept_reconciled now mandate executor expected attempt deployment =
     try_op (map_err Storage (at_mandates (mandate_cas mandate expected ''consumed''))) (\<lambda>cas.
       case cas of
         Applied new_version \<Rightarrow>
           try_op (if ea_github_deployment_id attempt \<noteq> Some deployment
                   then map_err Storage (at_attempts
                     (attempt_update_deployment_id (ea_attempt_id_hex attempt) deployment))
                   else ok ()) (\<lambda>_.
           try_op (map_err Storage (at_attempts
             (attempt_update_state (ea_attempt_id_hex attempt) execution_attempt_state.ReconciledAccepted))) (\<lambda>_.
           try_op (map_err Storage (at_audit (audit_append
             \<lparr>ae_occurred_at = now, ae_actor = Some executor,
              ae_action = ''reconciliation.accepted'', ae_decision = ''granted'',
              ae_detail = ''mandate '' @ mandate @ '' reconciled as accepted, attempt ''
                @ ea_attempt_id_hex attempt @ '', deployment_id='' @ dec_u64 deployment\<rparr>))) (\<lambda>_.
           ok (ReconciledAccepted mandate (ea_attempt_id_hex attempt) new_version))))
       | Conflict current \<Rightarrow> fail (CasConflict current)
       | Missing \<Rightarrow> fail (MandateNotFound mandate))"

definition reconcile ::
  "ext \<Rightarrow> deployment_provider \<Rightarrow> u64 \<Rightarrow> string \<Rightarrow> string \<Rightarrow> i64 \<Rightarrow> reconciliation_outcome reconciliation_op" where
  "reconcile E provider now mandate executor expected =
     (if blank executor then fail (UnauthorizedExecutor executor)
      else try_op (reading (\<lambda>w. mandate_get (w_mandates w) mandate)) (\<lambda>found.
        case found of
          None \<Rightarrow> fail (MandateNotFound mandate)
        | Some p \<Rightarrow>
            if mp_state p \<noteq> ''quarantined'' then
              (if is_terminal_state (mp_state p) then fail (AlreadyTerminal (mp_state p))
               else fail (NotQuarantined (mp_state p)))
            else try_op (find_ambiguous mandate) (\<lambda>attempt.
              case provider attempt of
                Inr (Some deployment) \<Rightarrow>
                  accept_reconciled now mandate executor expected attempt deployment
              | Inr None \<Rightarrow>
                  ok (Unresolved mandate
                    ''provider data did not establish correlated acceptance; absence does not prove non-occurrence'')
              | Inl e \<Rightarrow>
                  ok (Unresolved mandate (''provider unavailable: '' @ storage_error_display E e)))))"

section \<open>Abandoning\<close>

definition abandoned_receipt :: "u64 \<Rightarrow> string \<Rightarrow> execution_attempt \<Rightarrow> receipt_projection" where
  "abandoned_receipt now mandate attempt =
     \<lparr>rp_receipt_id_hex = ''rcpt-abandoned-'' @ ea_attempt_id_hex attempt,
      rp_mandate_id_hex = mandate, rp_intent_id_hex = ea_intent_id_hex attempt,
      rp_attempt_id_hex = ea_attempt_id_hex attempt, rp_outcome = Unknown, rp_created_at = now,
      rp_dispatch_evidence_refs = [], rp_target_evidence_refs = [],
      rp_evidence_gaps = [''target_outcome''], rp_canonical_bytes = None\<rparr>"

definition close_abandoned ::
  "u64 \<Rightarrow> string \<Rightarrow> string \<Rightarrow> i64 \<Rightarrow> string \<Rightarrow> execution_attempt \<Rightarrow> reconciliation_outcome reconciliation_op" where
  "close_abandoned now mandate executor expected reason attempt =
     try_op (map_err Storage (at_mandates (mandate_cas mandate expected ''abandoned''))) (\<lambda>cas.
       case cas of
         Applied new_version \<Rightarrow>
           try_op (map_err Storage (at_attempts
             (attempt_update_state (ea_attempt_id_hex attempt) execution_attempt_state.AbandonedAmbiguous))) (\<lambda>_.
           try_op (map_err Storage (at_receipts (receipt_insert (abandoned_receipt now mandate attempt)))) (\<lambda>_.
           try_op (map_err Storage (at_audit (audit_append
             \<lparr>ae_occurred_at = now, ae_actor = Some executor,
              ae_action = ''reconciliation.abandoned'', ae_decision = ''abandoned'',
              ae_detail = ''mandate '' @ mandate @ '' abandoned (ambiguous), attempt ''
                @ ea_attempt_id_hex attempt @ '', reason='' @ reason\<rparr>))) (\<lambda>_.
           ok (AbandonedAmbiguous mandate (ea_attempt_id_hex attempt) new_version))))
       | Conflict current \<Rightarrow> fail (CasConflict current)
       | Missing \<Rightarrow> fail (MandateNotFound mandate))"

definition abandon_unresolved ::
  "u64 \<Rightarrow> string \<Rightarrow> string \<Rightarrow> i64 \<Rightarrow> string \<Rightarrow> reconciliation_outcome reconciliation_op" where
  "abandon_unresolved now mandate executor expected reason =
     (if blank executor then fail (UnauthorizedExecutor executor)
      else if blank reason
      then fail (ProviderUnavailable ''an explicit abandonment reason is required'')
      else try_op (reading (\<lambda>w. mandate_get (w_mandates w) mandate)) (\<lambda>found.
        case found of
          None \<Rightarrow> fail (MandateNotFound mandate)
        | Some p \<Rightarrow>
            if mp_state p \<noteq> ''quarantined'' then fail (NotQuarantined (mp_state p))
            else try_op (find_ambiguous mandate)
              (close_abandoned now mandate executor expected reason)))"

section \<open>The worker\<close>

datatype reconciliation_job =
    Reconcile string string i64
  | Abandon string string i64 string

fun run_job ::
  "ext \<Rightarrow> deployment_provider \<Rightarrow> u64 \<Rightarrow> reconciliation_job \<Rightarrow> reconciliation_outcome reconciliation_op" where
  "run_job E provider now (Reconcile mandate operator expected) =
     reconcile E provider now mandate operator expected"
| "run_job E provider now (Abandon mandate operator expected reason) =
     abandon_unresolved now mandate operator expected reason"

section \<open>Evaluation\<close>

lemma find_ambiguous_run:
  "find_ambiguous m w =
    (case find (\<lambda>x. ea_state x = OutcomeAmbiguous) (attempts_by_mandate (w_attempts w) m) of
       None \<Rightarrow> (Inl (NotQuarantined ''no ambiguous attempt found''), w) | Some x \<Rightarrow> (Inr x, w))"
  by (simp add: find_ambiguous_def split: option.split)

text \<open>An attempt found through the index is the stored row under its own id.\<close>

lemma find_ambiguous_row:
  assumes "attempts_ok (w_attempts w)"
    and "find (\<lambda>x. ea_state x = OutcomeAmbiguous) (attempts_by_mandate (w_attempts w) m) = Some x"
  shows "row_map (w_attempts w) (ea_attempt_id_hex x) = Some x"
    and "ea_state x = OutcomeAmbiguous" and "ea_mandate_id_hex x = m"
proof -
  have "x \<in> set (attempts_by_mandate (w_attempts w) m)" and "ea_state x = OutcomeAmbiguous"
    using assms(2) by (auto simp: find_Some_iff)
  then show "row_map (w_attempts w) (ea_attempt_id_hex x) = Some x"
    and "ea_state x = OutcomeAmbiguous" and "ea_mandate_id_hex x = m"
    using attempts.by_owner_iff [OF assms(1), of x m] by (simp_all add: attempt_get_def row_get_def)
qed

lemma accept_reconciled_run:
  assumes "row_map (w_attempts w) (ea_attempt_id_hex x) = Some x" and "w_mandates w m = Some p"
  shows "accept_reconciled now m ex e x d w =
    (if mp_version p = e
     then (Inr (ReconciledAccepted m (ea_attempt_id_hex x) (e + 1)),
       add_audit \<lparr>ae_occurred_at = now, ae_actor = Some ex,
           ae_action = ''reconciliation.accepted'', ae_decision = ''granted'',
           ae_detail = ''mandate '' @ m @ '' reconciled as accepted, attempt ''
             @ ea_attempt_id_hex x @ '', deployment_id='' @ dec_u64 d\<rparr>
         (set_attempt (x\<lparr>ea_github_deployment_id := Some d,
                         ea_state := execution_attempt_state.ReconciledAccepted\<rparr>)
           (set_mandate m (e + 1) ''consumed'' w)))
     else (Inl (CasConflict (mp_version p)), w))"
proof (cases "ea_github_deployment_id x = Some d")
  case True
  then have same: "x\<lparr>ea_github_deployment_id := Some d\<rparr> = x" by (cases x) simp
  from True show ?thesis
    using assms
    by (simp add: accept_reconciled_def mandate_cas_run attempt_update_state_run dispatch_frame same)
next
  case False
  with assms show ?thesis
    by (simp add: accept_reconciled_def mandate_cas_run attempt_update_state_run
        attempt_update_deployment_run dispatch_frame set_attempt_twice)
qed

lemma close_abandoned_run:
  assumes "row_map (w_attempts w) (ea_attempt_id_hex x) = Some x" and "w_mandates w m = Some p"
    and "receipt_get (w_receipts w) (''rcpt-abandoned-'' @ ea_attempt_id_hex x) = None"
  shows "close_abandoned now m ex e reason x w =
    (if mp_version p = e
     then (Inr (AbandonedAmbiguous m (ea_attempt_id_hex x) (e + 1)),
       add_audit \<lparr>ae_occurred_at = now, ae_actor = Some ex,
           ae_action = ''reconciliation.abandoned'', ae_decision = ''abandoned'',
           ae_detail = ''mandate '' @ m @ '' abandoned (ambiguous), attempt ''
             @ ea_attempt_id_hex x @ '', reason='' @ reason\<rparr>
         (set_attempt (x\<lparr>ea_state := execution_attempt_state.AbandonedAmbiguous\<rparr>)
           (set_mandate m (e + 1) ''abandoned''
             (w\<lparr>w_receipts := snd (receipt_insert (abandoned_receipt now m x) (w_receipts w))\<rparr>))))
     else (Inl (CasConflict (mp_version p)), w))"
proof -
  have ins: "fst (receipt_insert (abandoned_receipt now m x) (w_receipts w)) = Inr ()"
    using assms(3) receipts.ins_new [of "abandoned_receipt now m x" "w_receipts w"]
    by (simp add: abandoned_receipt_def)
  show ?thesis
    using assms(1,2) ins
    by (auto simp: close_abandoned_def mandate_cas_run attempt_update_state_run dispatch_frame
        on_eq [of w_receipts] map_err_eq try_op_eq)
      (simp add: set_attempt_def set_mandate_def add_audit_def)
qed

lemma accept_reconciled_mandates:
  "w_mandates (snd (accept_reconciled now m ex e x d w)) =
    w_mandates (snd (at_mandates (mandate_cas m e ''consumed'') w))"
  by (simp add: accept_reconciled_def run_simps split: sum.split cas_outcome.split)

lemma close_abandoned_mandates:
  "w_mandates (snd (close_abandoned now m ex e reason x w)) =
    w_mandates (snd (at_mandates (mandate_cas m e ''abandoned'') w))"
  by (simp add: close_abandoned_def run_simps split: sum.split cas_outcome.split)

lemma accept_reconciled_provider:
  "w_provider (snd (accept_reconciled now m ex e x d w)) = w_provider w"
  by (simp add: accept_reconciled_def run_simps split: sum.split cas_outcome.split)

lemma close_abandoned_provider:
  "w_provider (snd (close_abandoned now m ex e reason x w)) = w_provider w"
  by (simp add: close_abandoned_def run_simps split: sum.split cas_outcome.split)

text \<open>The only moves of a mandate reconciliation can make.\<close>

definition closes :: "mandate_store \<Rightarrow> mandate_store \<Rightarrow> string \<Rightarrow> bool" where
  "closes s s' m \<longleftrightarrow>
     s' m = s m
     \<or> (mandate_state s m = Some ''quarantined''
        \<and> (mandate_state s' m = Some ''consumed'' \<or> mandate_state s' m = Some ''abandoned'')
        \<and> mandate_version s' m = map_option (\<lambda>v. v + 1) (mandate_version s m))"

lemma closes_refl [simp]: "closes s s m"
  by (simp add: closes_def)

lemma cas_closes:
  assumes "mandate_state s m = Some ''quarantined''" and "st = ''consumed'' \<or> st = ''abandoned''"
  shows "closes s (snd (mandate_cas m e st s)) k"
proof -
  obtain p where p: "s m = Some p" "mp_state p = ''quarantined''"
    using assms(1) by (auto simp: mandate_state_def)
  show ?thesis
  proof (cases "mp_version p = e \<and> k = m")
    case True
    with p assms(2) show ?thesis
      by (auto simp: closes_def mandate_cas_def mandate_state_def mandate_version_def)
  next
    case False
    with p show ?thesis by (auto simp: closes_def mandate_cas_def)
  qed
qed

lemma quarantined_state:
  "w_mandates w m = Some p \<Longrightarrow> mp_state p = ''quarantined'' \<Longrightarrow>
    mandate_state (w_mandates w) m = Some ''quarantined''"
  by (simp add: mandate_state_def)

lemma reconcile_closes:
  "closes (w_mandates w) (w_mandates (snd (reconcile E prov now m ex e w))) k
    \<and> w_provider (snd (reconcile E prov now m ex e w)) = w_provider w"
  by (auto simp: reconcile_def try_op_eq find_ambiguous_run mandate_get_def
      accept_reconciled_mandates accept_reconciled_provider
      intro: cas_closes quarantined_state split: option.split sum.split)

lemma abandon_closes:
  "closes (w_mandates w) (w_mandates (snd (abandon_unresolved now m ex e reason w))) k
    \<and> w_provider (snd (abandon_unresolved now m ex e reason w)) = w_provider w"
  by (auto simp: abandon_unresolved_def try_op_eq find_ambiguous_run mandate_get_def
      close_abandoned_mandates close_abandoned_provider
      intro: cas_closes quarantined_state split: option.split sum.split)

text \<open>A worker that runs any number of jobs, each with its own clock reading and provider answer.\<close>

fun run_jobs :: "ext \<Rightarrow> (deployment_provider \<times> u64 \<times> reconciliation_job) list \<Rightarrow> world \<Rightarrow> world" where
  "run_jobs E [] w = w"
| "run_jobs E ((prov, now, job) # jobs) w = run_jobs E jobs (snd (run_job E prov now job w))"

lemma run_job_closes:
  "closes (w_mandates w) (w_mandates (snd (run_job E prov now job w))) k
    \<and> w_provider (snd (run_job E prov now job w)) = w_provider w"
  by (cases job) (simp_all add: reconcile_closes abandon_closes)

lemma closed_stays:
  "mandate_state (w_mandates w) k \<noteq> Some ''quarantined'' \<Longrightarrow>
    w_mandates (run_jobs E jobs w) k = w_mandates w k"
proof (induction jobs arbitrary: w)
  case Nil
  then show ?case by simp
next
  case (Cons j jobs)
  obtain prov now job where j: "j = (prov, now, job)" by (cases j)
  have "w_mandates (snd (run_job E prov now job w)) k = w_mandates w k"
    using run_job_closes [of w E prov now job k] Cons.prems by (auto simp: closes_def)
  with Cons j show ?case by (simp add: mandate_state_def)
qed

section \<open>Properties\<close>

text \<open>
  C22. Reconciliation never invents success. From a store whose attempt index is consistent,
  \<open>reconcile\<close> reports acceptance only for a quarantined mandate at the caller's version, with an
  ambiguous attempt of that mandate for which the provider returned a deployment; the mandate
  is then consumed and the attempt \<open>ReconciledAccepted\<close> with that deployment id, with one audit event. In
  every other case (provider silent or unavailable, wrong state, stale version) nothing at all
  changes.
\<close>

theorem reconcile_no_simulated_success:
  assumes "attempts_ok (w_attempts w)" and "reconcile E prov now m ex e w = (res, w')"
  shows "(\<exists>p x d. mandate_get (w_mandates w) m = Some p \<and> mp_state p = ''quarantined'' \<and> mp_version p = e
        \<and> attempt_get (w_attempts w) (ea_attempt_id_hex x) = Some x
        \<and> ea_mandate_id_hex x = m \<and> ea_state x = OutcomeAmbiguous \<and> prov x = Inr (Some d)
        \<and> res = Inr (ReconciledAccepted m (ea_attempt_id_hex x) (e + 1))
        \<and> mandate_get (w_mandates w') m = Some (p\<lparr>mp_version := e + 1, mp_state := ''consumed''\<rparr>)
        \<and> attempt_get (w_attempts w') (ea_attempt_id_hex x) =
            Some (x\<lparr>ea_github_deployment_id := Some d,
                    ea_state := execution_attempt_state.ReconciledAccepted\<rparr>)
        \<and> (\<exists>ev. w_audit w' = w_audit w @ [ev]))
    \<or> (w' = w \<and> (\<forall>k a v. res \<noteq> Inr (ReconciledAccepted k a v)))"
proof (cases "\<exists>p x d. \<not> blank ex \<and> w_mandates w m = Some p \<and> mp_state p = ''quarantined''
    \<and> find (\<lambda>x. ea_state x = OutcomeAmbiguous) (attempts_by_mandate (w_attempts w) m) = Some x
    \<and> prov x = Inr (Some d)")
  case False
  then have "w' = w \<and> (\<forall>k a v. res \<noteq> Inr (ReconciledAccepted k a v))"
    using assms(2)
    by (auto simp: reconcile_def try_op_eq find_ambiguous_run mandate_get_def
        split: option.splits sum.splits if_splits)
  then show ?thesis by blast
next
  case True
  then obtain p x d where g: "\<not> blank ex" and p: "w_mandates w m = Some p" "mp_state p = ''quarantined''"
    and x: "find (\<lambda>x. ea_state x = OutcomeAmbiguous) (attempts_by_mandate (w_attempts w) m) = Some x"
    and d: "prov x = Inr (Some d)" by blast
  note row = find_ambiguous_row [OF assms(1) x]
  have run: "reconcile E prov now m ex e w = accept_reconciled now m ex e x d w"
    using g p x d by (simp add: reconcile_def try_op_eq find_ambiguous_run mandate_get_def)
  show ?thesis
  proof (cases "mp_version p = e")
    case False
    then have "res = Inl (CasConflict (mp_version p)) \<and> w' = w"
      using run assms(2) by (simp add: accept_reconciled_run [OF row(1) p(1)])
    then show ?thesis by simp
  next
    case True
    let ?x = "x\<lparr>ea_github_deployment_id := Some d,
                ea_state := execution_attempt_state.ReconciledAccepted\<rparr>"
    have "res = Inr (ReconciledAccepted m (ea_attempt_id_hex x) (e + 1))"
      and m': "w_mandates w' m = Some (p\<lparr>mp_version := e + 1, mp_state := ''consumed''\<rparr>)"
      and x': "row_map (w_attempts w') (ea_attempt_id_hex x) = Some ?x"
      and ev: "\<exists>ev. w_audit w' = w_audit w @ [ev]"
      using run assms(2) True p
      by (auto simp: accept_reconciled_run [OF row(1) p(1)] dispatch_frame mandate_projection_update)
    then show ?thesis
      using p True row d
      by (intro disjI1 exI [of _ p] exI [of _ x] exI [of _ d])
        (simp add: mandate_get_def attempt_get_def row_get_def)
  qed
qed

definition example_ambiguous :: execution_attempt where
  "example_ambiguous = (new_attempt 200 example_args)\<lparr>ea_state := OutcomeAmbiguous\<rparr>"

definition example_quarantined :: world where
  "example_quarantined =
     world_new\<lparr>w_mandates := [''m'' \<mapsto> \<lparr>mp_mandate_id_hex = ''m'', mp_version = 3, mp_state = ''quarantined''\<rparr>],
       w_attempts := snd (attempt_insert example_ambiguous empty_rows)\<rparr>"

lemma example_quarantined_facts:
  "attempts_ok (w_attempts example_quarantined)"
  "attempts_by_mandate (w_attempts example_quarantined) ''m'' = [example_ambiguous]"
  "w_mandates example_quarantined ''m'' =
     Some \<lparr>mp_mandate_id_hex = ''m'', mp_version = 3, mp_state = ''quarantined''\<rparr>"
proof -
  have ok: "attempts_ok empty_rows" by (simp add: attempts_ok_def)
  then show "attempts_ok (w_attempts example_quarantined)"
    by (simp add: example_quarantined_def attempts.invar_ins)
  have x: "ea_attempt_id_hex example_ambiguous = ''att-m''" "ea_mandate_id_hex example_ambiguous = ''m''"
    by (simp_all add: example_ambiguous_def new_attempt_def example_args_def attempt_id_of_def)
  have "attempt_get empty_rows (ea_attempt_id_hex example_ambiguous) = None"
    and "attempts_by_mandate empty_rows ''m'' = []"
    by (simp_all add: attempt_get_def row_get_def empty_rows_def attempts_by_mandate_def rows_by_owner_def)
  with x attempts.by_owner_new [OF ok, of example_ambiguous "''m''"]
  show "attempts_by_mandate (w_attempts example_quarantined) ''m'' = [example_ambiguous]"
    by (simp add: example_quarantined_def)
qed (simp add: example_quarantined_def)

theorem reconcile_no_simulated_success_witness:
  "snd (reconcile ext_ref (\<lambda>x. Inr None) 300 ''m'' ''operator'' 3 example_quarantined) = example_quarantined"
proof -
  obtain res w' where run: "reconcile ext_ref (\<lambda>x. Inr None) 300 ''m'' ''operator'' 3 example_quarantined = (res, w')"
    by (cases "reconcile ext_ref (\<lambda>x. Inr None) 300 ''m'' ''operator'' 3 example_quarantined")
  from reconcile_no_simulated_success [OF example_quarantined_facts(1) run] run show ?thesis
    by auto
qed

text \<open>
  A quarantined mandate is only ever closed. Whatever sequence of reconciliation and
  abandonment jobs the worker runs, with any provider answers, a mandate keeps its state or goes
  from \<open>quarantined\<close> to \<open>consumed\<close> or \<open>abandoned\<close> in one version step, never to \<open>reserved\<close>, \<open>issued\<close>
  or \<open>released\<close>; a mandate that is not quarantined does not change at all; and no job calls the
  dispatch closure.
\<close>

theorem jobs_only_close:
  "closes (w_mandates w) (w_mandates (run_jobs E jobs w)) m
   \<and> w_provider (run_jobs E jobs w) = w_provider w"
proof (induction jobs arbitrary: w)
  case Nil
  then show ?case by simp
next
  case (Cons j jobs)
  obtain prov now job where j: "j = (prov, now, job)" by (cases j)
  let ?w = "snd (run_job E prov now job w)"
  note job = run_job_closes [of w E prov now job m]
  show ?case
  proof (cases "w_mandates ?w m = w_mandates w m")
    case True
    with Cons [of ?w] job show ?thesis
      by (simp add: j closes_def mandate_state_def mandate_version_def)
  next
    case False
    then have "mandate_state (w_mandates ?w) m \<noteq> Some ''quarantined''"
      using job by (auto simp: closes_def)
    from closed_stays [OF this, of E jobs] Cons [of ?w] job show ?thesis
      by (simp add: j closes_def mandate_state_def mandate_version_def)
  qed
qed

lemma close_abandoned_duplicate:
  assumes "row_map (w_attempts w) (ea_attempt_id_hex x) = Some x"
    and "receipt_get (w_receipts w) (''rcpt-abandoned-'' @ ea_attempt_id_hex x) = Some y"
  shows "fst (close_abandoned now m ex e reason x w) \<noteq> Inr out"
proof -
  obtain err where ins: "receipt_insert (abandoned_receipt now m x) (w_receipts w) = (Inl err, w_receipts w)"
    using receipts.ins_duplicate [of "w_receipts w" "abandoned_receipt now m x"] assms(2)
    by (auto simp: abandoned_receipt_def)
  show ?thesis
    using assms(1) ins
    by (auto simp: close_abandoned_def mandate_cas_run attempt_update_state_run dispatch_frame
        on_eq [of w_receipts] map_err_eq try_op_eq split: option.split)
qed

lemma nodes_frame [dispatch_frame]:
  "w_nodes (set_mandate m v st w) = w_nodes w" "w_nodes (set_attempt x w) = w_nodes w"
  "w_nodes (add_audit e w) = w_nodes w"
  by (simp_all add: set_mandate_def set_attempt_def add_audit_def)

text \<open>What a successful abandonment went through and left.\<close>

lemma abandon_unresolved_Inr:
  assumes "attempts_ok (w_attempts w)"
    and "abandon_unresolved now m ex e reason w = (Inr (AbandonedAmbiguous m' k v), w')"
  obtains p x where "\<not> blank ex" and "\<not> blank reason"
    and "w_mandates w m = Some p" and "mp_state p = ''quarantined''" and "mp_version p = e"
    and "row_map (w_attempts w) (ea_attempt_id_hex x) = Some x" and "ea_state x = OutcomeAmbiguous"
    and "m' = m" and "k = ea_attempt_id_hex x" and "v = e + 1"
    and "w_mandates w' m = Some (p\<lparr>mp_version := e + 1, mp_state := ''abandoned''\<rparr>)"
    and "row_map (w_attempts w') k = Some (x\<lparr>ea_state := execution_attempt_state.AbandonedAmbiguous\<rparr>)"
    and "receipt_get (w_receipts w') (''rcpt-abandoned-'' @ k) = Some (abandoned_receipt now m x)"
    and "w_nodes w' = w_nodes w"
proof -
  obtain p x where g: "\<not> blank ex" "\<not> blank reason" and p: "w_mandates w m = Some p" "mp_state p = ''quarantined''"
    and x: "find (\<lambda>x. ea_state x = OutcomeAmbiguous) (attempts_by_mandate (w_attempts w) m) = Some x"
    and run: "close_abandoned now m ex e reason x w = (Inr (AbandonedAmbiguous m' k v), w')"
    using assms(2)
    by (auto simp: abandon_unresolved_def try_op_eq find_ambiguous_run mandate_get_def
        split: option.splits if_splits)
  note row = find_ambiguous_row [OF assms(1) x]
  have none: "receipt_get (w_receipts w) (''rcpt-abandoned-'' @ ea_attempt_id_hex x) = None"
    using close_abandoned_duplicate [OF row(1)] run by (metis fst_conv option.exhaust)
  from run have ver: "mp_version p = e"
    by (auto simp: close_abandoned_run [OF row(1) p(1) none] split: if_splits)
  let ?r = "abandoned_receipt now m x"
  have m': "m' = m" "k = ea_attempt_id_hex x" "v = e + 1"
    and w': "w_mandates w' m = Some (p\<lparr>mp_version := e + 1, mp_state := ''abandoned''\<rparr>)"
    "row_map (w_attempts w') k = Some (x\<lparr>ea_state := execution_attempt_state.AbandonedAmbiguous\<rparr>)"
    "w_receipts w' = snd (receipt_insert ?r (w_receipts w))" "w_nodes w' = w_nodes w"
    using run ver p(1)
    by (auto simp: close_abandoned_run [OF row(1) p(1) none] dispatch_frame mandate_projection_update)
  have "receipt_get (w_receipts w') (''rcpt-abandoned-'' @ k) = Some ?r"
    using none receipts.lookup_ins [of ?r "w_receipts w"] by (simp add: w'(3) m'(2) abandoned_receipt_def)
  with g p ver row(1,2) m' w'(1,2,4) that show thesis by blast
qed

text \<open>What the worker's jobs leave of receipts, and what they answer on an abandoned mandate.\<close>

lemma accept_reconciled_receipts:
  "w_receipts (snd (accept_reconciled now m ex e x d w)) = w_receipts w"
  by (simp add: accept_reconciled_def run_simps split: sum.split cas_outcome.split)

lemma close_abandoned_keeps_receipt:
  "receipt_get (w_receipts w) k = Some r \<Longrightarrow>
    receipt_get (w_receipts (snd (close_abandoned now m ex e reason x w))) k = Some r"
  by (simp add: close_abandoned_def run_simps receipts.lookup_stable split: sum.split cas_outcome.split)

lemma run_job_keeps_receipt:
  "receipt_get (w_receipts w) k = Some r \<Longrightarrow> receipt_get (w_receipts (snd (run_job E prov now job w))) k = Some r"
  by (cases job)
    (auto simp: reconcile_def abandon_unresolved_def try_op_eq find_ambiguous_run accept_reconciled_receipts
      close_abandoned_keeps_receipt split: option.split sum.split)

lemma run_jobs_keep_receipt:
  "receipt_get (w_receipts w) k = Some r \<Longrightarrow> receipt_get (w_receipts (run_jobs E jobs w)) k = Some r"
proof (induction jobs arbitrary: w)
  case Nil
  then show ?case by simp
next
  case (Cons j jobs)
  then show ?case by (cases j) (simp add: run_job_keeps_receipt)
qed

lemma abandoned_refused:
  assumes "mandate_state (w_mandates w) m = Some ''abandoned''"
  shows "reconcile E prov now m ex e w =
      (Inl (if blank ex then UnauthorizedExecutor ex else AlreadyTerminal ''abandoned''), w)"
    and "\<exists>er. abandon_unresolved now m ex e reason w = (Inl er, w)"
  using assms by (auto simp: mandate_state_def reconcile_def abandon_unresolved_def mandate_get_def is_terminal_state_def)

text \<open>
  C23. Abandoning is explicit, and final for the worker. When \<open>abandon_unresolved\<close> succeeds (from a store
  whose attempt index is consistent) the operator and the reason were not blank, the mandate was
  quarantined at the caller's version and is now \<open>abandoned\<close>, the ambiguous attempt is closed, and an
  \<open>Unknown\<close> receipt with the gap \<open>target_outcome\<close> and no evidence is stored. Whatever jobs the worker runs
  afterwards, by any operators and with any provider answers, the mandate and the receipt stay as they
  are, and every reconciliation or abandonment of the mandate is then refused without a change. A dispatch that
  presents the current version is not such a job, and can still reserve the mandate again.
\<close>

theorem abandon_final_for_worker:
  assumes "attempts_ok (w_attempts w)"
    and "abandon_unresolved now m ex e reason w = (Inr (AbandonedAmbiguous m' k v), w')"
    and "w'' = run_jobs E jobs w'"
  shows "m' = m \<and> v = e + 1 \<and> \<not> blank ex \<and> \<not> blank reason
    \<and> mandate_state (w_mandates w) m = Some ''quarantined'' \<and> mandate_version (w_mandates w) m = Some e
    \<and> mandate_state (w_mandates w') m = Some ''abandoned'' \<and> mandate_version (w_mandates w') m = Some v
    \<and> map_option ea_state (attempt_get (w_attempts w) k) = Some OutcomeAmbiguous
    \<and> map_option ea_state (attempt_get (w_attempts w') k) = Some execution_attempt_state.AbandonedAmbiguous
    \<and> (\<exists>r. receipt_get (w_receipts w') (''rcpt-abandoned-'' @ k) = Some r \<and> rp_outcome r = Unknown
         \<and> rp_evidence_gaps r = [''target_outcome''] \<and> rp_target_evidence_refs r = []
         \<and> rp_dispatch_evidence_refs r = []
         \<and> receipt_get (w_receipts w'') (''rcpt-abandoned-'' @ k) = Some r)
    \<and> w_mandates w'' m = w_mandates w' m
    \<and> reconcile E prov later m ex' e' w''
        = (Inl (if blank ex' then UnauthorizedExecutor ex' else AlreadyTerminal ''abandoned''), w'')
    \<and> (\<exists>er. abandon_unresolved later m ex' e' reason' w'' = (Inl er, w''))"
proof -
  obtain p x where p: "w_mandates w m = Some p" "mp_state p = ''quarantined''" "mp_version p = e"
    and x: "row_map (w_attempts w) (ea_attempt_id_hex x) = Some x" "ea_state x = OutcomeAmbiguous"
    and args: "\<not> blank ex" "\<not> blank reason" "m' = m" "k = ea_attempt_id_hex x" "v = e + 1"
    and m': "w_mandates w' m = Some (p\<lparr>mp_version := e + 1, mp_state := ''abandoned''\<rparr>)"
    and x': "row_map (w_attempts w') k = Some (x\<lparr>ea_state := execution_attempt_state.AbandonedAmbiguous\<rparr>)"
    and r: "receipt_get (w_receipts w') (''rcpt-abandoned-'' @ k) = Some (abandoned_receipt now m x)"
    by (rule abandon_unresolved_Inr [OF assms(1,2)])
  have abandoned: "mandate_state (w_mandates w') m = Some ''abandoned''" using m' by (simp add: mandate_state_def)
  then have same: "w_mandates w'' m = w_mandates w' m" unfolding assms(3) by (intro closed_stays) simp
  with abandoned have "mandate_state (w_mandates w'') m = Some ''abandoned''" by (simp add: mandate_state_def)
  note refused = abandoned_refused [OF this]
  have r'': "receipt_get (w_receipts w'') (''rcpt-abandoned-'' @ k) = Some (abandoned_receipt now m x)"
    unfolding assms(3) by (rule run_jobs_keep_receipt [OF r])
  have "\<exists>r. receipt_get (w_receipts w') (''rcpt-abandoned-'' @ k) = Some r \<and> rp_outcome r = Unknown
      \<and> rp_evidence_gaps r = [''target_outcome''] \<and> rp_target_evidence_refs r = [] \<and> rp_dispatch_evidence_refs r = []
      \<and> receipt_get (w_receipts w'') (''rcpt-abandoned-'' @ k) = Some r"
    using r r'' by (simp add: abandoned_receipt_def)
  then show ?thesis
    using p x args m' x' same refused by (simp add: mandate_state_def mandate_version_def attempt_get_def row_get_def)
qed

theorem abandon_final_for_worker_witness:
  "let w' = snd (abandon_unresolved 300 ''m'' ''operator'' 3 ''closed'' example_quarantined);
       w'' = run_jobs ext_ref [(\<lambda>x. Inr (Some 7), 310, Reconcile ''m'' ''other'' 4)] w'
   in w_mandates w'' ''m'' = w_mandates w' ''m''
      \<and> reconcile ext_ref (\<lambda>x. Inr (Some 7)) 400 ''m'' ''operator'' 4 w'' = (Inl (AlreadyTerminal ''abandoned''), w'')"
proof -
  have nb: "\<not> blank ''operator''" "\<not> blank ''closed''"
    by (simp_all add: blank_def trim_id ws_len_def ws_len_end_def ws_seq_def)
  have x: "find (\<lambda>x. ea_state x = OutcomeAmbiguous) (attempts_by_mandate (w_attempts example_quarantined) ''m'')
      = Some example_ambiguous"
    by (simp add: example_quarantined_facts(2)) (simp add: example_ambiguous_def)
  have none: "receipt_get (w_receipts example_quarantined)
      (''rcpt-abandoned-'' @ ea_attempt_id_hex example_ambiguous) = None"
    by (simp add: example_quarantined_def world_new_def receipt_get_def row_get_def empty_rows_def)
  note row = find_ambiguous_row [OF example_quarantined_facts(1) x]
  obtain w' where run: "abandon_unresolved 300 ''m'' ''operator'' 3 ''closed'' example_quarantined
      = (Inr (AbandonedAmbiguous ''m'' (ea_attempt_id_hex example_ambiguous) 4), w')"
    using x nb close_abandoned_run [OF row(1) example_quarantined_facts(3) none]
    by (simp add: abandon_unresolved_def try_op_eq find_ambiguous_run mandate_get_def
        example_quarantined_facts(3))
  from abandon_final_for_worker [OF example_quarantined_facts(1) run refl, where E = ext_ref
      and jobs = "[(\<lambda>x. Inr (Some 7), 310, Reconcile ''m'' ''other'' 4)]" and prov = "\<lambda>x. Inr (Some 7)" and later = 400
      and ex' = "''operator''" and e' = 4] run nb(1)
  show ?thesis by (simp add: Let_def)
qed

end
