(* ===== verification/Receipts.thy ===== *)
theory Receipts
  imports World
begin

text \<open>
  Receipt production from deployment-status webhooks:
  \<^verbatim>\<open>crates/piteka-application/src/receipt_production.rs\<close>. JSON parsing and printing, SHA-256, hexadecimal
  and RFC 3339 are the external record. A JSON object is the list of its members in key order,
  as serde_json prints them. \<open>order\<close> is the iteration order of the attempt map; \<open>now\<close> arguments are
  clock readings in the order the code makes them.
\<close>

section \<open>Deployment status events\<close>

record deployment_status_event =
  de_deployment_id :: u64
  de_state :: string
  de_description :: "string option"
  de_target_url :: "string option"
  de_updated_at :: u64

text \<open>\<open>u64::try_from\<close> on an \<open>i64\<close>.\<close>

definition u64_from_i64 :: "i64 \<Rightarrow> u64 option" where
  "u64_from_i64 v = (if 0 \<le> sint v then Some v else None)"

definition parse_updated_at :: "ext \<Rightarrow> json \<Rightarrow> u64 option" where
  "parse_updated_at E v =
     (case json_as_u64 v of
        Some n \<Rightarrow> Some n
      | None \<Rightarrow>
          (case json_as_i64 v of
             Some n \<Rightarrow> u64_from_i64 n
           | None \<Rightarrow>
               Option.bind (json_as_str v) (\<lambda>s.
               Option.bind (ext_rfc3339_timestamp E s) u64_from_i64)))"

definition parse_deployment_status :: "ext \<Rightarrow> bytes \<Rightarrow> deployment_status_event option" where
  "parse_deployment_status E payload =
     Option.bind (ext_json_from_slice E payload) (\<lambda>value.
     Option.bind (json_get value ''deployment'') (\<lambda>deployment.
     Option.bind (json_get deployment ''id'') (\<lambda>idv.
     Option.bind (json_as_u64 idv) (\<lambda>deployment_id.
     let status = (case json_get value ''deployment_status'' of None \<Rightarrow> value | Some s \<Rightarrow> s) in
     Option.bind (json_get status ''state'') (\<lambda>statev.
     Option.bind (json_as_str statev) (\<lambda>state.
     let description = Option.bind (json_get status ''description'') json_as_str;
         target_url = Option.bind (json_get status ''target_url'') json_as_str in
     Option.bind (json_get status ''updated_at'') (\<lambda>updated_at_value.
     Option.bind (parse_updated_at E updated_at_value) (\<lambda>updated_at.
     Some \<lparr>de_deployment_id = deployment_id, de_state = state, de_description = description,
           de_target_url = target_url, de_updated_at = updated_at\<rparr>))))))))"

text \<open>
  \<open>to_lowercase\<close> compared with ASCII words. The only other characters whose lower case is an ASCII
  letter are the Kelvin sign (\<open>k\<close>) and the dotted capital I (which leaves a combining dot), and no
  word below has a \<open>k\<close>, so lowering the ASCII letters decides the same comparisons.
\<close>

definition ascii_lower_char :: "char \<Rightarrow> char" where
  "ascii_lower_char c =
     (let n = of_char c :: nat in if 65 \<le> n \<and> n \<le> 90 then char_of (n + 32) else c)"

definition map_github_state_to_outcome :: "string \<Rightarrow> receipt_outcome" where
  "map_github_state_to_outcome github_state =
     (let s = map ascii_lower_char github_state in
      if s = ''success'' then Succeeded
      else if s = ''failure'' \<or> s = ''error'' then Failed
      else if s = ''inactive'' \<or> s = ''pending'' \<or> s = ''queued'' then Unknown
      else Unknown)"

fun outcome_as_str :: "receipt_outcome \<Rightarrow> string" where
  "outcome_as_str Succeeded = ''succeeded''"
| "outcome_as_str Failed = ''failed''"
| "outcome_as_str receipt_outcome.Rejected = ''rejected''"
| "outcome_as_str Unknown = ''unknown''"

section \<open>Evidence nodes\<close>

fun source_bytes :: "evidence_source \<Rightarrow> bytes" where
  "source_bytes Piteka = ''piteka''"
| "source_bytes (Provider p) = p"
| "source_bytes Verifier = ''verifier''"

definition node_id_preimage ::
  "evidence_source \<Rightarrow> string \<Rightarrow> string \<Rightarrow> string \<Rightarrow> string \<Rightarrow> bytes" where
  "node_id_preimage source mandate attempt evidence_type extra =
     source_bytes source @ mandate @ ''|'' @ attempt @ ''|'' @ evidence_type @ ''|'' @ extra"

definition compute_evidence_node_id ::
  "ext \<Rightarrow> evidence_source \<Rightarrow> string \<Rightarrow> string \<Rightarrow> string \<Rightarrow> string \<Rightarrow> content_digest" where
  "compute_evidence_node_id E source mandate attempt evidence_type extra =
     ContentDigest (ext_sha256 E (node_id_preimage source mandate attempt evidence_type extra))"

definition json_bytes :: "ext \<Rightarrow> json \<Rightarrow> bytes" where
  "json_bytes E j = (case ext_json_to_vec E j of Inl _ \<Rightarrow> [] | Inr b \<Rightarrow> b)"

definition json_opt_string :: "string option \<Rightarrow> json" where
  "json_opt_string s = (case s of None \<Rightarrow> JNull | Some x \<Rightarrow> JString x)"

definition create_observation_node ::
  "ext \<Rightarrow> string \<Rightarrow> string \<Rightarrow> deployment_status_event \<Rightarrow> i64 \<Rightarrow> evidence_node" where
  "create_observation_node E mandate attempt event collected_at =
     (let node_id = compute_evidence_node_id E (Provider ''github'') mandate attempt
                      ''deployment_status'' (de_state event);
          payload = JObject [(''deployment_id'', JPosInt (de_deployment_id event)),
                             (''description'', json_opt_string (de_description event)),
                             (''state'', JString (de_state event)),
                             (''target_url'', json_opt_string (de_target_url event)),
                             (''updated_at'', JPosInt (de_updated_at event))]
      in \<lparr>en_node_id_hex = ''ev-'' @ to_hex E node_id,
          en_registry_id = ''org.diewan.evidence.observation.v1'',
          en_source = Provider ''github'', en_producer_identity = ''github'',
          en_collected_at = collected_at, en_asserted_event_at = Some (de_updated_at event),
          en_content_digest = content_digest_of E (json_bytes E payload),
          en_media_type = ''application/github-deployment-status+json'',
          en_disclosure_classification = ''disclosed'', en_relationships = []\<rparr>)"

definition create_claim_node ::
  "ext \<Rightarrow> string \<Rightarrow> string \<Rightarrow> receipt_outcome \<Rightarrow> i64 \<Rightarrow> evidence_node" where
  "create_claim_node E mandate attempt outcome collected_at =
     (let node_id = compute_evidence_node_id E Piteka mandate attempt ''outcome_claim''
                      (outcome_as_str outcome);
          payload = JObject [(''claimed_by'', JString ''piteka''),
                             (''outcome'', JString (outcome_as_str outcome))]
      in \<lparr>en_node_id_hex = ''ev-'' @ to_hex E node_id,
          en_registry_id = ''org.diewan.evidence.claim.v1'',
          en_source = Piteka, en_producer_identity = ''piteka'',
          en_collected_at = collected_at, en_asserted_event_at = None,
          en_content_digest = content_digest_of E (json_bytes E payload),
          en_media_type = ''application/piteka-outcome-claim+json'',
          en_disclosure_classification = ''disclosed'', en_relationships = []\<rparr>)"

definition create_gap_node ::
  "ext \<Rightarrow> string \<Rightarrow> string \<Rightarrow> string \<Rightarrow> string \<Rightarrow> i64 \<Rightarrow> evidence_node" where
  "create_gap_node E mandate attempt missing_class reason collected_at =
     (let node_id = ContentDigest (ext_sha256 E (mandate @ ''|'' @ attempt @ ''|'' @ ''evidence_gap''
                      @ ''|'' @ missing_class @ ''|'' @ reason));
          reason_digest = content_digest_of E reason
      in \<lparr>en_node_id_hex = ''ev-'' @ to_hex E node_id,
          en_registry_id = ''org.diewan.evidence.gap.v1'',
          en_source = Piteka, en_producer_identity = ''piteka'',
          en_collected_at = collected_at, en_asserted_event_at = None,
          en_content_digest = ContentDigest (digest_bytes reason_digest),
          en_media_type = ''text/plain'',
          en_disclosure_classification = ''disclosed'', en_relationships = []\<rparr>)"

section \<open>Producing a receipt\<close>

datatype receipt_production_error =
    Storage storage_error
  | AttemptNotFound string

fun receipt_production_error_display :: "ext \<Rightarrow> receipt_production_error \<Rightarrow> string" where
  "receipt_production_error_display E (Storage e) = ''storage error: '' @ storage_error_display E e"
| "receipt_production_error_display E (AttemptNotFound i) = ''execution attempt `'' @ i @ ''` not found''"

record receipt_production_result =
  pr_receipt_id_hex :: string
  pr_outcome :: receipt_outcome
  pr_evidence_node_ids :: "string list"
  pr_evidence_gaps :: "string list"

type_synonym 'a receipt_op = "(world, receipt_production_error, 'a) op"

definition gap_reason :: string where
  "gap_reason = ''GitHub deployment status is pending/inactive; outcome cannot be determined''"

definition receipt_of ::
  "execution_attempt \<Rightarrow> receipt_outcome \<Rightarrow> i64 \<Rightarrow> evidence_node \<Rightarrow> evidence_node \<Rightarrow> string list
    \<Rightarrow> receipt_projection" where
  "receipt_of attempt outcome now claim observation gaps =
     \<lparr>rp_receipt_id_hex = ''rcpt-'' @ ea_attempt_id_hex attempt,
      rp_mandate_id_hex = ea_mandate_id_hex attempt, rp_intent_id_hex = ea_intent_id_hex attempt,
      rp_attempt_id_hex = ea_attempt_id_hex attempt, rp_outcome = outcome, rp_created_at = now,
      rp_dispatch_evidence_refs = [en_node_id_hex claim],
      rp_target_evidence_refs = [en_node_id_hex observation],
      rp_evidence_gaps = gaps, rp_canonical_bytes = None\<rparr>"

definition insert_node :: "evidence_node \<Rightarrow> unit receipt_op" where
  "insert_node n = map_err Storage (at_nodes (node_insert n))"

definition find_attempt :: "string list \<Rightarrow> u64 \<Rightarrow> execution_attempt receipt_op" where
  "find_attempt order deployment_id =
     try_op (reading (\<lambda>w. attempt_by_deployment_id order (w_attempts w) deployment_id)) (\<lambda>found.
       case found of
         None \<Rightarrow> fail (AttemptNotFound (''no attempt found for deployment_id='' @ dec_u64 deployment_id))
       | Some attempt \<Rightarrow> ok attempt)"

text \<open>Steps 2 to 7 of the use case, for the attempt found.\<close>

definition record_outcome ::
  "ext \<Rightarrow> u64 \<Rightarrow> deployment_status_event \<Rightarrow> execution_attempt \<Rightarrow> receipt_production_result receipt_op" where
  "record_outcome E now event attempt =
     (let a = ea_attempt_id_hex attempt; m = ea_mandate_id_hex attempt;
          outcome = map_github_state_to_outcome (de_state event);
          observation = create_observation_node E m a event now;
          claim = create_claim_node E m a outcome now;
          gap = create_gap_node E m a ''target_outcome'' gap_reason now;
          gaps = (if outcome = Unknown then [en_node_id_hex gap] else []);
          receipt = receipt_of attempt outcome now claim observation gaps in
      try_op (if outcome = Unknown then insert_node gap else ok ()) (\<lambda>_.
      try_op (insert_node observation) (\<lambda>_.
      try_op (insert_node claim) (\<lambda>_.
      try_op (map_err Storage (at_receipts (receipt_insert receipt))) (\<lambda>_.
      try_op (map_err Storage (at_audit (audit_append
        \<lparr>ae_occurred_at = now, ae_actor = None, ae_action = ''receipt.produced'',
         ae_decision = outcome_as_str outcome,
         ae_detail = ''receipt='' @ rp_receipt_id_hex receipt @ '' mandate='' @ m @ '' attempt='' @ a
           @ '' github_state='' @ de_state event @ '' outcome='' @ outcome_as_str outcome\<rparr>))) (\<lambda>_.
      ok \<lparr>pr_receipt_id_hex = rp_receipt_id_hex receipt, pr_outcome = outcome,
          pr_evidence_node_ids = [en_node_id_hex observation, en_node_id_hex claim],
          pr_evidence_gaps = gaps\<rparr>))))))"

definition produce_receipt_from_webhook ::
  "ext \<Rightarrow> string list \<Rightarrow> u64 \<Rightarrow> deployment_status_event \<Rightarrow> receipt_production_result receipt_op" where
  "produce_receipt_from_webhook E order now event =
     try_op (find_attempt order (de_deployment_id event)) (record_outcome E now event)"

section \<open>Evaluation\<close>

lemma find_attempt_run:
  "find_attempt order d w =
    (case attempt_by_deployment_id order (w_attempts w) d of
       None \<Rightarrow> (Inl (AttemptNotFound (''no attempt found for deployment_id='' @ dec_u64 d)), w)
     | Some x \<Rightarrow> (Inr x, w))"
  by (simp add: find_attempt_def split: option.split)

lemma attempt_by_deployment_id_row:
  assumes "attempt_by_deployment_id order s d = Some x"
  shows "\<exists>k \<in> set order. row_map s k = Some x" and "ea_github_deployment_id x = Some d"
  using assms by (auto simp: attempt_by_deployment_id_def find_Some_iff set_fetch_all
      in_set_conv_nth dest: nth_mem)

lemma insert_node_Inr:
  "insert_node n w = (Inr u, w') \<longleftrightarrow>
    en_node_id_hex n \<noteq> [] \<and> node_get (w_nodes w) (en_node_id_hex n) = None
    \<and> w' = w\<lparr>w_nodes := snd (node_insert n (w_nodes w))\<rparr>"
  using nodes.ins_ok_iff [of n "w_nodes w" "()"]
  by (auto simp: insert_node_def map_err_eq on_eq split: sum.splits)

lemma insert_node_keeps:
  "w_receipts (snd (insert_node n w)) = w_receipts w"
  "w_attempts (snd (insert_node n w)) = w_attempts w"
  "w_webhooks (snd (insert_node n w)) = w_webhooks w"
  "w_tracker (snd (insert_node n w)) = w_tracker w"
  "node_get (w_nodes w) k = Some y \<Longrightarrow> node_get (w_nodes (snd (insert_node n w))) k = Some y"
  using nodes.lookup_stable [of "w_nodes w" k y n]
  by (simp_all add: insert_node_def map_err_eq on_eq)

lemma insert_node_stored:
  "insert_node n w = (Inr u, w') \<Longrightarrow> node_get (w_nodes w') (en_node_id_hex n) = Some n"
  using nodes.lookup_new [of n "w_nodes w"] by (simp add: insert_node_Inr)

lemma optional_node_keeps:
  "w_receipts (snd ((if b then insert_node n else ok ()) w)) = w_receipts w"
  "w_webhooks (snd ((if b then insert_node n else ok ()) w)) = w_webhooks w"
  by (simp_all add: insert_node_keeps)

lemma node_source [simp]:
  "en_source (create_observation_node E m a ev t) = Provider ''github''"
  "en_source (create_claim_node E m a out t) = Piteka"
  by (simp_all add: create_observation_node_def create_claim_node_def Let_def)

lemma receipt_of_sel [simp]:
  "rp_receipt_id_hex (receipt_of x out t c obs g) = ''rcpt-'' @ ea_attempt_id_hex x"
  "rp_outcome (receipt_of x out t c obs g) = out"
  "rp_evidence_gaps (receipt_of x out t c obs g) = g"
  "rp_dispatch_evidence_refs (receipt_of x out t c obs g) = [en_node_id_hex c]"
  "rp_target_evidence_refs (receipt_of x out t c obs g) = [en_node_id_hex obs]"
  by (simp_all add: receipt_of_def)

text \<open>
  The receipt store is touched only by the insert of one receipt, and a production that does
  not succeed leaves it as it was.
\<close>

definition produced_receipt ::
  "ext \<Rightarrow> u64 \<Rightarrow> deployment_status_event \<Rightarrow> execution_attempt \<Rightarrow> receipt_projection" where
  "produced_receipt E now event x =
     (let a = ea_attempt_id_hex x; m = ea_mandate_id_hex x;
          outcome = map_github_state_to_outcome (de_state event) in
      receipt_of x outcome now (create_claim_node E m a outcome now)
        (create_observation_node E m a event now)
        (if outcome = Unknown
         then [en_node_id_hex (create_gap_node E m a ''target_outcome'' gap_reason now)] else []))"

lemma receipt_error_unchanged:
  "fst (receipt_insert r s) = Inl e \<Longrightarrow> snd (receipt_insert r s) = s"
  by (rule receipts.ins_error_unchanged)

lemma record_outcome_receipts:
  "w_receipts (snd (record_outcome E now ev x w)) =
    (if succeeded (fst (record_outcome E now ev x w))
     then snd (receipt_insert (produced_receipt E now ev x) (w_receipts w)) else w_receipts w)"
  unfolding record_outcome_def produced_receipt_def Let_def
  by (simp add: try_op_eq map_err_eq on_eq insert_node_keeps optional_node_keeps
      receipt_error_unchanged split: sum.split)

lemma record_outcome_keeps:
  "w_attempts (snd (record_outcome E now ev x w)) = w_attempts w"
  "w_webhooks (snd (record_outcome E now ev x w)) = w_webhooks w"
  "w_tracker (snd (record_outcome E now ev x w)) = w_tracker w"
  unfolding record_outcome_def Let_def
  by (simp_all add: try_op_eq map_err_eq on_eq insert_node_keeps split: sum.split)

text \<open>What a successful production went through.\<close>

lemma record_outcome_Inr:
  assumes "record_outcome E now ev x w = (Inr res, w')"
  shows "receipt_get (w_receipts w) (''rcpt-'' @ ea_attempt_id_hex x) = None
    \<and> receipt_get (w_receipts w') (''rcpt-'' @ ea_attempt_id_hex x) = Some (produced_receipt E now ev x)
    \<and> (\<exists>obs claim. node_get (w_nodes w') (en_node_id_hex obs) = Some obs
        \<and> node_get (w_nodes w') (en_node_id_hex claim) = Some claim
        \<and> en_source obs = Provider ''github'' \<and> en_source claim = Piteka
        \<and> rp_target_evidence_refs (produced_receipt E now ev x) = [en_node_id_hex obs]
        \<and> rp_dispatch_evidence_refs (produced_receipt E now ev x) = [en_node_id_hex claim])
    \<and> (\<forall>i \<in> set (rp_evidence_gaps (produced_receipt E now ev x)). node_get (w_nodes w') i \<noteq> None)
    \<and> pr_outcome res = map_github_state_to_outcome (de_state ev)
    \<and> pr_receipt_id_hex res = ''rcpt-'' @ ea_attempt_id_hex x"
proof -
  let ?m = "ea_mandate_id_hex x" and ?a = "ea_attempt_id_hex x"
  let ?out = "map_github_state_to_outcome (de_state ev)"
  let ?obs = "create_observation_node E ?m ?a ev now"
  let ?claim = "create_claim_node E ?m ?a ?out now"
  let ?r = "produced_receipt E now ev x"
  have key: "rp_receipt_id_hex ?r = ''rcpt-'' @ ?a" by (simp add: produced_receipt_def Let_def)
  from assms obtain u w1 where w1: "(if ?out = Unknown
        then insert_node (create_gap_node E ?m ?a ''target_outcome'' gap_reason now) else ok ()) w = (Inr u, w1)"
    and "try_op (insert_node ?obs) (\<lambda>_. try_op (insert_node ?claim) (\<lambda>_.
          try_op (map_err Storage (at_receipts (receipt_insert ?r))) (\<lambda>_.
          try_op (map_err Storage (at_audit (audit_append
            \<lparr>ae_occurred_at = now, ae_actor = None, ae_action = ''receipt.produced'',
             ae_decision = outcome_as_str ?out,
             ae_detail = ''receipt='' @ rp_receipt_id_hex ?r @ '' mandate='' @ ?m @ '' attempt='' @ ?a
               @ '' github_state='' @ de_state ev @ '' outcome='' @ outcome_as_str ?out\<rparr>))) (\<lambda>_.
          ok \<lparr>pr_receipt_id_hex = rp_receipt_id_hex ?r, pr_outcome = ?out,
              pr_evidence_node_ids = [en_node_id_hex ?obs, en_node_id_hex ?claim],
              pr_evidence_gaps = rp_evidence_gaps ?r\<rparr>)))) w1 = (Inr res, w')"
    unfolding record_outcome_def Let_def produced_receipt_def by (auto elim!: try_op_InrE)
  then obtain u2 w2 u3 w3 where w2: "insert_node ?obs w1 = (Inr u2, w2)"
    and w3: "insert_node ?claim w2 = (Inr u3, w3)"
    and ins: "fst (receipt_insert ?r (w_receipts w3)) = Inr ()"
    and w': "w_receipts w' = snd (receipt_insert ?r (w_receipts w3))" "w_nodes w' = w_nodes w3"
    and res: "pr_outcome res = ?out" "pr_receipt_id_hex res = rp_receipt_id_hex ?r"
    by (auto elim!: try_op_InrE simp: map_err_eq on_eq add_audit_def split: sum.splits)
  have rec: "w_receipts w3 = w_receipts w"
    using optional_node_keeps(1) w1 w2 w3 insert_node_keeps(1) by (metis snd_conv)
  have obs: "node_get (w_nodes w3) (en_node_id_hex ?obs) = Some ?obs"
    using insert_node_stored [OF w2] insert_node_keeps(5) w3 by (metis snd_conv)
  have claim: "node_get (w_nodes w3) (en_node_id_hex ?claim) = Some ?claim"
    using insert_node_stored [OF w3] .
  have gap: "node_get (w_nodes w3) i \<noteq> None" if "i \<in> set (rp_evidence_gaps ?r)" for i
  proof -
    let ?gap = "create_gap_node E ?m ?a ''target_outcome'' gap_reason now"
    from that have out: "?out = Unknown" and i: "i = en_node_id_hex ?gap"
      by (simp_all add: produced_receipt_def Let_def split: if_splits)
    from w1 out have "node_get (w_nodes w1) i = Some ?gap" using i by (simp add: insert_node_stored)
    then show ?thesis using insert_node_keeps(5) w2 w3 by (metis option.distinct(1) snd_conv)
  qed
  have "receipt_get (w_receipts w) (''rcpt-'' @ ?a) = None"
    using ins receipts.ins_ok_iff [of ?r "w_receipts w3" "()"] by (simp add: key rec)
  moreover have "receipt_get (w_receipts w') (''rcpt-'' @ ?a) = Some ?r"
    using ins receipts.ins_ok_iff [of ?r "w_receipts w3" "()"] receipts.lookup_new [of ?r "w_receipts w3"]
    by (simp add: w' key)
  moreover have "rp_target_evidence_refs ?r = [en_node_id_hex ?obs]"
    "rp_dispatch_evidence_refs ?r = [en_node_id_hex ?claim]"
    by (simp_all add: produced_receipt_def Let_def)
  ultimately show ?thesis using obs claim gap res key w'(2) by (metis node_source)
qed

lemma insert_node_fresh:
  "en_node_id_hex n \<noteq> [] \<Longrightarrow> node_get (w_nodes w) (en_node_id_hex n) = None \<Longrightarrow>
    insert_node n w = (Inr (), w\<lparr>w_nodes := snd (node_insert n (w_nodes w))\<rparr>)"
  by (simp add: insert_node_Inr)

lemma node_id_nonempty [simp]:
  "en_node_id_hex (create_observation_node E m a ev t) \<noteq> []"
  "en_node_id_hex (create_claim_node E m a out t) \<noteq> []"
  by (simp_all add: create_observation_node_def create_claim_node_def Let_def)

text \<open>A first terminal status with fresh node ids does produce a receipt.\<close>

lemma record_outcome_fresh:
  assumes "map_github_state_to_outcome (de_state ev) = out" and "out \<noteq> Unknown"
    and "obs = create_observation_node E (ea_mandate_id_hex x) (ea_attempt_id_hex x) ev now"
    and "claim = create_claim_node E (ea_mandate_id_hex x) (ea_attempt_id_hex x) out now"
    and "node_get (w_nodes w) (en_node_id_hex obs) = None"
    and "node_get (w_nodes w) (en_node_id_hex claim) = None"
    and "en_node_id_hex obs \<noteq> en_node_id_hex claim"
    and "receipt_get (w_receipts w) (''rcpt-'' @ ea_attempt_id_hex x) = None"
  shows "succeeded (fst (record_outcome E now ev x w))"
proof -
  let ?w = "w\<lparr>w_nodes := snd (node_insert obs (w_nodes w))\<rparr>"
  have o: "insert_node obs w = (Inr (), ?w)"
    using assms(3,5) by (simp add: insert_node_fresh)
  have "node_get (w_nodes ?w) (en_node_id_hex claim) = None"
    using assms(6,7) by (simp add: nodes.lookup_ins)
  then have c: "insert_node claim ?w = (Inr (), ?w\<lparr>w_nodes := snd (node_insert claim (w_nodes ?w))\<rparr>)"
    using assms(4) by (simp add: insert_node_fresh)
  have r: "fst (receipt_insert (receipt_of x out now claim obs []) (w_receipts w)) = Inr ()"
    using assms(8) receipts.ins_new [of "receipt_of x out now claim obs []" "w_receipts w"] by simp
  show ?thesis
    using assms(1,2) o c r
    by (simp add: record_outcome_def Let_def assms(3,4) [symmetric] try_op_eq [of "map_err _ _"]
        on_eq map_err_eq)
qed

section \<open>Properties\<close>

text \<open>
  C24. A produced receipt is backed by evidence of both sides. When \<open>produce_receipt_from_webhook\<close>
  succeeds, an attempt with the webhook's deployment id exists, no receipt with the id \<open>rcpt-\<close> and that attempt's id
  existed before, and the new one has the outcome the GitHub state maps to, refers to a stored
  observation attributed to GitHub and to a stored claim attributed to Piteka, and names an
  evidence gap exactly when the outcome is \<open>Unknown\<close>.
\<close>

theorem receipt_production_sound:
  assumes "produce_receipt_from_webhook E order now ev w = (Inr res, w')"
  shows "\<exists>x r obs claim.
      attempt_by_deployment_id order (w_attempts w) (de_deployment_id ev) = Some x
    \<and> receipt_get (w_receipts w) (''rcpt-'' @ ea_attempt_id_hex x) = None
    \<and> receipt_get (w_receipts w') (''rcpt-'' @ ea_attempt_id_hex x) = Some r
    \<and> rp_outcome r = map_github_state_to_outcome (de_state ev)
    \<and> rp_mandate_id_hex r = ea_mandate_id_hex x \<and> rp_intent_id_hex r = ea_intent_id_hex x
    \<and> rp_target_evidence_refs r = [en_node_id_hex obs]
    \<and> rp_dispatch_evidence_refs r = [en_node_id_hex claim]
    \<and> node_get (w_nodes w') (en_node_id_hex obs) = Some obs \<and> en_source obs = Provider ''github''
    \<and> node_get (w_nodes w') (en_node_id_hex claim) = Some claim \<and> en_source claim = Piteka
    \<and> (rp_evidence_gaps r = [] \<longleftrightarrow> rp_outcome r \<noteq> Unknown)
    \<and> pr_outcome res = rp_outcome r"
proof -
  obtain x where x: "attempt_by_deployment_id order (w_attempts w) (de_deployment_id ev) = Some x"
    and run: "record_outcome E now ev x w = (Inr res, w')"
    using assms
    by (auto simp: produce_receipt_from_webhook_def find_attempt_run try_op_eq split: option.splits)
  have "rp_outcome (produced_receipt E now ev x) = map_github_state_to_outcome (de_state ev)"
    and "rp_mandate_id_hex (produced_receipt E now ev x) = ea_mandate_id_hex x"
    and "rp_intent_id_hex (produced_receipt E now ev x) = ea_intent_id_hex x"
    and "rp_evidence_gaps (produced_receipt E now ev x) = [] \<longleftrightarrow>
      map_github_state_to_outcome (de_state ev) \<noteq> Unknown"
    by (simp_all add: produced_receipt_def Let_def receipt_of_def)
  with x record_outcome_Inr [OF run] show ?thesis by metis
qed

definition example_event :: deployment_status_event where
  "example_event = \<lparr>de_deployment_id = 7, de_state = ''success'', de_description = None,
                    de_target_url = None, de_updated_at = 500\<rparr>"

definition example_accepted :: execution_attempt where
  "example_accepted =
     \<lparr>ea_attempt_id_hex = ''att-m'', ea_mandate_id_hex = ''m'', ea_intent_id_hex = ''ab'',
      ea_reservation_token_digest = ''tok'', ea_executor_identity = ''executor'',
      ea_correlation_key = ''key'', ea_started_at = 200, ea_dispatch_boundary_at = None,
      ea_state = Accepted, ea_github_deployment_id = Some 7\<rparr>"

definition example_deployed :: world where
  "example_deployed =
     world_new\<lparr>w_attempts := \<lparr>row_map = [''att-m'' \<mapsto> example_accepted], row_index = [''m'' \<mapsto> [''att-m'']]\<rparr>\<rparr>"

lemma example_deployed_attempt:
  "attempt_by_deployment_id [''att-m''] (w_attempts example_deployed) 7 = Some example_accepted"
  by (simp add: attempt_by_deployment_id_def example_deployed_def)
    (simp add: example_accepted_def)

lemma example_event_outcome: "map_github_state_to_outcome (de_state example_event) = Succeeded"
  by (simp add: map_github_state_to_outcome_def example_event_def ascii_lower_char_def Let_def)

lemma example_node_ids:
  "en_node_id_hex (create_observation_node ext_ref ''m'' ''att-m'' example_event 510)
    \<noteq> en_node_id_hex (create_claim_node ext_ref ''m'' ''att-m'' Succeeded 510)"
  by (simp add: create_observation_node_def create_claim_node_def compute_evidence_node_id_def
      node_id_preimage_def to_hex_def ext_ref_def Let_def hex_digit_def)

lemma example_production:
  "succeeded (fst (record_outcome ext_ref 510 example_event example_accepted example_deployed))"
  by (rule record_outcome_fresh [OF example_event_outcome _ refl refl])
    (use example_node_ids in \<open>simp_all add: example_deployed_def world_new_def node_get_def
        receipt_get_def row_get_def empty_rows_def example_accepted_def\<close>)

theorem receipt_production_sound_witness:
  "\<exists>res w' r. produce_receipt_from_webhook ext_ref [''att-m''] 510 example_event example_deployed = (Inr res, w')
     \<and> receipt_get (w_receipts w') ''rcpt-att-m'' = Some r \<and> rp_outcome r = Succeeded"
proof -
  obtain res w' where run: "record_outcome ext_ref 510 example_event example_accepted example_deployed = (Inr res, w')"
    using example_production
    by (cases "record_outcome ext_ref 510 example_event example_accepted example_deployed")
      (auto simp: succeeded_def split: sum.splits)
  have d: "de_deployment_id example_event = 7" by (simp add: example_event_def)
  have p: "produce_receipt_from_webhook ext_ref [''att-m''] 510 example_event example_deployed = (Inr res, w')"
    by (simp add: produce_receipt_from_webhook_def find_attempt_run d example_deployed_attempt run)
  have a: "''rcpt-'' @ ea_attempt_id_hex example_accepted = ''rcpt-att-m''"
    by (simp add: example_accepted_def)
  from receipt_production_sound [OF p] obtain r
    where "receipt_get (w_receipts w') (''rcpt-'' @ ea_attempt_id_hex example_accepted) = Some r"
      and "rp_outcome r = Succeeded"
    unfolding d example_deployed_attempt example_event_outcome by blast
  with p show ?thesis unfolding a by blast
qed

text \<open>
  The first receipt of an attempt is final. Once an attempt has a receipt, no later
  deployment status for it, whatever its state and order, changes any receipt: the production
  fails, and the stored receipt keeps its outcome.
\<close>

theorem first_receipt_wins:
  assumes "attempt_by_deployment_id order (w_attempts w) (de_deployment_id ev) = Some x"
    and "receipt_get (w_receipts w) (''rcpt-'' @ ea_attempt_id_hex x) = Some r"
  shows "\<not> succeeded (fst (produce_receipt_from_webhook E order now ev w))
    \<and> w_receipts (snd (produce_receipt_from_webhook E order now ev w)) = w_receipts w"
proof -
  have run: "produce_receipt_from_webhook E order now ev w = record_outcome E now ev x w"
    using assms(1) by (simp add: produce_receipt_from_webhook_def find_attempt_run)
  have "\<not> succeeded (fst (record_outcome E now ev x w))"
  proof
    assume "succeeded (fst (record_outcome E now ev x w))"
    then obtain res w' where "record_outcome E now ev x w = (Inr res, w')"
      by (cases "record_outcome E now ev x w") (auto simp: succeeded_def split: sum.splits)
    from record_outcome_Inr [OF this] assms(2) show False by simp
  qed
  then show ?thesis by (simp add: run record_outcome_receipts)
qed

theorem first_receipt_wins_witness:
  "let w = snd (record_outcome ext_ref 510 example_event example_accepted example_deployed);
       late = example_event\<lparr>de_state := ''failure''\<rparr>
   in \<not> succeeded (fst (produce_receipt_from_webhook ext_ref [''att-m''] 600 late w))"
proof -
  obtain res w' where run: "record_outcome ext_ref 510 example_event example_accepted example_deployed = (Inr res, w')"
    using example_production
    by (cases "record_outcome ext_ref 510 example_event example_accepted example_deployed")
      (auto simp: succeeded_def split: sum.splits)
  have d: "de_deployment_id (example_event\<lparr>de_state := ''failure''\<rparr>) = 7" by (simp add: example_event_def)
  have "w_attempts w' = w_attempts example_deployed"
    using record_outcome_keeps(1) [of ext_ref 510 example_event example_accepted example_deployed] run by simp
  then have "attempt_by_deployment_id [''att-m''] (w_attempts w') (de_deployment_id (example_event\<lparr>de_state := ''failure''\<rparr>))
      = Some example_accepted"
    unfolding d using example_deployed_attempt by simp
  from first_receipt_wins [OF this] record_outcome_Inr [OF run] run show ?thesis
    by (simp add: Let_def)
qed

end
