(* ===== verification/GitHub_App.thy ===== *)
theory GitHub_App
  imports Externals Identity
begin

text \<open>
  The GitHub App port and its adapter: the stable identifiers, secret references and payload types of
  \<^verbatim>\<open>crates/piteka-ports/src/github.rs\<close>, and of \<^verbatim>\<open>crates/piteka-github/src/lib.rs\<close> the webhook
  signature check, the in-memory secret resolver and the guards of \<open>create_deployment\<close>. The HTTP
  client and the RSA signer are third-party: the token exchange and the POST of the deployment
  are arguments.
\<close>

section \<open>Stable identifiers\<close>

datatype github_id_error = Empty | NonNumeric

definition github_numeric_id_new :: "string \<Rightarrow> github_id_error + string" where
  "github_numeric_id_new value =
     (if blank value then Inl Empty
      else if \<not> list_all is_ascii_digit value then Inl NonNumeric
      else Inr value)"

definition github_name_new :: "string \<Rightarrow> github_id_error + string" where
  "github_name_new value = (if blank value then Inl Empty else Inr value)"

text \<open>\<open>parse::<u64>().unwrap_or(0)\<close> on a string of digits.\<close>

definition digit_value :: "char \<Rightarrow> nat" where
  "digit_value c = of_char c - 48"

definition dec_value :: "string \<Rightarrow> nat" where
  "dec_value s = foldl (\<lambda>n c. 10 * n + digit_value c) 0 s"

definition id_as_u64 :: "string \<Rightarrow> u64" where
  "id_as_u64 s =
     (if s \<noteq> [] \<and> list_all is_ascii_digit s \<and> dec_value s < 2 ^ 64 then of_nat (dec_value s) else 0)"

datatype installation_id = GitHubInstallationId string
datatype repository_id = GitHubRepositoryId string
datatype environment_id = GitHubEnvironmentId string
datatype repository_name = GitHubRepositoryName string
datatype environment_name = GitHubEnvironmentName string

definition installation_id_new :: "string \<Rightarrow> github_id_error + installation_id" where
  "installation_id_new v = map_sum id GitHubInstallationId (github_numeric_id_new v)"

definition repository_id_new :: "string \<Rightarrow> github_id_error + repository_id" where
  "repository_id_new v = map_sum id GitHubRepositoryId (github_numeric_id_new v)"

definition environment_id_new :: "string \<Rightarrow> github_id_error + environment_id" where
  "environment_id_new v = map_sum id GitHubEnvironmentId (github_numeric_id_new v)"

definition repository_name_new :: "string \<Rightarrow> github_id_error + repository_name" where
  "repository_name_new v = map_sum id GitHubRepositoryName (github_name_new v)"

definition environment_name_new :: "string \<Rightarrow> github_id_error + environment_name" where
  "environment_name_new v = map_sum id GitHubEnvironmentName (github_name_new v)"

section \<open>Errors, payloads, context\<close>

datatype github_secret_error =
    UnknownReference string
  | StoreUnavailable string
  | EmptySecret

fun github_secret_error_display :: "github_secret_error \<Rightarrow> string" where
  "github_secret_error_display (UnknownReference r) = ''unknown secret reference: '' @ r"
| "github_secret_error_display (StoreUnavailable s) = ''secret store unavailable: '' @ s"
| "github_secret_error_display EmptySecret = ''resolved secret was empty''"

datatype github_app_error =
    SecretResolution github_secret_error
  | ApiError string
  | Unauthorized string
  | VerificationFailed
  | EmptyField string

fun github_app_error_display :: "github_app_error \<Rightarrow> string" where
  "github_app_error_display (SecretResolution e) =
     ''secret resolution failed: '' @ github_secret_error_display e"
| "github_app_error_display (ApiError m) = ''GitHub API error: '' @ m"
| "github_app_error_display (Unauthorized m) = ''unauthorized: '' @ m"
| "github_app_error_display VerificationFailed = ''webhook signature verification failed''"
| "github_app_error_display (EmptyField f) = ''field `'' @ f @ ''` must not be empty''"

record github_webhook_payload =
  wp_delivery_id :: string
  wp_event_type :: string
  wp_signature :: string
  wp_body :: bytes

datatype webhook_signature_result = Valid | MissingOrMalformed | Invalid

record deployment_created =
  dc_deployment_id :: u64
  dc_url :: string
  dc_attempt_digest :: bytes

record installation_context =
  ic_installation_id :: installation_id
  ic_repository_id :: repository_id
  ic_repository_name :: repository_name
  ic_environment_id :: environment_id
  ic_environment_name :: environment_name

text \<open>\<open>map_err(|_| EmptyField(field))?\<close>.\<close>

definition require_field ::
  "string \<Rightarrow> github_id_error + 'a \<Rightarrow> ('a \<Rightarrow> github_app_error + 'b) \<Rightarrow> github_app_error + 'b" where
  "require_field field r k = (case r of Inl _ \<Rightarrow> Inl (EmptyField field) | Inr x \<Rightarrow> k x)"

definition installation_context_new ::
  "string \<Rightarrow> string \<Rightarrow> string \<Rightarrow> string \<Rightarrow> string \<Rightarrow> github_app_error + installation_context" where
  "installation_context_new installation repository repo_name environment env_name =
     require_field ''installation_id'' (installation_id_new installation) (\<lambda>i.
     require_field ''repository_id'' (repository_id_new repository) (\<lambda>r.
     require_field ''repository_name'' (repository_name_new repo_name) (\<lambda>rn.
     require_field ''environment_id'' (environment_id_new environment) (\<lambda>e.
     require_field ''environment_name'' (environment_name_new env_name) (\<lambda>en.
     Inr \<lparr>ic_installation_id = i, ic_repository_id = r, ic_repository_name = rn,
          ic_environment_id = e, ic_environment_name = en\<rparr>)))))"

section \<open>Secrets\<close>

record in_memory_secret_resolver =
  sr_app_secrets :: "string \<rightharpoonup> bytes"
  sr_webhook_secrets :: "string \<rightharpoonup> bytes"

definition resolver_new :: in_memory_secret_resolver where
  "resolver_new = \<lparr>sr_app_secrets = Map.empty, sr_webhook_secrets = Map.empty\<rparr>"

definition store_app_secret ::
  "string \<Rightarrow> bytes \<Rightarrow> in_memory_secret_resolver \<Rightarrow> in_memory_secret_resolver" where
  "store_app_secret reference secret r =
     r\<lparr>sr_app_secrets := (sr_app_secrets r)(reference \<mapsto> secret)\<rparr>"

definition store_webhook_secret ::
  "string \<Rightarrow> bytes \<Rightarrow> in_memory_secret_resolver \<Rightarrow> in_memory_secret_resolver" where
  "store_webhook_secret reference secret r =
     r\<lparr>sr_webhook_secrets := (sr_webhook_secrets r)(reference \<mapsto> secret)\<rparr>"

definition resolve_secret :: "(string \<rightharpoonup> bytes) \<Rightarrow> string \<Rightarrow> github_secret_error + bytes" where
  "resolve_secret secrets reference =
     (case secrets reference of
        None \<Rightarrow> Inl (UnknownReference reference)
      | Some b \<Rightarrow> if b = [] then Inl EmptySecret else Inr b)"

definition resolve_app_secret ::
  "in_memory_secret_resolver \<Rightarrow> string \<Rightarrow> github_secret_error + bytes" where
  "resolve_app_secret r reference = resolve_secret (sr_app_secrets r) reference"

definition resolve_webhook_secret ::
  "in_memory_secret_resolver \<Rightarrow> string \<Rightarrow> github_secret_error + bytes" where
  "resolve_webhook_secret r reference = resolve_secret (sr_webhook_secrets r) reference"

section \<open>Webhook signatures\<close>

definition strip_prefix :: "string \<Rightarrow> string \<Rightarrow> string option" where
  "strip_prefix p s = (if starts_with s p then Some (drop (length p) s) else None)"

definition byte_of :: "char \<Rightarrow> u8" where
  "byte_of c = of_nat (of_char c)"

text \<open>The comparison loop: \<open>diff\<close> accumulates the differing bits of the zipped bytes.\<close>

fun diff_bytes :: "u8 \<Rightarrow> (char \<times> char) list \<Rightarrow> u8" where
  "diff_bytes diff [] = diff"
| "diff_bytes diff ((a, b) # rest) = diff_bytes (or diff (xor (byte_of a) (byte_of b))) rest"

definition verify_webhook_signature_internal ::
  "ext \<Rightarrow> bytes \<Rightarrow> string \<Rightarrow> bytes \<Rightarrow> webhook_signature_result" where
  "verify_webhook_signature_internal E payload signature secret =
     (case strip_prefix ''sha256='' signature of
        None \<Rightarrow> MissingOrMalformed
      | Some expected_hex \<Rightarrow>
          (let computed = ext_hmac_sha256 E secret payload in
           case ext_hex_decode E expected_hex of
             None \<Rightarrow> MissingOrMalformed
           | Some expected_bytes \<Rightarrow>
               if length expected_bytes \<noteq> 32 then MissingOrMalformed
               else if diff_bytes 0 (zip computed expected_bytes) = 0 then Valid else Invalid))"

text \<open>UTF-8 well-formedness, as \<open>std::str::from_utf8\<close> checks it.\<close>

definition cont_byte :: "nat \<Rightarrow> bool" where
  "cont_byte n = (128 \<le> n \<and> n \<le> 191)"

fun utf8_nats :: "nat list \<Rightarrow> bool" where
  "utf8_nats [] = True"
| "utf8_nats (a # rest) =
     (if a \<le> 127 then utf8_nats rest
      else case rest of
        [] \<Rightarrow> False
      | b # rest2 \<Rightarrow>
          if 194 \<le> a \<and> a \<le> 223 then cont_byte b \<and> utf8_nats rest2
          else (case rest2 of
            [] \<Rightarrow> False
          | c # rest3 \<Rightarrow>
              if (a = 224 \<and> 160 \<le> b \<and> b \<le> 191) \<or> (225 \<le> a \<and> a \<le> 236 \<and> cont_byte b)
                 \<or> (a = 237 \<and> 128 \<le> b \<and> b \<le> 159) \<or> (238 \<le> a \<and> a \<le> 239 \<and> cont_byte b)
              then cont_byte c \<and> utf8_nats rest3
              else (case rest3 of
                [] \<Rightarrow> False
              | d # rest4 \<Rightarrow>
                  ((a = 240 \<and> 144 \<le> b \<and> b \<le> 191) \<or> (241 \<le> a \<and> a \<le> 243 \<and> cont_byte b)
                   \<or> (a = 244 \<and> 128 \<le> b \<and> b \<le> 143))
                  \<and> cont_byte c \<and> cont_byte d \<and> utf8_nats rest4)))"

definition from_utf8 :: "bytes \<Rightarrow> string option" where
  "from_utf8 b = (if utf8_nats (map of_char b) then Some b else None)"

text \<open>The adapter's port method; the resolver is the in-memory one.\<close>

definition verify_webhook_signature ::
  "ext \<Rightarrow> in_memory_secret_resolver \<Rightarrow> github_webhook_payload \<Rightarrow> string
    \<Rightarrow> github_app_error + webhook_signature_result" where
  "verify_webhook_signature E r payload webhook_secret =
     (case resolve_webhook_secret r webhook_secret of
        Inl e \<Rightarrow> Inl (SecretResolution e)
      | Inr secret_bytes \<Rightarrow>
          Inr (verify_webhook_signature_internal E (wp_body payload) (wp_signature payload)
                 (case from_utf8 secret_bytes of None \<Rightarrow> [] | Some s \<Rightarrow> s)))"

section \<open>Creating deployments\<close>

definition is_ascii_hexdigit :: "char \<Rightarrow> bool" where
  "is_ascii_hexdigit c =
     (is_lower_hex c \<or> (65 \<le> (of_char c :: nat) \<and> (of_char c :: nat) \<le> 70))"

record deployment_request =
  rq_commit_sha :: string
  rq_auto_merge :: bool
  rq_environment :: string
  rq_schema_version :: u8
  rq_attempt_digest_hex :: string

primrec environment_name_as_str :: "environment_name \<Rightarrow> string" where
  "environment_name_as_str (GitHubEnvironmentName s) = s"

definition deployment_request_body ::
  "ext \<Rightarrow> string \<Rightarrow> environment_name \<Rightarrow> bytes \<Rightarrow> deployment_request" where
  "deployment_request_body E commit_sha environment attempt_digest =
     \<lparr>rq_commit_sha = commit_sha, rq_auto_merge = False,
      rq_environment = environment_name_as_str environment, rq_schema_version = 1,
      rq_attempt_digest_hex = ext_hex_encode E attempt_digest\<rparr>"

text \<open>
  \<open>exchange\<close> is \<open>create_installation_token\<close> for an application id and a secret; \<open>post\<close> sends the
  body with the token to the repository of the context and returns the id and URL of the answer.
\<close>

record github_app_adapter =
  ga_resolver :: in_memory_secret_resolver
  ga_context :: installation_context
  ga_app_secret_reference :: string
  ga_app_id :: "u64 option"

definition create_deployment ::
  "ext \<Rightarrow> github_app_adapter
    \<Rightarrow> (u64 \<Rightarrow> installation_id \<Rightarrow> bytes \<Rightarrow> github_app_error + string)
    \<Rightarrow> (string \<Rightarrow> repository_name \<Rightarrow> deployment_request \<Rightarrow> github_app_error + (u64 \<times> string))
    \<Rightarrow> installation_id \<Rightarrow> repository_id \<Rightarrow> string \<Rightarrow> environment_name \<Rightarrow> bool \<Rightarrow> string \<Rightarrow> bytes
    \<Rightarrow> github_app_error + deployment_created" where
  "create_deployment E A exchange post installation repository commit_sha environment auto_merge
     payload_commitment attempt_digest =
     (if installation \<noteq> ic_installation_id (ga_context A)
      then Inl (Unauthorized ''installation does not match the configured GitHub App context'')
      else if repository \<noteq> ic_repository_id (ga_context A)
      then Inl (Unauthorized ''repository does not match the configured GitHub App context'')
      else if environment \<noteq> ic_environment_name (ga_context A)
      then Inl (Unauthorized ''environment does not match the configured GitHub App context'')
      else if commit_sha = [] \<or> length commit_sha \<noteq> 40 then Inl (EmptyField ''commit_sha'')
      else if \<not> list_all is_ascii_hexdigit commit_sha
      then Inl (ApiError ''commit_sha must be a 40-character hexadecimal object ID'')
      else if length payload_commitment \<noteq> 64 \<or> \<not> list_all is_ascii_hexdigit payload_commitment
      then Inl (EmptyField ''payload_commitment'')
      else if auto_merge
      then Inl (ApiError ''auto_merge must be false for production deployments'')
      else case resolve_app_secret (ga_resolver A) (ga_app_secret_reference A) of
        Inl e \<Rightarrow> Inl (SecretResolution e)
      | Inr app_secret \<Rightarrow>
          (case ga_app_id A of
             None \<Rightarrow> Inl (ApiError ''live GitHub transport is not configured'')
           | Some app_id \<Rightarrow>
               (case exchange app_id installation app_secret of
                  Inl e \<Rightarrow> Inl e
                | Inr token \<Rightarrow>
                    (case post token (ic_repository_name (ga_context A))
                            (deployment_request_body E commit_sha environment attempt_digest) of
                       Inl e \<Rightarrow> Inl e
                     | Inr (i, url) \<Rightarrow>
                         Inr \<lparr>dc_deployment_id = i, dc_url = url, dc_attempt_digest = attempt_digest\<rparr>))))"

section \<open>Lemmas\<close>

lemma byte_of_inject [simp]: "byte_of a = byte_of b \<longleftrightarrow> a = b"
proof
  assume "byte_of a = byte_of b"
  then have "unat (byte_of a) = unat (byte_of b)" by simp
  then have "(of_char a :: nat) = of_char b"
    using nat_of_char_less_256 [of a] nat_of_char_less_256 [of b]
    by (simp add: byte_of_def unat_of_nat)
  then show "a = b" by simp
qed simp

lemma xor_zero_iff [simp]: "xor a b = 0 \<longleftrightarrow> a = b" for a b :: u8
proof
  assume "xor a b = 0"
  then have "xor (xor a b) b = b" by simp
  then show "a = b" by (simp add: xor.assoc)
qed simp

lemma diff_bytes_zero: "diff_bytes d xs = 0 \<longleftrightarrow> d = 0 \<and> (\<forall>(a, b) \<in> set xs. a = b)"
  by (induction d xs rule: diff_bytes.induct) (auto simp: or_eq_0_iff)

lemma zip_all_equal: "length xs = length ys \<Longrightarrow> (\<forall>(a, b) \<in> set (zip xs ys). a = b) \<longleftrightarrow> xs = ys"
  by (induction xs ys rule: list_induct2) auto

lemma strip_prefix_Some: "strip_prefix p s = Some t \<longleftrightarrow> s = p @ t"
  by (auto simp: strip_prefix_def starts_with_iff)

text \<open>An HMAC-SHA-256 tag is 32 bytes.\<close>

definition hmac_laws :: "ext \<Rightarrow> bool" where
  "hmac_laws E \<longleftrightarrow> (\<forall>k b. length (ext_hmac_sha256 E k b) = 32)"

lemma hmac_laws_ref: "hmac_laws ext_ref"
  by (auto simp: hmac_laws_def ext_ref_def min_def)

lemma webhook_signature_iff_aux:
  assumes "hmac_laws E"
  shows "verify_webhook_signature_internal E body signature secret = Valid \<longleftrightarrow>
    (\<exists>hex. signature = ''sha256='' @ hex \<and> ext_hex_decode E hex = Some (ext_hmac_sha256 E secret body))"
proof (cases "strip_prefix ''sha256='' signature")
  case None
  then have "\<nexists>hex. signature = ''sha256='' @ hex"
    using strip_prefix_Some [of "''sha256=''" signature] by (metis option.distinct(1))
  with None show ?thesis by (auto simp: verify_webhook_signature_internal_def)
next
  case (Some hex)
  then have sig: "signature = ''sha256='' @ hex" by (simp only: strip_prefix_Some)
  have len: "length (ext_hmac_sha256 E secret body) = 32" using assms by (simp add: hmac_laws_def)
  show ?thesis
  proof (cases "ext_hex_decode E hex")
    case None
    then show ?thesis unfolding verify_webhook_signature_internal_def Some by (simp add: sig)
  next
    case (Some b)
    have "diff_bytes 0 (zip (ext_hmac_sha256 E secret body) b) = 0 \<longleftrightarrow> ext_hmac_sha256 E secret body = b"
      if "length b = 32"
      using zip_all_equal [of "ext_hmac_sha256 E secret body" b] len that by (simp add: diff_bytes_zero)
    with Some \<open>strip_prefix ''sha256='' signature = Some hex\<close> len show ?thesis
      unfolding verify_webhook_signature_internal_def by (auto simp: sig Let_def)
  qed
qed

section \<open>Properties\<close>

text \<open>
  C33. A webhook signature is accepted exactly when the header is \<open>sha256=\<close> followed by a hexadecimal
  spelling of the HMAC of the body under the secret: the accumulating comparison loop is equality
  of all 32 bytes.
\<close>

theorem webhook_signature_valid_iff:
  assumes "hmac_laws E"
  shows "verify_webhook_signature_internal E body signature secret = Valid \<longleftrightarrow>
    (\<exists>hex. signature = ''sha256='' @ hex \<and> ext_hex_decode E hex = Some (ext_hmac_sha256 E secret body))"
  using assms by (rule webhook_signature_iff_aux)

theorem webhook_signature_valid_iff_witness:
  "verify_webhook_signature_internal ext_ref ''body''
     (''sha256='' @ hex_encode_ref (ext_hmac_sha256 ext_ref ''key'' ''body'')) ''key'' = Valid"
proof -
  have "ext_hex_decode ext_ref (hex_encode_ref b) = Some b" for b
    by (simp add: ext_ref_def hex_decode_encode_ref)
  then show ?thesis using webhook_signature_valid_iff [OF hmac_laws_ref] by blast
qed

text \<open>
  C39. A webhook secret that is not UTF-8 fails open: the adapter then verifies with the
  empty key, so anyone can sign. For every body, the tag computed without any secret is accepted.
\<close>

theorem non_utf8_secret_accepts_forgery:
  assumes "hmac_laws E" and "hex_laws E"
    and "resolve_webhook_secret r reference = Inr secret" and "from_utf8 secret = None"
  shows "verify_webhook_signature E r
      \<lparr>wp_delivery_id = i, wp_event_type = t,
       wp_signature = ''sha256='' @ ext_hex_encode E (ext_hmac_sha256 E [] body), wp_body = body\<rparr>
      reference = Inr Valid"
proof -
  have "ext_hex_decode E (ext_hex_encode E (ext_hmac_sha256 E [] body)) = Some (ext_hmac_sha256 E [] body)"
    using assms(2) by (simp add: hex_laws_def)
  then have "verify_webhook_signature_internal E body
      (''sha256='' @ ext_hex_encode E (ext_hmac_sha256 E [] body)) [] = Valid"
    using webhook_signature_iff_aux [OF assms(1)] by blast
  then show ?thesis using assms(3,4) by (simp add: verify_webhook_signature_def)
qed

theorem non_utf8_secret_accepts_forgery_witness:
  "verify_webhook_signature ext_ref (store_webhook_secret ''ref'' [CHR 0xFF] resolver_new)
      \<lparr>wp_delivery_id = ''d'', wp_event_type = ''deployment_status'',
       wp_signature = ''sha256='' @ ext_hex_encode ext_ref (ext_hmac_sha256 ext_ref [] ''body''),
       wp_body = ''body''\<rparr> ''ref'' = Inr Valid"
proof (rule non_utf8_secret_accepts_forgery [OF hmac_laws_ref hex_laws_ref])
  show "resolve_webhook_secret (store_webhook_secret ''ref'' [CHR 0xFF] resolver_new) ''ref'' = Inr [CHR 0xFF]"
    by (simp add: resolve_webhook_secret_def resolve_secret_def store_webhook_secret_def)
  show "from_utf8 [CHR 0xFF] = None" by (simp add: from_utf8_def)
qed

text \<open>
  The adapter confines its credential. A deployment is created only for the configured
  installation, repository and environment, a 40-digit hexadecimal commit, a 64-digit commitment
  and without auto-merge; the body posted has \<open>auto_merge\<close> off and carries the attempt digest,
  and that digest is the one returned. When a guard fails the answer does not depend on the
  token exchange or the HTTP client at all.
\<close>

theorem create_deployment_confined:
  "(case create_deployment E A exchange post i r sha env am commitment digest of
      Inr d \<Rightarrow> i = ic_installation_id (ga_context A) \<and> r = ic_repository_id (ga_context A)
        \<and> env = ic_environment_name (ga_context A) \<and> \<not> am
        \<and> length sha = 40 \<and> list_all is_ascii_hexdigit sha
        \<and> length commitment = 64 \<and> list_all is_ascii_hexdigit commitment
        \<and> dc_attempt_digest d = digest
        \<and> (\<exists>token req. post token (ic_repository_name (ga_context A)) req = Inr (dc_deployment_id d, dc_url d)
             \<and> \<not> rq_auto_merge req \<and> rq_commit_sha req = sha
             \<and> rq_attempt_digest_hex req = ext_hex_encode E digest)
    | Inl e \<Rightarrow>
        (i = ic_installation_id (ga_context A) \<and> r = ic_repository_id (ga_context A)
          \<and> env = ic_environment_name (ga_context A) \<and> \<not> am \<and> length sha = 40
          \<and> list_all is_ascii_hexdigit sha \<and> length commitment = 64
          \<and> list_all is_ascii_hexdigit commitment)
        \<or> create_deployment E A exchange' post' i r sha env am commitment digest = Inl e)"
proof (cases "create_deployment E A exchange post i r sha env am commitment digest")
  case (Inl e)
  then show ?thesis by (auto simp: create_deployment_def)
next
  case (Inr d)
  let ?req = "deployment_request_body E sha env digest"
  from Inr have guards: "i = ic_installation_id (ga_context A) \<and> r = ic_repository_id (ga_context A)
      \<and> env = ic_environment_name (ga_context A) \<and> \<not> am \<and> length sha = 40
      \<and> list_all is_ascii_hexdigit sha \<and> length commitment = 64
      \<and> list_all is_ascii_hexdigit commitment"
    and "dc_attempt_digest d = digest"
    and "\<exists>token. post token (ic_repository_name (ga_context A)) ?req = Inr (dc_deployment_id d, dc_url d)"
    by (auto simp: create_deployment_def split: if_splits sum.splits option.splits)
  moreover have "\<not> rq_auto_merge ?req \<and> rq_commit_sha ?req = sha
      \<and> rq_attempt_digest_hex ?req = ext_hex_encode E digest"
    by (simp add: deployment_request_body_def)
  ultimately show ?thesis unfolding Inr sum.case by blast
qed

lemma digits_not_blank: "list_all is_ascii_digit s \<Longrightarrow> blank s \<longleftrightarrow> s = []"
  using trim_printable [of s] by (fastforce simp: blank_def list_all_iff is_ascii_digit_def)

text \<open>
  A stable GitHub identifier is accepted exactly when it is a non-empty string of decimal
  digits, and it is kept as written. Its numeric form is the value of those digits while it fits
  64 bits; every longer identifier silently becomes 0, the number the token URL is built from.
\<close>

theorem github_numeric_id_spec:
  "(github_numeric_id_new v = Inr w \<longleftrightarrow> w = v \<and> v \<noteq> [] \<and> list_all is_ascii_digit v)
   \<and> unat (id_as_u64 v) =
       (if v \<noteq> [] \<and> list_all is_ascii_digit v \<and> dec_value v < 2 ^ 64 then dec_value v else 0)"
proof
  show "github_numeric_id_new v = Inr w \<longleftrightarrow> w = v \<and> v \<noteq> [] \<and> list_all is_ascii_digit v"
    using digits_not_blank [of v] by (auto simp: github_numeric_id_new_def)
  show "unat (id_as_u64 v) =
      (if v \<noteq> [] \<and> list_all is_ascii_digit v \<and> dec_value v < 2 ^ 64 then dec_value v else 0)"
    by (simp add: id_as_u64_def unat_of_nat)
qed

end
