(* ===== verification/Api_Errors.thy ===== *)
theory Api_Errors
  imports Action_Requests
begin

text \<open>
  The API error envelope of \<^verbatim>\<open>apps/piteka-api/src/error.rs\<close>: the error values, the conversions
  from storage and use-case errors, and the status and body each becomes.
\<close>

record error_cause =
  ec_code :: string
  ec_message :: string
  ec_source :: "string option"

record error_detail =
  ed_code :: string
  ed_message :: string
  ed_causes :: "error_cause list option"

datatype api_error =
    NotFound string string
  | BadRequest "error_cause list"
  | Unauthorized string string
  | IdempotencyConflict string
  | InvalidState string string
  | Conflict i64 i64
  | Forbidden string
  | Internal string

definition error_cause_of :: "string \<Rightarrow> string \<Rightarrow> string option \<Rightarrow> error_cause" where
  "error_cause_of code message source = \<lparr>ec_code = code, ec_message = message, ec_source = source\<rparr>"

definition bad_request :: "string \<Rightarrow> string \<Rightarrow> api_error" where
  "bad_request code message = BadRequest [error_cause_of code message None]"

fun status_debug :: "action_request_status \<Rightarrow> string" where
  "status_debug Pending = ''Pending''"
| "status_debug action_request_status.Approved = ''Approved''"
| "status_debug action_request_status.Rejected = ''Rejected''"
| "status_debug action_request_status.Revoked = ''Revoked''"

fun api_error_of_storage :: "storage_error \<Rightarrow> api_error" where
  "api_error_of_storage (ImmutableViolation k) = Internal ''immutable violation''"
| "api_error_of_storage (EvidenceDigestMismatch a b) = Internal ''evidence digest mismatch''"
| "api_error_of_storage (storage_error.EmptyField field) =
     bad_request ''EMPTY_FIELD'' (''Required field `'' @ field @ ''` is empty'')"
| "api_error_of_storage (Backend msg) = Internal msg"

text \<open>
  A panic unwinds the handler and never reaches the conversion; its value here stands for no code.
\<close>

fun api_error_of_request :: "action_request_error \<Rightarrow> api_error" where
  "api_error_of_request (action_request_error.Storage e) = api_error_of_storage e"
| "api_error_of_request (action_request_error.NotFound i) = NotFound ''action request'' i"
| "api_error_of_request (InvalidTransition current attempted) =
     InvalidState (status_debug current) attempted"
| "api_error_of_request (action_request_error.Conflict expected current) = Conflict expected current"
| "api_error_of_request (Panicked m) = Internal m"

definition error_detail_of :: "string \<Rightarrow> string \<Rightarrow> error_cause list \<Rightarrow> error_detail" where
  "error_detail_of code message causes = \<lparr>ed_code = code, ed_message = message, ed_causes = Some causes\<rparr>"

fun into_response :: "api_error \<Rightarrow> nat \<times> error_detail" where
  "into_response (NotFound resource i) =
     (let m = resource @ '' `'' @ i @ ''` not found'' in
      (404, error_detail_of ''NOT_FOUND'' m [error_cause_of ''NOT_FOUND'' m (Some ''id'')]))"
| "into_response (BadRequest causes) =
     (400, error_detail_of ''BAD_REQUEST'' ''The request body is malformed or missing required fields'' causes)"
| "into_response (Unauthorized code message) =
     (401, error_detail_of code message [error_cause_of code message None])"
| "into_response (IdempotencyConflict k) =
     (let m = ''Idempotency key `'' @ k @ ''` has already been used'' in
      (409, error_detail_of ''IDEMPOTENCY_CONFLICT'' m [error_cause_of ''IDEMPOTENCY_CONFLICT'' m (Some ''Idempotency-Key'')]))"
| "into_response (InvalidState current attempted) =
     (409, error_detail_of ''INVALID_STATE'' (''Cannot '' @ attempted @ '' from status `'' @ current @ ''`'')
        [error_cause_of ''INVALID_STATE''
           (''The action request is in status `'' @ current
             @ ''`; expected `Pending` for approve/reject or `Approved` for revoke'')
           (Some ''status'')])"
| "into_response (Conflict expected current) =
     (409, error_detail_of ''CONFLICT'' ''Optimistic concurrency conflict''
        [error_cause_of ''CONFLICT''
           (''Expected version '' @ dec_i64 expected @ '', current version '' @ dec_i64 current)
           (Some ''version''),
         error_cause_of ''OPTIMISTIC_CONFLICT''
           ''Another request modified this resource. Retry with the current version.'' None])"
| "into_response (Forbidden capability) =
     (403, error_detail_of ''FORBIDDEN'' (''The caller lacks capability `'' @ capability @ ''`'')
        [error_cause_of ''FORBIDDEN'' (''Required capability: `'' @ capability @ ''`'') (Some ''capability'')])"
| "into_response (Internal msg) =
     (500, error_detail_of ''INTERNAL_ERROR'' ''An internal error occurred'' [error_cause_of ''INTERNAL_ERROR'' msg None])"

section \<open>Properties\<close>

text \<open>
  What a failing action-request call looks like to a client: the status tells the class of
  the error (404 unknown, 409 wrong state or stale version, 400 empty field, 500 any other storage
  failure), and every error body carries at least one cause. The message of a backend failure
  is copied into the cause of the 500 as it is.
\<close>

theorem request_error_response:
  "fst (into_response (api_error_of_request e)) =
     (case e of
        action_request_error.NotFound i \<Rightarrow> 404
      | InvalidTransition c a \<Rightarrow> 409
      | action_request_error.Conflict x y \<Rightarrow> 409
      | action_request_error.Storage (storage_error.EmptyField f) \<Rightarrow> 400
      | _ \<Rightarrow> 500)
   \<and> (\<exists>c cs. ed_causes (snd (into_response (api_error_of_request e))) = Some (c # cs))
   \<and> map ec_message (the (ed_causes (snd (into_response (api_error_of_request
        (action_request_error.Storage (Backend msg))))))) = [msg]"
proof (cases e)
  case (Storage x1)
  then show ?thesis by (cases x1) (simp_all add: error_detail_of_def bad_request_def error_cause_of_def)
qed (simp_all add: error_detail_of_def bad_request_def error_cause_of_def Let_def)

end
