(* ===== verification/Webhooks.thy ===== *)
theory Webhooks
  imports Receipts GitHub_App Api_Errors
begin

text \<open>
  Webhook ingestion: the use case of \<^verbatim>\<open>crates/piteka-application/src/webhook_ingestion.rs\<close>, the
  receipt-producing processor of \<^verbatim>\<open>receipt_production.rs\<close> and the HTTP handler of
  \<^verbatim>\<open>apps/piteka-api/src/webhook.rs\<close>. The processor is an argument of the use case, as the trait
  object is in the code. Header values are given as the text \<open>to_str\<close> yields; \<open>None\<close> is a header
  that is absent or not text.
\<close>

section \<open>Errors\<close>

datatype webhook_error =
    VerificationFailed
  | SecretResolution github_secret_error
  | Storage storage_error
  | Malformed string
  | UnsupportedEventType string

fun webhook_error_display :: "ext \<Rightarrow> webhook_error \<Rightarrow> string" where
  "webhook_error_display E VerificationFailed = ''webhook signature verification failed''"
| "webhook_error_display E (SecretResolution e) =
     ''webhook secret resolution failed: '' @ github_secret_error_display e"
| "webhook_error_display E (Storage e) = ''storage error: '' @ storage_error_display E e"
| "webhook_error_display E (Malformed m) = ''malformed webhook: '' @ m"
| "webhook_error_display E (UnsupportedEventType t) = ''unsupported event type: '' @ t"

type_synonym 'a webhook_op = "(world, webhook_error, 'a) op"

text \<open>The processor port: event type, payload, delivery id and the out-of-order flag.\<close>

type_synonym webhook_processor = "string \<Rightarrow> bytes \<Rightarrow> string \<Rightarrow> bool \<Rightarrow> unit webhook_op"

text \<open>\<open>let _ = audit_log.append(...).await\<close>: an error is dropped.\<close>

definition audit_quietly :: "audit_event \<Rightarrow> (world, 'e, unit) op" where
  "audit_quietly e w = (Inr (), snd (at_audit (audit_append e) w))"

lemma audit_quietly_run [simp]: "audit_quietly e w = (Inr (), add_audit e w)"
  by (simp add: audit_quietly_def)

definition webhook_event :: "u64 \<Rightarrow> string \<Rightarrow> string \<Rightarrow> string \<Rightarrow> audit_event" where
  "webhook_event now action decision detail =
     \<lparr>ae_occurred_at = now, ae_actor = None, ae_action = action, ae_decision = decision,
      ae_detail = detail\<rparr>"

section \<open>The receipt-producing processor\<close>

definition terminal_status :: "string \<Rightarrow> bool" where
  "terminal_status state = (state \<in> set [''success'', ''failure'', ''error''])"

text \<open>\<open>now\<close> and \<open>later\<close>: the clock readings of the production and of the audit after it.\<close>

definition process ::
  "ext \<Rightarrow> string list \<Rightarrow> u64 \<Rightarrow> u64 \<Rightarrow> webhook_processor" where
  "process E order now later event_type payload delivery_id out_of_order =
     (if event_type \<noteq> ''deployment_status'' then fail (UnsupportedEventType event_type)
      else case parse_deployment_status E payload of
        None \<Rightarrow> fail (Malformed ''invalid deployment_status payload'')
      | Some event \<Rightarrow>
          if \<not> terminal_status (de_state event) then
            try_op (map_err Storage (at_audit (audit_append
              (webhook_event now ''webhook.status_non_terminal'' ''deferred''
                (''delivery_id='' @ delivery_id @ '' deployment_id='' @ dec_u64 (de_deployment_id event)
                  @ '' state='' @ de_state event))))) (\<lambda>_. ok ())
          else (\<lambda>w.
            case produce_receipt_from_webhook E order now event w of
              (Inr result, w') \<Rightarrow>
                audit_quietly (webhook_event later ''webhook.receipt_produced''
                  (outcome_as_str (pr_outcome result))
                  (''delivery_id='' @ delivery_id @ '' receipt='' @ pr_receipt_id_hex result
                    @ '' outcome='' @ outcome_as_str (pr_outcome result)
                    @ '' evidence_nodes='' @ dec_nat (length (pr_evidence_node_ids result))
                    @ '' gaps='' @ dec_nat (length (pr_evidence_gaps result)))) w'
            | (Inl (AttemptNotFound _), w') \<Rightarrow>
                audit_quietly (webhook_event later ''webhook.attempt_not_found'' ''skipped''
                  (''delivery_id='' @ delivery_id @ '' deployment_id=''
                    @ dec_u64 (de_deployment_id event) @ '' no matching attempt'')) w'
            | (Inl err, w') \<Rightarrow>
                audit_quietly (webhook_event later ''webhook.receipt_production_error'' ''error''
                  (''delivery_id='' @ delivery_id @ '' error=''
                    @ receipt_production_error_display E err)) w'))"

section \<open>Ingestion\<close>

definition tracker_record :: "u64 \<Rightarrow> u64 \<Rightarrow> (u64 \<rightharpoonup> u64) \<Rightarrow> bool \<times> (u64 \<rightharpoonup> u64)" where
  "tracker_record deployment_id event_at tracker =
     ((case tracker deployment_id of None \<Rightarrow> False | Some latest \<Rightarrow> event_at < latest),
      tracker(deployment_id \<mapsto>
        (case tracker deployment_id of None \<Rightarrow> event_at | Some latest \<Rightarrow> max latest event_at)))"

definition record_order :: "deployment_status_event \<Rightarrow> (world, 'e, bool) op" where
  "record_order event w =
     (let (out_of_order, tracker) = tracker_record (de_deployment_id event) (de_updated_at event) (w_tracker w)
      in (Inr out_of_order, w\<lparr>w_tracker := tracker\<rparr>))"

datatype ingestion_outcome =
    IngestDuplicate
  | Processed bool content_digest

fun debug_bool :: "bool \<Rightarrow> string" where
  "debug_bool True = ''true''"
| "debug_bool False = ''false''"

text \<open>\<open>now\<close> is read for the stored receipt and \<open>later\<close> for the audit event.\<close>

definition ingest ::
  "ext \<Rightarrow> u64 \<Rightarrow> u64 \<Rightarrow> github_webhook_payload \<Rightarrow> ingestion_outcome webhook_op" where
  "ingest E now later payload =
     (if blank (wp_delivery_id payload) then fail (Malformed ''delivery ID is empty'')
      else if wp_event_type payload \<noteq> ''deployment_status''
      then fail (UnsupportedEventType (wp_event_type payload))
      else case parse_deployment_status E (wp_body payload) of
        None \<Rightarrow> fail (Malformed ''invalid deployment_status payload'')
      | Some event \<Rightarrow>
          (let raw_digest = content_digest_of E (wp_body payload) in
           try_op (reading (\<lambda>w. webhook_get (w_webhooks w) (wp_delivery_id payload))) (\<lambda>existing.
             case existing of
               Some _ \<Rightarrow> ok IngestDuplicate
             | None \<Rightarrow>
                 try_op (map_err Storage (at_webhooks (webhook_record
                   \<lparr>wr_delivery_id = wp_delivery_id payload, wr_source = ''github'',
                    wr_raw_digest = raw_digest, wr_received_at = now\<rparr>))) (\<lambda>recorded.
                 case recorded of
                   Duplicate \<Rightarrow> ok IngestDuplicate
                 | Recorded \<Rightarrow>
                     try_op (record_order event) (\<lambda>out_of_order.
                     try_op (map_err Storage (at_audit (audit_append
                       (webhook_event later
                         (if out_of_order then ''webhook.ingested.out_of_order'' else ''webhook.ingested'')
                         ''accepted''
                         (''delivery_id='' @ wp_delivery_id payload @ '' event_type=''
                           @ wp_event_type payload @ '' out_of_order='' @ debug_bool out_of_order)))))
                     (\<lambda>_. ok (Processed out_of_order raw_digest)))))))"

text \<open>\<open>dispatch\<close> returns nothing: whatever the processor answers ends in the audit log.\<close>

definition dispatch ::
  "ext \<Rightarrow> webhook_processor \<Rightarrow> u64 \<Rightarrow> string \<Rightarrow> bytes \<Rightarrow> string \<Rightarrow> bool \<Rightarrow> world \<Rightarrow> world" where
  "dispatch E processor now event_type payload delivery_id out_of_order w =
     (case processor event_type payload delivery_id out_of_order w of
        (Inr _, w') \<Rightarrow>
          add_audit (webhook_event now ''webhook.processed'' ''success''
            (''delivery_id='' @ delivery_id @ '' event_type='' @ event_type)) w'
      | (Inl err, w') \<Rightarrow>
          add_audit (webhook_event now ''webhook.process_error'' ''error''
            (''delivery_id='' @ delivery_id @ '' event_type='' @ event_type @ '' error=''
              @ webhook_error_display E err)) w')"

section \<open>The HTTP handler\<close>

record webhook_request =
  hr_delivery :: "string option"
  hr_event :: "string option"
  hr_signature :: "string option"
  hr_body :: "bytes option"

datatype webhook_response =
    ErrorReply api_error
  | PingReply string
  | DuplicateReply string
  | ProcessedReply string bool string

definition header_value :: "string option \<Rightarrow> string option" where
  "header_value h = (case h of Some v \<Rightarrow> if v = [] then None else Some v | None \<Rightarrow> None)"

text \<open>
  \<open>verify\<close> is the signature check of the injected adapter; \<open>None\<close> is its error. The three clock
  readings are those of \<open>ingest\<close> and \<open>dispatch\<close>.
\<close>

definition handle_webhook ::
  "ext \<Rightarrow> (github_webhook_payload \<Rightarrow> webhook_signature_result option) \<Rightarrow> webhook_processor
    \<Rightarrow> u64 \<Rightarrow> u64 \<Rightarrow> u64 \<Rightarrow> webhook_request \<Rightarrow> world \<Rightarrow> webhook_response \<times> world" where
  "handle_webhook E verify processor t1 t2 t3 request w =
     (case header_value (hr_delivery request) of
        None \<Rightarrow> (ErrorReply (bad_request ''MISSING_DELIVERY_ID'' ''The `X-GitHub-Delivery` header is required''), w)
      | Some delivery_id \<Rightarrow>
     (case header_value (hr_event request) of
        None \<Rightarrow> (ErrorReply (bad_request ''MISSING_EVENT_TYPE'' ''The `X-GitHub-Event` header is required''), w)
      | Some event_type \<Rightarrow>
     (case header_value (hr_signature request) of
        None \<Rightarrow> (ErrorReply (api_error.Unauthorized ''MISSING_SIGNATURE'' ''The `X-Hub-Signature-256` header is required''), w)
      | Some signature \<Rightarrow>
     (case hr_body request of
        None \<Rightarrow> (ErrorReply (Internal ''Failed to read request body''), w)
      | Some body \<Rightarrow>
     (let payload = \<lparr>wp_delivery_id = delivery_id, wp_event_type = event_type,
                     wp_signature = signature, wp_body = body\<rparr> in
      case verify payload of
        None \<Rightarrow> (ErrorReply (Internal ''Webhook authentication is unavailable''), w)
      | Some MissingOrMalformed \<Rightarrow>
          (ErrorReply (api_error.Unauthorized ''MISSING_OR_MALFORMED_SIGNATURE''
             ''The `X-Hub-Signature-256` header is missing or malformed''), w)
      | Some Invalid \<Rightarrow>
          (ErrorReply (api_error.Unauthorized ''INVALID_SIGNATURE''
             ''The webhook signature does not match the payload''), w)
      | Some Valid \<Rightarrow>
          if event_type = ''ping'' then (PingReply delivery_id, w)
          else (case ingest E t1 t2 payload w of
            (Inl (Malformed message), w') \<Rightarrow> (ErrorReply (bad_request ''MALFORMED_WEBHOOK'' message), w')
          | (Inl (UnsupportedEventType _), w') \<Rightarrow>
              (ErrorReply (bad_request ''UNSUPPORTED_EVENT_TYPE'' ''The GitHub event type is not supported''), w')
          | (Inl _, w') \<Rightarrow> (ErrorReply (Internal ''Webhook ingestion failed''), w')
          | (Inr IngestDuplicate, w') \<Rightarrow> (DuplicateReply delivery_id, w')
          | (Inr (Processed out_of_order raw_digest), w') \<Rightarrow>
              (ProcessedReply delivery_id out_of_order (to_hex E raw_digest),
               dispatch E processor t3 event_type body delivery_id out_of_order w')))))))"

section \<open>Lemmas\<close>

lemma add_audit_frame [simp]:
  "w_webhooks (add_audit e w) = w_webhooks w" "w_receipts (add_audit e w) = w_receipts w"
  "w_tracker (add_audit e w) = w_tracker w" "w_attempts (add_audit e w) = w_attempts w"
  by (simp_all add: add_audit_def)

lemma produce_keeps:
  "w_webhooks (snd (produce_receipt_from_webhook E order now ev w)) = w_webhooks w"
  "w_tracker (snd (produce_receipt_from_webhook E order now ev w)) = w_tracker w"
  by (simp_all add: produce_receipt_from_webhook_def try_op_eq find_attempt_run record_outcome_keeps
      split: option.split)

lemma terminal_outcome:
  "terminal_status s \<Longrightarrow>
    map_github_state_to_outcome s = Succeeded \<or> map_github_state_to_outcome s = Failed"
  by (auto simp: terminal_status_def map_github_state_to_outcome_def ascii_lower_char_def Let_def)

text \<open>The processor ends in one audit event after the production, whatever it returned.\<close>

lemma process_terminal_world:
  assumes "parse_deployment_status E body = Some ev" and "terminal_status (de_state ev)"
  shows "\<exists>e. snd (process E order now later ''deployment_status'' body i b w) =
    add_audit e (snd (produce_receipt_from_webhook E order now ev w))"
  using assms
  by (cases "produce_receipt_from_webhook E order now ev w")
    (auto simp: process_def split: sum.split receipt_production_error.split)

lemma process_other_world:
  assumes "t \<noteq> ''deployment_status'' \<or> parse_deployment_status E body = None
    \<or> (\<exists>ev. parse_deployment_status E body = Some ev \<and> \<not> terminal_status (de_state ev))"
  shows "\<exists>evs. snd (process E order now later t body i b w) = w\<lparr>w_audit := w_audit w @ evs\<rparr>"
proof -
  have "\<exists>evs. w = w\<lparr>w_audit := w_audit w @ evs\<rparr>" by (rule exI [of _ "[]"]) simp
  moreover have "\<exists>evs. add_audit e w = w\<lparr>w_audit := w_audit w @ evs\<rparr>" for e
    by (rule exI [of _ "[e]"]) (simp add: add_audit_def)
  ultimately show ?thesis
    using assms by (auto simp: process_def try_op_eq map_err_eq split: option.split)
qed

lemma process_cases:
  obtains (quiet) evs where "snd (process E order now later t body i b w) = w\<lparr>w_audit := w_audit w @ evs\<rparr>"
  | (terminal) ev e where "parse_deployment_status E body = Some ev" "terminal_status (de_state ev)"
      "snd (process E order now later t body i b w) = add_audit e (snd (produce_receipt_from_webhook E order now ev w))"
proof (cases "t = ''deployment_status'' \<and> (\<exists>ev. parse_deployment_status E body = Some ev \<and> terminal_status (de_state ev))")
  case True
  then show thesis using process_terminal_world [of E body _ order now later i b w] terminal by blast
next
  case False
  then have "t \<noteq> ''deployment_status'' \<or> parse_deployment_status E body = None
    \<or> (\<exists>ev. parse_deployment_status E body = Some ev \<and> \<not> terminal_status (de_state ev))" by auto
  then show thesis using process_other_world [of t E body order now later i b w] quiet by blast
qed

lemma process_keeps:
  "w_webhooks (snd (process E order now later t body i b w)) = w_webhooks w"
  "w_tracker (snd (process E order now later t body i b w)) = w_tracker w"
  by (rule process_cases [of E order now later t body i b w]; simp add: produce_keeps)+

lemma process_receipts:
  "receipt_get (w_receipts (snd (process E order now later t body i b w))) k = receipt_get (w_receipts w) k
   \<or> (receipt_get (w_receipts w) k = None
      \<and> (\<exists>r. receipt_get (w_receipts (snd (process E order now later t body i b w))) k = Some r
           \<and> (rp_outcome r = Succeeded \<or> rp_outcome r = Failed) \<and> rp_evidence_gaps r = []))"
proof (rule process_cases [of E order now later t body i b w])
  fix evs assume "snd (process E order now later t body i b w) = w\<lparr>w_audit := w_audit w @ evs\<rparr>"
  then show ?thesis by simp
next
  fix ev e assume final: "terminal_status (de_state ev)"
    and w': "snd (process E order now later t body i b w) =
      add_audit e (snd (produce_receipt_from_webhook E order now ev w))"
  show ?thesis
  proof (cases "attempt_by_deployment_id order (w_attempts w) (de_deployment_id ev)")
    case None
    then show ?thesis
      by (simp add: w' produce_receipt_from_webhook_def try_op_eq find_attempt_run)
  next
    case (Some x)
    let ?r = "produced_receipt E now ev x"
    have r: "(rp_outcome ?r = Succeeded \<or> rp_outcome ?r = Failed) \<and> rp_evidence_gaps ?r = []"
      using terminal_outcome [OF final] by (auto simp: produced_receipt_def Let_def)
    have "w_receipts (snd (produce_receipt_from_webhook E order now ev w)) = w_receipts w
        \<or> w_receipts (snd (produce_receipt_from_webhook E order now ev w)) = snd (receipt_insert ?r (w_receipts w))"
      using Some by (simp add: produce_receipt_from_webhook_def try_op_eq find_attempt_run record_outcome_receipts)
    then show ?thesis
      using receipts.lookup_ins [of ?r "w_receipts w" k] r by (auto simp: w' split: if_splits)
  qed
qed

text \<open>Ingestion stores a delivery before anything else happens, and only once.\<close>

definition seen :: "world \<Rightarrow> string \<Rightarrow> bool" where
  "seen w delivery_id \<longleftrightarrow> webhook_get (w_webhooks w) delivery_id \<noteq> None"

lemma webhook_record_fresh:
  "wr_delivery_id r \<noteq> [] \<Longrightarrow> webhook_get s (wr_delivery_id r) = None \<Longrightarrow>
    webhook_record r s = (Inr Recorded, s(wr_delivery_id r \<mapsto> r))"
  by (simp add: webhook_record_def webhook_get_def)

lemma ingest_run:
  "ingest E now later p w =
    (if blank (wp_delivery_id p) then (Inl (Malformed ''delivery ID is empty''), w)
     else if wp_event_type p \<noteq> ''deployment_status'' then (Inl (UnsupportedEventType (wp_event_type p)), w)
     else case parse_deployment_status E (wp_body p) of
       None \<Rightarrow> (Inl (Malformed ''invalid deployment_status payload''), w)
     | Some ev \<Rightarrow>
         if seen w (wp_delivery_id p) then (Inr IngestDuplicate, w)
         else (let late = fst (tracker_record (de_deployment_id ev) (de_updated_at ev) (w_tracker w)) in
           (Inr (Processed late (content_digest_of E (wp_body p))),
            add_audit (webhook_event later
                (if late then ''webhook.ingested.out_of_order'' else ''webhook.ingested'') ''accepted''
                (''delivery_id='' @ wp_delivery_id p @ '' event_type='' @ wp_event_type p
                  @ '' out_of_order='' @ debug_bool late))
             (w\<lparr>w_webhooks := (w_webhooks w)(wp_delivery_id p \<mapsto>
                  \<lparr>wr_delivery_id = wp_delivery_id p, wr_source = ''github'',
                   wr_raw_digest = content_digest_of E (wp_body p), wr_received_at = now\<rparr>),
                w_tracker := snd (tracker_record (de_deployment_id ev) (de_updated_at ev) (w_tracker w))\<rparr>))))"
proof (cases "blank (wp_delivery_id p) \<or> wp_event_type p \<noteq> ''deployment_status''
    \<or> parse_deployment_status E (wp_body p) = None \<or> seen w (wp_delivery_id p)")
  case True
  then show ?thesis by (auto simp: ingest_def seen_def try_op_eq Let_def split: option.split)
next
  case False
  then obtain ev where "parse_deployment_status E (wp_body p) = Some ev" by auto
  moreover from False have "wp_delivery_id p \<noteq> []" by auto
  ultimately show ?thesis
    using False webhook_record_fresh
    by (simp add: ingest_def seen_def try_op_eq map_err_eq on_eq webhook_record_fresh record_order_def
        case_prod_unfold Let_def add_audit_def)
qed

text \<open>Recording timestamps in sequence keeps the newest per deployment.\<close>

fun track_all :: "(u64 \<times> u64) list \<Rightarrow> (u64 \<rightharpoonup> u64) \<Rightarrow> (u64 \<rightharpoonup> u64)" where
  "track_all [] tr = tr"
| "track_all ((d, t) # evs) tr = track_all evs (snd (tracker_record d t tr))"

lemma tracker_latest:
  "(\<exists>latest. snd (tracker_record d t tr) k = Some latest \<and> u < latest) \<longleftrightarrow>
    (\<exists>latest. tr k = Some latest \<and> u < latest) \<or> (k = d \<and> u < t)"
  by (auto simp: tracker_record_def less_max_iff_disj split: option.splits)

lemma track_all_latest:
  "(\<exists>latest. track_all evs tr k = Some latest \<and> u < latest) \<longleftrightarrow>
    (\<exists>latest. tr k = Some latest \<and> u < latest) \<or> (\<exists>t. (k, t) \<in> set evs \<and> u < t)"
proof (induction evs arbitrary: tr)
  case Nil
  then show ?case by simp
next
  case (Cons x evs)
  obtain d t where x: "x = (d, t)" by (cases x)
  show ?case using Cons [of "snd (tracker_record d t tr)"] by (auto simp: x tracker_latest)
qed

text \<open>A request that does not carry a valid signature, and what the handler does with the others.\<close>

definition payload_of :: "webhook_request \<Rightarrow> github_webhook_payload option" where
  "payload_of r =
     Option.bind (header_value (hr_delivery r)) (\<lambda>i.
     Option.bind (header_value (hr_event r)) (\<lambda>t.
     Option.bind (header_value (hr_signature r)) (\<lambda>s.
     Option.bind (hr_body r) (\<lambda>b.
     Some \<lparr>wp_delivery_id = i, wp_event_type = t, wp_signature = s, wp_body = b\<rparr>))))"

lemma handle_rejected:
  assumes "\<not> (\<exists>p. payload_of r = Some p \<and> verify p = Some Valid)"
  shows "snd (handle_webhook E verify P t1 t2 t3 r w) = w
    \<and> (\<exists>e. fst (handle_webhook E verify P t1 t2 t3 r w) = ErrorReply e)"
proof (cases "payload_of r")
  case None
  then consider "header_value (hr_delivery r) = None"
    | i where "header_value (hr_delivery r) = Some i" "header_value (hr_event r) = None"
    | i t where "header_value (hr_delivery r) = Some i" "header_value (hr_event r) = Some t"
        "header_value (hr_signature r) = None"
    | i t s where "header_value (hr_delivery r) = Some i" "header_value (hr_event r) = Some t"
        "header_value (hr_signature r) = Some s" "hr_body r = None"
    by (fastforce simp: payload_of_def bind_eq_None_conv)
  then show ?thesis by cases (simp_all add: handle_webhook_def)
next
  case (Some p)
  then obtain i t s b where h: "header_value (hr_delivery r) = Some i" "header_value (hr_event r) = Some t"
    "header_value (hr_signature r) = Some s" "hr_body r = Some b"
    and p: "p = \<lparr>wp_delivery_id = i, wp_event_type = t, wp_signature = s, wp_body = b\<rparr>"
    by (auto simp: payload_of_def bind_eq_Some_conv)
  have "verify p = None \<or> verify p = Some MissingOrMalformed \<or> verify p = Some Invalid"
    using assms Some by (metis option.exhaust webhook_signature_result.exhaust)
  then show ?thesis
    unfolding p by (elim disjE) (simp_all add: handle_webhook_def h)
qed

lemma handle_valid:
  assumes "payload_of r = Some p" and "verify p = Some Valid"
  shows "handle_webhook E verify P t1 t2 t3 r w =
    (if wp_event_type p = ''ping'' then (PingReply (wp_delivery_id p), w)
     else case ingest E t1 t2 p w of
       (Inl (Malformed message), w') \<Rightarrow> (ErrorReply (bad_request ''MALFORMED_WEBHOOK'' message), w')
     | (Inl (UnsupportedEventType _), w') \<Rightarrow>
         (ErrorReply (bad_request ''UNSUPPORTED_EVENT_TYPE'' ''The GitHub event type is not supported''), w')
     | (Inl _, w') \<Rightarrow> (ErrorReply (Internal ''Webhook ingestion failed''), w')
     | (Inr IngestDuplicate, w') \<Rightarrow> (DuplicateReply (wp_delivery_id p), w')
     | (Inr (Processed out_of_order raw_digest), w') \<Rightarrow>
         (ProcessedReply (wp_delivery_id p) out_of_order (to_hex E raw_digest),
          dispatch E P t3 (wp_event_type p) (wp_body p) (wp_delivery_id p) out_of_order w'))"
proof -
  obtain i t s b where h: "header_value (hr_delivery r) = Some i" "header_value (hr_event r) = Some t"
    "header_value (hr_signature r) = Some s" "hr_body r = Some b"
    and p: "p = \<lparr>wp_delivery_id = i, wp_event_type = t, wp_signature = s, wp_body = b\<rparr>"
    using assms(1) by (auto simp: payload_of_def bind_eq_Some_conv)
  show ?thesis
    unfolding handle_webhook_def h option.case Let_def p assms(2) [unfolded p]
      webhook_signature_result.case github_webhook_payload.select_convs
    by (rule refl)
qed

lemma dispatch_webhooks:
  "w_webhooks (dispatch E (process E order n1 n2) now t b i oo w) = w_webhooks w"
  using process_keeps(1) [of E order n1 n2 t b i oo w]
  by (cases "process E order n1 n2 t b i oo w") (simp add: dispatch_def split: sum.split)

lemma seen_cong: "w_webhooks w' = w_webhooks w \<Longrightarrow> seen w' k = seen w k"
  by (simp add: seen_def)

text \<open>One request with the receipt-producing processor, as far as deliveries are concerned.\<close>

lemma handle_step:
  assumes "handle_webhook E verify (process E order n1 n2) t1 t2 t3 r w = (reply, w')"
  shows "(seen w d \<longrightarrow> seen w' d)
    \<and> (reply = ProcessedReply d oo g \<longrightarrow> \<not> seen w d \<and> seen w' d)
    \<and> (seen w d \<and> header_value (hr_delivery r) = Some d \<longrightarrow> w' = w)"
proof (cases "\<exists>p. payload_of r = Some p \<and> verify p = Some Valid")
  case False
  with handle_rejected [OF False, of E "process E order n1 n2" t1 t2 t3 w] assms show ?thesis by auto
next
  case True
  then obtain p where p: "payload_of r = Some p" "verify p = Some Valid" by blast
  then have hd: "header_value (hr_delivery r) = Some (wp_delivery_id p)"
    by (auto simp: payload_of_def bind_eq_Some_conv)
  show ?thesis
  proof (cases "wp_event_type p = ''ping'' \<or> (\<forall>f x. fst (ingest E t1 t2 p w) \<noteq> Inr (Processed f x))")
    case True
    then have "w' = w \<and> (\<forall>k f x. reply \<noteq> ProcessedReply k f x)"
      using assms
      by (auto simp: handle_valid [of r p verify, OF p(1) p(2)] ingest_run Let_def
          split: option.splits if_splits prod.splits)
    then show ?thesis by auto
  next
    case False
    then obtain f x where run: "fst (ingest E t1 t2 p w) = Inr (Processed f x)" and "wp_event_type p \<noteq> ''ping''"
      by blast
    let ?w = "snd (ingest E t1 t2 p w)"
    have fresh: "\<not> seen w (wp_delivery_id p)"
      and web: "\<exists>x. w_webhooks ?w = (w_webhooks w)(wp_delivery_id p \<mapsto> x)"
      using run by (auto simp: ingest_run Let_def split: option.splits if_splits)
    have "handle_webhook E verify (process E order n1 n2) t1 t2 t3 r w =
        (ProcessedReply (wp_delivery_id p) f (to_hex E x),
         dispatch E (process E order n1 n2) t3 (wp_event_type p) (wp_body p) (wp_delivery_id p) f ?w)"
      using \<open>wp_event_type p \<noteq> ''ping''\<close> run
      by (cases "ingest E t1 t2 p w") (simp add: handle_valid [of r p verify, OF p(1) p(2)])
    then have "reply = ProcessedReply (wp_delivery_id p) f (to_hex E x)"
      and "w_webhooks w' = w_webhooks ?w"
      using assms dispatch_webhooks by simp_all
    with fresh web hd show ?thesis by (auto simp: seen_def webhook_get_def)
  qed
qed

text \<open>A sequence of requests, each with its clock readings.\<close>

record webhook_call =
  wc_order :: "string list"
  wc_clock :: "u64 \<times> u64 \<times> u64 \<times> u64 \<times> u64"
  wc_request :: webhook_request

definition handle_call ::
  "ext \<Rightarrow> (github_webhook_payload \<Rightarrow> webhook_signature_result option) \<Rightarrow> webhook_call \<Rightarrow> world
    \<Rightarrow> webhook_response \<times> world" where
  "handle_call E verify c =
     (case wc_clock c of (t1, t2, t3, n1, n2) \<Rightarrow>
        handle_webhook E verify (process E (wc_order c) n1 n2) t1 t2 t3 (wc_request c))"

fun handle_calls ::
  "ext \<Rightarrow> (github_webhook_payload \<Rightarrow> webhook_signature_result option) \<Rightarrow> webhook_call list \<Rightarrow> world
    \<Rightarrow> webhook_response list \<times> world" where
  "handle_calls E verify [] w = ([], w)"
| "handle_calls E verify (c # cs) w =
     (let (reply, w1) = handle_call E verify c w; (replies, w2) = handle_calls E verify cs w1
      in (reply # replies, w2))"

fun processed_for :: "string \<Rightarrow> webhook_response \<Rightarrow> bool" where
  "processed_for d (ProcessedReply i f x) = (i = d)"
| "processed_for d _ = False"

lemma handle_call_step:
  assumes "handle_call E verify c w = (reply, w')"
  shows "(seen w d \<longrightarrow> seen w' d) \<and> (processed_for d reply \<longrightarrow> \<not> seen w d \<and> seen w' d)
    \<and> (seen w d \<and> header_value (hr_delivery (wc_request c)) = Some d \<longrightarrow> w' = w)"
proof -
  obtain t1 t2 t3 n1 n2 where clk: "wc_clock c = (t1, t2, t3, n1, n2)" by (cases "wc_clock c")
  from assms have run: "handle_webhook E verify (process E (wc_order c) n1 n2) t1 t2 t3 (wc_request c) w = (reply, w')"
    by (simp add: handle_call_def clk)
  show ?thesis using handle_step [OF run, of d] by (cases reply) auto
qed

lemma handle_calls_seen:
  "seen w d \<Longrightarrow> filter (processed_for d) (fst (handle_calls E verify cs w)) = []"
proof (induction cs arbitrary: w)
  case Nil
  then show ?case by simp
next
  case (Cons c cs)
  obtain reply w1 where c: "handle_call E verify c w = (reply, w1)" by (cases "handle_call E verify c w")
  with handle_call_step [OF c, of d] Cons show ?case by (auto simp: case_prod_unfold Let_def)
qed

section \<open>Properties\<close>

text \<open>
  C12. Nothing happens without a valid signature: a webhook request whose delivery, event or
  signature header is missing or empty, whose body cannot be read, or for which the adapter does
  not answer \<open>Valid\<close>, is answered with an error and changes no store.
\<close>

theorem unauthenticated_webhook_no_effect:
  assumes "\<not> (\<exists>i t s b. header_value (hr_delivery r) = Some i \<and> header_value (hr_event r) = Some t
      \<and> header_value (hr_signature r) = Some s \<and> hr_body r = Some b
      \<and> verify \<lparr>wp_delivery_id = i, wp_event_type = t, wp_signature = s, wp_body = b\<rparr> = Some Valid)"
  shows "snd (handle_webhook E verify P t1 t2 t3 r w) = w
    \<and> (\<exists>e. fst (handle_webhook E verify P t1 t2 t3 r w) = ErrorReply e)"
  by (rule handle_rejected) (use assms in \<open>auto simp: payload_of_def bind_eq_Some_conv\<close>)

theorem unauthenticated_webhook_no_effect_witness:
  "snd (handle_webhook ext_ref (\<lambda>p. Some Invalid) (process ext_ref [] 1 2) 3 4 5
      \<lparr>hr_delivery = Some ''d'', hr_event = Some ''deployment_status'', hr_signature = Some ''s'',
       hr_body = Some ''b''\<rparr> world_new) = world_new"
  using unauthenticated_webhook_no_effect [of "\<lparr>hr_delivery = Some ''d'', hr_event = Some ''deployment_status'',
      hr_signature = Some ''s'', hr_body = Some ''b''\<rparr>" "\<lambda>p. Some Invalid"] by simp

text \<open>
  A delivery is processed at most once. In any sequence of webhook requests, with any
  signature answers, clock readings and payloads, at most one request is answered as processed
  for a delivery id; and a request that repeats a delivery already recorded changes nothing, even
  when the processing of the first one failed.
\<close>

theorem delivery_processed_once:
  "length (filter (processed_for d) (fst (handle_calls E verify cs w))) \<le> 1
   \<and> (seen w d \<and> header_value (hr_delivery (wc_request c)) = Some d
      \<longrightarrow> snd (handle_call E verify c w) = w)"
proof
  show "length (filter (processed_for d) (fst (handle_calls E verify cs w))) \<le> 1"
  proof (induction cs arbitrary: w)
    case Nil
    then show ?case by simp
  next
    case (Cons c cs)
    obtain reply w1 where c: "handle_call E verify c w = (reply, w1)" by (cases "handle_call E verify c w")
    show ?case
    proof (cases "processed_for d reply")
      case True
      then have "seen w1 d" using handle_call_step [OF c, of d] by simp
      from handle_calls_seen [OF this, of E verify cs] True c show ?thesis
        by (simp add: case_prod_unfold Let_def)
    next
      case False
      with Cons [of w1] c show ?thesis by (simp add: case_prod_unfold Let_def)
    qed
  qed
  show "seen w d \<and> header_value (hr_delivery (wc_request c)) = Some d
      \<longrightarrow> snd (handle_call E verify c w) = w"
    using handle_call_step [of E verify c w _ _ d] by (cases "handle_call E verify c w") auto
qed

theorem delivery_processed_once_witness:
  "\<exists>c. snd (handle_call ext_ref (\<lambda>p. Some Valid) c
      (world_new\<lparr>w_webhooks := [''d'' \<mapsto> \<lparr>wr_delivery_id = ''d'', wr_source = ''github'',
         wr_raw_digest = ContentDigest [], wr_received_at = 1\<rparr>]\<rparr>))
    = world_new\<lparr>w_webhooks := [''d'' \<mapsto> \<lparr>wr_delivery_id = ''d'', wr_source = ''github'',
         wr_raw_digest = ContentDigest [], wr_received_at = 1\<rparr>]\<rparr>"
proof -
  let ?w = "world_new\<lparr>w_webhooks := [''d'' \<mapsto> \<lparr>wr_delivery_id = ''d'', wr_source = ''github'',
         wr_raw_digest = ContentDigest [], wr_received_at = 1\<rparr>]\<rparr>"
  let ?c = "\<lparr>wc_order = [], wc_clock = (1, 2, 3, 4, 5), wc_request = \<lparr>hr_delivery = Some ''d'',
      hr_event = Some ''deployment_status'', hr_signature = Some ''s'', hr_body = Some ''b''\<rparr>\<rparr>"
  have "seen ?w ''d''" by (simp add: seen_def webhook_get_def)
  moreover have "header_value (hr_delivery (wc_request ?c)) = Some ''d''" by (simp add: header_value_def)
  ultimately show ?thesis
    using delivery_processed_once [of "''d''" ext_ref "\<lambda>p. Some Valid" "[]" ?w ?c] by blast
qed

text \<open>
  The out-of-order flag means what it says: after any sequence of recorded events, an event
  of a deployment is flagged exactly when an event of the same deployment with a strictly later
  provider timestamp was recorded before, whatever happened to other deployments.
\<close>

theorem out_of_order_iff:
  "fst (tracker_record d t (track_all evs Map.empty)) \<longleftrightarrow> (\<exists>t'. (d, t') \<in> set evs \<and> t < t')"
proof -
  have "fst (tracker_record d t tr) \<longleftrightarrow> (\<exists>latest. tr d = Some latest \<and> t < latest)" for tr
    by (simp add: tracker_record_def split: option.split)
  then show ?thesis using track_all_latest [of evs Map.empty d t] by simp
qed

text \<open>
  The processor records only terminal outcomes. Whatever it is given, for every receipt id the
  store is unchanged or holds a new receipt whose outcome is \<open>Succeeded\<close> or \<open>Failed\<close> and that
  names no evidence gap: the \<open>Unknown\<close> branch of receipt production is never taken from here, and
  no stored receipt is ever replaced.
\<close>

theorem processor_records_terminal_outcomes:
  "receipt_get (w_receipts (snd (process E order now later t body i b w))) k = receipt_get (w_receipts w) k
   \<or> (receipt_get (w_receipts w) k = None
      \<and> (\<exists>r. receipt_get (w_receipts (snd (process E order now later t body i b w))) k = Some r
           \<and> (rp_outcome r = Succeeded \<or> rp_outcome r = Failed) \<and> rp_evidence_gaps r = []))"
  by (rule process_receipts)

end
