(* ===== verification/Bundle_Export.thy ===== *)
theory Bundle_Export
  imports Receipts
begin

text \<open>
  Bundle export: \<^verbatim>\<open>crates/piteka-application/src/bundle_export.rs\<close>. A receipt, the evidence nodes it
  refers to and its gaps become one JSON manifest, stored content-addressed as a protocol
  object, with one blob per node. A JSON object is the list of its members in key order, as
  serde_json prints them.
\<close>

section \<open>Errors and result\<close>

datatype bundle_export_error =
    Storage storage_error
  | ReceiptNotFound string
  | MandateNotFound string
  | IncompleteEvidence "string list" "string list"
  | Serialization string

fun bundle_export_error_display :: "ext \<Rightarrow> bundle_export_error \<Rightarrow> string" where
  "bundle_export_error_display E (Storage e) = ''storage error: '' @ storage_error_display E e"
| "bundle_export_error_display E (ReceiptNotFound i) = ''receipt `'' @ i @ ''` not found''"
| "bundle_export_error_display E (MandateNotFound i) = ''mandate `'' @ i @ ''` not found''"
| "bundle_export_error_display E (IncompleteEvidence required missing) =
     ''incomplete evidence: '' @ dec_nat (length required) @ '' required, ''
       @ dec_nat (length missing) @ '' missing''"
| "bundle_export_error_display E (Serialization m) = ''serialization error: '' @ m"

record bundle_export =
  be_bundle_id_hex :: string
  be_receipt_id_hex :: string
  be_mandate_id_hex :: string
  be_evidence_node_ids :: "string list"
  be_evidence_gap_ids :: "string list"
  be_bundle_digest :: content_digest

type_synonym 'a bundle_op = "(world, bundle_export_error, 'a) op"

section \<open>Fetching the nodes\<close>

text \<open>The loop of \<open>fetch_nodes\<close>: the nodes found and the identifiers missing so far.\<close>

fun fetch_nodes_loop ::
  "evidence_node_store \<Rightarrow> string list \<Rightarrow> evidence_node list \<Rightarrow> string list
    \<Rightarrow> evidence_node list \<times> string list" where
  "fetch_nodes_loop s [] nodes missing = (nodes, missing)"
| "fetch_nodes_loop s (i # ids) nodes missing =
     (case node_get s i of
        Some n \<Rightarrow> fetch_nodes_loop s ids (nodes @ [n]) missing
      | None \<Rightarrow> fetch_nodes_loop s ids nodes (missing @ [i]))"

definition fetch_nodes ::
  "evidence_node_store \<Rightarrow> string list \<Rightarrow> bundle_export_error + evidence_node list" where
  "fetch_nodes s ids =
     (case fetch_nodes_loop s ids [] [] of
        (nodes, missing) \<Rightarrow>
          if missing = [] then Inr nodes else Inl (IncompleteEvidence ids missing))"

section \<open>JSON documents\<close>

fun source_label :: "evidence_source \<Rightarrow> string" where
  "source_label Piteka = ''piteka''"
| "source_label (Provider p) = p"
| "source_label Verifier = ''verifier''"

definition evidence_blob_payload :: "ext \<Rightarrow> evidence_node \<Rightarrow> json" where
  "evidence_blob_payload E n =
     JObject
       [(''asserted_event_at'', (case en_asserted_event_at n of None \<Rightarrow> JNull | Some t \<Rightarrow> json_of_i64 t)),
        (''collected_at'', json_of_i64 (en_collected_at n)),
        (''content_digest'', JString (to_hex E (en_content_digest n))),
        (''disclosure_classification'', JString (en_disclosure_classification n)),
        (''media_type'', JString (en_media_type n)),
        (''node_id'', JString (en_node_id_hex n)),
        (''producer_identity'', JString (en_producer_identity n)),
        (''registry_id'', JString (en_registry_id n)),
        (''relationships'', JArray (map JString (en_relationships n))),
        (''source'', JString (source_label (en_source n)))]"

definition evidence_entry :: "ext \<Rightarrow> evidence_node \<Rightarrow> json" where
  "evidence_entry E n =
     JObject
       [(''content_digest'', JString (to_hex E (en_content_digest n))),
        (''node_id'', JString (en_node_id_hex n)),
        (''registry_id'', JString (en_registry_id n)),
        (''source'', JString (source_label (en_source n)))]"

definition gap_entry :: "ext \<Rightarrow> evidence_node \<Rightarrow> json" where
  "gap_entry E n =
     JObject
       [(''content_digest'', JString (to_hex E (en_content_digest n))),
        (''node_id'', JString (en_node_id_hex n))]"

fun is_provider :: "evidence_source \<Rightarrow> bool" where
  "is_provider (Provider p) = True"
| "is_provider _ = False"

definition json_count :: "'a list \<Rightarrow> json" where
  "json_count xs = JPosInt (of_nat (length xs))"

definition assemble_manifest ::
  "ext \<Rightarrow> receipt_projection \<Rightarrow> evidence_node list \<Rightarrow> evidence_node list \<Rightarrow> evidence_node list \<Rightarrow> json" where
  "assemble_manifest E receipt dispatch_nodes target_nodes gap_nodes =
     JObject
       [(''bundle_version'', JString ''0.1''),
        (''dispatch_evidence'', JArray (map (evidence_entry E) dispatch_nodes)),
        (''evidence_gaps'', JArray (map (gap_entry E) gap_nodes)),
        (''missing_evidence'', JObject
           [(''gap_count'', json_count gap_nodes),
            (''gaps'', JArray (map JString (rp_evidence_gaps receipt)))]),
        (''receipt'', JObject
           [(''attempt_id'', JString (rp_attempt_id_hex receipt)),
            (''created_at'', json_of_i64 (rp_created_at receipt)),
            (''intent_id'', JString (rp_intent_id_hex receipt)),
            (''mandate_id'', JString (rp_mandate_id_hex receipt)),
            (''outcome'', JString (outcome_as_str (rp_outcome receipt))),
            (''receipt_id'', JString (rp_receipt_id_hex receipt))]),
        (''source_attribution'', JObject
           [(''piteka_claims'', json_count (filter (\<lambda>n. en_source n = Piteka) dispatch_nodes)),
            (''provider_observations'', json_count (filter (\<lambda>n. is_provider (en_source n)) target_nodes)),
            (''verifier_conclusions'', JPosInt 0)]),
        (''target_evidence'', JArray (map (evidence_entry E) target_nodes))]"

section \<open>Assembly\<close>

definition fetch_receipt :: "string \<Rightarrow> receipt_projection bundle_op" where
  "fetch_receipt k =
     try_op (reading (\<lambda>w. receipt_get (w_receipts w) k)) (\<lambda>found.
       case found of None \<Rightarrow> fail (ReceiptNotFound k) | Some receipt \<Rightarrow> ok receipt)"

definition fetch_evidence :: "string list \<Rightarrow> evidence_node list bundle_op" where
  "fetch_evidence ids w = (fetch_nodes (w_nodes w) ids, w)"

definition serialize :: "ext \<Rightarrow> string \<Rightarrow> json \<Rightarrow> bytes bundle_op" where
  "serialize E what j =
     (case ext_json_to_vec E j of
        Inl e \<Rightarrow> fail (Serialization (''failed to serialize '' @ what @ '': '' @ e))
      | Inr b \<Rightarrow> ok b)"

definition store_evidence_blob :: "ext \<Rightarrow> evidence_node \<Rightarrow> (content_digest \<times> u64) bundle_op" where
  "store_evidence_blob E n =
     try_op (serialize E ''evidence blob'' (evidence_blob_payload E n)) (\<lambda>payload_bytes.
     try_op (map_err Storage (at_blobs (evidence_put E payload_bytes))) (\<lambda>digest.
     ok (digest, of_nat (length payload_bytes))))"

text \<open>The loop over all nodes: the identifiers and the descriptors collected so far.\<close>

fun store_evidence ::
  "ext \<Rightarrow> evidence_node list \<Rightarrow> string list \<Rightarrow> evidence_descriptor list
    \<Rightarrow> (string list \<times> evidence_descriptor list) bundle_op" where
  "store_evidence E [] ids descriptors = ok (ids, descriptors)"
| "store_evidence E (n # nodes) ids descriptors =
     try_op (store_evidence_blob E n) (\<lambda>(digest, size_bytes).
       store_evidence E nodes
         (ids @ [en_node_id_hex n @ '':'' @ to_hex E digest])
         (descriptors @ [\<lparr>ed_digest = digest,
            ed_media_type = ''application/vnd.diewan.evidence-node+json'', ed_size_bytes = size_bytes\<rparr>]))"

fun store_descriptors :: "evidence_descriptor list \<Rightarrow> unit bundle_op" where
  "store_descriptors [] = ok ()"
| "store_descriptors (d # ds) =
     try_op (map_err Storage (at_blobs (evidence_put_descriptor d))) (\<lambda>_. store_descriptors ds)"

definition store_bundle ::
  "ext \<Rightarrow> receipt_projection \<Rightarrow> evidence_node list \<Rightarrow> evidence_node list \<Rightarrow> evidence_node list
    \<Rightarrow> bundle_export bundle_op" where
  "store_bundle E receipt dispatch_nodes target_nodes gap_nodes =
     try_op (store_evidence E (dispatch_nodes @ target_nodes @ gap_nodes) [] []) (\<lambda>(ids, descriptors).
     try_op (serialize E ''bundle'' (assemble_manifest E receipt dispatch_nodes target_nodes gap_nodes))
       (\<lambda>bundle_bytes.
       let bundle_digest = content_digest_of E bundle_bytes;
           bundle_id_hex = ''bundle-'' @ to_hex E bundle_digest in
       try_op (map_err Storage (at_protocol (protocol_put
         \<lparr>po_kind = ''dispute_bundle'', po_object_id_hex = bundle_id_hex, po_bytes = bundle_bytes\<rparr>))) (\<lambda>_.
       try_op (store_descriptors descriptors) (\<lambda>_.
       ok \<lparr>be_bundle_id_hex = bundle_id_hex, be_receipt_id_hex = rp_receipt_id_hex receipt,
           be_mandate_id_hex = rp_mandate_id_hex receipt, be_evidence_node_ids = ids,
           be_evidence_gap_ids = rp_evidence_gaps receipt, be_bundle_digest = bundle_digest\<rparr>))))"

definition assemble_bundle :: "ext \<Rightarrow> string \<Rightarrow> bundle_export bundle_op" where
  "assemble_bundle E receipt_id =
     try_op (fetch_receipt receipt_id) (\<lambda>receipt.
     try_op (fetch_evidence (rp_dispatch_evidence_refs receipt)) (\<lambda>dispatch_nodes.
     try_op (fetch_evidence (rp_target_evidence_refs receipt)) (\<lambda>target_nodes.
     try_op (fetch_evidence (rp_evidence_gaps receipt)) (\<lambda>gap_nodes.
     store_bundle E receipt dispatch_nodes target_nodes gap_nodes))))"

definition export_manifest_bytes :: "ext \<Rightarrow> string \<Rightarrow> bytes bundle_op" where
  "export_manifest_bytes E receipt_id =
     try_op (fetch_receipt receipt_id) (\<lambda>receipt.
     try_op (fetch_evidence (rp_dispatch_evidence_refs receipt)) (\<lambda>dispatch_nodes.
     try_op (fetch_evidence (rp_target_evidence_refs receipt)) (\<lambda>target_nodes.
     try_op (fetch_evidence (rp_evidence_gaps receipt)) (\<lambda>gap_nodes.
     serialize E ''manifest'' (assemble_manifest E receipt dispatch_nodes target_nodes gap_nodes)))))"

section \<open>Evaluation\<close>

lemma fetch_nodes_loop_eq:
  "fetch_nodes_loop s ids nodes missing =
    (nodes @ fetch_all (node_get s) ids, missing @ filter (\<lambda>i. node_get s i = None) ids)"
  by (induction ids arbitrary: nodes missing) (simp_all split: option.split)

text \<open>Every identifier of a list is stored.\<close>

definition all_stored :: "evidence_node_store \<Rightarrow> string list \<Rightarrow> bool" where
  "all_stored s ids \<longleftrightarrow> (\<forall>i \<in> set ids. node_get s i \<noteq> None)"

lemma fetch_nodes_eq:
  "fetch_nodes s ids =
    (if all_stored s ids then Inr (fetch_all (node_get s) ids)
     else Inl (IncompleteEvidence ids (filter (\<lambda>i. node_get s i = None) ids)))"
  by (auto simp: fetch_nodes_def fetch_nodes_loop_eq all_stored_def filter_empty_conv)

lemma fetch_receipt_run:
  "fetch_receipt k w =
    (case receipt_get (w_receipts w) k of None \<Rightarrow> (Inl (ReceiptNotFound k), w) | Some r \<Rightarrow> (Inr r, w))"
  by (simp add: fetch_receipt_def split: option.split)

text \<open>What storing the blobs and descriptors of a list of nodes does to the blob store.\<close>

definition blob_of :: "ext \<Rightarrow> evidence_node \<Rightarrow> bytes" where
  "blob_of E n = (case ext_json_to_vec E (evidence_blob_payload E n) of Inl _ \<Rightarrow> [] | Inr b \<Rightarrow> b)"

definition serializable :: "ext \<Rightarrow> evidence_node list \<Rightarrow> bool" where
  "serializable E ns \<longleftrightarrow> (\<forall>n \<in> set ns. succeeded (ext_json_to_vec E (evidence_blob_payload E n)))"

definition evidence_label :: "ext \<Rightarrow> evidence_node \<Rightarrow> string" where
  "evidence_label E n = en_node_id_hex n @ '':'' @ to_hex E (content_digest_of E (blob_of E n))"

definition descriptor_of :: "ext \<Rightarrow> evidence_node \<Rightarrow> evidence_descriptor" where
  "descriptor_of E n =
     \<lparr>ed_digest = content_digest_of E (blob_of E n),
      ed_media_type = ''application/vnd.diewan.evidence-node+json'',
      ed_size_bytes = of_nat (length (blob_of E n))\<rparr>"

fun put_blobs :: "ext \<Rightarrow> bytes list \<Rightarrow> evidence_store \<Rightarrow> evidence_store" where
  "put_blobs E [] s = s"
| "put_blobs E (b # bs) s = put_blobs E bs (snd (evidence_put E b s))"

fun put_descriptors :: "evidence_descriptor list \<Rightarrow> evidence_store \<Rightarrow> evidence_store" where
  "put_descriptors [] s = s"
| "put_descriptors (d # ds) s = put_descriptors ds (snd (evidence_put_descriptor d s))"

lemma evidence_put_fst [simp]: "fst (evidence_put E b s) = Inr (content_digest_of E b)"
  by (simp add: evidence_put_def Let_def)

lemma store_evidence_blob_run:
  "store_evidence_blob E n w =
    (case ext_json_to_vec E (evidence_blob_payload E n) of
       Inl e \<Rightarrow> (Inl (Serialization (''failed to serialize evidence blob: '' @ e)), w)
     | Inr b \<Rightarrow> (Inr (content_digest_of E b, of_nat (length b)),
                w\<lparr>w_blobs := snd (evidence_put E b (w_blobs w))\<rparr>))"
  by (simp add: store_evidence_blob_def serialize_def try_op_eq map_err_eq on_eq split: sum.split)

lemma store_evidence_run:
  "serializable E ns \<Longrightarrow>
    store_evidence E ns ids ds w =
      (Inr (ids @ map (evidence_label E) ns, ds @ map (descriptor_of E) ns),
       w\<lparr>w_blobs := put_blobs E (map (blob_of E) ns) (w_blobs w)\<rparr>)"
proof (induction ns arbitrary: ids ds w)
  case Nil
  then show ?case by simp
next
  case (Cons n ns)
  then obtain b where "ext_json_to_vec E (evidence_blob_payload E n) = Inr b"
    by (auto simp: serializable_def succeeded_def split: sum.splits)
  with Cons show ?case
    by (simp add: serializable_def try_op_eq store_evidence_blob_run evidence_label_def
        descriptor_of_def blob_of_def)
qed

lemma store_evidence_ok_serializable:
  "store_evidence E ns ids ds w = (Inr x, w') \<Longrightarrow> serializable E ns"
proof (induction ns arbitrary: ids ds w)
  case Nil
  then show ?case by (simp add: serializable_def)
next
  case (Cons n ns)
  then show ?case
    by (auto simp: serializable_def try_op_eq store_evidence_blob_run split: sum.splits)
qed

lemma store_descriptors_run:
  "store_descriptors ds w = (Inr (), w\<lparr>w_blobs := put_descriptors ds (w_blobs w)\<rparr>)"
proof (induction ds arbitrary: w)
  case Nil
  then show ?case by simp
next
  case (Cons d ds)
  have "fst (evidence_put_descriptor d s) = (Inr () :: storage_error + unit)" for s
    by (simp add: evidence_put_descriptor_def)
  with Cons show ?case by (simp add: try_op_eq map_err_eq on_eq)
qed

definition bundle_of ::
  "ext \<Rightarrow> receipt_projection \<Rightarrow> evidence_node list \<Rightarrow> bytes \<Rightarrow> bundle_export" where
  "bundle_of E r ns b =
     \<lparr>be_bundle_id_hex = ''bundle-'' @ to_hex E (content_digest_of E b),
      be_receipt_id_hex = rp_receipt_id_hex r, be_mandate_id_hex = rp_mandate_id_hex r,
      be_evidence_node_ids = map (evidence_label E) ns, be_evidence_gap_ids = rp_evidence_gaps r,
      be_bundle_digest = content_digest_of E b\<rparr>"

definition bundle_object :: "ext \<Rightarrow> bytes \<Rightarrow> protocol_object" where
  "bundle_object E b =
     \<lparr>po_kind = ''dispute_bundle'', po_object_id_hex = ''bundle-'' @ to_hex E (content_digest_of E b),
      po_bytes = b\<rparr>"

lemma store_bundle_run:
  assumes "serializable E (dn @ tn @ gn)" and "ext_json_to_vec E (assemble_manifest E r dn tn gn) = Inr b"
  shows "store_bundle E r dn tn gn w =
    (let blobs = put_blobs E (map (blob_of E) (dn @ tn @ gn)) (w_blobs w) in
     case protocol_put (bundle_object E b) (w_protocol w) of
       (Inl e, p) \<Rightarrow> (Inl (Storage e), w\<lparr>w_blobs := blobs, w_protocol := p\<rparr>)
     | (Inr _, p) \<Rightarrow>
         (Inr (bundle_of E r (dn @ tn @ gn) b),
          w\<lparr>w_blobs := put_descriptors (map (descriptor_of E) (dn @ tn @ gn)) blobs, w_protocol := p\<rparr>))"
proof (cases "protocol_put (bundle_object E b) (w_protocol w)")
  case (Pair res p)
  then show ?thesis
    unfolding store_bundle_def
    by (cases res)
      (simp_all add: try_op_eq store_evidence_run [OF assms(1)] serialize_def assms(2)
        store_descriptors_run map_err_eq on_eq bundle_object_def bundle_of_def Let_def)
qed

lemma store_bundle_ok:
  assumes "store_bundle E r dn tn gn w = (Inr x, w')"
  obtains b where "serializable E (dn @ tn @ gn)"
    and "ext_json_to_vec E (assemble_manifest E r dn tn gn) = Inr b"
proof -
  from assms obtain y w1 where y: "store_evidence E (dn @ tn @ gn) [] [] w = (Inr y, w1)"
    and rest: "(case y of (ids, descriptors) \<Rightarrow>
        try_op (serialize E ''bundle'' (assemble_manifest E r dn tn gn)) (\<lambda>bundle_bytes.
        let bundle_digest = content_digest_of E bundle_bytes;
            bundle_id_hex = ''bundle-'' @ to_hex E bundle_digest in
        try_op (map_err Storage (at_protocol (protocol_put
          \<lparr>po_kind = ''dispute_bundle'', po_object_id_hex = bundle_id_hex, po_bytes = bundle_bytes\<rparr>))) (\<lambda>_.
        try_op (store_descriptors descriptors) (\<lambda>_.
        ok \<lparr>be_bundle_id_hex = bundle_id_hex, be_receipt_id_hex = rp_receipt_id_hex r,
            be_mandate_id_hex = rp_mandate_id_hex r, be_evidence_node_ids = ids,
            be_evidence_gap_ids = rp_evidence_gaps r, be_bundle_digest = bundle_digest\<rparr>)))) w1 = (Inr x, w')"
    unfolding store_bundle_def by (rule try_op_InrE)
  from rest obtain b where "ext_json_to_vec E (assemble_manifest E r dn tn gn) = Inr b"
    by (cases y) (auto simp: serialize_def elim!: try_op_InrE split: sum.splits)
  with store_evidence_ok_serializable [OF y] that show thesis by blast
qed

lemma assemble_bundle_run:
  "assemble_bundle E k w =
    (case receipt_get (w_receipts w) k of
       None \<Rightarrow> (Inl (ReceiptNotFound k), w)
     | Some r \<Rightarrow>
         (case (fetch_nodes (w_nodes w) (rp_dispatch_evidence_refs r),
                fetch_nodes (w_nodes w) (rp_target_evidence_refs r),
                fetch_nodes (w_nodes w) (rp_evidence_gaps r)) of
            (Inr dn, Inr tn, Inr gn) \<Rightarrow> store_bundle E r dn tn gn w
          | (Inl e, _, _) \<Rightarrow> (Inl e, w)
          | (_, Inl e, _) \<Rightarrow> (Inl e, w)
          | (_, _, Inl e) \<Rightarrow> (Inl e, w)))"
  by (simp add: assemble_bundle_def try_op_eq fetch_receipt_run fetch_evidence_def
      split: option.split sum.split)

text \<open>Storing the same blobs and descriptors a second time changes nothing.\<close>

lemma evidence_put_blobs:
  "es_blobs (snd (evidence_put E b s)) (ext_sha256 E b) \<noteq> None"
  "es_blobs s x = Some c \<Longrightarrow> es_blobs (snd (evidence_put E b s)) x = Some c"
  "es_blobs s (ext_sha256 E b) \<noteq> None \<Longrightarrow> snd (evidence_put E b s) = s"
  "es_descriptors (snd (evidence_put E b s)) = es_descriptors s"
  by (auto simp: evidence_put_def content_digest_of_def Let_def split: option.splits)

lemma put_blobs_stable:
  "es_blobs s x = Some c \<Longrightarrow> es_blobs (put_blobs E bs s) x = Some c"
  by (induction bs arbitrary: s) (simp_all add: evidence_put_blobs)

lemma put_blobs_stored:
  "b \<in> set bs \<Longrightarrow> es_blobs (put_blobs E bs s) (ext_sha256 E b) \<noteq> None"
proof (induction bs arbitrary: s)
  case Nil
  then show ?case by simp
next
  case (Cons a bs)
  show ?case
  proof (cases "b = a")
    case True
    obtain c where "es_blobs (snd (evidence_put E a s)) (ext_sha256 E a) = Some c"
      using evidence_put_blobs(1) by blast
    then show ?thesis using True by (simp add: put_blobs_stable)
  next
    case False
    with Cons show ?thesis by simp
  qed
qed

lemma put_blobs_again:
  "\<forall>b \<in> set bs. es_blobs s (ext_sha256 E b) \<noteq> None \<Longrightarrow> put_blobs E bs s = s"
  by (induction bs) (simp_all add: evidence_put_blobs(3))

lemma put_descriptors_blobs [simp]: "es_blobs (put_descriptors ds s) = es_blobs s"
  by (induction ds arbitrary: s) (simp_all add: evidence_put_descriptor_def)

lemma put_descriptors_descriptors:
  "es_descriptors (put_descriptors ds s) =
    es_descriptors s ++ map_of (rev (map (\<lambda>d. (digest_bytes (ed_digest d), d)) ds))"
  by (induction ds arbitrary: s) (simp_all add: evidence_put_descriptor_def map_add_assoc)

lemma store_again:
  "put_descriptors ds (put_blobs E bs (put_descriptors ds (put_blobs E bs s))) =
    put_descriptors ds (put_blobs E bs s)"
proof -
  have "put_blobs E bs (put_descriptors ds (put_blobs E bs s)) = put_descriptors ds (put_blobs E bs s)"
    by (rule put_blobs_again) (simp add: put_blobs_stored)
  moreover have "put_descriptors ds (put_descriptors ds t) = put_descriptors ds t" for t
  proof (rule evidence_store.equality)
    have "m ++ (X ++ X) = m ++ X" for m X :: "bytes \<rightharpoonup> evidence_descriptor"
      by (auto simp: map_add_def fun_eq_iff split: option.split)
    then show "es_descriptors (put_descriptors ds (put_descriptors ds t)) = es_descriptors (put_descriptors ds t)"
      by (simp only: put_descriptors_descriptors map_add_assoc [symmetric])
  qed simp_all
  ultimately show ?thesis by simp
qed

text \<open>
  The second store has all of the first, otherwise only serialized nodes of \<open>ns\<close>, each under its hash, and no
  new descriptor.
\<close>

definition gains_blobs :: "ext \<Rightarrow> evidence_node list \<Rightarrow> evidence_store \<Rightarrow> evidence_store \<Rightarrow> bool" where
  "gains_blobs E ns s s' \<longleftrightarrow>
     es_descriptors s' = es_descriptors s
     \<and> (\<forall>h c. es_blobs s h = Some c \<longrightarrow> es_blobs s' h = Some c)
     \<and> (\<forall>h c. es_blobs s' h = Some c \<longrightarrow> es_blobs s h = Some c
          \<or> (\<exists>n \<in> set ns. ext_json_to_vec E (evidence_blob_payload E n) = Inr c \<and> h = ext_sha256 E c))"

lemma gains_refl [simp]: "gains_blobs E ns s s"
  by (simp add: gains_blobs_def)

lemma gains_put:
  assumes "gains_blobs E ns (snd (evidence_put E c s)) s'" and "ext_json_to_vec E (evidence_blob_payload E n) = Inr c"
  shows "gains_blobs E (n # ns) s s'"
proof -
  have "es_blobs (snd (evidence_put E c s)) h = Some d \<Longrightarrow> es_blobs s h = Some d \<or> (h = ext_sha256 E c \<and> d = c)" for h d
    by (auto simp: evidence_put_def content_digest_of_def Let_def split: option.splits if_splits)
  with assms show ?thesis by (fastforce simp: gains_blobs_def evidence_put_blobs)
qed

text \<open>Whatever happens, storing blobs touches nothing but the blob store, and only adds to it.\<close>

lemma store_evidence_frame:
  "\<exists>B. snd (store_evidence E ns ids ds w) = w\<lparr>w_blobs := B\<rparr> \<and> gains_blobs E ns (w_blobs w) B"
proof (induction ns arbitrary: ids ds w)
  case Nil
  show ?case by simp (rule exI [of _ "w_blobs w"], simp)
next
  case (Cons n ns)
  show ?case
  proof (cases "ext_json_to_vec E (evidence_blob_payload E n)")
    case (Inl e)
    then show ?thesis
      by (simp add: try_op_eq store_evidence_blob_run) (rule exI [of _ "w_blobs w"], simp)
  next
    case (Inr b)
    from Cons [where w = "w\<lparr>w_blobs := snd (evidence_put E b (w_blobs w))\<rparr>"] show ?thesis
      using Inr gains_put [OF _ Inr] by (fastforce simp: try_op_eq store_evidence_blob_run)
  qed
qed

lemma put_blobs_gains: "serializable E ns \<Longrightarrow> gains_blobs E ns s (put_blobs E (map (blob_of E) ns) s)"
proof (induction ns arbitrary: s)
  case Nil
  then show ?case by simp
next
  case (Cons n ns)
  then have n: "ext_json_to_vec E (evidence_blob_payload E n) = Inr (blob_of E n)"
    by (auto simp: serializable_def blob_of_def succeeded_def split: sum.splits)
  from Cons have "gains_blobs E ns (snd (evidence_put E (blob_of E n) s))
      (put_blobs E (map (blob_of E) ns) (snd (evidence_put E (blob_of E n) s)))"
    by (simp add: serializable_def)
  from gains_put [OF this n] show ?case by simp
qed

lemma store_bundle_frame_error:
  assumes "store_bundle E r dn tn gn w = (Inl e, w')"
  shows "(\<exists>B. w' = w\<lparr>w_blobs := B\<rparr> \<and> gains_blobs E (dn @ tn @ gn) (w_blobs w) B)
    \<and> ((\<exists>x. e = Storage x) \<or> (\<exists>m. e = Serialization m))"
proof (cases "serializable E (dn @ tn @ gn)")
  case False
  obtain res w1 where run: "store_evidence E (dn @ tn @ gn) [] [] w = (res, w1)"
    by (cases "store_evidence E (dn @ tn @ gn) [] [] w")
  with False obtain e' where "res = Inl e'"
    using store_evidence_ok_serializable [of E "dn @ tn @ gn" "[]" "[]" w] by (cases res) auto
  with run assms have "e = e'" "w' = w1" by (simp_all add: store_bundle_def)
  moreover have "\<exists>m. e' = Serialization m"
    if "store_evidence E ns ids ds v = (Inl e', v')" for ns ids ds v v'
    using that
    by (induction ns arbitrary: ids ds v) (auto simp: try_op_eq store_evidence_blob_run split: sum.splits)
  ultimately show ?thesis
    using run \<open>res = Inl e'\<close> store_evidence_frame [of E "dn @ tn @ gn" "[]" "[]" w]
    by (metis snd_conv)
next
  case True
  note gains = put_blobs_gains [OF True, of "w_blobs w"]
  show ?thesis
  proof (cases "ext_json_to_vec E (assemble_manifest E r dn tn gn)")
    case (Inl m)
    with assms have "w' = w\<lparr>w_blobs := put_blobs E (map (blob_of E) (dn @ tn @ gn)) (w_blobs w)\<rparr>" "\<exists>m. e = Serialization m"
      by (auto simp: store_bundle_def try_op_eq store_evidence_run [OF True] serialize_def)
    with gains show ?thesis by blast
  next
    case (Inr b)
    obtain res p where put: "protocol_put (bundle_object E b) (w_protocol w) = (res, p)"
      by (cases "protocol_put (bundle_object E b) (w_protocol w)")
    let ?B = "put_blobs E (map (blob_of E) (dn @ tn @ gn)) (w_blobs w)"
    from assms put obtain x where res: "res = Inl x"
      by (cases res) (simp_all add: store_bundle_run [OF True Inr] Let_def)
    with put have "p = w_protocol w"
      by (auto simp: protocol_put_def split: if_splits option.splits)
    with assms put res have "e = Storage x" and "w' = w\<lparr>w_blobs := ?B\<rparr>"
      by (simp_all add: store_bundle_run [OF True Inr] Let_def)
    with gains show ?thesis by blast
  qed
qed

text \<open>The receipt's evidence, in the order of the bundle, and the nodes behind it.\<close>

definition receipt_refs :: "receipt_projection \<Rightarrow> string list" where
  "receipt_refs r = rp_dispatch_evidence_refs r @ rp_target_evidence_refs r @ rp_evidence_gaps r"

definition nodes_for :: "world \<Rightarrow> string list \<Rightarrow> evidence_node list" where
  "nodes_for w ids = fetch_all (node_get (w_nodes w)) ids"

lemma nodes_for_refs:
  "nodes_for w (receipt_refs r) = nodes_for w (rp_dispatch_evidence_refs r) @ nodes_for w (rp_target_evidence_refs r)
    @ nodes_for w (rp_evidence_gaps r)"
  by (simp add: nodes_for_def receipt_refs_def fetch_all_append)

text \<open>The first of the three lists that has a reference to nothing.\<close>

definition first_incomplete :: "evidence_node_store \<Rightarrow> receipt_projection \<Rightarrow> string list" where
  "first_incomplete s r =
     (if \<not> all_stored s (rp_dispatch_evidence_refs r) then rp_dispatch_evidence_refs r
      else if \<not> all_stored s (rp_target_evidence_refs r) then rp_target_evidence_refs r
      else rp_evidence_gaps r)"

definition manifest_of :: "ext \<Rightarrow> world \<Rightarrow> receipt_projection \<Rightarrow> json" where
  "manifest_of E w r =
     assemble_manifest E r (nodes_for w (rp_dispatch_evidence_refs r))
       (nodes_for w (rp_target_evidence_refs r)) (nodes_for w (rp_evidence_gaps r))"

lemma all_stored_append: "all_stored s (xs @ ys) \<longleftrightarrow> all_stored s xs \<and> all_stored s ys"
  by (auto simp: all_stored_def)

lemma all_stored_iff_no_missing:
  "all_stored s ids \<longleftrightarrow> filter (\<lambda>i. node_get s i = None) ids = []"
  by (auto simp: all_stored_def filter_empty_conv)

lemma length_nodes_for: "all_stored (w_nodes w) ids \<Longrightarrow> length (nodes_for w ids) = length ids"
  by (induction ids) (auto simp: all_stored_def nodes_for_def split: option.split)

lemma assemble_bundle_stored:
  assumes "receipt_get (w_receipts w) k = Some r" and "all_stored (w_nodes w) (receipt_refs r)"
  shows "assemble_bundle E k w =
    store_bundle E r (nodes_for w (rp_dispatch_evidence_refs r))
      (nodes_for w (rp_target_evidence_refs r)) (nodes_for w (rp_evidence_gaps r)) w"
  using assms
  by (simp add: assemble_bundle_run fetch_nodes_eq receipt_refs_def all_stored_append nodes_for_def)

lemma assemble_bundle_missing:
  assumes "receipt_get (w_receipts w) k = Some r" and "\<not> all_stored (w_nodes w) (receipt_refs r)"
  shows "\<not> all_stored (w_nodes w) (first_incomplete (w_nodes w) r)
    \<and> assemble_bundle E k w = (Inl (IncompleteEvidence (first_incomplete (w_nodes w) r)
        (filter (\<lambda>i. node_get (w_nodes w) i = None) (first_incomplete (w_nodes w) r))), w)"
  using assms by (auto simp: assemble_bundle_run fetch_nodes_eq receipt_refs_def all_stored_append first_incomplete_def)

lemma store_bundle_Inr:
  assumes "store_bundle E r dn tn gn w = (Inr x, w')"
  obtains b where "serializable E (dn @ tn @ gn)"
    and "ext_json_to_vec E (assemble_manifest E r dn tn gn) = Inr b"
    and "fst (protocol_put (bundle_object E b) (w_protocol w)) = Inr ()"
    and "x = bundle_of E r (dn @ tn @ gn) b"
    and "w' = w\<lparr>w_blobs := put_descriptors (map (descriptor_of E) (dn @ tn @ gn))
                 (put_blobs E (map (blob_of E) (dn @ tn @ gn)) (w_blobs w)),
               w_protocol := snd (protocol_put (bundle_object E b) (w_protocol w))\<rparr>"
proof -
  from assms obtain b where s: "serializable E (dn @ tn @ gn)"
    and b: "ext_json_to_vec E (assemble_manifest E r dn tn gn) = Inr b" by (rule store_bundle_ok)
  obtain res p where put: "protocol_put (bundle_object E b) (w_protocol w) = (res, p)"
    by (cases "protocol_put (bundle_object E b) (w_protocol w)")
  from assms put have res: "res = Inr ()"
    by (cases res) (simp_all add: store_bundle_run [OF s b] Let_def)
  show thesis
    by (rule that [OF s b])
      (use assms put res in \<open>simp_all add: store_bundle_run [OF s b] Let_def del: map_append\<close>)
qed

lemma assemble_bundle_Inr:
  assumes "assemble_bundle E k w = (Inr b, w')"
  obtains r where "receipt_get (w_receipts w) k = Some r" and "all_stored (w_nodes w) (receipt_refs r)"
proof (cases "receipt_get (w_receipts w) k")
  case None
  with assms show thesis by (simp add: assemble_bundle_run)
next
  case (Some r)
  with assms that assemble_bundle_missing [OF Some, of E] show thesis
    by (cases "all_stored (w_nodes w) (receipt_refs r)") auto
qed

section \<open>Properties\<close>

lemma stored_with_descriptor:
  assumes "serializable E ns" and "n \<in> set ns"
  shows "\<exists>c. ext_json_to_vec E (evidence_blob_payload E n) = Inr c
    \<and> es_blobs (put_descriptors (map (descriptor_of E) ns) (put_blobs E (map (blob_of E) ns) s)) (ext_sha256 E c) \<noteq> None
    \<and> es_descriptors (put_descriptors (map (descriptor_of E) ns) (put_blobs E (map (blob_of E) ns) s)) (ext_sha256 E c) \<noteq> None"
proof -
  have "ext_json_to_vec E (evidence_blob_payload E n) = Inr (blob_of E n)"
    using assms by (auto simp: serializable_def blob_of_def succeeded_def split: sum.splits)
  moreover have "es_blobs (put_blobs E (map (blob_of E) ns) s) (ext_sha256 E (blob_of E n)) \<noteq> None"
    using assms(2) by (intro put_blobs_stored) simp
  moreover have "ext_sha256 E (blob_of E n) \<in> (\<lambda>d. digest_bytes (ed_digest d)) ` set (map (descriptor_of E) ns)"
    using assms(2) by (force simp: descriptor_of_def content_digest_of_def)
  then have "map_of (rev (map (\<lambda>d. (digest_bytes (ed_digest d), d)) (map (descriptor_of E) ns)))
      (ext_sha256 E (blob_of E n)) \<noteq> None"
    unfolding map_of_eq_None_iff by force
  then have "es_descriptors (put_descriptors (map (descriptor_of E) ns) (put_blobs E (map (blob_of E) ns) s))
      (ext_sha256 E (blob_of E n)) \<noteq> None"
    unfolding put_descriptors_descriptors by (auto simp: map_add_None)
  ultimately show ?thesis by (simp del: map_map)
qed


text \<open>A receipt whose only gap is not an evidence node.\<close>

definition example_gap_receipt :: receipt_projection where
  "example_gap_receipt =
     \<lparr>rp_receipt_id_hex = ''r'', rp_mandate_id_hex = ''m'', rp_intent_id_hex = ''i'',
      rp_attempt_id_hex = ''a'', rp_outcome = Unknown, rp_created_at = 0,
      rp_dispatch_evidence_refs = [], rp_target_evidence_refs = [],
      rp_evidence_gaps = [''target_outcome''], rp_canonical_bytes = None\<rparr>"

definition example_with_receipt :: "receipt_projection \<Rightarrow> world" where
  "example_with_receipt r =
     world_new\<lparr>w_receipts := \<lparr>row_map = [rp_receipt_id_hex r \<mapsto> r],
       row_index = [rp_mandate_id_hex r \<mapsto> [rp_receipt_id_hex r]]\<rparr>\<rparr>"


text \<open>
  Exporting is idempotent: after a successful export of a receipt, exporting it again
  returns the very same bundle and changes nothing, no blob, descriptor or object.
\<close>

theorem bundle_export_idempotent:
  assumes "assemble_bundle E k w = (Inr b, w')"
  shows "assemble_bundle E k w' = (Inr b, w')"
proof -
  from assms obtain r where r: "receipt_get (w_receipts w) k = Some r"
    and st: "all_stored (w_nodes w) (receipt_refs r)" by (rule assemble_bundle_Inr)
  let ?dn = "nodes_for w (rp_dispatch_evidence_refs r)" and ?tn = "nodes_for w (rp_target_evidence_refs r)"
    and ?gn = "nodes_for w (rp_evidence_gaps r)"
  let ?ns = "?dn @ ?tn @ ?gn"
  have "store_bundle E r ?dn ?tn ?gn w = (Inr b, w')"
    using assms assemble_bundle_stored [OF r st, of E] by simp
  then obtain bytes where ser: "serializable E ?ns"
    and bytes: "ext_json_to_vec E (assemble_manifest E r ?dn ?tn ?gn) = Inr bytes"
    and put: "fst (protocol_put (bundle_object E bytes) (w_protocol w)) = Inr ()"
    and b: "b = bundle_of E r ?ns bytes"
    and w': "w' = w\<lparr>w_blobs := put_descriptors (map (descriptor_of E) ?ns)
                 (put_blobs E (map (blob_of E) ?ns) (w_blobs w)),
               w_protocol := snd (protocol_put (bundle_object E bytes) (w_protocol w))\<rparr>"
    by (rule store_bundle_Inr)
  have same: "w_receipts w' = w_receipts w" "w_nodes w' = w_nodes w" by (simp_all add: w')
  have "protocol_put (bundle_object E bytes) (w_protocol w') = (Inr (), w_protocol w')"
    using put by (auto simp: w' protocol_put_def split: if_splits option.splits)
  moreover have "put_descriptors (map (descriptor_of E) ?ns) (put_blobs E (map (blob_of E) ?ns) (w_blobs w'))
      = w_blobs w'"
    by (simp add: w' store_again del: map_append)
  ultimately have "store_bundle E r ?dn ?tn ?gn w' = (Inr b, w')"
    by (simp add: store_bundle_run [OF ser bytes] b Let_def del: map_append)
  then show ?thesis
    using r st by (simp add: assemble_bundle_stored [of w' k r] same nodes_for_def)
qed

theorem bundle_export_idempotent_witness:
  "\<exists>b w'. assemble_bundle ext_ref ''r'' (example_with_receipt (example_gap_receipt\<lparr>rp_evidence_gaps := []\<rparr>))
     = (Inr b, w') \<and> assemble_bundle ext_ref ''r'' w' = (Inr b, w')"
proof -
  let ?r = "example_gap_receipt\<lparr>rp_evidence_gaps := []\<rparr>"
  let ?w = "example_with_receipt ?r"
  have r: "receipt_get (w_receipts ?w) ''r'' = Some ?r"
    by (simp add: example_with_receipt_def example_gap_receipt_def receipt_get_def row_get_def)
  have st: "all_stored (w_nodes ?w) (receipt_refs ?r)"
    by (simp add: all_stored_def receipt_refs_def example_gap_receipt_def)
  have ser: "serializable ext_ref ([] @ [] @ [])" by (simp add: serializable_def)
  have json: "ext_json_to_vec ext_ref (assemble_manifest ext_ref ?r [] [] []) = Inr []"
    by (simp add: ext_ref_def)
  have "assemble_bundle ext_ref ''r'' ?w = store_bundle ext_ref ?r [] [] [] ?w"
    unfolding assemble_bundle_stored [OF r st, of ext_ref] nodes_for_def
    by (simp add: example_gap_receipt_def)
  moreover have "w_protocol ?w = Map.empty" by (simp add: example_with_receipt_def world_new_def)
  ultimately have "\<exists>b w'. assemble_bundle ext_ref ''r'' ?w = (Inr b, w')"
    by (simp add: store_bundle_run [OF ser json] Let_def protocol_put_def bundle_object_def)
  then obtain b w' where run: "assemble_bundle ext_ref ''r'' ?w = (Inr b, w')" by blast
  from bundle_export_idempotent [OF run] run show ?thesis by blast
qed

text \<open>
  C28. A receipt produced from a webhook can be exported, with its sources told apart: right after
  a successful production the side-effect free export of the new receipt finds all its evidence,
  answers what the serializer makes of the manifest of the stored state and changes nothing, and the manifest counts one Piteka
  claim, one provider observation and as many gaps as the receipt names.
\<close>

theorem produced_receipt_exports:
  assumes "produce_receipt_from_webhook E order now ev w = (Inr res, w')"
  shows "\<exists>r. receipt_get (w_receipts w') (pr_receipt_id_hex res) = Some r
    \<and> export_manifest_bytes E (pr_receipt_id_hex res) w'
        = serialize E ''manifest'' (manifest_of E w' r) w'
    \<and> json_get (manifest_of E w' r) ''source_attribution'' =
        Some (JObject [(''piteka_claims'', JPosInt 1), (''provider_observations'', JPosInt 1),
                       (''verifier_conclusions'', JPosInt 0)])
    \<and> Option.bind (json_get (manifest_of E w' r) ''missing_evidence'') (\<lambda>m. json_get m ''gap_count'')
        = Some (JPosInt (of_nat (length (rp_evidence_gaps r))))"
proof -
  obtain x where run: "record_outcome E now ev x w = (Inr res, w')"
    using assms
    by (auto simp: produce_receipt_from_webhook_def find_attempt_run try_op_eq split: option.splits)
  let ?r = "produced_receipt E now ev x"
  from record_outcome_Inr [OF run] obtain obs claim where r: "receipt_get (w_receipts w') (pr_receipt_id_hex res) = Some ?r"
    and obs: "node_get (w_nodes w') (en_node_id_hex obs) = Some obs" "en_source obs = Provider ''github''"
    and claim: "node_get (w_nodes w') (en_node_id_hex claim) = Some claim" "en_source claim = Piteka"
    and refs: "rp_target_evidence_refs ?r = [en_node_id_hex obs]" "rp_dispatch_evidence_refs ?r = [en_node_id_hex claim]"
    and gaps: "\<forall>i \<in> set (rp_evidence_gaps ?r). node_get (w_nodes w') i \<noteq> None"
    by auto
  have st: "all_stored (w_nodes w') (rp_evidence_gaps ?r)" using gaps by (simp add: all_stored_def)
  have one: "fetch_nodes (w_nodes w') (rp_dispatch_evidence_refs ?r) = Inr [claim]"
    "fetch_nodes (w_nodes w') (rp_target_evidence_refs ?r) = Inr [obs]"
    "fetch_nodes (w_nodes w') (rp_evidence_gaps ?r) = Inr (nodes_for w' (rp_evidence_gaps ?r))"
    using obs claim st by (simp_all add: refs fetch_nodes_eq all_stored_def nodes_for_def)
  have m: "manifest_of E w' ?r = assemble_manifest E ?r [claim] [obs] (nodes_for w' (rp_evidence_gaps ?r))"
    using obs claim by (simp add: manifest_of_def refs nodes_for_def)
  have "export_manifest_bytes E (pr_receipt_id_hex res) w' = serialize E ''manifest'' (manifest_of E w' ?r) w'"
    by (simp add: export_manifest_bytes_def try_op_eq fetch_receipt_run r fetch_evidence_def one m)
  then show ?thesis
    using r obs(2) claim(2) st
    by (auto simp: m assemble_manifest_def json_count_def length_nodes_for)
qed

theorem produced_receipt_exports_witness:
  "\<exists>res w'. produce_receipt_from_webhook ext_ref [''att-m''] 510 example_event example_deployed = (Inr res, w')
     \<and> export_manifest_bytes ext_ref (pr_receipt_id_hex res) w' = (Inr [], w')"
proof -
  obtain res w' where p: "produce_receipt_from_webhook ext_ref [''att-m''] 510 example_event example_deployed
      = (Inr res, w')"
    using example_production
    by (cases "record_outcome ext_ref 510 example_event example_accepted example_deployed")
      (auto simp: succeeded_def produce_receipt_from_webhook_def find_attempt_run example_event_def
        example_deployed_attempt split: sum.splits)
  from produced_receipt_exports [OF p] p show ?thesis
    by (auto simp: serialize_def ext_ref_def)
qed

end
