(* ===== verification/Http_Models.thy ===== *)
theory Http_Models
  imports Api_Errors Bundle_Export
begin

text \<open>
  The request and response types of the HTTP API, \<^verbatim>\<open>apps/piteka-api/src/models.rs\<close>, and the two ways
  a handler answers: a status with a body, or an API error, whose status and envelope
  \<open>into_response\<close> gives. Reading the JSON of a request body and printing that of a response is
  serde's and not modelled: a handler takes the body as a record and returns one.
\<close>

section \<open>Replies\<close>

datatype 'a reply =
    Reply nat 'a
  | ErrorReply api_error

fun reply_status :: "'a reply \<Rightarrow> nat" where
  "reply_status (Reply status body) = status"
| "reply_status (ErrorReply e) = fst (into_response e)"

text \<open>
  The shape every handler has: run a fallible call, answer its error through a conversion, go on
  with its result.
\<close>

definition answer ::
  "('e \<Rightarrow> api_error) \<Rightarrow> ('w, 'e, 'a) op \<Rightarrow> ('a \<Rightarrow> 'w \<Rightarrow> 'b reply \<times> 'w) \<Rightarrow> 'w \<Rightarrow> 'b reply \<times> 'w" where
  "answer conv m k w =
     (case m w of (Inl e, w') \<Rightarrow> (ErrorReply (conv e), w') | (Inr a, w') \<Rightarrow> k a w')"

lemma answer_simps [simp]:
  "m w = (Inl e, w') \<Longrightarrow> answer conv m k w = (ErrorReply (conv e), w')"
  "m w = (Inr a, w') \<Longrightarrow> answer conv m k w = k a w'"
  by (simp_all add: answer_def)

lemma answer_ReplyE:
  assumes "answer conv m k w = (Reply st b, w')"
  obtains a w1 where "m w = (Inr a, w1)" and "k a w1 = (Reply st b, w')"
proof (cases "m w")
  case (Pair r w1)
  with assms that show thesis by (cases r) (simp_all add: answer_def)
qed

section \<open>Action requests\<close>

datatype response_status = Pending | Approved | Rejected | Revoked

fun response_status_of :: "action_request_status \<Rightarrow> response_status" where
  "response_status_of action_request_status.Pending = Pending"
| "response_status_of action_request_status.Approved = Approved"
| "response_status_of action_request_status.Rejected = Rejected"
| "response_status_of action_request_status.Revoked = Revoked"

record action_request_summary =
  ars_id :: string
  ars_requested_by :: string
  ars_status :: response_status
  ars_created_at :: u64

record approval_decision_response =
  adr_id :: string
  adr_decided_by :: string
  adr_decision :: string
  adr_intent_id :: "string option"
  adr_decided_at :: u64

record action_request_response =
  arr_id :: string
  arr_requested_by :: string
  arr_intent_id :: "string option"
  arr_status :: response_status
  arr_created_at :: u64
  arr_decisions :: "approval_decision_response list"

text \<open>The conversion \<open>From\<close> of a stored decision; the cast from \<open>i64\<close> to \<open>u64\<close> keeps the word.\<close>

definition decision_response :: "approval_decision \<Rightarrow> approval_decision_response" where
  "decision_response d =
     \<lparr>adr_id = ad_decision_id d, adr_decided_by = ad_decided_by d, adr_decision = ad_decision d,
      adr_intent_id = ad_intent_id_hex d, adr_decided_at = ad_decided_at d\<rparr>"

record create_action_request_request =
  crr_requested_by :: string
  crr_intent_id :: "string option"

record approve_request =
  apr_approver_id :: string
  apr_intent_id :: "string option"
  apr_version :: i64

record reject_request =
  rjr_approver_id :: string
  rjr_intent_id :: "string option"
  rjr_version :: i64

record revoke_request =
  rvr_approver_id :: string
  rvr_version :: i64

section \<open>Read models\<close>

record receipt_summary =
  rsm_receipt_id :: string
  rsm_mandate_id :: string
  rsm_outcome :: string
  rsm_created_at :: i64

record receipt_detail =
  rd_receipt_id :: string
  rd_mandate_id :: string
  rd_intent_id :: string
  rd_attempt_id :: string
  rd_outcome :: string
  rd_created_at :: i64
  rd_dispatch_evidence_refs :: "string list"
  rd_target_evidence_refs :: "string list"
  rd_evidence_gaps :: "string list"

record mandate_detail =
  md_mandate_id :: string
  md_state :: string
  md_version :: i64

record chain_step =
  cs_at :: i64
  cs_actor :: "string option"
  cs_action :: string
  cs_decision :: string
  cs_detail :: string

record chain_attempt =
  ca_attempt_id :: string
  ca_executor_identity :: string
  ca_state :: string
  ca_github_deployment_id :: "u64 option"
  ca_started_at :: i64

record chain_evidence =
  ce_node_id :: string
  ce_registry_id :: string
  ce_source :: string
  ce_producer_identity :: string
  ce_content_digest :: string
  ce_media_type :: string

record mandate_chain =
  mc_mandate :: mandate_detail
  mc_timeline :: "chain_step list"
  mc_attempts :: "chain_attempt list"
  mc_receipts :: "receipt_detail list"
  mc_evidence :: "chain_evidence list"

end
