(* ===== verification/Http_Routes.thy ===== *)
theory Http_Routes
  imports Http_Models
begin

text \<open>
  The action-request endpoints as \<^verbatim>\<open>apps/piteka-api/src/routes.rs\<close> mounts them. A handler takes the
  path identifier and the body, runs the use case on the world, and answers. The clock reading of a
  call and the identifier a new request is given (\<open>Uuid::new_v4\<close>) are arguments; so is the order
  in which the hash map of requests is listed.
\<close>

section \<open>Handlers\<close>

text \<open>\<open>UserId::new(..).unwrap_or_else(|_| UserId::new("unknown").unwrap())\<close>.\<close>

definition user_or_unknown :: "string \<Rightarrow> user_id" where
  "user_or_unknown s =
     (case user_id_new s of
        Inr u \<Rightarrow> u
      | Inl _ \<Rightarrow> (case user_id_new ''unknown'' of Inr u \<Rightarrow> u | Inl _ \<Rightarrow> undefined))"

definition request_summary :: "action_request \<Rightarrow> action_request_summary" where
  "request_summary r =
     \<lparr>ars_id = ar_request_id r, ars_requested_by = ar_requested_by r,
      ars_status = response_status_of (ar_status r), ars_created_at = ar_created_at r\<rparr>"

definition request_response ::
  "action_request \<Rightarrow> approval_decision list \<Rightarrow> action_request_response" where
  "request_response r ds =
     \<lparr>arr_id = ar_request_id r, arr_requested_by = ar_requested_by r,
      arr_intent_id = ar_intent_id_hex r, arr_status = response_status_of (ar_status r),
      arr_created_at = ar_created_at r, arr_decisions = map decision_response ds\<rparr>"

text \<open>The decisions of a request are read after the call that changed it.\<close>

definition reply_with_decisions ::
  "string \<Rightarrow> action_request \<Rightarrow> world \<Rightarrow> action_request_response reply \<times> world" where
  "reply_with_decisions request_id r =
     answer api_error_of_request (reading (\<lambda>w. get_decisions w request_id)) (\<lambda>ds w.
       (Reply 200 (request_response r ds), w))"

definition list_action_requests ::
  "string list \<Rightarrow> world \<Rightarrow> action_request_summary list reply \<times> world" where
  "list_action_requests order =
     answer api_error_of_request (reading (list_requests order)) (\<lambda>rs w.
       (Reply 200 (map request_summary rs), w))"

definition get_action_request ::
  "string \<Rightarrow> world \<Rightarrow> action_request_response reply \<times> world" where
  "get_action_request request_id =
     answer api_error_of_request (reading (\<lambda>w. get_request w request_id)) (\<lambda>found.
       case found of
         None \<Rightarrow> (\<lambda>w. (ErrorReply (NotFound ''action request'' request_id), w))
       | Some r \<Rightarrow> reply_with_decisions request_id r)"

definition propose_action_request ::
  "u64 \<Rightarrow> string \<Rightarrow> create_action_request_request \<Rightarrow> world
    \<Rightarrow> action_request_response reply \<times> world" where
  "propose_action_request now new_id body w =
     (if crr_requested_by body = [] then
        (ErrorReply (bad_request ''EMPTY_REQUESTED_BY'' ''The `requested_by` field is required''), w)
      else
        answer api_error_of_request
          (propose now new_id (user_or_unknown (crr_requested_by body)) (crr_intent_id body))
          (\<lambda>r w'. (Reply 201 (request_response r []), w')) w)"

definition approve_action_request ::
  "u64 \<Rightarrow> string \<Rightarrow> approve_request \<Rightarrow> world \<Rightarrow> action_request_response reply \<times> world" where
  "approve_action_request now request_id body w =
     (if apr_approver_id body = [] then
        (ErrorReply (bad_request ''EMPTY_APPROVER_ID'' ''The `approver_id` field is required''), w)
      else
        answer api_error_of_request
          (approve now request_id (user_or_unknown (apr_approver_id body)) (apr_intent_id body)
            (apr_version body))
          (\<lambda>(r, d). reply_with_decisions request_id r) w)"

definition reject_action_request ::
  "u64 \<Rightarrow> string \<Rightarrow> reject_request \<Rightarrow> world \<Rightarrow> action_request_response reply \<times> world" where
  "reject_action_request now request_id body w =
     (if rjr_approver_id body = [] then
        (ErrorReply (bad_request ''EMPTY_APPROVER_ID'' ''The `approver_id` field is required''), w)
      else
        answer api_error_of_request
          (reject now request_id (user_or_unknown (rjr_approver_id body)) (rjr_intent_id body)
            (rjr_version body))
          (\<lambda>(r, d). reply_with_decisions request_id r) w)"

definition revoke_action_request ::
  "u64 \<Rightarrow> string \<Rightarrow> revoke_request \<Rightarrow> world \<Rightarrow> action_request_response reply \<times> world" where
  "revoke_action_request now request_id body w =
     (if rvr_approver_id body = [] then
        (ErrorReply (bad_request ''EMPTY_APPROVER_ID'' ''The `approver_id` field is required''), w)
      else
        answer api_error_of_request
          (revoke now request_id (user_or_unknown (rvr_approver_id body)) (rvr_version body))
          (\<lambda>r. reply_with_decisions request_id r) w)"

section \<open>Evaluation\<close>

lemma answer_reading [simp]: "answer conv (reading f) k w = k (f w) w"
  by (simp add: answer_def)

lemma reply_with_decisions_run [simp]:
  "reply_with_decisions k r w = (Reply 200 (request_response r (get_decisions w k)), w)"
  by (simp add: reply_with_decisions_def)

lemma get_action_request_run:
  "get_action_request k w =
    (case rs_requests (w_requests w) k of
       None \<Rightarrow> (ErrorReply (NotFound ''action request'' k), w)
     | Some r \<Rightarrow> (Reply 200 (request_response r (get_decisions w k)), w))"
  by (simp add: get_action_request_def get_request_def request_get_def split: option.split)

section \<open>Calls of the API\<close>

text \<open>One call that changes an action request, with its arguments.\<close>

datatype api_call =
    ApiPropose u64 string create_action_request_request
  | ApiApprove u64 string approve_request
  | ApiReject u64 string reject_request
  | ApiRevoke u64 string revoke_request

fun api_run :: "api_call \<Rightarrow> world \<Rightarrow> action_request_response reply \<times> world" where
  "api_run (ApiPropose now k body) = propose_action_request now k body"
| "api_run (ApiApprove now k body) = approve_action_request now k body"
| "api_run (ApiReject now k body) = reject_action_request now k body"
| "api_run (ApiRevoke now k body) = revoke_action_request now k body"

fun api_target :: "api_call \<Rightarrow> string" where
  "api_target (ApiPropose now k body) = k"
| "api_target (ApiApprove now k body) = k"
| "api_target (ApiReject now k body) = k"
| "api_target (ApiRevoke now k body) = k"

fun api_actor :: "api_call \<Rightarrow> string" where
  "api_actor (ApiPropose now k body) = crr_requested_by body"
| "api_actor (ApiApprove now k body) = apr_approver_id body"
| "api_actor (ApiReject now k body) = rjr_approver_id body"
| "api_actor (ApiRevoke now k body) = rvr_approver_id body"

text \<open>The use-case command behind a call.\<close>

fun api_command :: "api_call \<Rightarrow> request_command" where
  "api_command (ApiPropose now k body) =
     Propose now k (user_or_unknown (crr_requested_by body)) (crr_intent_id body)"
| "api_command (ApiApprove now k body) =
     Approve now k (user_or_unknown (apr_approver_id body)) (apr_intent_id body) (apr_version body)"
| "api_command (ApiReject now k body) =
     Reject now k (user_or_unknown (rjr_approver_id body)) (rjr_intent_id body) (rjr_version body)"
| "api_command (ApiRevoke now k body) =
     Revoke now k (user_or_unknown (rvr_approver_id body)) (rvr_version body)"

text \<open>The documented status of a call, read off the life cycle alone.\<close>

fun transition_status :: "action_request_status \<Rightarrow> i64 \<Rightarrow> (action_request_status \<times> i64) option \<Rightarrow> nat" where
  "transition_status from e None = 404"
| "transition_status from e (Some (st, v)) = (if st = from \<and> v = e then 200 else 409)"

fun api_status :: "api_call \<Rightarrow> lifecycle \<Rightarrow> nat" where
  "api_status (ApiPropose now k body) s =
     (if crr_requested_by body = [] \<or> k = [] then 400 else if s k = None then 201 else 500)"
| "api_status (ApiApprove now k body) s =
     (if apr_approver_id body = [] then 400
      else transition_status action_request_status.Pending (apr_version body) (s k))"
| "api_status (ApiReject now k body) s =
     (if rjr_approver_id body = [] then 400
      else transition_status action_request_status.Pending (rjr_version body) (s k))"
| "api_status (ApiRevoke now k body) s =
     (if rvr_approver_id body = [] then 400
      else transition_status action_request_status.Approved (rvr_version body) (s k))"

lemma get_decisions_absent:
  assumes "lifecycle_ok w" and "rs_requests (w_requests w) k = None"
  shows "get_decisions w k = []"
proof (cases "row_map (w_decisions w) (''dec-'' @ k)")
  case None
  then show ?thesis by (simp add: get_decisions_ok [OF assms(1)])
next
  case (Some d)
  from lifecycle_okD(5) [OF assms(1) this] have "ad_request_id d = k" by simp
  with lifecycle_okD(6) [OF assms(1) Some] assms(2) show ?thesis by auto
qed

lemma get_decisions_frame [simp]:
  "get_decisions (add_audit e w) k = get_decisions w k"
  "get_decisions (w\<lparr>w_requests := s\<rparr>) k = get_decisions w k"
  "get_decisions (set_status j r st w) k = get_decisions w k"
  by (simp_all add: get_decisions_def frame_simps)

text \<open>A refused call, on every branch, leaves the world as it was.\<close>

lemma propose_refused: "fst (propose now k u i w) = Inl e \<Longrightarrow> snd (propose now k u i w) = w"
  by (simp add: propose_run Let_def split: if_splits)

lemma approve_refused:
  "lifecycle_ok w \<Longrightarrow> fst (approve now k u i e w) = Inl err \<Longrightarrow> snd (approve now k u i e w) = w"
  by (simp add: approve_run split: option.splits if_splits)

lemma reject_refused:
  "lifecycle_ok w \<Longrightarrow> fst (reject now k u i e w) = Inl err \<Longrightarrow> snd (reject now k u i e w) = w"
  by (simp add: reject_run split: option.splits if_splits)

lemma revoke_refused: "fst (revoke now k u e w) = Inl err \<Longrightarrow> snd (revoke now k u e w) = w"
  by (simp add: revoke_run split: option.splits if_splits)

text \<open>What a granted call answers is the stored request.\<close>

lemma propose_stored:
  "fst (propose now k u i w) = Inr r \<Longrightarrow>
    rs_requests (w_requests (snd (propose now k u i w))) k = Some r
    \<and> w_decisions (snd (propose now k u i w)) = w_decisions w \<and> rs_requests (w_requests w) k = None"
  by (auto simp: propose_run Let_def frame_simps split: if_splits)

lemma approve_stored:
  "lifecycle_ok w \<Longrightarrow> fst (approve now k u i e w) = Inr (r, d) \<Longrightarrow>
    rs_requests (w_requests (snd (approve now k u i e w))) k = Some r"
  by (auto simp: approve_run frame_simps split: option.splits if_splits)

lemma reject_stored:
  "lifecycle_ok w \<Longrightarrow> fst (reject now k u i e w) = Inr (r, d) \<Longrightarrow>
    rs_requests (w_requests (snd (reject now k u i e w))) k = Some r"
  by (auto simp: reject_run frame_simps split: option.splits if_splits)

lemma revoke_stored:
  "fst (revoke now k u e w) = Inr r \<Longrightarrow>
    rs_requests (w_requests (snd (revoke now k u e w))) k = Some r"
  by (auto simp: revoke_run frame_simps split: option.splits if_splits)

lemma answer_cases:
  "answer conv m k w = (case fst (m w) of Inl e \<Rightarrow> (ErrorReply (conv e), snd (m w)) | Inr a \<Rightarrow> k a (snd (m w)))"
  by (cases "m w") (simp add: answer_def split: sum.split)

lemmas api_handlers = propose_action_request_def approve_action_request_def
  reject_action_request_def revoke_action_request_def

section \<open>Properties\<close>

lemma api_run_refused:
  assumes "lifecycle_ok w" and "api_run c w = (ErrorReply e, w')"
  shows "w' = w"
proof (cases c)
  case (ApiPropose now k body)
  with assms(2) propose_refused [of now k "user_or_unknown (crr_requested_by body)" "crr_intent_id body" w]
  show ?thesis
    by (simp add: propose_action_request_def answer_cases split: if_splits sum.splits)
next
  case (ApiApprove now k body)
  with assms(2) approve_refused [OF assms(1), of now k "user_or_unknown (apr_approver_id body)"]
  show ?thesis
    by (simp add: approve_action_request_def answer_cases split: if_splits sum.splits prod.splits)
next
  case (ApiReject now k body)
  with assms(2) reject_refused [OF assms(1), of now k "user_or_unknown (rjr_approver_id body)"]
  show ?thesis
    by (simp add: reject_action_request_def answer_cases split: if_splits sum.splits prod.splits)
next
  case (ApiRevoke now k body)
  with assms(2) revoke_refused [of now k "user_or_unknown (rvr_approver_id body)"]
  show ?thesis
    by (simp add: revoke_action_request_def answer_cases split: if_splits sum.splits)
qed

lemma api_run_granted:
  assumes "lifecycle_ok w" and "api_run c w = (Reply st b, w')"
  shows "get_action_request (api_target c) w' = (Reply 200 b, w')"
proof (cases c)
  case (ApiPropose now k body)
  with assms(2) propose_stored [of now k "user_or_unknown (crr_requested_by body)" "crr_intent_id body" w]
    get_decisions_absent [OF assms(1), of k]
  show ?thesis
    by (auto simp: propose_action_request_def answer_cases get_action_request_run get_decisions_def
        split: if_splits sum.splits)
next
  case (ApiApprove now k body)
  with assms(2) approve_stored [OF assms(1), of now k "user_or_unknown (apr_approver_id body)"]
  show ?thesis
    by (auto simp: approve_action_request_def answer_cases get_action_request_run
        split: if_splits sum.splits prod.splits)
next
  case (ApiReject now k body)
  with assms(2) reject_stored [OF assms(1), of now k "user_or_unknown (rjr_approver_id body)"]
  show ?thesis
    by (auto simp: reject_action_request_def answer_cases get_action_request_run
        split: if_splits sum.splits prod.splits)
next
  case (ApiRevoke now k body)
  with assms(2) revoke_stored [of now k "user_or_unknown (rvr_approver_id body)"]
  show ?thesis
    by (auto simp: revoke_action_request_def answer_cases get_action_request_run
        split: if_splits sum.splits)
qed

lemma api_run_world:
  "snd (api_run c w) = (if api_actor c = [] then w else snd (run_command (api_command c) w))"
  by (cases c) (simp_all add: api_handlers answer_cases split: sum.split prod.split)

text \<open>
  What a call that changes an action request answers is what the store holds. A successful
  propose, approve, reject or revoke answers exactly the body that a GET of the request answers right
  afterwards, decisions included; a call answered with an error has changed nothing.
\<close>

theorem mutation_reply_matches_get:
  assumes "lifecycle_ok w" and "api_run c w = (r, w')"
  shows "case r of
      Reply st b \<Rightarrow> get_action_request (api_target c) w' = (Reply 200 b, w')
    | ErrorReply e \<Rightarrow> w' = w"
  using api_run_granted [OF assms(1), of c] api_run_refused [OF assms(1), of c] assms(2)
  by (cases r) simp_all

theorem mutation_reply_matches_get_witness:
  "let (r, w') = api_run (ApiPropose 100 ''r-1'' \<lparr>crr_requested_by = ''alice'', crr_intent_id = None\<rparr>) world_new
   in reply_status r = 201 \<and> (\<exists>b. r = Reply 201 b \<and> get_action_request ''r-1'' w' = (Reply 200 b, w'))"
proof -
  let ?c = "ApiPropose 100 ''r-1'' \<lparr>crr_requested_by = ''alice'', crr_intent_id = None\<rparr>"
  obtain r w' where run: "api_run ?c world_new = (r, w')" by (cases "api_run ?c world_new")
  then have "\<exists>b. r = Reply 201 b"
    by (auto simp: propose_action_request_def answer_cases propose_run world_new_def Let_def)
  with mutation_reply_matches_get [OF lifecycle_ok_new run] run show ?thesis by auto
qed

text \<open>
  The status of a call is a function of the request's life cycle. The server answers 400 when
  the acting user is left out, 404 for an unknown request, 409 when the status or the
  version is not the one the call needs, and 201 or 200 exactly when the abstract transition is
  possible, and the life cycle then moves by that transition and no other call moves it.
\<close>

theorem api_status_refines:
  assumes "lifecycle_ok w"
  shows "reply_status (fst (api_run c w)) = api_status c (lifecycle_of w)
    \<and> lifecycle_of (snd (api_run c w)) =
      (if api_actor c = [] then lifecycle_of w else snd (spec_command (api_command c) (lifecycle_of w)))
    \<and> lifecycle_ok (snd (api_run c w))"
proof (intro conjI)
  show "reply_status (fst (api_run c w)) = api_status c (lifecycle_of w)"
    by (cases c)
      (auto simp: api_handlers answer_cases propose_run approve_run [OF assms] reject_run [OF assms] revoke_run
        lifecycle_of_def Let_def bad_request_def split: option.splits)
  show "lifecycle_of (snd (api_run c w)) =
      (if api_actor c = [] then lifecycle_of w else snd (spec_command (api_command c) (lifecycle_of w)))"
    using run_command_refines [OF assms, of "api_command c"] by (simp add: api_run_world prod_eq_iff)
  show "lifecycle_ok (snd (api_run c w))"
    using run_command_ok [OF assms] assms by (simp add: api_run_world)
qed

theorem api_status_refines_witness:
  "let c = ApiApprove 300 ''req-1'' \<lparr>apr_approver_id = ''bob'', apr_intent_id = None, apr_version = 7\<rparr>;
       w = snd (propose 100 ''req-1'' (UserId ''alice'') None world_new)
   in reply_status (fst (api_run c w)) = 409 \<and> lifecycle_of (snd (api_run c w)) ''req-1'' = Some (action_request_status.Pending, 1)"
proof -
  let ?c = "ApiApprove 300 ''req-1'' \<lparr>apr_approver_id = ''bob'', apr_intent_id = None, apr_version = 7\<rparr>"
  let ?w = "snd (propose 100 ''req-1'' (UserId ''alice'') None world_new)"
  have "lifecycle_ok ?w"
    using run_command_ok [OF lifecycle_ok_new, of "Propose 100 ''req-1'' (UserId ''alice'') None"]
    by (simp add: case_prod_unfold)
  moreover have "lifecycle_of ?w ''req-1'' = Some (action_request_status.Pending, 1)"
    using run_command_refines [OF lifecycle_ok_new, of "Propose 100 ''req-1'' (UserId ''alice'') None"]
    by (simp add: case_prod_unfold)
  ultimately show ?thesis
    using api_status_refines [of ?w ?c] by (simp add: Let_def transition_def)
qed

text \<open>
  The API believes whoever the body names. No session and no role is consulted, so the user who
  proposed a request can approve it: with the current version, an approval that names the
  requester as approver is answered 200 and recorded as the requester's own decision.
\<close>

theorem api_trusts_named_approver:
  assumes "lifecycle_ok w" and "rs_requests (w_requests w) k = Some r"
    and "ar_status r = action_request_status.Pending" and "\<not> blank (ar_requested_by r)"
    and "approve_action_request now k
      \<lparr>apr_approver_id = ar_requested_by r, apr_intent_id = i, apr_version = current_version w k\<rparr> w = (res, w')"
  shows "reply_status res = 200
    \<and> map ad_decided_by (get_decisions w' k) = [ar_requested_by r]
    \<and> map_option ar_status (get_request w' k) = Some action_request_status.Approved"
proof -
  have "ar_requested_by r \<noteq> []" using assms(4) by (rule not_blank_nonempty)
  moreover have "user_or_unknown (ar_requested_by r) = UserId (ar_requested_by r)"
    using assms(4) by (simp add: user_or_unknown_def user_id_new_def require_nonempty_def)
  moreover have "row_map (w_decisions w) (''dec-'' @ k) = None"
    by (rule pending_undecided [OF assms(1-3)])
  moreover have "lifecycle_ok w'"
    using run_command_ok [OF assms(1), of "Approve now k (UserId (ar_requested_by r)) i (current_version w k)"]
      assms(5) calculation
    by (simp add: approve_action_request_def answer_cases case_prod_unfold split: sum.splits)
  ultimately show ?thesis
    using assms(2,3,5)
    by (auto simp: approve_action_request_def answer_cases approve_run [OF assms(1)] get_decisions_ok
        frame_simps approval_of_def get_request_def request_get_def)
qed

theorem api_trusts_named_approver_witness:
  "let w = snd (propose 100 ''req-1'' (UserId ''alice'') None world_new);
       (res, w') = approve_action_request 200 ''req-1''
         \<lparr>apr_approver_id = ''alice'', apr_intent_id = None, apr_version = 1\<rparr> w
   in reply_status res = 200 \<and> map ad_decided_by (get_decisions w' ''req-1'') = [''alice'']"
proof -
  let ?w = "snd (propose 100 ''req-1'' (UserId ''alice'') None world_new)"
  let ?r = "\<lparr>ar_request_id = ''req-1'', ar_requested_by = ''alice'', ar_intent_id_hex = None,
    ar_status = action_request_status.Pending, ar_created_at = 100\<rparr>"
  have "lifecycle_ok ?w"
    using run_command_ok [OF lifecycle_ok_new, of "Propose 100 ''req-1'' (UserId ''alice'') None"]
    by (simp add: case_prod_unfold)
  moreover have "rs_requests (w_requests ?w) ''req-1'' = Some ?r" "current_version ?w ''req-1'' = 1"
    by (simp_all add: propose_run world_new_def Let_def frame_simps current_version_def)
  moreover have "\<not> blank ''alice''"
    by (simp add: blank_def trim_id ws_len_def ws_len_end_def ws_seq_def)
  ultimately show ?thesis
    using api_trusts_named_approver [of ?w "''req-1''" ?r 200 None] by (auto simp: Let_def)
qed

end
