(* ===== verification/Http_Handlers.thy ===== *)
theory Http_Handlers
  imports Http_Routes
begin

text \<open>
  The handlers of \<^verbatim>\<open>apps/piteka-api/src/handlers.rs\<close>: a second copy of the action-request endpoints
  that extracts an \<open>Idempotency-Key\<close> header, and the receipt endpoints over the in-memory stores.
\<close>

section \<open>Action requests with an idempotency key\<close>

text \<open>
  The extractor: the header's value as far as it is visible ASCII, the rule of \<open>HeaderValue::to_str\<close>.
\<close>

definition idempotency_key :: "(string \<Rightarrow> bytes option) \<Rightarrow> string option" where
  "idempotency_key headers = header_text (headers ''Idempotency-Key'')"

definition user_id_or_unknown :: "string \<Rightarrow> user_id" where
  "user_id_or_unknown s =
     (case user_id_new s of
        Inr u \<Rightarrow> u
      | Inl _ \<Rightarrow> (case user_id_new ''unknown'' of Inr u \<Rightarrow> u | Inl _ \<Rightarrow> undefined))"

definition list_action_requests_handler ::
  "string list \<Rightarrow> world \<Rightarrow> action_request_summary list reply \<times> world" where
  "list_action_requests_handler order =
     answer api_error_of_request (reading (list_requests order)) (\<lambda>rs w.
       (Reply 200 (map (\<lambda>r. \<lparr>ars_id = ar_request_id r, ars_requested_by = ar_requested_by r,
          ars_status = response_status_of (ar_status r), ars_created_at = ar_created_at r\<rparr>) rs), w))"

definition respond_with ::
  "action_request \<Rightarrow> approval_decision list \<Rightarrow> action_request_response" where
  "respond_with r ds =
     \<lparr>arr_id = ar_request_id r, arr_requested_by = ar_requested_by r,
      arr_intent_id = ar_intent_id_hex r, arr_status = response_status_of (ar_status r),
      arr_created_at = ar_created_at r, arr_decisions = map decision_response ds\<rparr>"

definition respond_with_decisions ::
  "string \<Rightarrow> action_request \<Rightarrow> world \<Rightarrow> action_request_response reply \<times> world" where
  "respond_with_decisions request_id r =
     answer api_error_of_request (reading (\<lambda>w. get_decisions w request_id)) (\<lambda>ds w.
       (Reply 200 (respond_with r ds), w))"

definition get_action_request_handler ::
  "string \<Rightarrow> world \<Rightarrow> action_request_response reply \<times> world" where
  "get_action_request_handler request_id =
     answer api_error_of_request (reading (\<lambda>w. get_request w request_id)) (\<lambda>found.
       case found of
         None \<Rightarrow> (\<lambda>w. (ErrorReply (NotFound ''action request'' request_id), w))
       | Some r \<Rightarrow> respond_with_decisions request_id r)"

definition propose_action_request_handler ::
  "string option \<Rightarrow> u64 \<Rightarrow> string \<Rightarrow> create_action_request_request \<Rightarrow> world
    \<Rightarrow> action_request_response reply \<times> world" where
  "propose_action_request_handler key now new_id body w =
     (if crr_requested_by body = [] then
        (ErrorReply (bad_request ''EMPTY_REQUESTED_BY'' ''The `requested_by` field is required''), w)
      else
        answer api_error_of_request
          (propose now new_id (user_id_or_unknown (crr_requested_by body)) (crr_intent_id body))
          (\<lambda>r w'. (Reply 201 (respond_with r []), w')) w)"

definition approve_action_request_handler ::
  "string option \<Rightarrow> u64 \<Rightarrow> string \<Rightarrow> approve_request \<Rightarrow> world
    \<Rightarrow> action_request_response reply \<times> world" where
  "approve_action_request_handler key now request_id body w =
     (if apr_approver_id body = [] then
        (ErrorReply (bad_request ''EMPTY_APPROVER_ID'' ''The `approver_id` field is required''), w)
      else
        answer api_error_of_request
          (approve now request_id (user_id_or_unknown (apr_approver_id body)) (apr_intent_id body)
            (apr_version body))
          (\<lambda>(r, d). respond_with_decisions request_id r) w)"

definition reject_action_request_handler ::
  "string option \<Rightarrow> u64 \<Rightarrow> string \<Rightarrow> reject_request \<Rightarrow> world
    \<Rightarrow> action_request_response reply \<times> world" where
  "reject_action_request_handler key now request_id body w =
     (if rjr_approver_id body = [] then
        (ErrorReply (bad_request ''EMPTY_APPROVER_ID'' ''The `approver_id` field is required''), w)
      else
        answer api_error_of_request
          (reject now request_id (user_id_or_unknown (rjr_approver_id body)) (rjr_intent_id body)
            (rjr_version body))
          (\<lambda>(r, d). respond_with_decisions request_id r) w)"

definition revoke_action_request_handler ::
  "string option \<Rightarrow> u64 \<Rightarrow> string \<Rightarrow> revoke_request \<Rightarrow> world
    \<Rightarrow> action_request_response reply \<times> world" where
  "revoke_action_request_handler key now request_id body w =
     (if rvr_approver_id body = [] then
        (ErrorReply (bad_request ''EMPTY_APPROVER_ID'' ''The `approver_id` field is required''), w)
      else
        answer api_error_of_request
          (revoke now request_id (user_id_or_unknown (rvr_approver_id body)) (rvr_version body))
          (\<lambda>r. respond_with_decisions request_id r) w)"

section \<open>Receipts\<close>

definition receipt_json :: "receipt_projection \<Rightarrow> json" where
  "receipt_json r =
     JObject
       [(''attempt_id'', JString (rp_attempt_id_hex r)),
        (''created_at'', json_of_i64 (rp_created_at r)),
        (''dispatch_evidence_refs'', JArray (map JString (rp_dispatch_evidence_refs r))),
        (''evidence_gaps'', JArray (map JString (rp_evidence_gaps r))),
        (''intent_id'', JString (rp_intent_id_hex r)),
        (''mandate_id'', JString (rp_mandate_id_hex r)),
        (''outcome'', JString
           (case rp_outcome r of
              Succeeded \<Rightarrow> ''succeeded'' | Failed \<Rightarrow> ''failed''
            | receipt_outcome.Rejected \<Rightarrow> ''rejected'' | Unknown \<Rightarrow> ''unknown'')),
        (''receipt_id'', JString (rp_receipt_id_hex r)),
        (''target_evidence_refs'', JArray (map JString (rp_target_evidence_refs r)))]"

definition internal_storage :: "ext \<Rightarrow> storage_error \<Rightarrow> api_error" where
  "internal_storage E e = Internal (''storage error: '' @ storage_error_display E e)"

definition get_receipt :: "ext \<Rightarrow> string \<Rightarrow> world \<Rightarrow> json reply \<times> world" where
  "get_receipt E receipt_id =
     answer (internal_storage E) (reading (\<lambda>w. receipt_get (w_receipts w) receipt_id)) (\<lambda>found w.
       case found of
         Some r \<Rightarrow> (Reply 200 (receipt_json r), w)
       | None \<Rightarrow> (ErrorReply (NotFound ''receipt'' receipt_id), w))"

definition bundle_json :: "ext \<Rightarrow> bundle_export \<Rightarrow> json" where
  "bundle_json E b =
     JObject
       [(''bundle_digest'', JString (to_hex E (be_bundle_digest b))),
        (''bundle_id'', JString (be_bundle_id_hex b)),
        (''evidence_gap_ids'', JArray (map JString (be_evidence_gap_ids b))),
        (''evidence_node_ids'', JArray (map JString (be_evidence_node_ids b))),
        (''mandate_id'', JString (be_mandate_id_hex b)),
        (''receipt_id'', JString (be_receipt_id_hex b))]"

definition export_bundle :: "ext \<Rightarrow> string \<Rightarrow> world \<Rightarrow> json reply \<times> world" where
  "export_bundle E receipt_id =
     answer (\<lambda>e. Internal (''bundle export failed: '' @ bundle_export_error_display E e))
       (assemble_bundle E receipt_id) (\<lambda>b w. (Reply 200 (bundle_json E b), w))"

definition get_receipt_canonical :: "ext \<Rightarrow> string \<Rightarrow> world \<Rightarrow> bytes reply \<times> world" where
  "get_receipt_canonical E receipt_id =
     answer (internal_storage E) (reading (\<lambda>w. receipt_get (w_receipts w) receipt_id)) (\<lambda>found w.
       case found of
         Some r \<Rightarrow>
           (case rp_canonical_bytes r of
              Some b \<Rightarrow> (Reply 200 b, w)
            | None \<Rightarrow> (ErrorReply (NotFound ''canonical receipt bytes'' receipt_id), w))
       | None \<Rightarrow> (ErrorReply (NotFound ''receipt'' receipt_id), w))"

section \<open>The two copies agree\<close>

lemma user_id_or_unknown_eq: "user_id_or_unknown = user_or_unknown"
  by (rule ext) (simp add: user_id_or_unknown_def user_or_unknown_def)

lemma respond_with_eq: "respond_with = request_response"
  by (intro ext) (simp add: respond_with_def request_response_def)

lemma respond_with_decisions_eq: "respond_with_decisions = reply_with_decisions"
  by (intro ext) (simp add: respond_with_decisions_def reply_with_decisions_def respond_with_eq)

lemmas handler_defs = propose_action_request_handler_def approve_action_request_handler_def
  reject_action_request_handler_def revoke_action_request_handler_def user_id_or_unknown_eq
  respond_with_eq respond_with_decisions_eq

fun handler_run :: "string option \<Rightarrow> api_call \<Rightarrow> world \<Rightarrow> action_request_response reply \<times> world" where
  "handler_run key (ApiPropose now k body) = propose_action_request_handler key now k body"
| "handler_run key (ApiApprove now k body) = approve_action_request_handler key now k body"
| "handler_run key (ApiReject now k body) = reject_action_request_handler key now k body"
| "handler_run key (ApiRevoke now k body) = revoke_action_request_handler key now k body"

lemma handler_run_eq: "handler_run key c w = api_run c w"
  by (cases c) (simp_all add: handler_defs api_handlers)

section \<open>Properties\<close>

lemma propose_handler_run:
  assumes "crr_requested_by body \<noteq> []" and "k \<noteq> []" and "rs_requests (w_requests w) k = None"
  shows "\<exists>r w'. propose_action_request_handler key now k body w = (Reply 201 (respond_with r []), w')
    \<and> rs_requests (w_requests w') = (rs_requests (w_requests w))(k \<mapsto> r) \<and> ar_status r = action_request_status.Pending"
  using assms by (auto simp: propose_action_request_handler_def answer_cases propose_run Let_def frame_simps)

text \<open>
  The idempotency key is read and thrown away. The handlers answer as the mounted routes do whatever
  key the client sends, and a client that retries a proposal with the same key and the same body makes
  a second request: both calls are answered 201 and both requests are stored and pending.
\<close>

theorem repeated_key_proposes_twice:
  assumes "crr_requested_by body \<noteq> []" and "i \<noteq> []" and "j \<noteq> []" and "i \<noteq> j"
    and "rs_requests (w_requests w) i = None" and "rs_requests (w_requests w) j = None"
  shows "(\<forall>c. handler_run key c w = api_run c w)
    \<and> (case propose_action_request_handler key t i body w of (r1, w1) \<Rightarrow>
       case propose_action_request_handler key u j body w1 of (r2, w2) \<Rightarrow>
         reply_status r1 = 201 \<and> reply_status r2 = 201
         \<and> map_option ar_status (rs_requests (w_requests w2) i) = Some action_request_status.Pending
         \<and> map_option ar_status (rs_requests (w_requests w2) j) = Some action_request_status.Pending)"
proof -
  obtain r w1 where 1: "propose_action_request_handler key t i body w = (Reply 201 (respond_with r []), w1)"
    "rs_requests (w_requests w1) = (rs_requests (w_requests w))(i \<mapsto> r)" "ar_status r = action_request_status.Pending"
    using propose_handler_run [OF assms(1,2,5)] by blast
  then have "rs_requests (w_requests w1) j = None" using assms(4,6) by simp
  from propose_handler_run [OF assms(1,3) this]
  obtain r' w2 where 2: "propose_action_request_handler key u j body w1 = (Reply 201 (respond_with r' []), w2)"
    "rs_requests (w_requests w2) = (rs_requests (w_requests w1))(j \<mapsto> r')" "ar_status r' = action_request_status.Pending"
    by blast
  show ?thesis using 1 2 assms(4) by (simp add: handler_run_eq)
qed

theorem repeated_key_proposes_twice_witness:
  "case propose_action_request_handler (Some ''key-1'') 100 ''r-1'' \<lparr>crr_requested_by = ''alice'', crr_intent_id = None\<rparr> world_new of
     (r1, w1) \<Rightarrow>
   case propose_action_request_handler (Some ''key-1'') 101 ''r-2'' \<lparr>crr_requested_by = ''alice'', crr_intent_id = None\<rparr> w1 of
     (r2, w2) \<Rightarrow> reply_status r1 = 201 \<and> reply_status r2 = 201"
proof -
  have "rs_requests (w_requests world_new) = Map.empty" by (simp add: world_new_def)
  with repeated_key_proposes_twice [of "\<lparr>crr_requested_by = ''alice'', crr_intent_id = None\<rparr>" "''r-1''" "''r-2''"
      world_new "Some ''key-1''" 101 100]
  show ?thesis by (simp add: case_prod_unfold)
qed

text \<open>
  What the receipt endpoints serve of a receipt the program produced. Right after its production a GET
  of the receipt answers 200 with its identifiers and its outcome, and the canonical endpoint answers 404, since no
  producer stores canonical bytes; for a receipt that does not exist both answer 404, but the export
  answers 500 and leaves the world alone.
\<close>

theorem produced_receipt_served:
  assumes "produce_receipt_from_webhook E order now ev w = (Inr res, w')"
    and "receipt_get (w_receipts w') k = None"
  shows "(\<exists>j. get_receipt E (pr_receipt_id_hex res) w' = (Reply 200 j, w')
      \<and> json_get j ''receipt_id'' = Some (JString (pr_receipt_id_hex res))
      \<and> json_get j ''outcome'' = Some (JString (outcome_as_str (pr_outcome res))))
    \<and> get_receipt_canonical E (pr_receipt_id_hex res) w' =
        (ErrorReply (NotFound ''canonical receipt bytes'' (pr_receipt_id_hex res)), w')
    \<and> reply_status (fst (get_receipt E k w')) = 404
    \<and> reply_status (fst (get_receipt_canonical E k w')) = 404
    \<and> reply_status (fst (export_bundle E k w')) = 500 \<and> snd (export_bundle E k w') = w'"
proof -
  obtain x where run: "record_outcome E now ev x w = (Inr res, w')"
    using assms(1)
    by (auto simp: produce_receipt_from_webhook_def find_attempt_run try_op_eq split: option.splits)
  let ?r = "produced_receipt E now ev x"
  have r: "receipt_get (w_receipts w') (pr_receipt_id_hex res) = Some ?r"
    and out: "pr_outcome res = map_github_state_to_outcome (de_state ev)"
    and i: "pr_receipt_id_hex res = ''rcpt-'' @ ea_attempt_id_hex x"
    using record_outcome_Inr [OF run] by auto
  have sel: "rp_canonical_bytes ?r = None" "rp_outcome ?r = map_github_state_to_outcome (de_state ev)"
    "rp_receipt_id_hex ?r = ''rcpt-'' @ ea_attempt_id_hex x"
    by (simp_all add: produced_receipt_def receipt_of_def Let_def)
  have "get_receipt E (pr_receipt_id_hex res) w' = (Reply 200 (receipt_json ?r), w')"
    by (simp add: get_receipt_def r)
  moreover have "json_get (receipt_json ?r) ''receipt_id'' = Some (JString (pr_receipt_id_hex res))"
    by (simp add: receipt_json_def sel i)
  moreover have "json_get (receipt_json ?r) ''outcome'' = Some (JString (outcome_as_str (pr_outcome res)))"
    by (simp add: receipt_json_def sel out split: receipt_outcome.split)
  ultimately show ?thesis
    using assms(2)
    by (simp add: get_receipt_def get_receipt_canonical_def export_bundle_def answer_cases r sel assemble_bundle_run Let_def)
qed

theorem produced_receipt_served_witness:
  "\<exists>res w'. produce_receipt_from_webhook ext_ref [''att-m''] 510 example_event example_deployed = (Inr res, w')
     \<and> reply_status (fst (get_receipt ext_ref (pr_receipt_id_hex res) w')) = 200
     \<and> reply_status (fst (get_receipt_canonical ext_ref (pr_receipt_id_hex res) w')) = 404
     \<and> reply_status (fst (export_bundle ext_ref ''other'' w')) = 500"
proof -
  obtain res w' where rec: "record_outcome ext_ref 510 example_event example_accepted example_deployed = (Inr res, w')"
    using example_production
    by (cases "record_outcome ext_ref 510 example_event example_accepted example_deployed")
      (auto simp: succeeded_def split: sum.splits)
  then have p: "produce_receipt_from_webhook ext_ref [''att-m''] 510 example_event example_deployed = (Inr res, w')"
    by (simp add: produce_receipt_from_webhook_def find_attempt_run example_event_def example_deployed_attempt)
  have "rp_receipt_id_hex (produced_receipt ext_ref 510 example_event example_accepted) \<noteq> ''other''"
    by (simp add: produced_receipt_def receipt_of_def Let_def)
  then have "receipt_get (w_receipts w') ''other'' = receipt_get (w_receipts example_deployed) ''other''"
    using record_outcome_receipts [of ext_ref 510 example_event example_accepted example_deployed] rec
    by (simp add: receipts.lookup_ins)
  then have "receipt_get (w_receipts w') ''other'' = None"
    by (simp add: example_deployed_def world_new_def receipt_get_def row_get_def empty_rows_def)
  from produced_receipt_served [OF p this] p show ?thesis by (auto simp: Let_def)
qed

end
