(* ===== verification/Postgres_Stores.thy ===== *)
theory Postgres_Stores
  imports Storage_Memory
begin

text \<open>
  The PostgreSQL adapters of \<^verbatim>\<open>crates/piteka-storage/src/postgres.rs\<close>. The database is the tables of
  \<^verbatim>\<open>migrations/\<close>, one partial map per table from its primary key to the other columns, a nullable
  column being an option; a statement is the function on the tables that its SQL text denotes, run
  atomically. A statement on a lost connection fails and changes nothing. What PostgreSQL
  and sqlx report as text, and the JSON form of a list of strings, is the argument \<open>sql\<close>. Where
  a statement leaves the order of rows open the order is an argument, as for the maps in memory. Text is
  free of NUL, and \<open>LIKE\<close> is on single-byte characters. A cast between \<open>u64\<close> and \<open>i64\<close> keeps the word.
\<close>

section \<open>The database\<close>

record sql =
  sql_duplicate :: "string \<Rightarrow> string"
  sql_out_of_range :: string
  sql_row_not_found :: string
  sql_null :: "string \<Rightarrow> string"
  sql_strings_to_json :: "string list \<Rightarrow> string + string"
  sql_strings_from_json :: "string \<Rightarrow> string + string list"

record protocol_row =
  pw_kind :: string
  pw_bytes :: bytes

record mandate_row =
  mw_version :: i64
  mw_state :: string

record webhook_row =
  ww_source :: string
  ww_raw_digest :: string
  ww_received_at :: i64

record attempt_row =
  aw_mandate :: string
  aw_state :: string
  aw_created_at :: i64
  aw_intent :: "string option"
  aw_token :: "string option"
  aw_executor :: "string option"
  aw_correlation :: "string option"
  aw_deployment :: "i64 option"

record receipt_row =
  rw_mandate :: string
  rw_outcome :: string
  rw_created_at :: i64
  rw_intent :: "string option"
  rw_attempt :: "string option"
  rw_dispatch_refs :: string
  rw_target_refs :: string
  rw_gaps :: string
  rw_canonical :: "bytes option"

record node_row =
  nw_registry :: string
  nw_source :: string
  nw_producer :: string
  nw_collected_at :: i64
  nw_asserted_at :: "i64 option"
  nw_digest :: string
  nw_media_type :: string
  nw_disclosure :: string
  nw_relationships :: string

text \<open>The audit table is its rows in the order of their serial key.\<close>

record pg_db =
  db_down :: "string option"
  db_protocol :: "string \<rightharpoonup> protocol_row"
  db_mandates :: "string \<rightharpoonup> mandate_row"
  db_webhooks :: "string \<rightharpoonup> webhook_row"
  db_audit :: "audit_event list"
  db_attempts :: "string \<rightharpoonup> attempt_row"
  db_receipts :: "string \<rightharpoonup> receipt_row"
  db_nodes :: "string \<rightharpoonup> node_row"

type_synonym 'a pg_op = "(pg_db, storage_error, 'a) op"

section \<open>Statements\<close>

text \<open>One statement; \<open>backend\<close> wraps the text of its error.\<close>

definition backend :: "string \<Rightarrow> storage_error" where
  "backend message = Backend message"

definition stmt :: "(pg_db \<Rightarrow> (string + 'a) \<times> pg_db) \<Rightarrow> 'a pg_op" where
  "stmt f db =
     (case db_down db of
        Some m \<Rightarrow> (Inl (backend m), db)
      | None \<Rightarrow> (case f db of (Inl m, _) \<Rightarrow> (Inl (backend m), db) | (Inr a, db') \<Rightarrow> (Inr a, db')))"

definition sql_select :: "(pg_db \<Rightarrow> 'a) \<Rightarrow> 'a pg_op" where
  "sql_select f = stmt (\<lambda>db. (Inr (f db), db))"

definition sql_insert ::
  "sql \<Rightarrow> string \<Rightarrow> (pg_db \<Rightarrow> string \<rightharpoonup> 'r) \<Rightarrow> (((string \<rightharpoonup> 'r) \<Rightarrow> string \<rightharpoonup> 'r) \<Rightarrow> pg_db \<Rightarrow> pg_db)
    \<Rightarrow> string \<Rightarrow> 'r \<Rightarrow> unit pg_op" where
  "sql_insert S table get upd k r =
     stmt (\<lambda>db. if get db k \<noteq> None then (Inl (sql_duplicate S table), db)
                else (Inr (), upd (\<lambda>t. t(k \<mapsto> r)) db))"

text \<open>\<open>INSERT .. ON CONFLICT DO NOTHING\<close> and \<open>UPDATE .. WHERE\<close> the key answer the number of rows affected.\<close>

definition sql_insert_ignore ::
  "(pg_db \<Rightarrow> string \<rightharpoonup> 'r) \<Rightarrow> (((string \<rightharpoonup> 'r) \<Rightarrow> string \<rightharpoonup> 'r) \<Rightarrow> pg_db \<Rightarrow> pg_db)
    \<Rightarrow> string \<Rightarrow> 'r \<Rightarrow> nat pg_op" where
  "sql_insert_ignore get upd k r =
     stmt (\<lambda>db. if get db k \<noteq> None then (Inr 0, db) else (Inr 1, upd (\<lambda>t. t(k \<mapsto> r)) db))"

definition sql_update ::
  "(pg_db \<Rightarrow> string \<rightharpoonup> 'r) \<Rightarrow> (((string \<rightharpoonup> 'r) \<Rightarrow> string \<rightharpoonup> 'r) \<Rightarrow> pg_db \<Rightarrow> pg_db)
    \<Rightarrow> string \<Rightarrow> ('r \<Rightarrow> 'r) \<Rightarrow> nat pg_op" where
  "sql_update get upd k f =
     stmt (\<lambda>db. case get db k of None \<Rightarrow> (Inr 0, db) | Some r \<Rightarrow> (Inr 1, upd (\<lambda>t. t(k \<mapsto> f r)) db))"

text \<open>\<open>SELECT .. WHERE p ORDER BY at\<close>: rows with their keys, ties in the order of \<open>scan\<close>.\<close>

definition rows_ordered ::
  "string list \<Rightarrow> (string \<Rightarrow> 'r \<Rightarrow> bool) \<Rightarrow> ('r \<Rightarrow> i64) \<Rightarrow> (string \<rightharpoonup> 'r) \<Rightarrow> (string \<times> 'r) list" where
  "rows_ordered scan p at t =
     sort_key (\<lambda>(k, r). sint (at r))
       (filter (\<lambda>(k, r). p k r) (fetch_all (\<lambda>k. map_option (Pair k) (t k)) scan))"

section \<open>Decoding rows\<close>

text \<open>\<open>?\<close> on a plain result, a read row lifted into an operation, and the two ways rows are mapped.\<close>

definition and_then :: "'e + 'a \<Rightarrow> ('a \<Rightarrow> 'e + 'b) \<Rightarrow> 'e + 'b" where
  "and_then x f = (case x of Inl e \<Rightarrow> Inl e | Inr a \<Rightarrow> f a)"

definition lift :: "'e + 'a \<Rightarrow> ('w, 'e, 'a) op" where
  "lift x w = (x, w)"

fun decode_optional :: "('r \<Rightarrow> 'e + 'a) \<Rightarrow> 'r option \<Rightarrow> 'e + 'a option" where
  "decode_optional f None = Inr None"
| "decode_optional f (Some r) = and_then (f r) (\<lambda>a. Inr (Some a))"

fun decode_rows :: "('r \<Rightarrow> 'e + 'a) \<Rightarrow> 'r list \<Rightarrow> 'e + 'a list" where
  "decode_rows f [] = Inr []"
| "decode_rows f (r # rs) = and_then (f r) (\<lambda>a. and_then (decode_rows f rs) (\<lambda>as. Inr (a # as)))"

text \<open>\<open>try_get\<close> of a value that is not an option fails on NULL.\<close>

definition column :: "sql \<Rightarrow> string \<Rightarrow> 'a option \<Rightarrow> storage_error + 'a" where
  "column S c v = (case v of None \<Rightarrow> Inl (backend (sql_null S c)) | Some a \<Rightarrow> Inr a)"

section \<open>Protocol objects\<close>

definition pg_protocol_put :: "sql \<Rightarrow> protocol_object \<Rightarrow> unit pg_op" where
  "pg_protocol_put S r =
     (if po_object_id_hex r = [] then fail (EmptyField ''object_id_hex'')
      else
        try_op (sql_insert_ignore db_protocol db_protocol_update (po_object_id_hex r)
          \<lparr>pw_kind = po_kind r, pw_bytes = po_bytes r\<rparr>) (\<lambda>affected.
        if affected = 1 then ok ()
        else
          try_op (stmt (\<lambda>db. case db_protocol db (po_object_id_hex r) of
              None \<Rightarrow> (Inl (sql_row_not_found S), db) | Some row \<Rightarrow> (Inr (pw_bytes row), db))) (\<lambda>existing.
          if existing = po_bytes r then ok ()
          else fail (ImmutableViolation (po_object_id_hex r)))))"

definition pg_protocol_get :: "string \<Rightarrow> protocol_object option pg_op" where
  "pg_protocol_get k =
     try_op (sql_select (\<lambda>db. db_protocol db k)) (\<lambda>row. ok (map_option
       (\<lambda>r. \<lparr>po_kind = pw_kind r, po_object_id_hex = k, po_bytes = pw_bytes r\<rparr>) row))"

section \<open>Mandate projections\<close>

definition pg_mandate_insert :: "sql \<Rightarrow> string \<Rightarrow> string \<Rightarrow> unit pg_op" where
  "pg_mandate_insert S m st =
     (if m = [] then fail (EmptyField ''mandate_id_hex'')
      else sql_insert S ''mandate_projections'' db_mandates db_mandates_update m
        \<lparr>mw_version = 1, mw_state = st\<rparr>)"

definition pg_mandate_get :: "string \<Rightarrow> mandate_projection option pg_op" where
  "pg_mandate_get m =
     try_op (sql_select (\<lambda>db. db_mandates db m)) (\<lambda>row. ok (map_option
       (\<lambda>r. \<lparr>mp_mandate_id_hex = m, mp_version = mw_version r, mp_state = mw_state r\<rparr>) row))"

text \<open>The conditional update; \<open>version + 1\<close> is an error of the statement when it leaves \<open>bigint\<close>.\<close>

definition pg_mandate_update :: "sql \<Rightarrow> string \<Rightarrow> i64 \<Rightarrow> string \<Rightarrow> i64 option pg_op" where
  "pg_mandate_update S m expected new_state =
     stmt (\<lambda>db. case db_mandates db m of
         None \<Rightarrow> (Inr None, db)
       | Some r \<Rightarrow>
           if mw_version r \<noteq> expected then (Inr None, db)
           else if mw_version r = i64_max then (Inl (sql_out_of_range S), db)
           else (Inr (Some (mw_version r + 1)),
             db\<lparr>db_mandates := (db_mandates db)(m \<mapsto> r\<lparr>mw_version := mw_version r + 1, mw_state := new_state\<rparr>)\<rparr>))"

definition pg_mandate_cas :: "sql \<Rightarrow> string \<Rightarrow> i64 \<Rightarrow> string \<Rightarrow> cas_outcome pg_op" where
  "pg_mandate_cas S m expected new_state =
     try_op (pg_mandate_update S m expected new_state) (\<lambda>updated.
       case updated of
         Some v \<Rightarrow> ok (Applied v)
       | None \<Rightarrow>
           try_op (pg_mandate_get m) (\<lambda>current.
           case current of
             Some c \<Rightarrow> ok (Conflict (mp_version c))
           | None \<Rightarrow> ok Missing))"

section \<open>Webhook receipts\<close>

definition pg_webhook_record :: "ext \<Rightarrow> webhook_receipt \<Rightarrow> webhook_record_outcome pg_op" where
  "pg_webhook_record E r =
     (if wr_delivery_id r = [] then fail (EmptyField ''delivery_id'')
      else
        try_op (sql_insert_ignore db_webhooks db_webhooks_update (wr_delivery_id r)
          \<lparr>ww_source = wr_source r, ww_raw_digest = to_hex E (wr_raw_digest r),
           ww_received_at = wr_received_at r\<rparr>) (\<lambda>affected.
        if affected = 1 then ok Recorded else ok Duplicate))"

definition decode_webhook :: "ext \<Rightarrow> string \<Rightarrow> webhook_row \<Rightarrow> storage_error + webhook_receipt" where
  "decode_webhook E k row =
     (case from_hex E (ww_raw_digest row) of
        None \<Rightarrow> Inl (Backend ''stored webhook raw_digest is not valid hex'')
      | Some d \<Rightarrow> Inr \<lparr>wr_delivery_id = k, wr_source = ww_source row, wr_raw_digest = d,
                     wr_received_at = ww_received_at row\<rparr>)"

definition pg_webhook_get :: "ext \<Rightarrow> string \<Rightarrow> webhook_receipt option pg_op" where
  "pg_webhook_get E k =
     try_op (sql_select (\<lambda>db. db_webhooks db k)) (\<lambda>row.
       lift (decode_optional (decode_webhook E k) row))"

section \<open>The audit log\<close>

definition pg_audit_append :: "audit_event \<Rightarrow> unit pg_op" where
  "pg_audit_append e = stmt (\<lambda>db. (Inr (), db\<lparr>db_audit := db_audit db @ [e]\<rparr>))"

text \<open>
  \<open>ORDER BY id DESC LIMIT\<close>, then reversed. The limit is bound as \<open>i64\<close>, at most \<open>i64::MAX\<close>.
\<close>

definition pg_audit_recent :: "nat \<Rightarrow> audit_event list pg_op" where
  "pg_audit_recent limit =
     try_op (sql_select (\<lambda>db. take (min limit (2 ^ 63 - 1)) (rev (db_audit db)))) (\<lambda>events.
       ok (rev events))"

section \<open>Execution attempts\<close>

fun state_to_str :: "execution_attempt_state \<Rightarrow> string" where
  "state_to_str Prepared = ''prepared''"
| "state_to_str Dispatching = ''dispatching''"
| "state_to_str Accepted = ''accepted''"
| "state_to_str execution_attempt_state.Rejected = ''rejected''"
| "state_to_str OutcomeAmbiguous = ''outcome_ambiguous''"
| "state_to_str ReconciledAccepted = ''reconciled_accepted''"
| "state_to_str ReconciledNotAccepted = ''reconciled_not_accepted''"
| "state_to_str AbandonedAmbiguous = ''abandoned_ambiguous''"

definition str_to_state :: "string \<Rightarrow> execution_attempt_state" where
  "str_to_state s =
     (if s = ''prepared'' then Prepared
      else if s = ''dispatching'' then Dispatching
      else if s = ''accepted'' then Accepted
      else if s = ''rejected'' then execution_attempt_state.Rejected
      else if s = ''outcome_ambiguous'' then OutcomeAmbiguous
      else if s = ''reconciled_accepted'' then ReconciledAccepted
      else if s = ''reconciled_not_accepted'' then ReconciledNotAccepted
      else if s = ''abandoned_ambiguous'' then AbandonedAmbiguous
      else OutcomeAmbiguous)"

definition attempt_row_of :: "execution_attempt \<Rightarrow> attempt_row" where
  "attempt_row_of a =
     \<lparr>aw_mandate = ea_mandate_id_hex a, aw_state = state_to_str (ea_state a),
      aw_created_at = ea_started_at a, aw_intent = Some (ea_intent_id_hex a),
      aw_token = Some (ea_reservation_token_digest a), aw_executor = Some (ea_executor_identity a),
      aw_correlation = Some (ea_correlation_key a), aw_deployment = ea_github_deployment_id a\<rparr>"

definition pg_attempt_insert :: "sql \<Rightarrow> execution_attempt \<Rightarrow> unit pg_op" where
  "pg_attempt_insert S a =
     (if ea_attempt_id_hex a = [] then fail (EmptyField ''attempt_id_hex'')
      else sql_insert S ''execution_attempts'' db_attempts db_attempts_update (ea_attempt_id_hex a)
        (attempt_row_of a))"

text \<open>The columns of a row as an attempt; the caller says which deployment id it carries.\<close>

definition decode_attempt_with ::
  "sql \<Rightarrow> (attempt_row \<Rightarrow> u64 option) \<Rightarrow> string \<times> attempt_row \<Rightarrow> storage_error + execution_attempt" where
  "decode_attempt_with S deployment kr =
     (case kr of (k, r) \<Rightarrow>
        and_then (column S ''intent_id_hex'' (aw_intent r)) (\<lambda>intent.
        and_then (column S ''reservation_token_digest'' (aw_token r)) (\<lambda>token.
        and_then (column S ''executor_identity'' (aw_executor r)) (\<lambda>executor.
        and_then (column S ''correlation_key'' (aw_correlation r)) (\<lambda>correlation.
        Inr \<lparr>ea_attempt_id_hex = k, ea_mandate_id_hex = aw_mandate r, ea_intent_id_hex = intent,
             ea_reservation_token_digest = token, ea_executor_identity = executor,
             ea_correlation_key = correlation, ea_started_at = aw_created_at r,
             ea_dispatch_boundary_at = None, ea_state = str_to_state (aw_state r),
             ea_github_deployment_id = deployment r\<rparr>)))))"

definition decode_attempt :: "sql \<Rightarrow> string \<times> attempt_row \<Rightarrow> storage_error + execution_attempt" where
  "decode_attempt S = decode_attempt_with S aw_deployment"

definition pg_attempt_get :: "sql \<Rightarrow> string \<Rightarrow> execution_attempt option pg_op" where
  "pg_attempt_get S k =
     try_op (sql_select (\<lambda>db. map_option (Pair k) (db_attempts db k))) (\<lambda>row.
       lift (decode_optional (decode_attempt S) row))"

definition pg_attempt_update_state :: "string \<Rightarrow> execution_attempt_state \<Rightarrow> unit pg_op" where
  "pg_attempt_update_state k new_state =
     try_op (sql_update db_attempts db_attempts_update k (\<lambda>r. r\<lparr>aw_state := state_to_str new_state\<rparr>)) (\<lambda>affected.
       if affected = 0 then fail (Backend (''execution attempt `'' @ k @ ''` not found'')) else ok ())"

definition pg_attempt_update_deployment_id :: "string \<Rightarrow> u64 \<Rightarrow> unit pg_op" where
  "pg_attempt_update_deployment_id k d =
     try_op (sql_update db_attempts db_attempts_update k (\<lambda>r. r\<lparr>aw_deployment := Some d\<rparr>)) (\<lambda>affected.
       if affected = 0 then fail (Backend (''execution attempt `'' @ k @ ''` not found'')) else ok ())"

definition pg_attempts_by_mandate :: "sql \<Rightarrow> string list \<Rightarrow> string \<Rightarrow> execution_attempt list pg_op" where
  "pg_attempts_by_mandate S scan m =
     try_op (sql_select (\<lambda>db. rows_ordered scan (\<lambda>k r. aw_mandate r = m) aw_created_at (db_attempts db))) (\<lambda>rows.
       lift (decode_rows (decode_attempt S) rows))"

text \<open>\<open>fetch_optional\<close> takes the first row the server returns.\<close>

definition pg_attempt_by_deployment_id ::
  "sql \<Rightarrow> string list \<Rightarrow> u64 \<Rightarrow> execution_attempt option pg_op" where
  "pg_attempt_by_deployment_id S scan d =
     try_op (sql_select (\<lambda>db. find (\<lambda>(k, r). aw_deployment r = Some d)
         (fetch_all (\<lambda>k. map_option (Pair k) (db_attempts db k)) scan))) (\<lambda>row.
       lift (decode_optional (decode_attempt_with S (\<lambda>_. Some d)) row))"

section \<open>Receipts\<close>

fun outcome_to_str :: "receipt_outcome \<Rightarrow> string" where
  "outcome_to_str Succeeded = ''succeeded''"
| "outcome_to_str Failed = ''failed''"
| "outcome_to_str receipt_outcome.Rejected = ''rejected''"
| "outcome_to_str Unknown = ''unknown''"

definition str_to_outcome :: "string \<Rightarrow> receipt_outcome" where
  "str_to_outcome s =
     (if s = ''succeeded'' then Succeeded
      else if s = ''failed'' then Failed
      else if s = ''rejected'' then receipt_outcome.Rejected
      else if s = ''unknown'' then Unknown
      else Unknown)"

definition pg_receipt_insert :: "sql \<Rightarrow> receipt_projection \<Rightarrow> unit pg_op" where
  "pg_receipt_insert S r =
     (if rp_receipt_id_hex r = [] then fail (EmptyField ''receipt_id_hex'')
      else
        try_op (map_err Backend (lift (sql_strings_to_json S (rp_dispatch_evidence_refs r)))) (\<lambda>dispatch.
        try_op (map_err Backend (lift (sql_strings_to_json S (rp_target_evidence_refs r)))) (\<lambda>target.
        try_op (map_err Backend (lift (sql_strings_to_json S (rp_evidence_gaps r)))) (\<lambda>gaps.
        sql_insert S ''receipt_projections'' db_receipts db_receipts_update (rp_receipt_id_hex r)
          \<lparr>rw_mandate = rp_mandate_id_hex r, rw_outcome = outcome_to_str (rp_outcome r),
           rw_created_at = rp_created_at r, rw_intent = Some (rp_intent_id_hex r),
           rw_attempt = Some (rp_attempt_id_hex r), rw_dispatch_refs = dispatch,
           rw_target_refs = target, rw_gaps = gaps, rw_canonical = rp_canonical_bytes r\<rparr>))))"

text \<open>\<open>from_str(..).unwrap_or_default()\<close>: a list that does not parse is read as empty.\<close>

definition strings_or_default :: "sql \<Rightarrow> string \<Rightarrow> string list" where
  "strings_or_default S s = (case sql_strings_from_json S s of Inl _ \<Rightarrow> [] | Inr xs \<Rightarrow> xs)"

definition unwrap_or_default :: "string option \<Rightarrow> string" where
  "unwrap_or_default v = (case v of None \<Rightarrow> [] | Some s \<Rightarrow> s)"

definition decode_receipt :: "sql \<Rightarrow> string \<times> receipt_row \<Rightarrow> storage_error + receipt_projection" where
  "decode_receipt S kr =
     (case kr of (k, r) \<Rightarrow>
        Inr \<lparr>rp_receipt_id_hex = k, rp_mandate_id_hex = rw_mandate r,
             rp_intent_id_hex = unwrap_or_default (rw_intent r),
             rp_attempt_id_hex = unwrap_or_default (rw_attempt r),
             rp_outcome = str_to_outcome (rw_outcome r), rp_created_at = rw_created_at r,
             rp_dispatch_evidence_refs = strings_or_default S (rw_dispatch_refs r),
             rp_target_evidence_refs = strings_or_default S (rw_target_refs r),
             rp_evidence_gaps = strings_or_default S (rw_gaps r),
             rp_canonical_bytes = rw_canonical r\<rparr>)"

definition pg_receipt_get :: "sql \<Rightarrow> string \<Rightarrow> receipt_projection option pg_op" where
  "pg_receipt_get S k =
     try_op (sql_select (\<lambda>db. map_option (Pair k) (db_receipts db k))) (\<lambda>row.
       lift (decode_optional (decode_receipt S) row))"

definition pg_receipts_by_mandate :: "sql \<Rightarrow> string list \<Rightarrow> string \<Rightarrow> receipt_projection list pg_op" where
  "pg_receipts_by_mandate S scan m =
     try_op (sql_select (\<lambda>db. rows_ordered scan (\<lambda>k r. rw_mandate r = m) rw_created_at (db_receipts db))) (\<lambda>rows.
       lift (decode_rows (decode_receipt S) rows))"

text \<open>Here \<open>scan\<close> is the collation order of the identifiers, the second sort key.\<close>

definition pg_list_ids_ordered :: "string list \<Rightarrow> (string \<times> i64) list pg_op" where
  "pg_list_ids_ordered scan =
     sql_select (\<lambda>db. map (\<lambda>(k, r). (k, rw_created_at r))
       (rows_ordered scan (\<lambda>k r. True) rw_created_at (db_receipts db)))"

section \<open>Evidence nodes\<close>

fun source_to_str :: "evidence_source \<Rightarrow> string" where
  "source_to_str Piteka = ''piteka''"
| "source_to_str (Provider p) = ''provider''"
| "source_to_str Verifier = ''verifier''"

definition str_to_source :: "string \<Rightarrow> evidence_source" where
  "str_to_source s =
     (if s = ''piteka'' then Piteka else if s = ''verifier'' then Verifier else Provider s)"

definition pg_node_insert :: "ext \<Rightarrow> sql \<Rightarrow> evidence_node \<Rightarrow> unit pg_op" where
  "pg_node_insert E S n =
     (if en_node_id_hex n = [] then fail (EmptyField ''node_id_hex'')
      else
        try_op (map_err (\<lambda>e. Backend (''failed to serialize relationships: '' @ e))
          (lift (sql_strings_to_json S (en_relationships n)))) (\<lambda>relationships.
        sql_insert S ''evidence_nodes'' db_nodes db_nodes_update (en_node_id_hex n)
          \<lparr>nw_registry = en_registry_id n, nw_source = source_to_str (en_source n),
           nw_producer = en_producer_identity n, nw_collected_at = en_collected_at n,
           nw_asserted_at = en_asserted_event_at n, nw_digest = to_hex E (en_content_digest n),
           nw_media_type = en_media_type n, nw_disclosure = en_disclosure_classification n,
           nw_relationships = relationships\<rparr>))"

definition decode_node :: "ext \<Rightarrow> sql \<Rightarrow> string \<times> node_row \<Rightarrow> storage_error + evidence_node" where
  "decode_node E S kr =
     (case kr of (k, r) \<Rightarrow>
        (case from_hex E (nw_digest r) of
           None \<Rightarrow> Inl (Backend ''stored content_digest is not valid hex'')
         | Some digest \<Rightarrow>
             (case sql_strings_from_json S (nw_relationships r) of
                Inl e \<Rightarrow> Inl (Backend (''failed to deserialize relationships: '' @ e))
              | Inr relationships \<Rightarrow>
                  Inr \<lparr>en_node_id_hex = k, en_registry_id = nw_registry r,
                       en_source = str_to_source (nw_source r), en_producer_identity = nw_producer r,
                       en_collected_at = nw_collected_at r, en_asserted_event_at = nw_asserted_at r,
                       en_content_digest = digest, en_media_type = nw_media_type r,
                       en_disclosure_classification = nw_disclosure r,
                       en_relationships = relationships\<rparr>)))"

definition pg_node_get :: "ext \<Rightarrow> sql \<Rightarrow> string \<Rightarrow> evidence_node option pg_op" where
  "pg_node_get E S k =
     try_op (sql_select (\<lambda>db. map_option (Pair k) (db_nodes db k))) (\<lambda>row.
       lift (decode_optional (decode_node E S) row))"

text \<open>\<open>LIKE\<close>: percent stands for any text, underscore for one character, backslash quotes the next.\<close>

fun sql_like :: "string \<Rightarrow> string \<Rightarrow> bool" where
  "sql_like [] t = (t = [])"
| "sql_like (p # ps) t =
     (if p = CHR ''%'' then sql_like ps t \<or> (case t of [] \<Rightarrow> False | c # t' \<Rightarrow> sql_like (p # ps) t')
      else if p = CHR 0x5C then
        (case ps of [] \<Rightarrow> False
         | q # qs \<Rightarrow> (case t of [] \<Rightarrow> False | c # t' \<Rightarrow> c = q \<and> sql_like qs t'))
      else (case t of [] \<Rightarrow> False | c # t' \<Rightarrow> (p = CHR ''_'' \<or> c = p) \<and> sql_like ps t'))"

definition pg_nodes_by_mandate :: "ext \<Rightarrow> sql \<Rightarrow> string list \<Rightarrow> string \<Rightarrow> evidence_node list pg_op" where
  "pg_nodes_by_mandate E S scan m =
     try_op (sql_select (\<lambda>db. rows_ordered scan (\<lambda>k r. sql_like (m @ ''%'') k) nw_collected_at (db_nodes db))) (\<lambda>rows.
       lift (decode_rows (decode_node E S) rows))"

end
