(* ===== verification/Postgres_Refinement.thy ===== *)
theory Postgres_Refinement
  imports Postgres_Stores
begin

text \<open>
  The PostgreSQL adapters against the contracts of the ports. The tables are abstracted to the
  in-memory stores of \<open>Storage_Memory\<close>, which the use cases are verified over, and each adapter is
  shown to commute with its in-memory counterpart, or the difference is stated. A database that
  answers (\<open>db_down db = None\<close>) is assumed where the result of a call matters.
\<close>

section \<open>Evaluation\<close>

lemma stmt_up: "db_down db = None \<Longrightarrow>
    stmt f db = (case f db of (Inl m, _) \<Rightarrow> (Inl (backend m), db) | (Inr a, db') \<Rightarrow> (Inr a, db'))"
  by (simp add: stmt_def)

lemma stmt_down: "db_down db = Some m \<Longrightarrow> stmt f db = (Inl (backend m), db)"
  by (simp add: stmt_def)

lemma sql_select_run:
  "sql_select f db = (case db_down db of Some m \<Rightarrow> (Inl (backend m), db) | None \<Rightarrow> (Inr (f db), db))"
  by (simp add: sql_select_def stmt_def split: option.split)

lemma lift_apply [simp]: "lift x w = (x, w)"
  by (simp add: lift_def)

lemma try_op_run:
  "try_op m k w = (case fst (m w) of Inl e \<Rightarrow> (Inl e, snd (m w)) | Inr a \<Rightarrow> k a (snd (m w)))"
  by (cases "m w") (simp add: try_op_def split: sum.split)

lemma map_err_run:
  "map_err f m w = (case fst (m w) of Inl e \<Rightarrow> Inl (f e) | Inr a \<Rightarrow> Inr a, snd (m w))"
  by (cases "m w") (simp add: map_err_def split: sum.split)

lemma and_then_simps [simp]:
  "and_then (Inl e) f = Inl e" "and_then (Inr a) f = f a"
  by (simp_all add: and_then_def)

lemma column_Some [simp]: "column S c (Some a) = Inr a"
  by (simp add: column_def)

lemma str_to_state_inverse [simp]: "str_to_state (state_to_str st) = st"
  by (cases st) (simp_all add: str_to_state_def)

lemma str_to_outcome_inverse [simp]: "str_to_outcome (outcome_to_str x) = x"
  by (cases x) (simp_all add: str_to_outcome_def)

text \<open>\<open>serde_json\<close> prints any list of strings and reads back what it printed.\<close>

definition sql_laws :: "sql \<Rightarrow> bool" where
  "sql_laws S \<longleftrightarrow>
     (\<forall>xs. \<exists>s. sql_strings_to_json S xs = Inr s \<and> sql_strings_from_json S s = Inr xs)"

lemma strings_round_trip:
  "sql_laws S \<Longrightarrow> sql_strings_to_json S xs = Inr s \<Longrightarrow> sql_strings_from_json S s = Inr xs"
  unfolding sql_laws_def by (metis sum.inject(2))

section \<open>Mandates\<close>

definition mandates_of :: "pg_db \<Rightarrow> mandate_store" where
  "mandates_of db m = map_option
     (\<lambda>r. \<lparr>mp_mandate_id_hex = m, mp_version = mw_version r, mp_state = mw_state r\<rparr>) (db_mandates db m)"

lemma mandates_of_update [simp]:
  "mandates_of (db\<lparr>db_mandates := (db_mandates db)(m \<mapsto> r)\<rparr>) =
    (mandates_of db)(m \<mapsto> \<lparr>mp_mandate_id_hex = m, mp_version = mw_version r, mp_state = mw_state r\<rparr>)"
  by (rule ext) (simp add: mandates_of_def)

lemma pg_mandate_get_run:
  "pg_mandate_get m db =
    (case db_down db of Some e \<Rightarrow> (Inl (backend e), db) | None \<Rightarrow> (Inr (mandates_of db m), db))"
  by (simp add: pg_mandate_get_def try_op_run sql_select_run mandates_of_def split: option.split)

lemma pg_mandate_insert_run:
  "db_down db = None \<Longrightarrow> pg_mandate_insert S m st db =
    (if m = [] then (Inl (EmptyField ''mandate_id_hex''), db)
     else if mandates_of db m \<noteq> None then (Inl (backend (sql_duplicate S ''mandate_projections'')), db)
     else (Inr (), db\<lparr>db_mandates := (db_mandates db)(m \<mapsto> \<lparr>mw_version = 1, mw_state = st\<rparr>)\<rparr>))"
  by (simp add: pg_mandate_insert_def sql_insert_def stmt_up mandates_of_def)

lemma pg_mandate_cas_run:
  "pg_mandate_cas S m e st db =
    (case db_down db of
       Some d \<Rightarrow> (Inl (backend d), db)
     | None \<Rightarrow>
         (case db_mandates db m of
            None \<Rightarrow> (Inr Missing, db)
          | Some r \<Rightarrow>
              if mw_version r \<noteq> e then (Inr (Conflict (mw_version r)), db)
              else if e = i64_max then (Inl (backend (sql_out_of_range S)), db)
              else (Inr (Applied (e + 1)),
                db\<lparr>db_mandates := (db_mandates db)(m \<mapsto> r\<lparr>mw_version := e + 1, mw_state := st\<rparr>)\<rparr>)))"
  by (auto simp: pg_mandate_cas_def try_op_run pg_mandate_update_def stmt_def pg_mandate_get_run
      mandates_of_def split: option.split)

text \<open>
  The PostgreSQL mandate store refines the in-memory store the use cases are verified over.
  Through the abstraction of the table to the map, \<open>insert\<close>, \<open>get\<close> and the compare-and-swap
  succeed, fail and update alike, with one difference: at the largest version the database refuses the
  swap where memory would wrap around.
\<close>

theorem pg_mandates_refine_memory:
  assumes "db_down db = None"
  shows "succeeded (fst (pg_mandate_insert S m st db)) = succeeded (fst (mandate_insert m st (mandates_of db)))
    \<and> mandates_of (snd (pg_mandate_insert S m st db)) = snd (mandate_insert m st (mandates_of db))
    \<and> pg_mandate_get m db = (Inr (mandate_get (mandates_of db) m), db)
    \<and> (if mandate_version (mandates_of db) m = Some i64_max \<and> e = i64_max
       then pg_mandate_cas S m e st db = (Inl (backend (sql_out_of_range S)), db)
       else fst (pg_mandate_cas S m e st db) = fst (mandate_cas m e st (mandates_of db))
         \<and> mandates_of (snd (pg_mandate_cas S m e st db)) = snd (mandate_cas m e st (mandates_of db)))"
proof (intro conjI)
  show "succeeded (fst (pg_mandate_insert S m st db)) = succeeded (fst (mandate_insert m st (mandates_of db)))"
    by (simp add: pg_mandate_insert_run [OF assms] mandate_insert_def)
  show "mandates_of (snd (pg_mandate_insert S m st db)) = snd (mandate_insert m st (mandates_of db))"
    by (simp add: pg_mandate_insert_run [OF assms] mandate_insert_def)
  show "pg_mandate_get m db = (Inr (mandate_get (mandates_of db) m), db)"
    by (simp add: pg_mandate_get_run assms mandate_get_def)
  show "if mandate_version (mandates_of db) m = Some i64_max \<and> e = i64_max
       then pg_mandate_cas S m e st db = (Inl (backend (sql_out_of_range S)), db)
       else fst (pg_mandate_cas S m e st db) = fst (mandate_cas m e st (mandates_of db))
         \<and> mandates_of (snd (pg_mandate_cas S m e st db)) = snd (mandate_cas m e st (mandates_of db))"
    by (cases "db_mandates db m")
      (auto simp: pg_mandate_cas_run assms mandate_cas_def mandate_version_def mandates_of_def)
qed

text \<open>The version of a mandate never decreases in the signed order of \<open>bigint\<close>.\<close>

lemma sint_Suc: "e \<noteq> i64_max \<Longrightarrow> sint (e + 1 :: i64) = sint e + 1"
proof -
  assume "e \<noteq> i64_max"
  have "sint e < 2 ^ 63" using sint_lt [of e] by simp
  moreover have "sint e \<noteq> 2 ^ 63 - 1"
  proof
    assume "sint e = 2 ^ 63 - 1"
    then have "sint e = sint i64_max" by (simp add: i64_max_def)
    then have "(word_of_int (sint e) :: i64) = word_of_int (sint i64_max)" by (rule arg_cong)
    with \<open>e \<noteq> i64_max\<close> show False by simp
  qed
  ultimately have "sint e + 1 < 2 ^ 63" by simp
  moreover have "- (2 ^ 63) \<le> sint e + 1" using sint_ge [of e] by simp
  ultimately show ?thesis by (simp add: sint_word_ariths signed_take_bit_int_eq_self)
qed

lemma pg_cas_version_grows:
  assumes "db_mandates db m = Some r"
  shows "\<exists>r'. db_mandates (snd (pg_mandate_cas S k e st db)) m = Some r' \<and> sint (mw_version r) \<le> sint (mw_version r')"
  using assms by (auto simp: pg_mandate_cas_run sint_Suc split: option.split)

lemma pg_cas_run_version_grows:
  "db_mandates db m = Some r \<Longrightarrow>
    \<exists>r'. db_mandates (cas_run (pg_mandate_cas S) ops db) m = Some r' \<and> sint (mw_version r) \<le> sint (mw_version r')"
proof (induction ops arbitrary: db r)
  case Nil
  then show ?case by simp
next
  case (Cons x ops)
  obtain k e st where x: "x = (k, e, st)" by (cases x)
  from pg_cas_version_grows [OF Cons.prems, of S k e st] obtain r1
    where r1: "db_mandates (snd (pg_mandate_cas S k e st db)) m = Some r1" "sint (mw_version r) \<le> sint (mw_version r1)" by blast
  from Cons.IH [OF r1(1)] r1(2) show ?case by (auto simp: x intro: order_trans)
qed

text \<open>
  In PostgreSQL a mandate version is won once and for all. After a compare-and-swap is applied for
  an expected version, no swap of that mandate that expects the same version is ever applied again,
  whatever swaps run in between; unlike the in-memory store this needs no bound, for the
  version never wraps.
\<close>

theorem pg_mandate_cas_one_winner:
  assumes "fst (pg_mandate_cas S m e a db) = Inr (Applied n)"
  shows "fst (pg_mandate_cas S m e b (cas_run (pg_mandate_cas S) ops (snd (pg_mandate_cas S m e a db))))
    \<noteq> Inr (Applied n')"
proof -
  from assms obtain r where "db_down db = None" "db_mandates db m = Some r" "mw_version r = e" "e \<noteq> i64_max"
    by (auto simp: pg_mandate_cas_run split: option.splits if_splits)
  then have "db_mandates (snd (pg_mandate_cas S m e a db)) m = Some (r\<lparr>mw_version := e + 1, mw_state := a\<rparr>)"
    by (simp add: pg_mandate_cas_run)
  from pg_cas_run_version_grows [OF this, of S ops] \<open>e \<noteq> i64_max\<close>
  obtain r' where "db_mandates (cas_run (pg_mandate_cas S) ops (snd (pg_mandate_cas S m e a db))) m = Some r'"
    and "sint e < sint (mw_version r')" by (auto simp: sint_Suc)
  then show ?thesis by (auto simp: pg_mandate_cas_run split: option.splits)
qed

section \<open>A concrete database\<close>

text \<open>
  The witnesses run on one table row and on a printer that marks every character and every end of a
  string. No theorem depends on it.
\<close>

definition example_db :: pg_db where
  "example_db =
     \<lparr>db_down = None, db_protocol = Map.empty,
      db_mandates = [''m'' \<mapsto> \<lparr>mw_version = 1, mw_state = ''issued''\<rparr>], db_webhooks = Map.empty,
      db_audit = [], db_attempts = Map.empty, db_receipts = Map.empty, db_nodes = Map.empty\<rparr>"

fun encode_string :: "string \<Rightarrow> string" where
  "encode_string [] = ''.''"
| "encode_string (c # cs) = CHR ''+'' # c # encode_string cs"

fun decode_strings :: "string \<Rightarrow> string \<Rightarrow> string + string list" where
  "decode_strings acc [] = (if acc = [] then Inr [] else Inl ''unexpected end'')"
| "decode_strings acc [m] = (if m = CHR ''.'' then Inr [acc] else Inl ''unexpected end'')"
| "decode_strings acc (m # c # cs) =
     (if m = CHR ''.'' then and_then (decode_strings [] (c # cs)) (\<lambda>ss. Inr (acc # ss))
      else decode_strings (acc @ [c]) cs)"

lemma decode_encode_string:
  "decode_strings acc (encode_string s @ rest) = and_then (decode_strings [] rest) (\<lambda>ss. Inr ((acc @ s) # ss))"
proof (induction s arbitrary: acc)
  case Nil
  show ?case by (cases rest) simp_all
next
  case (Cons c s)
  then show ?case by simp
qed

lemma decode_encode_strings: "decode_strings [] (concat (map encode_string ss)) = Inr ss"
  by (induction ss) (simp_all add: decode_encode_string)

definition sql_ref :: sql where
  "sql_ref =
     \<lparr>sql_duplicate = (\<lambda>t. ''duplicate key in '' @ t), sql_out_of_range = ''bigint out of range'',
      sql_row_not_found = ''no rows returned'', sql_null = (\<lambda>c. ''unexpected null in '' @ c),
      sql_strings_to_json = (\<lambda>ss. Inr (concat (map encode_string ss))),
      sql_strings_from_json = decode_strings []\<rparr>"

lemma sql_laws_ref: "sql_laws sql_ref"
  by (simp add: sql_laws_def sql_ref_def decode_encode_strings)

theorem pg_mandates_refine_memory_witness:
  "fst (pg_mandate_cas sql_ref ''m'' 1 ''reserved'' example_db) = Inr (Applied 2)
   \<and> mandate_state (mandates_of (snd (pg_mandate_cas sql_ref ''m'' 1 ''reserved'' example_db))) ''m'' = Some ''reserved''"
proof -
  have up: "db_down example_db = None" by (simp add: example_db_def)
  from pg_mandates_refine_memory [OF up, of sql_ref "''m''" "''reserved''" 1] show ?thesis
    by (simp add: mandate_cas_def mandates_of_def example_db_def mandate_version_def mandate_state_def i64_max_def)
qed

theorem pg_mandate_cas_one_winner_witness:
  "fst (pg_mandate_cas sql_ref ''m'' 1 ''reserved'' example_db) = Inr (Applied 2)
   \<and> fst (pg_mandate_cas sql_ref ''m'' 1 ''reserved'' (snd (pg_mandate_cas sql_ref ''m'' 1 ''reserved'' example_db)))
       \<noteq> Inr (Applied 2)"
proof -
  have win: "fst (pg_mandate_cas sql_ref ''m'' 1 ''reserved'' example_db) = Inr (Applied 2)"
    by (simp add: pg_mandate_cas_run example_db_def i64_max_def)
  from pg_mandate_cas_one_winner [OF win, where ops = "[]"] win show ?thesis by simp
qed

section \<open>Receipts\<close>

lemma sql_insert_run:
  "db_down db = None \<Longrightarrow> sql_insert S t get upd k r db =
    (if get db k \<noteq> None then (Inl (backend (sql_duplicate S t)), db) else (Inr (), upd (\<lambda>t. t(k \<mapsto> r)) db))"
  by (simp add: sql_insert_def stmt_up)

lemma sql_insert_Inr:
  "fst (sql_insert S t get upd k r db) = Inr u \<longleftrightarrow> db_down db = None \<and> get db k = None"
  by (cases "db_down db") (simp_all add: sql_insert_def stmt_def)

text \<open>The row a receipt is stored as, and what it is read back as.\<close>

definition receipt_row_of :: "sql \<Rightarrow> receipt_projection \<Rightarrow> receipt_row" where
  "receipt_row_of S r =
     \<lparr>rw_mandate = rp_mandate_id_hex r, rw_outcome = outcome_to_str (rp_outcome r),
      rw_created_at = rp_created_at r, rw_intent = Some (rp_intent_id_hex r),
      rw_attempt = Some (rp_attempt_id_hex r),
      rw_dispatch_refs = projr (sql_strings_to_json S (rp_dispatch_evidence_refs r)),
      rw_target_refs = projr (sql_strings_to_json S (rp_target_evidence_refs r)),
      rw_gaps = projr (sql_strings_to_json S (rp_evidence_gaps r)),
      rw_canonical = rp_canonical_bytes r\<rparr>"

lemma strings_to_json_Inr: "sql_laws S \<Longrightarrow> sql_strings_to_json S xs = Inr (projr (sql_strings_to_json S xs))"
  unfolding sql_laws_def by (metis sum.sel(2))

lemma strings_or_default_json [simp]:
  "sql_laws S \<Longrightarrow> strings_or_default S (projr (sql_strings_to_json S xs)) = xs"
  using strings_round_trip [OF _ strings_to_json_Inr, of S xs] by (simp add: strings_or_default_def)

lemma pg_receipt_insert_run:
  assumes "sql_laws S" and "rp_receipt_id_hex r \<noteq> []"
  shows "pg_receipt_insert S r db =
    sql_insert S ''receipt_projections'' db_receipts db_receipts_update (rp_receipt_id_hex r) (receipt_row_of S r) db"
proof -
  obtain a b c where "sql_strings_to_json S (rp_dispatch_evidence_refs r) = Inr a"
    "sql_strings_to_json S (rp_target_evidence_refs r) = Inr b" "sql_strings_to_json S (rp_evidence_gaps r) = Inr c"
    using assms(1) unfolding sql_laws_def by blast
  with assms(2) show ?thesis
    by (simp add: pg_receipt_insert_def receipt_row_of_def try_op_run map_err_run)
qed

lemma decode_receipt_row [simp]:
  "sql_laws S \<Longrightarrow> decode_receipt S (rp_receipt_id_hex r, receipt_row_of S r) = Inr r"
  by (simp add: decode_receipt_def receipt_row_of_def unwrap_or_default_def)

lemma pg_receipt_get_run:
  "db_down db = None \<Longrightarrow> pg_receipt_get S k db =
    (decode_optional (decode_receipt S) (map_option (Pair k) (db_receipts db k)), db)"
  by (simp add: pg_receipt_get_def try_op_run sql_select_run)

lemma decode_rows_receipt: "decode_rows (decode_receipt S) rows = Inr (map (projr \<circ> decode_receipt S) rows)"
  by (induction rows) (auto simp: decode_receipt_def)

lemma set_rows_ordered:
  "set (rows_ordered scan p at t) = {(k, r). k \<in> set scan \<and> t k = Some r \<and> p k r}"
  by (auto simp: rows_ordered_def set_fetch_all)

text \<open>
  A receipt survives the database. If PostgreSQL accepts a receipt then reading it back gives
  the very same receipt, outcome, bindings, evidence lists and canonical bytes included, it is
  listed under its mandate, and a second insert of its identifier is refused.
\<close>

theorem pg_receipt_round_trip:
  assumes "sql_laws S" and "pg_receipt_insert S r db = (Inr (), db')" and "rp_receipt_id_hex r \<in> set scan"
  shows "pg_receipt_get S (rp_receipt_id_hex r) db' = (Inr (Some r), db')
    \<and> (\<exists>rs. pg_receipts_by_mandate S scan (rp_mandate_id_hex r) db' = (Inr rs, db') \<and> r \<in> set rs)
    \<and> \<not> succeeded (fst (pg_receipt_insert S r db'))"
proof -
  let ?k = "rp_receipt_id_hex r"
  have ne: "?k \<noteq> []" using assms(2) by (auto simp: pg_receipt_insert_def)
  have up: "db_down db = None" "db_receipts db ?k = None"
    using assms(2) sql_insert_Inr [of S "''receipt_projections''" db_receipts db_receipts_update ?k "receipt_row_of S r" db]
    by (simp_all add: pg_receipt_insert_run [OF assms(1) ne])
  then have db': "db' = db_receipts_update (\<lambda>t. t(?k \<mapsto> receipt_row_of S r)) db"
    using assms(2) by (simp add: pg_receipt_insert_run [OF assms(1) ne] sql_insert_run)
  have "pg_receipt_get S ?k db' = (Inr (Some r), db')"
    using assms(1) up by (simp add: pg_receipt_get_run db')
  moreover have "\<not> succeeded (fst (pg_receipt_insert S r db'))"
    using up by (simp add: pg_receipt_insert_run [OF assms(1) ne] sql_insert_run db')
  moreover have "(?k, receipt_row_of S r) \<in>
      set (rows_ordered scan (\<lambda>k x. rw_mandate x = rp_mandate_id_hex r) rw_created_at (db_receipts db'))"
    using assms(3) by (simp add: set_rows_ordered db' receipt_row_of_def)
  then have "\<exists>rs. pg_receipts_by_mandate S scan (rp_mandate_id_hex r) db' = (Inr rs, db') \<and> r \<in> set rs"
    using assms(1) up
    by (auto simp: pg_receipts_by_mandate_def try_op_run sql_select_run decode_rows_receipt db'
        intro!: image_eqI [of _ _ "(?k, receipt_row_of S r)"])
  ultimately show ?thesis by blast
qed

definition example_pg_receipt :: receipt_projection where
  "example_pg_receipt =
     \<lparr>rp_receipt_id_hex = ''rcpt-1'', rp_mandate_id_hex = ''m'', rp_intent_id_hex = ''i'',
      rp_attempt_id_hex = ''att-m'', rp_outcome = Failed, rp_created_at = 50,
      rp_dispatch_evidence_refs = [''ev-1'', ''''], rp_target_evidence_refs = [''ev-2''],
      rp_evidence_gaps = [], rp_canonical_bytes = None\<rparr>"

theorem pg_receipt_round_trip_witness:
  "\<exists>db'. pg_receipt_insert sql_ref example_pg_receipt example_db = (Inr (), db')
     \<and> pg_receipt_get sql_ref ''rcpt-1'' db' = (Inr (Some example_pg_receipt), db')"
proof -
  have "pg_receipt_insert sql_ref example_pg_receipt example_db =
      (Inr (), snd (pg_receipt_insert sql_ref example_pg_receipt example_db))"
    by (simp add: pg_receipt_insert_run [OF sql_laws_ref] sql_insert_run example_db_def example_pg_receipt_def)
  from pg_receipt_round_trip [OF sql_laws_ref this, of "[''rcpt-1'']"] this show ?thesis
    by (auto simp: example_pg_receipt_def)
qed

section \<open>Evidence nodes\<close>

text \<open>The source a node is read back with.\<close>

fun stored_source :: "evidence_source \<Rightarrow> evidence_source" where
  "stored_source (Provider p) = Provider ''provider''"
| "stored_source s = s"

lemma str_to_source_stored [simp]: "str_to_source (source_to_str s) = stored_source s"
  by (cases s) (simp_all add: str_to_source_def)

lemma hex_round_trip: "hex_laws E \<Longrightarrow> wf_digest d \<Longrightarrow> from_hex E (to_hex E d) = Some d"
  by (cases d) (simp add: from_hex_def to_hex_def hex_laws_def wf_digest_def)

text \<open>A pattern that begins with a plain character matches only texts that begin with it.\<close>

lemma sql_like_first:
  "sql_like (p # ps) t \<Longrightarrow> p \<noteq> CHR ''%'' \<Longrightarrow> p \<noteq> CHR ''_'' \<Longrightarrow> p \<noteq> CHR 0x5C \<Longrightarrow> \<exists>t'. t = p # t'"
  by (cases t) auto

definition node_row_of :: "ext \<Rightarrow> sql \<Rightarrow> evidence_node \<Rightarrow> node_row" where
  "node_row_of E S n =
     \<lparr>nw_registry = en_registry_id n, nw_source = source_to_str (en_source n),
      nw_producer = en_producer_identity n, nw_collected_at = en_collected_at n,
      nw_asserted_at = en_asserted_event_at n, nw_digest = to_hex E (en_content_digest n),
      nw_media_type = en_media_type n, nw_disclosure = en_disclosure_classification n,
      nw_relationships = projr (sql_strings_to_json S (en_relationships n))\<rparr>"

lemma pg_node_insert_run:
  assumes "sql_laws S" and "en_node_id_hex n \<noteq> []"
  shows "pg_node_insert E S n db =
    sql_insert S ''evidence_nodes'' db_nodes db_nodes_update (en_node_id_hex n) (node_row_of E S n) db"
proof -
  obtain a where "sql_strings_to_json S (en_relationships n) = Inr a"
    using assms(1) unfolding sql_laws_def by blast
  with assms(2) show ?thesis
    by (simp add: pg_node_insert_def node_row_of_def try_op_run map_err_run)
qed

lemma decode_node_row:
  assumes "sql_laws S" and "hex_laws E" and "wf_digest (en_content_digest n)"
  shows "decode_node E S (en_node_id_hex n, node_row_of E S n) = Inr (n\<lparr>en_source := stored_source (en_source n)\<rparr>)"
  using strings_round_trip [OF assms(1) strings_to_json_Inr [OF assms(1)], of "en_relationships n"]
  by (simp add: decode_node_def node_row_of_def hex_round_trip [OF assms(2,3)])

lemma pg_node_get_run:
  "db_down db = None \<Longrightarrow> pg_node_get E S k db =
    (decode_optional (decode_node E S) (map_option (Pair k) (db_nodes db k)), db)"
  by (simp add: pg_node_get_def try_op_run sql_select_run)

text \<open>
  PostgreSQL forgets which provider an observation came from. A stored node reads back as it was
  written except for its source: whatever provider is named, it comes back as the
  provider \<open>provider\<close>. And the nodes of a mandate cannot be found by the mandate: the lookup matches
  node identifiers by the mandate id as a prefix, while the program's node identifiers start with
  \<open>ev-\<close>, so for a mandate id of plain characters that is not itself such a prefix it finds none of them.
\<close>

theorem pg_node_forgets_provider:
  assumes "hex_laws E" and "sql_laws S" and "wf_digest (en_content_digest n)"
    and "pg_node_insert E S n db = (Inr (), db')"
    and "c \<notin> {CHR ''%'', CHR ''_'', CHR 0x5C, CHR ''e''}"
    and "\<forall>k \<in> dom (db_nodes db'). starts_with k ''ev-''"
  shows "pg_node_get E S (en_node_id_hex n) db' = (Inr (Some (n\<lparr>en_source := stored_source (en_source n)\<rparr>)), db')
    \<and> pg_nodes_by_mandate E S scan (c # m) db' = (Inr [], db')"
proof
  let ?k = "en_node_id_hex n"
  have ne: "?k \<noteq> []" using assms(4) by (auto simp: pg_node_insert_def)
  have up: "db_down db = None" "db_nodes db ?k = None"
    using assms(4) sql_insert_Inr [of S "''evidence_nodes''" db_nodes db_nodes_update ?k "node_row_of E S n" db]
    by (simp_all add: pg_node_insert_run [OF assms(2) ne])
  then have db': "db' = db_nodes_update (\<lambda>t. t(?k \<mapsto> node_row_of E S n)) db"
    using assms(4) by (simp add: pg_node_insert_run [OF assms(2) ne] sql_insert_run)
  show "pg_node_get E S ?k db' = (Inr (Some (n\<lparr>en_source := stored_source (en_source n)\<rparr>)), db')"
    using up by (simp add: pg_node_get_run db' decode_node_row [OF assms(2,1,3)])
  have "\<not> sql_like ((c # m) @ ''%'') k" if "k \<in> dom (db_nodes db')" for k
  proof
    assume "sql_like ((c # m) @ ''%'') k"
    then have "\<exists>t. k = c # t"
      using sql_like_first [of c "m @ ''%''" k] assms(5) by (simp del: sql_like.simps)
    moreover from assms(6) that have "starts_with k ''ev-''" by blast
    ultimately show False using assms(5) by (auto simp: starts_with_iff)
  qed
  then have "set (rows_ordered scan (\<lambda>k r. sql_like ((c # m) @ ''%'') k) nw_collected_at (db_nodes db')) = {}"
    unfolding set_rows_ordered by blast
  then show "pg_nodes_by_mandate E S scan (c # m) db' = (Inr [], db')"
    using up by (simp add: pg_nodes_by_mandate_def try_op_run sql_select_run db' del: sql_like.simps)
qed

definition example_pg_node :: evidence_node where
  "example_pg_node =
     \<lparr>en_node_id_hex = ''ev-1'', en_registry_id = ''r'', en_source = Provider ''github'',
      en_producer_identity = ''p'', en_collected_at = 5, en_asserted_event_at = None,
      en_content_digest = ContentDigest (replicate 32 (CHR 0x00)), en_media_type = ''t'',
      en_disclosure_classification = ''public'', en_relationships = [''m'']\<rparr>"

theorem pg_node_forgets_provider_witness:
  "\<exists>db'. pg_node_insert ext_ref sql_ref example_pg_node example_db = (Inr (), db')
     \<and> pg_node_get ext_ref sql_ref ''ev-1'' db' = (Inr (Some (example_pg_node\<lparr>en_source := Provider ''provider''\<rparr>)), db')
     \<and> pg_nodes_by_mandate ext_ref sql_ref [''ev-1''] ''m'' db' = (Inr [], db')"
proof -
  let ?db = "snd (pg_node_insert ext_ref sql_ref example_pg_node example_db)"
  have run: "pg_node_insert ext_ref sql_ref example_pg_node example_db = (Inr (), ?db)"
    by (simp add: pg_node_insert_run [OF sql_laws_ref] sql_insert_run example_db_def example_pg_node_def)
  have ev: "\<forall>k \<in> dom (db_nodes ?db). starts_with k ''ev-''"
    by (simp add: pg_node_insert_run [OF sql_laws_ref] sql_insert_run example_db_def example_pg_node_def)
  have d: "wf_digest (en_content_digest example_pg_node)" by (simp add: example_pg_node_def wf_digest_def)
  have n: "en_node_id_hex example_pg_node = ''ev-1''" "en_source example_pg_node = Provider ''github''"
    by (simp_all add: example_pg_node_def)
  from pg_node_forgets_provider [OF hex_laws_ref sql_laws_ref d run _ ev, where c = "CHR ''m''" and m = "[]" and scan = "[''ev-1'']"] run
  show ?thesis by (auto simp: n)
qed

section \<open>Execution attempts and webhook receipts\<close>

lemma pg_attempt_get_run:
  "db_down db = None \<Longrightarrow> pg_attempt_get S k db =
    (decode_optional (decode_attempt S) (map_option (Pair k) (db_attempts db k)), db)"
  by (simp add: pg_attempt_get_def try_op_run sql_select_run)

text \<open>The attempts of the table as the rows of the in-memory store.\<close>

definition attempts_of :: "sql \<Rightarrow> pg_db \<Rightarrow> string \<rightharpoonup> execution_attempt" where
  "attempts_of S db k = Option.bind (db_attempts db k)
     (\<lambda>r. case decode_attempt S (k, r) of Inl _ \<Rightarrow> None | Inr a \<Rightarrow> Some a)"

text \<open>Every row was written by this program: no column it binds is NULL.\<close>

definition attempts_written :: "sql \<Rightarrow> pg_db \<Rightarrow> bool" where
  "attempts_written S db \<longleftrightarrow> (\<forall>k r. db_attempts db k = Some r \<longrightarrow> (\<exists>a. decode_attempt S (k, r) = Inr a))"

lemma decode_attempt_row [simp]:
  "decode_attempt S (ea_attempt_id_hex a, attempt_row_of a) = Inr (a\<lparr>ea_dispatch_boundary_at := None\<rparr>)"
  by (simp add: decode_attempt_def decode_attempt_with_def attempt_row_of_def)

lemma decode_attempt_state:
  "decode_attempt S (k, r) = Inr a \<Longrightarrow>
    decode_attempt S (k, r\<lparr>aw_state := state_to_str st\<rparr>) = Inr (a\<lparr>ea_state := st\<rparr>)"
  by (auto simp: decode_attempt_def decode_attempt_with_def and_then_def column_def split: sum.splits option.splits)

lemma decode_attempt_deployment:
  "decode_attempt S (k, r) = Inr a \<Longrightarrow>
    decode_attempt S (k, r\<lparr>aw_deployment := Some d\<rparr>) = Inr (a\<lparr>ea_github_deployment_id := Some d\<rparr>)"
  by (auto simp: decode_attempt_def decode_attempt_with_def and_then_def column_def split: sum.splits option.splits)

lemma attempts_of_None: "attempts_written S db \<Longrightarrow> attempts_of S db k = None \<longleftrightarrow> db_attempts db k = None"
  by (cases "db_attempts db k") (fastforce simp: attempts_of_def attempts_written_def)+

lemma attempts_of_insert:
  "attempts_of S (db_attempts_update (\<lambda>t. t(ea_attempt_id_hex a \<mapsto> attempt_row_of a)) db) =
    (attempts_of S db)(ea_attempt_id_hex a \<mapsto> a\<lparr>ea_dispatch_boundary_at := None\<rparr>)"
  by (rule ext) (simp add: attempts_of_def)

lemma attempts_of_change:
  "decode_attempt S (k, r) = Inr a \<Longrightarrow>
    attempts_of S (db_attempts_update (\<lambda>t. t(k \<mapsto> r)) db) = (attempts_of S db)(k \<mapsto> a)"
  by (rule ext) (simp add: attempts_of_def)

lemma pg_attempt_insert_run:
  "db_down db = None \<Longrightarrow> pg_attempt_insert S a db =
    (if ea_attempt_id_hex a = [] then (Inl (EmptyField ''attempt_id_hex''), db)
     else if db_attempts db (ea_attempt_id_hex a) \<noteq> None
     then (Inl (backend (sql_duplicate S ''execution_attempts'')), db)
     else (Inr (), db_attempts_update (\<lambda>t. t(ea_attempt_id_hex a \<mapsto> attempt_row_of a)) db))"
  by (simp add: pg_attempt_insert_def sql_insert_run)

lemma sql_update_run:
  "db_down db = None \<Longrightarrow> sql_update get upd k f db =
    (case get db k of None \<Rightarrow> (Inr 0, db) | Some r \<Rightarrow> (Inr 1, upd (\<lambda>t. t(k \<mapsto> f r)) db))"
  by (simp add: sql_update_def stmt_up split: option.split)

text \<open>
  The PostgreSQL attempt store refines the in-memory store the dispatch use case is verified
  over. On a table this program wrote, inserting an attempt that has not crossed the dispatch
  boundary, reading one, and the two updates succeed, fail and change the attempts exactly as in
  memory, the state and the deployment number surviving their columns; the time of the dispatch
  boundary has no column, so an attempt that carries one loses it.
\<close>

theorem pg_attempts_refine_memory:
  assumes "db_down db = None" and "attempts_written S db" and "row_map s = attempts_of S db"
  shows "succeeded (fst (pg_attempt_insert S a db)) = succeeded (fst (attempt_insert a s))
    \<and> (succeeded (fst (attempt_insert a s)) \<longrightarrow> attempts_of S (snd (pg_attempt_insert S a db)) =
        (row_map (snd (attempt_insert a s)))(ea_attempt_id_hex a \<mapsto> a\<lparr>ea_dispatch_boundary_at := None\<rparr>))
    \<and> pg_attempt_get S k db = (Inr (attempt_get s k), db)
    \<and> fst (pg_attempt_update_state k st db) = fst (attempt_update_state k st s)
    \<and> attempts_of S (snd (pg_attempt_update_state k st db)) = row_map (snd (attempt_update_state k st s))
    \<and> fst (pg_attempt_update_deployment_id k d db) = fst (attempt_update_deployment_id k d s)
    \<and> attempts_of S (snd (pg_attempt_update_deployment_id k d db)) =
        row_map (snd (attempt_update_deployment_id k d s))"
proof (intro conjI impI)
  note none = attempts_of_None [OF assms(2)]
  show "succeeded (fst (pg_attempt_insert S a db)) = succeeded (fst (attempt_insert a s))"
    by (simp add: pg_attempt_insert_run [OF assms(1)] attempt_insert_def insert_row_def assms(3) none)
  show "attempts_of S (snd (pg_attempt_insert S a db)) =
      (row_map (snd (attempt_insert a s)))(ea_attempt_id_hex a \<mapsto> a\<lparr>ea_dispatch_boundary_at := None\<rparr>)"
    if "succeeded (fst (attempt_insert a s))"
    using that
    by (auto simp: pg_attempt_insert_run [OF assms(1)] attempt_insert_def insert_row_def assms(3) none
        attempts_of_insert split: if_splits)
  show "pg_attempt_get S k db = (Inr (attempt_get s k), db)"
    using assms(2)
    by (cases "db_attempts db k")
      (fastforce simp: pg_attempt_get_run [OF assms(1)] attempt_get_def row_get_def assms(3) attempts_of_def
        attempts_written_def)+
  have upd: "fst (pg_attempt_update_state k st db) = fst (attempt_update_state k st s)
      \<and> attempts_of S (snd (pg_attempt_update_state k st db)) = row_map (snd (attempt_update_state k st s))
      \<and> fst (pg_attempt_update_deployment_id k d db) = fst (attempt_update_deployment_id k d s)
      \<and> attempts_of S (snd (pg_attempt_update_deployment_id k d db)) =
          row_map (snd (attempt_update_deployment_id k d s))"
  proof (cases "db_attempts db k")
    case None
    with none [of k] show ?thesis
      by (simp add: pg_attempt_update_state_def pg_attempt_update_deployment_id_def try_op_run
          sql_update_run [OF assms(1)] attempt_update_state_def attempt_update_deployment_id_def
          attempt_not_found_def assms(3))
  next
    case (Some r)
    with assms(2) obtain x where x: "decode_attempt S (k, r) = Inr x" unfolding attempts_written_def by blast
    with Some have "attempts_of S db k = Some x" by (simp add: attempts_of_def)
    with Some show ?thesis
      by (simp add: pg_attempt_update_state_def pg_attempt_update_deployment_id_def try_op_run
          sql_update_run [OF assms(1)] attempt_update_state_def attempt_update_deployment_id_def assms(3)
          attempts_of_change [OF decode_attempt_state [OF x]] attempts_of_change [OF decode_attempt_deployment [OF x]])
  qed
  from upd show "fst (pg_attempt_update_state k st db) = fst (attempt_update_state k st s)"
    and "attempts_of S (snd (pg_attempt_update_state k st db)) = row_map (snd (attempt_update_state k st s))"
    and "fst (pg_attempt_update_deployment_id k d db) = fst (attempt_update_deployment_id k d s)"
    and "attempts_of S (snd (pg_attempt_update_deployment_id k d db)) =
        row_map (snd (attempt_update_deployment_id k d s))"
    by blast+
qed

theorem pg_attempts_refine_memory_witness:
  "succeeded (fst (pg_attempt_insert sql_ref
      \<lparr>ea_attempt_id_hex = ''att-m'', ea_mandate_id_hex = ''m'', ea_intent_id_hex = ''i'',
       ea_reservation_token_digest = ''t'', ea_executor_identity = ''x'', ea_correlation_key = ''c'',
       ea_started_at = 5, ea_dispatch_boundary_at = None, ea_state = Prepared,
       ea_github_deployment_id = None\<rparr> example_db))
   \<and> pg_attempt_get sql_ref ''att-m'' example_db = (Inr None, example_db)"
proof -
  have "db_down example_db = None" "attempts_written sql_ref example_db"
    "row_map empty_rows = attempts_of sql_ref example_db"
    by (simp_all add: example_db_def attempts_written_def empty_rows_def attempts_of_def fun_eq_iff)
  from pg_attempts_refine_memory [OF this, of
      "\<lparr>ea_attempt_id_hex = ''att-m'', ea_mandate_id_hex = ''m'', ea_intent_id_hex = ''i'',
       ea_reservation_token_digest = ''t'', ea_executor_identity = ''x'', ea_correlation_key = ''c'',
       ea_started_at = 5, ea_dispatch_boundary_at = None, ea_state = Prepared,
       ea_github_deployment_id = None\<rparr>" "''att-m''" Prepared 7]
  show ?thesis
    by (simp add: attempt_insert_def insert_row_def attempt_get_def row_get_def) (simp add: empty_rows_def)
qed

text \<open>
  PostgreSQL accepts a webhook delivery once and keeps it. The first record of a delivery is
  answered \<open>Recorded\<close> and reads back as it was written, its digest through the hexadecimal column; a
  second record of the same delivery is answered \<open>Duplicate\<close> and changes nothing.
\<close>

theorem pg_webhook_recorded_once:
  assumes "hex_laws E" and "wf_digest (wr_raw_digest r)" and "pg_webhook_record E r db = (Inr Recorded, db')"
    and "wr_delivery_id r' = wr_delivery_id r"
  shows "pg_webhook_get E (wr_delivery_id r) db' = (Inr (Some r), db')
    \<and> pg_webhook_record E r' db' = (Inr Duplicate, db')"
proof -
  let ?row = "\<lparr>ww_source = wr_source r, ww_raw_digest = to_hex E (wr_raw_digest r), ww_received_at = wr_received_at r\<rparr>"
  have ne: "wr_delivery_id r \<noteq> []" using assms(3) by (auto simp: pg_webhook_record_def)
  have up: "db_down db = None"
    using assms(3) ne by (cases "db_down db") (simp_all add: pg_webhook_record_def try_op_run sql_insert_ignore_def stmt_down)
  then have db': "db' = db_webhooks_update (\<lambda>t. t(wr_delivery_id r \<mapsto> ?row)) db"
    using assms(3) ne
    by (cases "db_webhooks db (wr_delivery_id r)") (simp_all add: pg_webhook_record_def try_op_run sql_insert_ignore_def stmt_up)
  show ?thesis
    using up ne assms(4)
    by (simp add: pg_webhook_get_def pg_webhook_record_def try_op_run sql_select_run sql_insert_ignore_def stmt_up db'
        decode_webhook_def hex_round_trip [OF assms(1,2)])
qed

theorem pg_webhook_recorded_once_witness:
  "let r = \<lparr>wr_delivery_id = ''d'', wr_source = ''github'',
        wr_raw_digest = ContentDigest (replicate 32 (CHR 0x00)), wr_received_at = 5\<rparr>;
       db' = snd (pg_webhook_record ext_ref r example_db)
   in pg_webhook_get ext_ref ''d'' db' = (Inr (Some r), db') \<and> pg_webhook_record ext_ref r db' = (Inr Duplicate, db')"
proof -
  let ?r = "\<lparr>wr_delivery_id = ''d'', wr_source = ''github'',
        wr_raw_digest = ContentDigest (replicate 32 (CHR 0x00)), wr_received_at = 5\<rparr>"
  have "pg_webhook_record ext_ref ?r example_db = (Inr Recorded, snd (pg_webhook_record ext_ref ?r example_db))"
    by (simp add: pg_webhook_record_def try_op_run sql_insert_ignore_def stmt_def example_db_def)
  moreover have "wf_digest (wr_raw_digest ?r)" by (simp add: wf_digest_def)
  ultimately show ?thesis
    using pg_webhook_recorded_once [OF hex_laws_ref, of ?r example_db _ ?r] by (simp add: Let_def)
qed

end
