(* ===== verification/Read_Api.thy ===== *)
theory Read_Api
  imports Http_Models Postgres_Refinement
begin

text \<open>
  The read endpoints of \<^verbatim>\<open>apps/piteka-api/src/routes.rs\<close> over the PostgreSQL stores: the list of
  receipts, one receipt, its exported manifest, a mandate, and the accountability chain assembled for
  one. \<open>ReadState\<close> is the database; the \<open>scan\<close> arguments are the orders its statements leave open.
\<close>

section \<open>Labels\<close>

fun outcome_str :: "receipt_outcome \<Rightarrow> string" where
  "outcome_str Succeeded = ''succeeded''"
| "outcome_str Failed = ''failed''"
| "outcome_str receipt_outcome.Rejected = ''rejected''"
| "outcome_str Unknown = ''unknown''"

fun attempt_state_str :: "execution_attempt_state \<Rightarrow> string" where
  "attempt_state_str Prepared = ''prepared''"
| "attempt_state_str Dispatching = ''dispatching''"
| "attempt_state_str Accepted = ''accepted''"
| "attempt_state_str execution_attempt_state.Rejected = ''rejected''"
| "attempt_state_str OutcomeAmbiguous = ''outcome_ambiguous''"
| "attempt_state_str ReconciledAccepted = ''reconciled_accepted''"
| "attempt_state_str ReconciledNotAccepted = ''reconciled_not_accepted''"
| "attempt_state_str AbandonedAmbiguous = ''abandoned_ambiguous''"

fun source_str :: "evidence_source \<Rightarrow> string" where
  "source_str Piteka = ''piteka''"
| "source_str (Provider p) = ''provider:'' @ p"
| "source_str Verifier = ''verifier''"

definition receipt_detail_of :: "receipt_projection \<Rightarrow> receipt_detail" where
  "receipt_detail_of r =
     \<lparr>rd_receipt_id = rp_receipt_id_hex r, rd_mandate_id = rp_mandate_id_hex r,
      rd_intent_id = rp_intent_id_hex r, rd_attempt_id = rp_attempt_id_hex r,
      rd_outcome = outcome_str (rp_outcome r), rd_created_at = rp_created_at r,
      rd_dispatch_evidence_refs = rp_dispatch_evidence_refs r,
      rd_target_evidence_refs = rp_target_evidence_refs r, rd_evidence_gaps = rp_evidence_gaps r\<rparr>"

definition chain_attempt_of :: "execution_attempt \<Rightarrow> chain_attempt" where
  "chain_attempt_of a =
     \<lparr>ca_attempt_id = ea_attempt_id_hex a, ca_executor_identity = ea_executor_identity a,
      ca_state = attempt_state_str (ea_state a), ca_github_deployment_id = ea_github_deployment_id a,
      ca_started_at = ea_started_at a\<rparr>"

definition chain_evidence_of :: "ext \<Rightarrow> evidence_node \<Rightarrow> chain_evidence" where
  "chain_evidence_of E n =
     \<lparr>ce_node_id = en_node_id_hex n, ce_registry_id = en_registry_id n, ce_source = source_str (en_source n),
      ce_producer_identity = en_producer_identity n, ce_content_digest = to_hex E (en_content_digest n),
      ce_media_type = en_media_type n\<rparr>"

definition mandate_detail_of :: "mandate_projection \<Rightarrow> mandate_detail" where
  "mandate_detail_of p =
     \<lparr>md_mandate_id = mp_mandate_id_hex p, md_state = mp_state p, md_version = mp_version p\<rparr>"

section \<open>Receipts\<close>

definition receipt_summary_of :: "receipt_projection \<Rightarrow> receipt_summary" where
  "receipt_summary_of r =
     \<lparr>rsm_receipt_id = rp_receipt_id_hex r, rsm_mandate_id = rp_mandate_id_hex r,
      rsm_outcome = outcome_str (rp_outcome r), rsm_created_at = rp_created_at r\<rparr>"

text \<open>The loop of \<open>list_receipts\<close>.\<close>

fun read_summaries :: "sql \<Rightarrow> (string \<times> i64) list \<Rightarrow> receipt_summary list \<Rightarrow> receipt_summary list pg_op" where
  "read_summaries S [] summaries = ok summaries"
| "read_summaries S ((k, created) # ids) summaries =
     try_op (pg_receipt_get S k) (\<lambda>found.
       case found of
         Some r \<Rightarrow> read_summaries S ids (summaries @ [receipt_summary_of r])
       | None \<Rightarrow> read_summaries S ids summaries)"

definition list_receipts :: "sql \<Rightarrow> string list \<Rightarrow> pg_db \<Rightarrow> receipt_summary list reply \<times> pg_db" where
  "list_receipts S scan =
     answer api_error_of_storage (pg_list_ids_ordered scan) (\<lambda>ids.
     answer api_error_of_storage (read_summaries S ids []) (\<lambda>summaries db.
       (Reply 200 (rev summaries), db)))"

definition get_receipt_row :: "sql \<Rightarrow> string \<Rightarrow> pg_db \<Rightarrow> receipt_detail reply \<times> pg_db" where
  "get_receipt_row S k =
     answer api_error_of_storage (pg_receipt_get S k) (\<lambda>found db.
       case found of
         Some r \<Rightarrow> (Reply 200 (receipt_detail_of r), db)
       | None \<Rightarrow> (ErrorReply (NotFound ''receipt'' k), db))"

text \<open>\<open>export_manifest_bytes\<close> at the PostgreSQL stores, whose reads can fail.\<close>

fun pg_fetch_nodes_loop ::
  "ext \<Rightarrow> sql \<Rightarrow> string list \<Rightarrow> evidence_node list \<Rightarrow> string list
    \<Rightarrow> (pg_db, bundle_export_error, evidence_node list \<times> string list) op" where
  "pg_fetch_nodes_loop E S [] nodes missing = ok (nodes, missing)"
| "pg_fetch_nodes_loop E S (i # ids) nodes missing =
     try_op (map_err Storage (pg_node_get E S i)) (\<lambda>found.
       case found of
         Some n \<Rightarrow> pg_fetch_nodes_loop E S ids (nodes @ [n]) missing
       | None \<Rightarrow> pg_fetch_nodes_loop E S ids nodes (missing @ [i]))"

definition pg_fetch_nodes ::
  "ext \<Rightarrow> sql \<Rightarrow> string list \<Rightarrow> (pg_db, bundle_export_error, evidence_node list) op" where
  "pg_fetch_nodes E S ids =
     try_op (pg_fetch_nodes_loop E S ids [] []) (\<lambda>(nodes, missing).
       if missing = [] then ok nodes else fail (IncompleteEvidence ids missing))"

definition pg_export_manifest_bytes ::
  "ext \<Rightarrow> sql \<Rightarrow> string \<Rightarrow> (pg_db, bundle_export_error, bytes) op" where
  "pg_export_manifest_bytes E S k =
     try_op (map_err Storage (pg_receipt_get S k)) (\<lambda>found.
       case found of
         None \<Rightarrow> fail (ReceiptNotFound k)
       | Some receipt \<Rightarrow>
           try_op (pg_fetch_nodes E S (rp_dispatch_evidence_refs receipt)) (\<lambda>dispatch_nodes.
           try_op (pg_fetch_nodes E S (rp_target_evidence_refs receipt)) (\<lambda>target_nodes.
           try_op (pg_fetch_nodes E S (rp_evidence_gaps receipt)) (\<lambda>gap_nodes.
           case ext_json_to_vec E (assemble_manifest E receipt dispatch_nodes target_nodes gap_nodes) of
             Inl e \<Rightarrow> fail (Serialization (''failed to serialize manifest: '' @ e))
           | Inr b \<Rightarrow> ok b))))"

definition export_receipt :: "ext \<Rightarrow> sql \<Rightarrow> string \<Rightarrow> pg_db \<Rightarrow> bytes reply \<times> pg_db" where
  "export_receipt E S k =
     answer api_error_of_storage (pg_receipt_get S k) (\<lambda>found.
       case found of
         None \<Rightarrow> (\<lambda>db. (ErrorReply (NotFound ''receipt'' k), db))
       | Some _ \<Rightarrow>
           answer (\<lambda>e. Internal (''cannot export receipt '' @ k @ '': '' @ bundle_export_error_display E e))
             (pg_export_manifest_bytes E S k) (\<lambda>b db. (Reply 200 b, db)))"

section \<open>Mandates\<close>

definition get_mandate :: "string \<Rightarrow> pg_db \<Rightarrow> mandate_detail reply \<times> pg_db" where
  "get_mandate m =
     answer api_error_of_storage (pg_mandate_get m) (\<lambda>found db.
       case found of
         Some p \<Rightarrow> (Reply 200 (mandate_detail_of p), db)
       | None \<Rightarrow> (ErrorReply (NotFound ''mandate'' m), db))"

text \<open>The identifiers the receipts refer to, each once, in order of first appearance.\<close>

fun push_distinct :: "string list \<Rightarrow> string list \<Rightarrow> string list" where
  "push_distinct ids [] = ids"
| "push_distinct ids (i # refs) = push_distinct (if i \<in> set ids then ids else ids @ [i]) refs"

fun evidence_ids :: "receipt_projection list \<Rightarrow> string list \<Rightarrow> string list" where
  "evidence_ids [] ids = ids"
| "evidence_ids (r # rs) ids =
     evidence_ids rs (push_distinct ids (rp_dispatch_evidence_refs r @ rp_target_evidence_refs r))"

fun read_evidence :: "ext \<Rightarrow> sql \<Rightarrow> string list \<Rightarrow> chain_evidence list \<Rightarrow> chain_evidence list pg_op" where
  "read_evidence E S [] evidence = ok evidence"
| "read_evidence E S (i # ids) evidence =
     try_op (pg_node_get E S i) (\<lambda>found.
       case found of
         Some n \<Rightarrow> read_evidence E S ids (evidence @ [chain_evidence_of E n])
       | None \<Rightarrow> read_evidence E S ids evidence)"

text \<open>\<open>match_ids\<close>: the mandate, the non-empty bindings of its receipts, its attempts.\<close>

fun receipt_match_ids :: "receipt_projection list \<Rightarrow> string list" where
  "receipt_match_ids [] = []"
| "receipt_match_ids (r # rs) =
     (if rp_intent_id_hex r = [] then [] else [rp_intent_id_hex r])
     @ (if rp_attempt_id_hex r = [] then [] else [rp_attempt_id_hex r])
     @ receipt_match_ids rs"

definition match_ids :: "string \<Rightarrow> receipt_projection list \<Rightarrow> execution_attempt list \<Rightarrow> string list" where
  "match_ids m receipts attempts = m # receipt_match_ids receipts @ map ea_attempt_id_hex attempts"

text \<open>\<open>str::contains\<close>.\<close>

fun contains :: "string \<Rightarrow> string \<Rightarrow> bool" where
  "contains [] needle = (needle = [])"
| "contains (c # cs) needle = (starts_with (c # cs) needle \<or> contains cs needle)"

definition chain_step_of :: "audit_event \<Rightarrow> chain_step" where
  "chain_step_of e =
     \<lparr>cs_at = ae_occurred_at e, cs_actor = ae_actor e, cs_action = ae_action e,
      cs_decision = ae_decision e, cs_detail = ae_detail e\<rparr>"

definition timeline_of :: "string list \<Rightarrow> audit_event list \<Rightarrow> chain_step list" where
  "timeline_of needles recent =
     sort_key (\<lambda>s. sint (cs_at s))
       (map chain_step_of (filter (\<lambda>e. list_ex (contains (ae_detail e)) needles) recent))"

definition get_mandate_chain ::
  "ext \<Rightarrow> sql \<Rightarrow> string list \<Rightarrow> string list \<Rightarrow> string \<Rightarrow> pg_db \<Rightarrow> mandate_chain reply \<times> pg_db" where
  "get_mandate_chain E S receipt_scan attempt_scan m =
     answer api_error_of_storage (pg_mandate_get m) (\<lambda>found.
       case found of
         None \<Rightarrow> (\<lambda>db. (ErrorReply (NotFound ''mandate'' m), db))
       | Some mandate \<Rightarrow>
           answer api_error_of_storage (pg_receipts_by_mandate S receipt_scan m) (\<lambda>receipts.
           answer api_error_of_storage (pg_attempts_by_mandate S attempt_scan m) (\<lambda>attempts.
           answer api_error_of_storage (read_evidence E S (evidence_ids receipts []) []) (\<lambda>evidence.
           answer api_error_of_storage (pg_audit_recent 2000) (\<lambda>recent db.
             (Reply 200
               \<lparr>mc_mandate = mandate_detail_of mandate,
                mc_timeline = timeline_of (match_ids m receipts attempts) recent,
                mc_attempts = map chain_attempt_of attempts,
                mc_receipts = map receipt_detail_of receipts,
                mc_evidence = evidence\<rparr>, db))))))"

end
