(* ===== verification/Read_Api_Facts.thy ===== *)
theory Read_Api_Facts
  imports Read_Api
begin

text \<open>
  What the read endpoints guarantee: they change nothing, a mandate's chain is complete, without
  repetition and in order, the list of receipts is newest first, and the exported manifest is that
  of the in-memory stores the database holds.
\<close>

section \<open>Reads\<close>

lemma snd_select [simp]: "snd (sql_select f db) = db"
  by (simp add: sql_select_run split: option.split)

lemma snd_reads [simp]:
  "snd (pg_receipt_get S k db) = db"
  "snd (pg_node_get E S k db) = db"
  "snd (pg_mandate_get m db) = db"
  "snd (pg_receipts_by_mandate S scan m db) = db"
  "snd (pg_attempts_by_mandate S scan m db) = db"
  "snd (pg_audit_recent n db) = db"
  "snd (pg_list_ids_ordered scan db) = db"
  by (simp_all add: pg_receipt_get_def pg_node_get_def pg_mandate_get_def pg_receipts_by_mandate_def
      pg_attempts_by_mandate_def pg_audit_recent_def pg_list_ids_ordered_def try_op_run split: sum.split)

lemma fst_reads_down:
  assumes "db_down db = Some e"
  shows "fst (pg_receipt_get S k db) = Inl (backend e)"
    and "fst (pg_node_get E S k db) = Inl (backend e)"
    and "fst (pg_mandate_get m db) = Inl (backend e)"
    and "fst (pg_list_ids_ordered scan db) = Inl (backend e)"
  using assms
  by (simp_all add: pg_receipt_get_def pg_node_get_def pg_mandate_get_def pg_list_ids_ordered_def try_op_run
      sql_select_run)

lemma snd_try_read:
  "snd (m db) = db \<Longrightarrow> (\<And>a. fst (m db) = Inr a \<Longrightarrow> snd (k a db) = db) \<Longrightarrow> snd (try_op m k db) = db"
  by (simp add: try_op_run split: sum.split)

lemma snd_answer_read:
  "snd (m db) = db \<Longrightarrow> (\<And>a. fst (m db) = Inr a \<Longrightarrow> snd (k a db) = db) \<Longrightarrow> snd (answer conv m k db) = db"
  by (cases "m db") (simp add: answer_def split: sum.split)

lemma answer_down: "fst (m db) = Inl e \<Longrightarrow> fst (answer conv m k db) = ErrorReply (conv e)"
  by (cases "m db") (simp add: answer_def)

lemma snd_read_summaries [simp]: "snd (read_summaries S ids acc db) = db"
  by (induction ids arbitrary: acc) (auto intro!: snd_try_read split: option.split)

lemma snd_read_evidence [simp]: "snd (read_evidence E S ids acc db) = db"
  by (induction ids arbitrary: acc) (auto intro!: snd_try_read split: option.split)

lemma snd_pg_fetch_nodes_loop [simp]: "snd (pg_fetch_nodes_loop E S ids nodes missing db) = db"
  by (induction ids arbitrary: nodes missing) (auto intro!: snd_try_read split: option.split)

lemma snd_pg_fetch_nodes [simp]: "snd (pg_fetch_nodes E S ids db) = db"
  by (auto simp: pg_fetch_nodes_def intro!: snd_try_read split: prod.split)

lemma snd_pg_export [simp]: "snd (pg_export_manifest_bytes E S k db) = db"
  unfolding pg_export_manifest_bytes_def
  by (intro snd_try_read) (auto intro!: snd_try_read split: option.split sum.split)

lemma read_api_reads_snd [simp]: "snd (get_mandate_chain E S rs as m db) = db"
  unfolding get_mandate_chain_def
  by (intro snd_answer_read) (auto intro!: snd_answer_read split: option.split)

text \<open>
  The read API only reads. None of its five endpoints changes the database, and
  when the database cannot be reached each answers 500 and carries the database's own message.
\<close>

theorem read_api_only_reads:
  shows "snd (list_receipts S rs db) = db \<and> snd (get_receipt_row S k db) = db
    \<and> snd (export_receipt E S k db) = db \<and> snd (get_mandate m db) = db
    \<and> snd (get_mandate_chain E S rs as m db) = db
    \<and> (case db_down db of
         None \<Rightarrow> True
       | Some e \<Rightarrow>
           fst (list_receipts S rs db) = ErrorReply (Internal e)
         \<and> fst (get_receipt_row S k db) = ErrorReply (Internal e)
         \<and> fst (export_receipt E S k db) = ErrorReply (Internal e)
         \<and> fst (get_mandate m db) = ErrorReply (Internal e)
         \<and> fst (get_mandate_chain E S rs as m db) = ErrorReply (Internal e)
         \<and> fst (into_response (Internal e)) = 500)"
proof (intro conjI)
  show "snd (list_receipts S rs db) = db"
    unfolding list_receipts_def by (intro snd_answer_read) (auto intro!: snd_answer_read)
  show "snd (get_receipt_row S k db) = db"
    unfolding get_receipt_row_def by (intro snd_answer_read) (auto split: option.split)
  show "snd (export_receipt E S k db) = db"
    unfolding export_receipt_def
    by (intro snd_answer_read) (auto intro!: snd_answer_read split: option.split)
  show "snd (get_mandate m db) = db"
    unfolding get_mandate_def by (intro snd_answer_read) (auto split: option.split)
  show "snd (get_mandate_chain E S rs as m db) = db" by simp
  show "case db_down db of
         None \<Rightarrow> True
       | Some e \<Rightarrow>
           fst (list_receipts S rs db) = ErrorReply (Internal e)
         \<and> fst (get_receipt_row S k db) = ErrorReply (Internal e)
         \<and> fst (export_receipt E S k db) = ErrorReply (Internal e)
         \<and> fst (get_mandate m db) = ErrorReply (Internal e)
         \<and> fst (get_mandate_chain E S rs as m db) = ErrorReply (Internal e)
         \<and> fst (into_response (Internal e)) = 500"
    by (cases "db_down db")
      (simp_all add: list_receipts_def get_receipt_row_def export_receipt_def get_mandate_def
        get_mandate_chain_def answer_down fst_reads_down backend_def)
qed

section \<open>The chain of a mandate\<close>

lemma distinct_push: "distinct ids \<Longrightarrow> distinct (push_distinct ids refs)"
  by (induction ids refs rule: push_distinct.induct) auto

lemma set_push: "set (push_distinct ids refs) = set ids \<union> set refs"
  by (induction ids refs rule: push_distinct.induct) auto

lemma distinct_evidence_ids: "distinct ids \<Longrightarrow> distinct (evidence_ids rs ids)"
  by (induction rs ids rule: evidence_ids.induct) (simp_all add: distinct_push)

lemma set_evidence_ids:
  "set (evidence_ids rs ids) =
    set ids \<union> (\<Union>r \<in> set rs. set (rp_dispatch_evidence_refs r) \<union> set (rp_target_evidence_refs r))"
  by (induction rs ids rule: evidence_ids.induct) (auto simp: set_push)

lemma decode_node_id: "decode_node E S (k, r) = Inr n \<Longrightarrow> en_node_id_hex n = k"
  by (auto simp: decode_node_def split: option.splits sum.splits)

lemma pg_node_get_id:
  "fst (pg_node_get E S k db) = Inr v \<Longrightarrow>
    (case v of None \<Rightarrow> db_nodes db k = None | Some n \<Rightarrow> db_nodes db k \<noteq> None \<and> en_node_id_hex n = k)"
  by (cases "db_nodes db k")
    (auto simp: pg_node_get_def try_op_run sql_select_run and_then_def dest: decode_node_id split: option.splits sum.splits)

lemma read_evidence_ids:
  "fst (read_evidence E S ids acc db) = Inr ev \<Longrightarrow>
    map ce_node_id ev = map ce_node_id acc @ filter (\<lambda>i. db_nodes db i \<noteq> None) ids"
proof (induction ids arbitrary: acc)
  case Nil
  then show ?case by simp
next
  case (Cons i ids)
  from Cons.prems obtain v where v: "fst (pg_node_get E S i db) = Inr v"
    by (auto simp: try_op_run split: sum.splits)
  show ?case
  proof (cases v)
    case None
    with Cons.prems v Cons.IH [of acc] pg_node_get_id [OF v] show ?thesis by (simp add: try_op_run)
  next
    case (Some n)
    with Cons.prems v Cons.IH [of "acc @ [chain_evidence_of E n]"] pg_node_get_id [OF v] show ?thesis
      by (simp add: try_op_run chain_evidence_of_def)
  qed
qed

lemma receipts_by_mandate_owner:
  "fst (pg_receipts_by_mandate S scan m db) = Inr rs \<Longrightarrow> r \<in> set rs \<Longrightarrow> rp_mandate_id_hex r = m"
  by (auto simp: pg_receipts_by_mandate_def try_op_run sql_select_run decode_rows_receipt set_rows_ordered
      decode_receipt_def split: option.splits)

lemma set_receipt_match_ids:
  "set (receipt_match_ids rs) =
    {i. i \<noteq> [] \<and> (\<exists>r \<in> set rs. i = rp_intent_id_hex r \<or> i = rp_attempt_id_hex r)}"
  by (induction rs) auto

lemma pg_audit_recent_run:
  "db_down db = None \<Longrightarrow> n < 2 ^ 63 \<Longrightarrow> pg_audit_recent n db = (Inr (audit_recent n (db_audit db)), db)"
  by (simp add: pg_audit_recent_def try_op_run sql_select_run audit_recent_def rev_take)

text \<open>The audit events a chain tells: those whose detail mentions one of its identifiers.\<close>

definition chain_needles :: "mandate_chain \<Rightarrow> string set" where
  "chain_needles c =
     insert (md_mandate_id (mc_mandate c))
       ({i. i \<noteq> [] \<and> (\<exists>r \<in> set (mc_receipts c). i = rd_intent_id r \<or> i = rd_attempt_id r)}
        \<union> ca_attempt_id ` set (mc_attempts c))"

lemma set_match_ids:
  "set (match_ids m rs as) =
    insert m ({i. i \<noteq> [] \<and> (\<exists>r \<in> set rs. i = rp_intent_id_hex r \<or> i = rp_attempt_id_hex r)}
      \<union> ea_attempt_id_hex ` set as)"
  by (auto simp: match_ids_def set_receipt_match_ids)

lemma answer_op_cases:
  "answer conv m k w = (case fst (m w) of Inl e \<Rightarrow> (ErrorReply (conv e), snd (m w)) | Inr a \<Rightarrow> k a (snd (m w)))"
  by (cases "m w") (simp add: answer_def split: sum.split)

lemma get_mandate_chain_Reply:
  assumes "get_mandate_chain E S rs as m db = (Reply st c, db')"
  obtains p receipts attempts evidence where
    "db_down db = None" "st = 200" "mandates_of db m = Some p"
    "fst (pg_receipts_by_mandate S rs m db) = Inr receipts"
    "fst (pg_attempts_by_mandate S as m db) = Inr attempts"
    "fst (read_evidence E S (evidence_ids receipts []) [] db) = Inr evidence"
    "c = \<lparr>mc_mandate = mandate_detail_of p,
          mc_timeline = timeline_of (match_ids m receipts attempts) (audit_recent 2000 (db_audit db)),
          mc_attempts = map chain_attempt_of attempts, mc_receipts = map receipt_detail_of receipts,
          mc_evidence = evidence\<rparr>"
proof -
  from assms obtain found db1 where 1: "pg_mandate_get m db = (Inr found, db1)" and
    rest: "(case found of
         None \<Rightarrow> (\<lambda>db. (ErrorReply (NotFound ''mandate'' m), db))
       | Some mandate \<Rightarrow>
           answer api_error_of_storage (pg_receipts_by_mandate S rs m) (\<lambda>receipts.
           answer api_error_of_storage (pg_attempts_by_mandate S as m) (\<lambda>attempts.
           answer api_error_of_storage (read_evidence E S (evidence_ids receipts []) []) (\<lambda>evidence.
           answer api_error_of_storage (pg_audit_recent 2000) (\<lambda>recent db.
             (Reply 200
               \<lparr>mc_mandate = mandate_detail_of mandate,
                mc_timeline = timeline_of (match_ids m receipts attempts) recent,
                mc_attempts = map chain_attempt_of attempts,
                mc_receipts = map receipt_detail_of receipts,
                mc_evidence = evidence\<rparr>, db)))))) db1 = (Reply st c, db')"
    unfolding get_mandate_chain_def by (rule answer_ReplyE)
  have up: "db_down db = None" "db1 = db" "found = mandates_of db m"
    using 1 by (auto simp: pg_mandate_get_run split: option.splits)
  then obtain p where p: "mandates_of db m = Some p" using rest by (cases "mandates_of db m") auto
  show thesis
    using rest up p that [OF up(1) _ p]
    by (auto simp: answer_op_cases pg_audit_recent_run split: sum.splits)
qed

lemma filter_timeline:
  "filter (\<lambda>s. cs_at s = t) (timeline_of ns es) =
    map chain_step_of (filter (\<lambda>e. ae_occurred_at e = t \<and> (\<exists>i \<in> set ns. contains (ae_detail e) i)) es)"
proof -
  have eq: "cs_at s = t \<longleftrightarrow> sint (cs_at s) = sint t" for s :: chain_step
    by (auto dest: arg_cong [where f = "word_of_int :: int \<Rightarrow> i64"])
  let ?xs = "map chain_step_of (filter (\<lambda>e. list_ex (contains (ae_detail e)) ns) es)"
  have "filter (\<lambda>s. cs_at s = t) (timeline_of ns es) = filter (\<lambda>s. sint (cs_at s) = sint t) (sort_key (\<lambda>s. sint (cs_at s)) ?xs)"
    by (simp only: timeline_of_def eq)
  also have "\<dots> = filter (\<lambda>s. sint (cs_at s) = sint t) ?xs" by (rule sort_key_stable)
  also have "\<dots> = map chain_step_of
      (filter (\<lambda>e. ae_occurred_at e = t \<and> (\<exists>i \<in> set ns. contains (ae_detail e) i)) es)"
    unfolding eq [symmetric] by (induction es) (auto simp: chain_step_of_def list_ex_iff)
  finally show ?thesis .
qed

text \<open>
  The chain of a mandate is complete, without repetition and in order. An answer names
  the mandate asked for, lists receipts of that mandate only, gives each stored evidence node
  its receipts refer to exactly once and no other, and tells the audit events among the last two thousand whose detail
  mentions an identifier of the chain: all of them and no others, by time, events of the same second in the
  order they were logged.
\<close>

theorem mandate_chain_complete:
  assumes "get_mandate_chain E S rs as m db = (Reply st c, db')"
  shows "st = 200 \<and> db' = db \<and> md_mandate_id (mc_mandate c) = m
    \<and> (\<forall>r \<in> set (mc_receipts c). rd_mandate_id r = m)
    \<and> distinct (map ce_node_id (mc_evidence c))
    \<and> set (map ce_node_id (mc_evidence c)) =
        {i. db_nodes db i \<noteq> None \<and> (\<exists>r \<in> set (mc_receipts c).
             i \<in> set (rd_dispatch_evidence_refs r) \<union> set (rd_target_evidence_refs r))}
    \<and> sorted (map (\<lambda>s. sint (cs_at s)) (mc_timeline c))
    \<and> (\<forall>t. filter (\<lambda>s. cs_at s = t) (mc_timeline c) = map chain_step_of
          (filter (\<lambda>e. ae_occurred_at e = t \<and> (\<exists>i \<in> chain_needles c. contains (ae_detail e) i))
            (audit_recent 2000 (db_audit db))))"
proof (rule get_mandate_chain_Reply [OF assms])
  fix p receipts attempts evidence
  assume up: "db_down db = None" "st = 200" "mandates_of db m = Some p"
    and rd: "fst (pg_receipts_by_mandate S rs m db) = Inr receipts"
    and ev: "fst (read_evidence E S (evidence_ids receipts []) [] db) = Inr evidence"
    and c: "c = \<lparr>mc_mandate = mandate_detail_of p,
          mc_timeline = timeline_of (match_ids m receipts attempts) (audit_recent 2000 (db_audit db)),
          mc_attempts = map chain_attempt_of attempts, mc_receipts = map receipt_detail_of receipts,
          mc_evidence = evidence\<rparr>"
  have m: "mp_mandate_id_hex p = m" using up(3) by (auto simp: mandates_of_def)
  have ids: "map ce_node_id evidence = filter (\<lambda>i. db_nodes db i \<noteq> None) (evidence_ids receipts [])"
    using read_evidence_ids [OF ev] by simp
  have needles: "chain_needles c = set (match_ids m receipts attempts)"
    by (auto simp: c chain_needles_def set_match_ids mandate_detail_of_def m receipt_detail_of_def
        chain_attempt_of_def image_image)
  have "db' = db" using assms read_api_reads_snd [of E S rs as m db] by simp
  moreover have "md_mandate_id (mc_mandate c) = m" by (simp add: c mandate_detail_of_def m)
  moreover have "\<forall>r \<in> set (mc_receipts c). rd_mandate_id r = m"
    using receipts_by_mandate_owner [OF rd] by (simp add: c receipt_detail_of_def)
  moreover have "distinct (map ce_node_id (mc_evidence c))"
    by (simp only: c mandate_chain.simps ids distinct_filter distinct_evidence_ids distinct.simps)
  moreover have "set (map ce_node_id (mc_evidence c)) =
        {i. db_nodes db i \<noteq> None \<and> (\<exists>r \<in> set (mc_receipts c).
             i \<in> set (rd_dispatch_evidence_refs r) \<union> set (rd_target_evidence_refs r))}"
    unfolding c mandate_chain.simps ids set_filter set_evidence_ids by (auto simp: receipt_detail_of_def)
  moreover have "sorted (map (\<lambda>s. sint (cs_at s)) (mc_timeline c))"
    by (simp add: c timeline_of_def)
  moreover have "filter (\<lambda>s. cs_at s = t) (mc_timeline c) = map chain_step_of
          (filter (\<lambda>e. ae_occurred_at e = t \<and> (\<exists>i \<in> chain_needles c. contains (ae_detail e) i))
            (audit_recent 2000 (db_audit db)))" for t
    unfolding needles by (simp add: c filter_timeline)
  ultimately show ?thesis using up(2) by blast
qed

definition example_chain_db :: pg_db where
  "example_chain_db = example_db\<lparr>db_audit :=
     [\<lparr>ae_occurred_at = 9, ae_actor = None, ae_action = ''b'', ae_decision = ''ok'', ae_detail = ''of m''\<rparr>,
      \<lparr>ae_occurred_at = 8, ae_actor = None, ae_action = ''a'', ae_decision = ''ok'', ae_detail = ''of m''\<rparr>]\<rparr>"

lemma example_chain_reads:
  "db_down example_chain_db = None"
  "mandates_of example_chain_db ''m'' = Some \<lparr>mp_mandate_id_hex = ''m'', mp_version = 1, mp_state = ''issued''\<rparr>"
  "fst (pg_attempts_by_mandate S [] ''m'' example_chain_db) = Inr []"
  "fst (pg_receipts_by_mandate S [] ''m'' example_chain_db) = Inr []"
  by (simp_all add: example_chain_db_def example_db_def mandates_of_def pg_attempts_by_mandate_def
      pg_receipts_by_mandate_def try_op_run sql_select_run rows_ordered_def)

theorem mandate_chain_complete_witness:
  "\<exists>c. get_mandate_chain ext_ref sql_ref [] [] ''m'' example_chain_db = (Reply 200 c, example_chain_db)
     \<and> map cs_action (mc_timeline c) = [''a'', ''b''] \<and> sorted (map (\<lambda>s. sint (cs_at s)) (mc_timeline c))"
proof -
  obtain c where run: "get_mandate_chain ext_ref sql_ref [] [] ''m'' example_chain_db = (Reply 200 c, example_chain_db)"
    and tl: "mc_timeline c = timeline_of [''m''] (audit_recent 2000 (db_audit example_chain_db))"
    by (simp add: get_mandate_chain_def answer_op_cases pg_mandate_get_run example_chain_reads
        pg_audit_recent_run match_ids_def)
  have "map cs_action (mc_timeline c) = [''a'', ''b'']"
    by (simp add: tl timeline_of_def audit_recent_def example_chain_db_def chain_step_of_def)
  moreover from mandate_chain_complete [OF run] have "sorted (map (\<lambda>s. sint (cs_at s)) (mc_timeline c))"
    by (elim conjE)
  ultimately show ?thesis using run by (intro exI [of _ c] conjI)
qed

section \<open>The list of receipts\<close>

lemma pg_receipt_get_row:
  "db_down db = None \<Longrightarrow> db_receipts db k = Some r \<Longrightarrow>
    fst (pg_receipt_get S k db) = Inr (Some (projr (decode_receipt S (k, r))))"
  by (simp add: pg_receipt_get_run decode_receipt_def)

lemma read_summaries_run:
  assumes "db_down db = None" and "\<forall>(k, t) \<in> set ids. db_receipts db k \<noteq> None"
  shows "fst (read_summaries S ids acc db) =
    Inr (acc @ map (\<lambda>(k, t). receipt_summary_of (projr (decode_receipt S (k, the (db_receipts db k))))) ids)"
  using assms(2)
proof (induction ids arbitrary: acc)
  case Nil
  then show ?case by simp
next
  case (Cons x ids)
  obtain k t where x: "x = (k, t)" by (cases x)
  with Cons.prems obtain r where "db_receipts db k = Some r" by auto
  with Cons show ?case
    by (simp add: x try_op_run pg_receipt_get_row [OF assms(1)])
qed

lemma decode_receipt_sel:
  "rsm_receipt_id (receipt_summary_of (projr (decode_receipt S (k, r)))) = k"
  "rsm_created_at (receipt_summary_of (projr (decode_receipt S (k, r)))) = rw_created_at r"
  by (simp_all add: receipt_summary_of_def decode_receipt_def)

lemma rows_ordered_sorted: "sorted (map (\<lambda>(k, r). sint (at r)) (rows_ordered scan p at t))"
  by (simp add: rows_ordered_def)

lemma distinct_rows_ordered:
  assumes "distinct scan"
  shows "distinct (map fst (rows_ordered scan p at t))"
proof -
  let ?l = "fetch_all (\<lambda>k. map_option (Pair k) (t k)) scan"
  have "distinct (map fst ?l) \<and> fst ` set ?l \<subseteq> set scan"
    using assms by (induction scan) (auto split: option.split)
  then have "distinct ?l" and "inj_on fst (set ?l)" by (simp_all add: distinct_map)
  then show ?thesis
    unfolding rows_ordered_def distinct_map by (auto intro: inj_on_subset)
qed

text \<open>
  The list of receipts is complete and newest first. With a database that answers, the endpoint answers
  200 and lists every stored receipt exactly once, under its own identifier and creation time, in
  descending order of creation.
\<close>

theorem receipt_list_newest_first:
  assumes "db_down db = None" and "distinct scan" and "set scan = dom (db_receipts db)"
  shows "\<exists>rows. list_receipts S scan db = (Reply 200 rows, db)
    \<and> distinct (map rsm_receipt_id rows)
    \<and> {(rsm_receipt_id x, rsm_created_at x) | x. x \<in> set rows} =
        {(k, rw_created_at r) | k r. db_receipts db k = Some r}
    \<and> sorted (rev (map (\<lambda>x. sint (rsm_created_at x)) rows))"
proof -
  let ?rows = "rows_ordered scan (\<lambda>k r. True) rw_created_at (db_receipts db)"
  let ?ids = "map (\<lambda>(k, r). (k, rw_created_at r)) ?rows"
  let ?out = "map (\<lambda>(k, r). receipt_summary_of (projr (decode_receipt S (k, r)))) ?rows"
  have set_rows: "set ?rows = {(k, r). db_receipts db k = Some r}"
    using assms(3) by (auto simp: set_rows_ordered)
  have out: "map (\<lambda>(k, t). receipt_summary_of (projr (decode_receipt S (k, the (db_receipts db k))))) ?ids = ?out"
    using set_rows by auto
  have "\<forall>(k, t) \<in> set ?ids. db_receipts db k \<noteq> None" using set_rows by auto
  from read_summaries_run [OF assms(1) this, of S "[]"]
  have "list_receipts S scan db = (Reply 200 (rev ?out), db)"
    by (simp only: list_receipts_def answer_op_cases pg_list_ids_ordered_def sql_select_run assms(1) option.case
        fst_conv snd_conv sum.case out snd_read_summaries append_Nil)
  moreover have "map rsm_receipt_id ?out = map fst ?rows"
    by (auto simp: decode_receipt_sel)
  then have "distinct (map rsm_receipt_id (rev ?out))"
    by (simp only: rev_map [symmetric] distinct_rev distinct_rows_ordered [OF assms(2)])
  moreover have "map (\<lambda>x. sint (rsm_created_at x)) ?out = map (\<lambda>(k, r). sint (rw_created_at r)) ?rows"
    by (auto simp: decode_receipt_sel)
  then have "sorted (rev (map (\<lambda>x. sint (rsm_created_at x)) (rev ?out)))"
    by (simp only: rev_map [symmetric] rev_rev_ident rows_ordered_sorted)
  moreover have "{(rsm_receipt_id x, rsm_created_at x) | x. x \<in> set (rev ?out)} =
        {(k, rw_created_at r) | k r. db_receipts db k = Some r}"
    unfolding set_rev set_map set_rows by (force simp: decode_receipt_sel)
  ultimately show ?thesis by blast
qed

theorem receipt_list_newest_first_witness:
  "\<exists>rows. list_receipts sql_ref [''rcpt-1''] (snd (pg_receipt_insert sql_ref example_pg_receipt example_db))
      = (Reply 200 rows, snd (pg_receipt_insert sql_ref example_pg_receipt example_db))
    \<and> sorted (rev (map (\<lambda>x. sint (rsm_created_at x)) rows))"
proof -
  let ?db = "snd (pg_receipt_insert sql_ref example_pg_receipt example_db)"
  have "db_down ?db = None" "dom (db_receipts ?db) = {''rcpt-1''}"
    by (simp_all add: pg_receipt_insert_run [OF sql_laws_ref] sql_insert_run example_db_def example_pg_receipt_def)
  with receipt_list_newest_first [of ?db "[''rcpt-1'']" sql_ref] show ?thesis by auto
qed

section \<open>Export from the database\<close>

text \<open>A database that holds a copy of the receipts and evidence nodes of a world.\<close>

definition stored_copy :: "ext \<Rightarrow> sql \<Rightarrow> world \<Rightarrow> pg_db \<Rightarrow> bool" where
  "stored_copy E S w db \<longleftrightarrow>
     db_down db = None
     \<and> (\<forall>k. db_receipts db k = map_option (receipt_row_of S) (receipt_get (w_receipts w) k))
     \<and> (\<forall>k. db_nodes db k = map_option (node_row_of E S) (node_get (w_nodes w) k))
     \<and> (\<forall>k r. receipt_get (w_receipts w) k = Some r \<longrightarrow> rp_receipt_id_hex r = k)
     \<and> (\<forall>k n. node_get (w_nodes w) k = Some n \<longrightarrow> en_node_id_hex n = k \<and> wf_digest (en_content_digest n))"

definition forget_providers :: "world \<Rightarrow> world" where
  "forget_providers w = w\<lparr>w_nodes := (w_nodes w)\<lparr>ns_nodes :=
     (\<lambda>k. map_option (\<lambda>n. n\<lparr>en_source := stored_source (en_source n)\<rparr>) (ns_nodes (w_nodes w) k))\<rparr>\<rparr>"

lemma stored_copy_receipt:
  assumes "stored_copy E S w db" and "sql_laws S"
  shows "fst (pg_receipt_get S k db) = Inr (receipt_get (w_receipts w) k)"
proof (cases "receipt_get (w_receipts w) k")
  case None
  with assms(1) show ?thesis by (simp add: stored_copy_def pg_receipt_get_run)
next
  case (Some r)
  with assms(1) have "rp_receipt_id_hex r = k" and "db_receipts db k = Some (receipt_row_of S r)"
    by (simp_all add: stored_copy_def)
  with assms Some decode_receipt_row [OF assms(2), of r] show ?thesis
    by (simp add: stored_copy_def pg_receipt_get_run)
qed

lemma stored_copy_node:
  assumes "stored_copy E S w db" and "sql_laws S" and "hex_laws E"
  shows "fst (pg_node_get E S k db) = Inr (node_get (w_nodes (forget_providers w)) k)"
proof (cases "node_get (w_nodes w) k")
  case None
  with assms(1) show ?thesis by (simp add: stored_copy_def pg_node_get_run forget_providers_def node_get_def)
next
  case (Some n)
  with assms(1) have "en_node_id_hex n = k" and "db_nodes db k = Some (node_row_of E S n)"
    and "wf_digest (en_content_digest n)" by (simp_all add: stored_copy_def)
  with assms(1) Some decode_node_row [OF assms(2,3), of n] show ?thesis
    by (simp add: stored_copy_def pg_node_get_run forget_providers_def node_get_def)
qed

lemma pg_fetch_nodes_loop_copy:
  assumes "stored_copy E S w db" and "sql_laws S" and "hex_laws E"
  shows "fst (pg_fetch_nodes_loop E S ids nodes missing db) =
    Inr (fetch_nodes_loop (w_nodes (forget_providers w)) ids nodes missing)"
proof (induction ids arbitrary: nodes missing)
  case Nil
  show ?case by simp
next
  case (Cons i ids)
  then show ?case
    by (cases "node_get (w_nodes (forget_providers w)) i")
      (simp_all add: try_op_run map_err_run stored_copy_node [OF assms])
qed

lemma pg_fetch_nodes_copy:
  assumes "stored_copy E S w db" and "sql_laws S" and "hex_laws E"
  shows "fst (pg_fetch_nodes E S ids db) = fetch_nodes (w_nodes (forget_providers w)) ids"
  by (simp add: pg_fetch_nodes_def try_op_run pg_fetch_nodes_loop_copy [OF assms] fetch_nodes_def split: prod.split)

text \<open>
  C30. Exporting from PostgreSQL is exporting from memory, with the providers forgotten. On a
  database that holds a copy of the receipts and nodes of a world, the manifest bytes, or the error, are
  exactly those the in-memory export computes after every provider name is replaced by the
  word \<open>provider\<close>; the two implementations of the export agree on everything else.
\<close>

theorem pg_export_equals_memory_export:
  assumes "stored_copy E S w db" and "sql_laws S" and "hex_laws E"
  shows "pg_export_manifest_bytes E S k db = (fst (export_manifest_bytes E k (forget_providers w)), db)"
proof -
  have [simp]: "w_receipts (forget_providers w) = w_receipts w" by (simp add: forget_providers_def)
  have "fst (pg_export_manifest_bytes E S k db) = fst (export_manifest_bytes E k (forget_providers w))"
    by (cases "receipt_get (w_receipts w) k")
      (simp_all add: pg_export_manifest_bytes_def export_manifest_bytes_def try_op_run map_err_run
        stored_copy_receipt [OF assms(1,2)] pg_fetch_nodes_copy [OF assms] fetch_receipt_run fetch_evidence_def
        serialize_def split: sum.split)
  then show ?thesis by (simp add: prod_eq_iff)
qed

theorem pg_export_equals_memory_export_witness:
  "pg_export_manifest_bytes ext_ref sql_ref ''rcpt-9'' example_db = (Inl (ReceiptNotFound ''rcpt-9''), example_db)"
proof -
  have "stored_copy ext_ref sql_ref world_new example_db"
    by (simp add: stored_copy_def example_db_def world_new_def receipt_get_def row_get_def empty_rows_def node_get_def)
  from pg_export_equals_memory_export [OF this sql_laws_ref hex_laws_ref, of "''rcpt-9''"] show ?thesis
    by (simp add: export_manifest_bytes_def try_op_run fetch_receipt_run forget_providers_def world_new_def
        receipt_get_def row_get_def empty_rows_def)
qed

end
