(* ===== verification/Mcp.thy ===== *)
theory Mcp
  imports Dispatch
begin

text \<open>
  The tool boundary of \<^verbatim>\<open>crates/piteka-application/src/mcp.rs\<close>: the authenticated identity, the decoding
  and validation of tool arguments, the bounds on arguments and responses, and \<open>call_tool\<close>, which
  dispatches to a backend; and the JSON-RPC handler of \<^verbatim>\<open>apps/piteka-mcp/src/lib.rs\<close>. The backend is an
  argument: a record of operations on a state of its own. What serde prints is one too.
\<close>

section \<open>Identity and errors\<close>

record mcp_error =
  me_code :: string
  me_message :: string
  me_details :: "json option"

definition mcp_error_new :: "string \<Rightarrow> string \<Rightarrow> mcp_error" where
  "mcp_error_new code message = \<lparr>me_code = code, me_message = message, me_details = None\<rparr>"

record mcp_identity =
  mi_service_identity :: string
  mi_tenant_id :: string

definition mcp_identity_new :: "string \<Rightarrow> string \<Rightarrow> mcp_error + mcp_identity" where
  "mcp_identity_new service_identity tenant_id =
     (if blank service_identity \<or> blank tenant_id
      then Inl (mcp_error_new ''UNAUTHENTICATED'' ''An authenticated service identity and tenant are required'')
      else Inr \<lparr>mi_service_identity = service_identity, mi_tenant_id = tenant_id\<rparr>)"

definition mcp_error_of_replay :: "replay_rejection \<Rightarrow> mcp_error" where
  "mcp_error_of_replay r =
     \<lparr>me_code = rr_reason_code r, me_message = rr_message r,
      me_details = Some (JObject
        [(''mandate_id'', JString (rr_mandate_id_hex r)),
         (''mandate_state'', JString (rr_mandate_state r)),
         (''provider_dispatch_suppressed'', JBool True),
         (''request_id'', JString (rr_request_id r))])\<rparr>"

section \<open>Arguments\<close>

record request_deployment =
  rq_request_id :: string
  rq_repository_id :: u64
  rq_commit_sha :: string
  rq_environment_id :: u64
  rq_intent_id :: string

record execute_deployment =
  xd_request_id :: string
  xd_mandate_id :: string
  xd_repository_id :: u64
  xd_commit_sha :: string
  xd_environment_id :: u64
  xd_intent_id :: string

text \<open>
  \<open>from_value\<close> of a struct that denies unknown fields: an object with exactly its fields, or, as serde's
  derived visitors allow, an array with their values in the order of declaration.
\<close>

definition struct_fields :: "string list \<Rightarrow> json \<Rightarrow> json list option" where
  "struct_fields names v =
     (case v of
        JObject members \<Rightarrow>
          if list_all (\<lambda>(k, x). k \<in> set names) members \<and> list_all (\<lambda>n. map_of members n \<noteq> None) names
          then Some (map (\<lambda>n. the (map_of members n)) names) else None
      | JArray xs \<Rightarrow> if length xs = length names then Some xs else None
      | _ \<Rightarrow> None)"

definition decode_object_ref :: "json \<Rightarrow> string option" where
  "decode_object_ref v =
     (case struct_fields [''id''] v of
        Some [JString i] \<Rightarrow> Some i
      | _ \<Rightarrow> None)"

definition decode_request_deployment :: "json \<Rightarrow> request_deployment option" where
  "decode_request_deployment v =
     (case struct_fields [''request_id'', ''repository_id'', ''commit_sha'', ''environment_id'', ''intent_id''] v of
        Some [JString r, JPosInt repo, JString sha, JPosInt env, JString i] \<Rightarrow>
          Some \<lparr>rq_request_id = r, rq_repository_id = repo, rq_commit_sha = sha, rq_environment_id = env,
                rq_intent_id = i\<rparr>
      | _ \<Rightarrow> None)"

definition decode_execute_deployment :: "json \<Rightarrow> execute_deployment option" where
  "decode_execute_deployment v =
     (case struct_fields [''request_id'', ''mandate_id'', ''repository_id'', ''commit_sha'', ''environment_id'',
                          ''intent_id''] v of
        Some [JString r, JString m, JPosInt repo, JString sha, JPosInt env, JString i] \<Rightarrow>
          Some \<lparr>xd_request_id = r, xd_mandate_id = m, xd_repository_id = repo, xd_commit_sha = sha,
                xd_environment_id = env, xd_intent_id = i\<rparr>
      | _ \<Rightarrow> None)"

text \<open>
  What the code takes from serde_json: printing a value, the text of a decoding error, and a value as compact
  text; and the version of the package.
\<close>

record mcp_env =
  mv_to_vec :: "json \<Rightarrow> string + bytes"
  mv_decode_error :: "json \<Rightarrow> string"
  mv_display :: "json \<Rightarrow> string"
  mv_version :: string

definition decode :: "mcp_env \<Rightarrow> (json \<Rightarrow> 'a option) \<Rightarrow> json \<Rightarrow> ('s, mcp_error, 'a) op" where
  "decode V f v =
     (case f v of
        None \<Rightarrow> fail (mcp_error_new ''MALFORMED_ARGUMENTS'' (''Invalid tool arguments: '' @ mv_decode_error V v))
      | Some a \<Rightarrow> ok a)"

definition validate_object_id :: "string \<Rightarrow> ('s, mcp_error, unit) op" where
  "validate_object_id i =
     (if blank i then fail (mcp_error_new ''MALFORMED_ARGUMENTS'' ''id must not be empty'') else ok ())"

definition valid_sha :: "string \<Rightarrow> bool" where
  "valid_sha sha = (length sha = 40 \<and> list_all is_lower_hex sha)"

definition validate_deployment_fields ::
  "string \<Rightarrow> u64 \<Rightarrow> string \<Rightarrow> u64 \<Rightarrow> ('s, mcp_error, unit) op" where
  "validate_deployment_fields request_id repository_id sha environment_id =
     (if blank request_id \<or> repository_id = 0 \<or> environment_id = 0 \<or> \<not> valid_sha sha
      then fail (mcp_error_new ''MALFORMED_ARGUMENTS''
        ''request_id, stable provider IDs, and a lower-case 40-character commit SHA are required'')
      else ok ())"

section \<open>The backend\<close>

record 's accountability_tools =
  tl_recompute_intent_id :: "string \<Rightarrow> u64 \<Rightarrow> string \<Rightarrow> u64 \<Rightarrow> ('s, mcp_error, string) op"
  tl_request_deployment :: "mcp_identity \<Rightarrow> request_deployment \<Rightarrow> ('s, mcp_error, json) op"
  tl_get_action_status :: "mcp_identity \<Rightarrow> string \<Rightarrow> ('s, mcp_error, json) op"
  tl_execute_approved_deployment :: "mcp_identity \<Rightarrow> execute_deployment \<Rightarrow> ('s, mcp_error, json) op"
  tl_get_receipt :: "mcp_identity \<Rightarrow> string \<Rightarrow> ('s, mcp_error, json) op"
  tl_export_dispute_bundle :: "mcp_identity \<Rightarrow> string \<Rightarrow> ('s, mcp_error, json) op"
  tl_verify_bundle :: "mcp_identity \<Rightarrow> string \<Rightarrow> ('s, mcp_error, json) op"

definition validate_intent ::
  "'s accountability_tools \<Rightarrow> mcp_identity \<Rightarrow> u64 \<Rightarrow> string \<Rightarrow> u64 \<Rightarrow> string \<Rightarrow> ('s, mcp_error, unit) op" where
  "validate_intent B me repository_id sha environment_id supplied =
     try_op (tl_recompute_intent_id B (mi_tenant_id me) repository_id sha environment_id) (\<lambda>computed.
       if computed \<noteq> supplied then
         fail ((mcp_error_new ''INTENT_MISMATCH'' ''Deployment parameters do not match the authorized intent'')
           \<lparr>me_details := Some (JObject
             [(''computed_intent_id'', JString computed), (''supplied_intent_id'', JString supplied)])\<rparr>)
       else ok ())"

definition max_argument_bytes :: nat where
  "max_argument_bytes = 32 * 1024"

definition max_response_bytes :: nat where
  "max_response_bytes = 256 * 1024"

definition bound_response :: "mcp_env \<Rightarrow> json \<Rightarrow> ('s, mcp_error, json) op" where
  "bound_response V response =
     (case mv_to_vec V response of
        Inl _ \<Rightarrow> fail (mcp_error_new ''INTERNAL_ERROR'' ''Tool response could not be encoded'')
      | Inr b \<Rightarrow>
          if length b > max_response_bytes
          then fail (mcp_error_new ''RESPONSE_TOO_LARGE'' ''Tool response exceeds the 256 KiB limit'')
          else ok response)"

text \<open>The match on the tool name.\<close>

definition run_tool ::
  "mcp_env \<Rightarrow> 's accountability_tools \<Rightarrow> mcp_identity \<Rightarrow> string \<Rightarrow> json \<Rightarrow> ('s, mcp_error, json) op" where
  "run_tool V B me name arguments =
     (if name = ''piteka_request_deployment'' then
        try_op (decode V decode_request_deployment arguments) (\<lambda>input.
        try_op (validate_deployment_fields (rq_request_id input) (rq_repository_id input) (rq_commit_sha input)
          (rq_environment_id input)) (\<lambda>_.
        try_op (validate_intent B me (rq_repository_id input) (rq_commit_sha input) (rq_environment_id input)
          (rq_intent_id input)) (\<lambda>_.
        tl_request_deployment B me input)))
      else if name = ''piteka_get_action_status'' then
        try_op (decode V decode_object_ref arguments) (\<lambda>i.
        try_op (validate_object_id i) (\<lambda>_. tl_get_action_status B me i))
      else if name = ''piteka_execute_approved_deployment'' then
        try_op (decode V decode_execute_deployment arguments) (\<lambda>input.
        try_op (validate_deployment_fields (xd_request_id input) (xd_repository_id input) (xd_commit_sha input)
          (xd_environment_id input)) (\<lambda>_.
        if blank (xd_mandate_id input)
        then fail (mcp_error_new ''MALFORMED_ARGUMENTS'' ''mandate_id must not be empty'')
        else
          try_op (validate_intent B me (xd_repository_id input) (xd_commit_sha input) (xd_environment_id input)
            (xd_intent_id input)) (\<lambda>_.
          tl_execute_approved_deployment B me input)))
      else if name = ''piteka_get_receipt'' then
        try_op (decode V decode_object_ref arguments) (\<lambda>i.
        try_op (validate_object_id i) (\<lambda>_. tl_get_receipt B me i))
      else if name = ''piteka_export_dispute_bundle'' then
        try_op (decode V decode_object_ref arguments) (\<lambda>i.
        try_op (validate_object_id i) (\<lambda>_. tl_export_dispute_bundle B me i))
      else if name = ''piteka_verify_bundle'' then
        try_op (decode V decode_object_ref arguments) (\<lambda>i.
        try_op (validate_object_id i) (\<lambda>_. tl_verify_bundle B me i))
      else fail (mcp_error_new ''TOOL_NOT_FOUND'' ''Unknown Piteka tool''))"

definition call_tool ::
  "mcp_env \<Rightarrow> 's accountability_tools \<Rightarrow> mcp_identity \<Rightarrow> string \<Rightarrow> json \<Rightarrow> ('s, mcp_error, json) op" where
  "call_tool V B me name arguments =
     (case mv_to_vec V arguments of
        Inl _ \<Rightarrow> fail (mcp_error_new ''MALFORMED_ARGUMENTS'' ''Arguments must be valid JSON'')
      | Inr b \<Rightarrow>
          if length b > max_argument_bytes
          then fail (mcp_error_new ''ARGUMENTS_TOO_LARGE'' ''Tool arguments exceed the 32 KiB limit'')
          else try_op (run_tool V B me name arguments) (bound_response V))"

section \<open>The JSON-RPC handler\<close>

definition protocol_version :: string where
  "protocol_version = ''2025-06-18''"

definition tool :: "string \<Rightarrow> string \<Rightarrow> json \<Rightarrow> json" where
  "tool name description input_schema =
     JObject [(''description'', JString description), (''inputSchema'', input_schema), (''name'', JString name)]"

definition string_schema :: json where
  "string_schema = JObject [(''minLength'', JPosInt 1), (''type'', JString ''string'')]"

definition integer_schema :: json where
  "integer_schema = JObject [(''minimum'', JPosInt 1), (''type'', JString ''integer'')]"

definition object_schema :: json where
  "object_schema =
     JObject
       [(''additionalProperties'', JBool False), (''properties'', JObject [(''id'', string_schema)]),
        (''required'', JArray [JString ''id'']), (''type'', JString ''object'')]"

definition deployment_schema :: "bool \<Rightarrow> json" where
  "deployment_schema execute =
     JObject
       [(''additionalProperties'', JBool False),
        (''properties'', JObject
          ([(''commit_sha'', JObject [(''pattern'', JString ''^[0-9a-f]{40}$''), (''type'', JString ''string'')]),
            (''environment_id'', integer_schema), (''intent_id'', string_schema)]
           @ (if execute then [(''mandate_id'', string_schema)] else [])
           @ [(''repository_id'', integer_schema), (''request_id'', string_schema)])),
        (''required'', JArray (map JString
          ([''request_id'', ''repository_id'', ''commit_sha'', ''environment_id'', ''intent_id'']
           @ (if execute then [''mandate_id''] else [])))),
        (''type'', JString ''object'')]"

definition tool_catalog :: "json list" where
  "tool_catalog =
     [tool ''piteka_request_deployment'' ''Requests review of an exact deployment. Creates a pending action request; it does not approve or execute it.''
        (deployment_schema False),
      tool ''piteka_get_action_status'' ''Reads the current status of a tenant-scoped action. No side effects.''
        object_schema,
      tool ''piteka_execute_approved_deployment'' ''SIDE EFFECT: reserves a single-use mandate and may create a GitHub deployment. Requires an exact valid mandate and rejects changed parameters.''
        (deployment_schema True),
      tool ''piteka_get_receipt'' ''Reads a tenant-scoped execution receipt. No side effects.''
        object_schema,
      tool ''piteka_export_dispute_bundle'' ''SIDE EFFECT: creates an auditable export of disclosed evidence for a receipt.''
        object_schema,
      tool ''piteka_verify_bundle'' ''Verifies a bundle with the pinned Parwana verifier and returns structured assurance. No provider side effects.''
        object_schema]"

definition text_content :: "string \<Rightarrow> json" where
  "text_content t = JArray [JObject [(''text'', JString t), (''type'', JString ''text'')]]"

definition mcp_error_json :: "mcp_error \<Rightarrow> json" where
  "mcp_error_json e =
     JObject ([(''code'', JString (me_code e))]
       @ (case me_details e of None \<Rightarrow> [] | Some d \<Rightarrow> [(''details'', d)])
       @ [(''message'', JString (me_message e))])"

definition initialize_result :: "mcp_env \<Rightarrow> json" where
  "initialize_result V =
     JObject
       [(''capabilities'', JObject [(''tools'', JObject [(''listChanged'', JBool False)])]),
        (''protocolVersion'', JString protocol_version),
        (''serverInfo'', JObject [(''name'', JString ''piteka-mcp''), (''version'', JString (mv_version V))])]"

definition call_result :: "mcp_env \<Rightarrow> json \<Rightarrow> json" where
  "call_result V v =
     JObject [(''content'', text_content (mv_display V v)), (''isError'', JBool False), (''structuredContent'', v)]"

definition json_or :: "json \<Rightarrow> json option \<Rightarrow> json" where
  "json_or d v = (case v of None \<Rightarrow> d | Some x \<Rightarrow> x)"

definition run_method ::
  "mcp_env \<Rightarrow> 's accountability_tools \<Rightarrow> mcp_identity \<Rightarrow> string \<Rightarrow> json \<Rightarrow> ('s, mcp_error, json) op" where
  "run_method V B me method request =
     (if method = ''initialize'' then ok (initialize_result V)
      else if method = ''tools/list'' then ok (JObject [(''tools'', JArray tool_catalog)])
      else if method = ''tools/call'' then
        (let params = json_or JNull (json_get request ''params'');
             name = (case Option.bind (json_get params ''name'') json_as_str of None \<Rightarrow> [] | Some n \<Rightarrow> n);
             arguments = json_or (JObject []) (json_get params ''arguments'') in
         try_op (call_tool V B me name arguments) (\<lambda>v. ok (call_result V v)))
      else fail (mcp_error_new ''METHOD_NOT_FOUND'' ''Unknown JSON-RPC method''))"

definition rpc_response :: "json \<Rightarrow> mcp_error + json \<Rightarrow> json" where
  "rpc_response i result =
     JObject
       [(''id'', i), (''jsonrpc'', JString ''2.0''),
        (''result'',
          (case result of
             Inr v \<Rightarrow> v
           | Inl e \<Rightarrow> JObject
               [(''content'', text_content (me_message e)), (''isError'', JBool True),
                (''structuredContent'', JObject [(''error'', mcp_error_json e)])]))]"

definition handle ::
  "mcp_env \<Rightarrow> 's accountability_tools \<Rightarrow> mcp_identity \<Rightarrow> json \<Rightarrow> 's \<Rightarrow> json option \<times> 's" where
  "handle V B me request s =
     (case Option.bind (json_get request ''method'') json_as_str of
        None \<Rightarrow> (None, s)
      | Some method \<Rightarrow>
          (case json_get request ''id'' of
             None \<Rightarrow> (None, s)
           | Some i \<Rightarrow>
               (case run_method V B me method request s of
                  (result, s') \<Rightarrow> (Some (rpc_response i result), s'))))"

section \<open>Properties\<close>

lemma decode_run:
  "decode V f v s = (case f v of
     None \<Rightarrow> (Inl (mcp_error_new ''MALFORMED_ARGUMENTS'' (''Invalid tool arguments: '' @ mv_decode_error V v)), s)
   | Some a \<Rightarrow> (Inr a, s))"
  by (simp add: decode_def split: option.split)

lemma try_op_state:
  "try_op m k s = (r, s') \<Longrightarrow> snd (m s) = s \<Longrightarrow> s' \<noteq> s \<Longrightarrow> \<exists>a. fst (m s) = Inr a \<and> k a s = (r, s')"
  by (cases "m s") (auto simp: try_op_def split: sum.splits)

lemma snd_checks [simp]:
  "snd (decode V f v s) = s" "snd (validate_object_id i s) = s"
  "snd (validate_deployment_fields r a c e s) = s" "snd (bound_response V v s) = s"
  by (simp_all add: decode_run validate_object_id_def validate_deployment_fields_def bound_response_def
      split: option.split sum.split)

lemma fst_checks:
  "fst (decode V f v s) = Inr a \<longleftrightarrow> f v = Some a"
  "fst (validate_object_id i s) = Inr u \<longleftrightarrow> \<not> blank i"
  "fst (validate_deployment_fields r p c e s) = Inr u \<longleftrightarrow> \<not> blank r \<and> p \<noteq> 0 \<and> e \<noteq> 0 \<and> valid_sha c"
  by (auto simp: decode_run validate_object_id_def validate_deployment_fields_def split: option.splits)

lemma snd_validate_intent:
  "snd (validate_intent B me p c e i s) = snd (tl_recompute_intent_id B (mi_tenant_id me) p c e s)"
  by (cases "tl_recompute_intent_id B (mi_tenant_id me) p c e s")
    (auto simp: validate_intent_def try_op_def split: sum.split)

lemma fst_validate_intent:
  "fst (validate_intent B me p c e i s) = Inr u \<longleftrightarrow> fst (tl_recompute_intent_id B (mi_tenant_id me) p c e s) = Inr i"
  by (cases "tl_recompute_intent_id B (mi_tenant_id me) p c e s")
    (auto simp: validate_intent_def try_op_def split: sum.split)

text \<open>A backend whose reads only read.\<close>

definition reads_only :: "'s accountability_tools \<Rightarrow> bool" where
  "reads_only B \<longleftrightarrow>
     (\<forall>t p c e s. snd (tl_recompute_intent_id B t p c e s) = s)
     \<and> (\<forall>me i s. snd (tl_get_action_status B me i s) = s \<and> snd (tl_get_receipt B me i s) = s
           \<and> snd (tl_verify_bundle B me i s) = s)"

text \<open>The three calls that may change the backend, with what has been checked before each.\<close>

definition request_admitted :: "'s accountability_tools \<Rightarrow> mcp_identity \<Rightarrow> json \<Rightarrow> request_deployment \<Rightarrow> 's \<Rightarrow> bool" where
  "request_admitted B me arguments i s \<longleftrightarrow>
     decode_request_deployment arguments = Some i \<and> \<not> blank (rq_request_id i)
     \<and> rq_repository_id i \<noteq> 0 \<and> rq_environment_id i \<noteq> 0 \<and> valid_sha (rq_commit_sha i)
     \<and> fst (tl_recompute_intent_id B (mi_tenant_id me) (rq_repository_id i) (rq_commit_sha i) (rq_environment_id i) s)
         = Inr (rq_intent_id i)"

definition execution_admitted :: "'s accountability_tools \<Rightarrow> mcp_identity \<Rightarrow> json \<Rightarrow> execute_deployment \<Rightarrow> 's \<Rightarrow> bool" where
  "execution_admitted B me arguments i s \<longleftrightarrow>
     decode_execute_deployment arguments = Some i \<and> \<not> blank (xd_request_id i) \<and> \<not> blank (xd_mandate_id i)
     \<and> xd_repository_id i \<noteq> 0 \<and> xd_environment_id i \<noteq> 0 \<and> valid_sha (xd_commit_sha i)
     \<and> fst (tl_recompute_intent_id B (mi_tenant_id me) (xd_repository_id i) (xd_commit_sha i) (xd_environment_id i) s)
         = Inr (xd_intent_id i)"

lemma run_tool_effect:
  assumes "reads_only B" and "run_tool V B me name arguments s = (r, s')" and "s' \<noteq> s"
  shows "(name = ''piteka_request_deployment'' \<and> (\<exists>i. request_admitted B me arguments i s
        \<and> s' = snd (tl_request_deployment B me i s)))
    \<or> (name = ''piteka_execute_approved_deployment'' \<and> (\<exists>i. execution_admitted B me arguments i s
        \<and> s' = snd (tl_execute_approved_deployment B me i s)))
    \<or> (name = ''piteka_export_dispute_bundle'' \<and> (\<exists>i. decode_object_ref arguments = Some i \<and> \<not> blank i
        \<and> s' = snd (tl_export_dispute_bundle B me i s)))"
proof -
  from assms(1) have ro: "snd (tl_recompute_intent_id B t p c e s) = s" "snd (tl_get_action_status B me i s) = s"
    "snd (tl_get_receipt B me i s) = s" "snd (tl_verify_bundle B me i s) = s" for t p c e i
    by (simp_all add: reads_only_def)
  note steps = fst_checks snd_validate_intent fst_validate_intent ro
  consider "name = ''piteka_request_deployment''" | "name = ''piteka_execute_approved_deployment''"
    | "name = ''piteka_export_dispute_bundle''"
    | "name \<notin> {''piteka_request_deployment'', ''piteka_execute_approved_deployment'', ''piteka_export_dispute_bundle''}"
    by blast
  then show ?thesis
  proof cases
    case 1
    with assms(2,3) show ?thesis
      by (auto simp: run_tool_def steps request_admitted_def dest!: try_op_state)
  next
    case 2
    with assms(2,3) show ?thesis
      by (auto simp: run_tool_def steps execution_admitted_def dest!: try_op_state split: if_splits)
  next
    case 3
    with assms(2,3) show ?thesis
      by (auto simp: run_tool_def steps dest!: try_op_state)
  next
    case 4
    with assms(2,3) show ?thesis
      by (auto simp: run_tool_def steps dest!: try_op_state split: if_splits) (metis ro snd_conv)+
  qed
qed

lemma call_tool_run:
  "call_tool V B me name arguments s =
    (case mv_to_vec V arguments of
       Inl _ \<Rightarrow> (Inl (mcp_error_new ''MALFORMED_ARGUMENTS'' ''Arguments must be valid JSON''), s)
     | Inr b \<Rightarrow>
         if length b > max_argument_bytes
         then (Inl (mcp_error_new ''ARGUMENTS_TOO_LARGE'' ''Tool arguments exceed the 32 KiB limit''), s)
         else (case run_tool V B me name arguments s of
             (Inl e, s') \<Rightarrow> (Inl e, s') | (Inr v, s') \<Rightarrow> bound_response V v s'))"
  by (simp add: call_tool_def try_op_def split: sum.split)

lemma call_tool_state:
  assumes "call_tool V B me name arguments s = (r, s')" and "s' \<noteq> s"
  shows "\<exists>b r'. mv_to_vec V arguments = Inr b \<and> length b \<le> max_argument_bytes
    \<and> run_tool V B me name arguments s = (r', s')"
proof -
  obtain b where b: "mv_to_vec V arguments = Inr b" "length b \<le> max_argument_bytes"
    using assms by (auto simp: call_tool_run split: sum.splits if_splits)
  obtain r' s1 where run: "run_tool V B me name arguments s = (r', s1)" by (cases "run_tool V B me name arguments s")
  with assms b have "s1 = s'"
    by (cases r') (auto simp: call_tool_run bound_response_def split: sum.splits if_splits)
  with b run show ?thesis by blast
qed

text \<open>The arguments a request carries for a tool.\<close>

definition request_arguments :: "json \<Rightarrow> json" where
  "request_arguments request = json_or (JObject []) (json_get (json_or JNull (json_get request ''params'')) ''arguments'')"

text \<open>
  C14. Nothing a client sends reaches a side effect unchecked. If handling a request changes the
  backend at all, and the read-only tools do not (\<open>reads_only\<close>), the request is an identified \<open>tools/call\<close> whose arguments are within 32 KiB, and the change is that of
  one of the three tools with side effects, called with the caller's own identity: a deployment request or an
  execution whose fields are valid and whose intent is the one recomputed for the caller's tenant, an
  execution also naming a mandate, or the export of a named receipt.
\<close>

theorem mcp_effects_validated:
  assumes "reads_only B" and "handle V B me request s = (reply, s')" and "s' \<noteq> s"
  shows "json_get request ''id'' \<noteq> None \<and> json_get request ''method'' = Some (JString ''tools/call'')
    \<and> (\<exists>b. mv_to_vec V (request_arguments request) = Inr b \<and> length b \<le> 32768)
    \<and> ((\<exists>i. request_admitted B me (request_arguments request) i s
          \<and> s' = snd (tl_request_deployment B me i s))
      \<or> (\<exists>i. execution_admitted B me (request_arguments request) i s
          \<and> s' = snd (tl_execute_approved_deployment B me i s))
      \<or> (\<exists>i. decode_object_ref (request_arguments request) = Some i \<and> \<not> blank i
          \<and> s' = snd (tl_export_dispute_bundle B me i s)))"
proof -
  obtain meth i where m: "Option.bind (json_get request ''method'') json_as_str = Some meth"
    and i: "json_get request ''id'' = Some i" and run: "snd (run_method V B me meth request s) = s'"
    using assms(2,3) by (auto simp: handle_def split: option.splits prod.splits)
  then have "meth = ''tools/call''"
    using assms(3) by (auto simp: run_method_def split: if_splits)
  with run obtain name r where call: "call_tool V B me name (request_arguments request) s = (r, s')"
    by (auto simp: run_method_def Let_def request_arguments_def try_op_def split: prod.splits sum.splits)
  from call_tool_state [OF this assms(3)] obtain b r' where
    b: "mv_to_vec V (request_arguments request) = Inr b" "length b \<le> max_argument_bytes"
    and tool: "run_tool V B me name (request_arguments request) s = (r', s')" by blast
  have "json_get request ''method'' = Some (JString ''tools/call'')"
  proof (cases "json_get request ''method''")
    case None
    with m show ?thesis by simp
  next
    case (Some x)
    with m \<open>meth = ''tools/call''\<close> show ?thesis by (cases x) simp_all
  qed
  with run_tool_effect [OF assms(1) tool assms(3)] b i show ?thesis
    by (auto simp: max_argument_bytes_def)
qed

text \<open>A backend that counts executions, for the witnesses.\<close>

definition counting_tools :: "nat accountability_tools" where
  "counting_tools =
     \<lparr>tl_recompute_intent_id = (\<lambda>t p c e n. (Inr ''i'', n)),
      tl_request_deployment = (\<lambda>me i n. (Inr JNull, n)),
      tl_get_action_status = (\<lambda>me i n. (Inr JNull, n)),
      tl_execute_approved_deployment = (\<lambda>me i n. (Inr (JString ''done''), Suc n)),
      tl_get_receipt = (\<lambda>me i n. (Inr JNull, n)),
      tl_export_dispute_bundle = (\<lambda>me i n. (Inr JNull, n)),
      tl_verify_bundle = (\<lambda>me i n. (Inr JNull, n))\<rparr>"

lemma reads_only_counting: "reads_only counting_tools"
  by (simp add: reads_only_def counting_tools_def)

definition example_env :: "nat \<Rightarrow> mcp_env" where
  "example_env n =
     \<lparr>mv_to_vec = (\<lambda>v. case v of JString _ \<Rightarrow> Inr (replicate n (CHR ''x'')) | _ \<Rightarrow> Inr []),
      mv_decode_error = (\<lambda>v. ''error''), mv_display = (\<lambda>v. ''value''), mv_version = ''0.1.0''\<rparr>"

definition example_execution :: json where
  "example_execution =
     JArray [JString ''r'', JString ''m'', JPosInt 1, JString (replicate 40 (CHR ''a'')), JPosInt 2, JString ''i'']"

definition example_identity :: mcp_identity where
  "example_identity = \<lparr>mi_service_identity = ''svc'', mi_tenant_id = ''t''\<rparr>"

definition example_input :: execute_deployment where
  "example_input = \<lparr>xd_request_id = ''r'', xd_mandate_id = ''m'', xd_repository_id = 1,
     xd_commit_sha = replicate 40 (CHR ''a''), xd_environment_id = 2, xd_intent_id = ''i''\<rparr>"

lemma example_execution_decodes: "decode_execute_deployment example_execution = Some example_input"
  by (simp add: decode_execute_deployment_def struct_fields_def example_execution_def example_input_def)

lemma example_execution_admitted: "execution_admitted counting_tools example_identity example_execution example_input s"
proof -
  have "\<not> blank ''r''" "\<not> blank ''m''"
    by (simp_all add: blank_def trim_id ws_len_def ws_len_end_def ws_seq_def)
  moreover have "valid_sha (replicate 40 (CHR ''a''))"
    by (simp add: valid_sha_def list_all_length is_lower_hex_def is_ascii_digit_def)
  ultimately show ?thesis
    by (simp add: execution_admitted_def example_execution_decodes) (simp add: example_input_def counting_tools_def)
qed

text \<open>An admitted execution runs.\<close>

lemma run_admitted_execution:
  assumes "reads_only B" and "execution_admitted B me arguments i s"
  shows "run_tool V B me ''piteka_execute_approved_deployment'' arguments s = tl_execute_approved_deployment B me i s"
proof -
  have "validate_intent B me (xd_repository_id i) (xd_commit_sha i) (xd_environment_id i) (xd_intent_id i) s = (Inr (), s)"
    using assms
    by (auto simp: prod_eq_iff snd_validate_intent fst_validate_intent reads_only_def execution_admitted_def)
  then show ?thesis
    using assms(2)
    by (simp add: run_tool_def execution_admitted_def try_op_def decode_run validate_deployment_fields_def)
qed

text \<open>
  C15. A tool answer is bounded and a listed tool. Whatever the backend does, a successful answer had arguments of
  at most 32 KiB, prints in at most 256 KiB, and came from one of the six tools the catalog lists; every other
  name is refused without reaching the backend.
\<close>

theorem tool_answers_bounded:
  assumes "call_tool V B me name arguments s = (r, s')"
  shows "case r of
      Inr v \<Rightarrow> (\<exists>a b. mv_to_vec V arguments = Inr a \<and> length a \<le> 32768 \<and> mv_to_vec V v = Inr b \<and> length b \<le> 262144)
        \<and> Some (JString name) \<in> set (map (\<lambda>t. json_get t ''name'') tool_catalog)
    | Inl e \<Rightarrow> Some (JString name) \<notin> set (map (\<lambda>t. json_get t ''name'') tool_catalog) \<longrightarrow> s' = s"
proof -
  have names: "Some (JString name) \<in> set (map (\<lambda>t. json_get t ''name'') tool_catalog) \<longleftrightarrow>
      name \<in> {''piteka_request_deployment'', ''piteka_get_action_status'', ''piteka_execute_approved_deployment'',
        ''piteka_get_receipt'', ''piteka_export_dispute_bundle'', ''piteka_verify_bundle''}"
    by (auto simp: tool_catalog_def tool_def)
  have unknown: "run_tool V B me name arguments s = (Inl (mcp_error_new ''TOOL_NOT_FOUND'' ''Unknown Piteka tool''), s)"
    if "Some (JString name) \<notin> set (map (\<lambda>t. json_get t ''name'') tool_catalog)"
    using that unfolding names by (simp add: run_tool_def)
  show ?thesis
    using assms unknown
    by (cases r)
      (auto simp: call_tool_run bound_response_def max_argument_bytes_def max_response_bytes_def
        simp del: set_map split: sum.splits if_splits prod.splits)
qed

text \<open>
  An execution whose answer is too large has happened all the same. When a valid execution is carried out and its
  result prints in more than 256 KiB, the caller is told \<open>RESPONSE_TOO_LARGE\<close> as if the call had
  failed, while the backend keeps the effect of the execution.
\<close>

theorem oversized_answer_hides_effect:
  assumes "reads_only B" and "execution_admitted B me arguments i s"
    and "mv_to_vec V arguments = Inr a" and "length a \<le> 32768"
    and "tl_execute_approved_deployment B me i s = (Inr v, s')"
    and "mv_to_vec V v = Inr b" and "length b > 262144"
  shows "call_tool V B me ''piteka_execute_approved_deployment'' arguments s =
    (Inl (mcp_error_new ''RESPONSE_TOO_LARGE'' ''Tool response exceeds the 256 KiB limit''), s')"
  using assms(3-7)
  by (simp add: call_tool_run run_admitted_execution [OF assms(1,2)] max_argument_bytes_def max_response_bytes_def
      bound_response_def)

theorem mcp_effects_validated_witness:
  "let request = JObject [(''id'', JPosInt 1), (''method'', JString ''tools/call''),
        (''params'', JObject [(''arguments'', example_execution), (''name'', JString ''piteka_execute_approved_deployment'')])]
   in snd (handle (example_env 4) counting_tools example_identity request 0) = 1
      \<and> (\<exists>i. execution_admitted counting_tools example_identity example_execution i 0)"
proof -
  let ?r = "JObject [(''id'', JPosInt 1), (''method'', JString ''tools/call''),
        (''params'', JObject [(''arguments'', example_execution), (''name'', JString ''piteka_execute_approved_deployment'')])]"
  have call: "call_tool (example_env 4) counting_tools example_identity ''piteka_execute_approved_deployment'' example_execution 0
      = (Inr (JString ''done''), 1)"
  proof -
    have "mv_to_vec (example_env 4) example_execution = Inr []"
      "mv_to_vec (example_env 4) (JString ''done'') = Inr (replicate 4 (CHR ''x''))"
      "tl_execute_approved_deployment counting_tools example_identity example_input 0 = (Inr (JString ''done''), 1)"
      by (simp_all add: example_env_def example_execution_def counting_tools_def)
    then show ?thesis
      by (simp add: call_tool_run run_admitted_execution [OF reads_only_counting example_execution_admitted]
          max_argument_bytes_def max_response_bytes_def bound_response_def)
  qed
  have one: "snd (handle (example_env 4) counting_tools example_identity ?r 0) = 1"
    by (simp add: handle_def run_method_def json_or_def Let_def try_op_def call)
  obtain reply s' where h: "handle (example_env 4) counting_tools example_identity ?r 0 = (reply, s')" by fastforce
  with one have "s' \<noteq> 0" by simp
  from mcp_effects_validated [OF reads_only_counting h this] one example_execution_admitted show ?thesis by auto
qed

theorem tool_answers_bounded_witness:
  "snd (call_tool (example_env 4) counting_tools example_identity ''rm'' JNull 5) = 5"
proof -
  obtain r s' where run: "call_tool (example_env 4) counting_tools example_identity ''rm'' JNull 5 = (r, s')" by fastforce
  from tool_answers_bounded [OF run] run show ?thesis
    by (cases r) (auto simp: tool_catalog_def tool_def)
qed

theorem oversized_answer_hides_effect_witness:
  "call_tool (example_env 300000) counting_tools example_identity ''piteka_execute_approved_deployment'' example_execution 0
     = (Inl (mcp_error_new ''RESPONSE_TOO_LARGE'' ''Tool response exceeds the 256 KiB limit''), 1)"
proof -
  have "mv_to_vec (example_env 300000) example_execution = Inr []"
    "mv_to_vec (example_env 300000) (JString ''done'') = Inr (replicate 300000 (CHR ''x''))"
    "tl_execute_approved_deployment counting_tools example_identity example_input 0 = (Inr (JString ''done''), 1)"
    by (simp_all add: example_env_def example_execution_def counting_tools_def)
  from oversized_answer_hides_effect [OF reads_only_counting example_execution_admitted this(1) _ this(3,2)]
  show ?thesis by simp
qed

end
