(* ===== verification/Observation.thy ===== *)
theory Observation
  imports Piteka_Prelude
begin

text \<open>
  The read-only observation boundary: \<^verbatim>\<open>crates/piteka-application/src/observation.rs\<close>. The observation
  plane is reached through a port, a record of two queries; what it does not answer, or answers
  incompletely, becomes an explicit gap.
\<close>

section \<open>Observations and gaps\<close>

record observation =
  ob_observation_id :: string
  ob_source_id :: string
  ob_source_event_id :: string
  ob_source_event_type :: string
  ob_subject_refs :: "string list"
  ob_asserted_event_time :: "i64 option"
  ob_observed_at :: i64
  ob_normalized_profile_id :: string
  ob_normalized_profile_version :: u16
  ob_normalized_payload_digest_hex :: string
  ob_authenticity_material_refs :: "string list"
  ob_collection_run_id :: string
  ob_supersedes :: "string option"
  ob_retraction_status :: string
  ob_visibility_scope :: string

record source_health =
  sh_source_id :: string
  sh_connector_kind :: string
  sh_display_name :: string
  sh_last_run_started_at :: "i64 option"
  sh_last_run_completed_at :: "i64 option"
  sh_cursor_observed_at :: "i64 option"

datatype observation_error =
    Unavailable
  | Unauthenticated
  | NotVisible
  | Malformed string
  | Unsupported string

fun observation_error_display :: "observation_error \<Rightarrow> string" where
  "observation_error_display Unavailable = ''observation service unavailable''"
| "observation_error_display Unauthenticated = ''observation credentials were rejected''"
| "observation_error_display NotVisible = ''observation was not visible to the tenant''"
| "observation_error_display (Malformed m) = ''observation response was malformed: '' @ m"
| "observation_error_display (Unsupported m) = ''observation query is unsupported: '' @ m"

record observation_port =
  op_lineage :: "string \<Rightarrow> string \<Rightarrow> observation_error + observation list"
  op_source_health :: "string \<Rightarrow> observation_error + source_health list"

record observation_query =
  oq_tenant_id :: string
  oq_observation_id :: string

record evidence_gap =
  eg_code :: string
  eg_detail :: string

record observation_query_result =
  or_lineage :: "observation list"
  or_source_health :: "source_health list"
  or_evidence_gaps :: "evidence_gap list"

definition is_complete :: "observation_query_result \<Rightarrow> bool" where
  "is_complete r = (or_evidence_gaps r = [])"

definition permits_execution :: "observation_query_result \<Rightarrow> bool" where
  "permits_execution r = False"

section \<open>The query\<close>

definition valid_identifier :: "string \<Rightarrow> bool" where
  "valid_identifier value =
     (\<not> blank value \<and> length value \<le> 512
      \<and> list_all (\<lambda>c. c \<noteq> CHR 0x00 \<and> c \<noteq> CHR '','' \<and> c \<noteq> CHR ''='') value)"

definition gap :: "string \<Rightarrow> string \<Rightarrow> observation_query_result" where
  "gap code detail =
     \<lparr>or_lineage = [], or_source_health = [],
      or_evidence_gaps = [\<lparr>eg_code = code, eg_detail = detail\<rparr>]\<rparr>"

definition gap_for_error :: "string \<Rightarrow> observation_error \<Rightarrow> observation_query_result" where
  "gap_for_error code e = gap code (observation_error_display e)"

text \<open>Collecting into the map: a later record of a source replaces an earlier one.\<close>

definition health_by_source :: "source_health list \<Rightarrow> string \<rightharpoonup> source_health" where
  "health_by_source hs = foldl (\<lambda>m h. m(sh_source_id h \<mapsto> h)) Map.empty hs"

text \<open>The gaps one observation adds: its source's, then its own.\<close>

definition source_gaps :: "(string \<rightharpoonup> source_health) \<Rightarrow> observation \<Rightarrow> evidence_gap list" where
  "source_gaps health x =
     (case health (ob_source_id x) of
        Some h \<Rightarrow>
          if sh_last_run_completed_at h \<noteq> None \<and> sh_cursor_observed_at h \<noteq> None then []
          else [\<lparr>eg_code = ''observation_source_incomplete'',
                 eg_detail = ''source `'' @ ob_source_id x @ ''` has no completed collection cursor''\<rparr>]
      | None \<Rightarrow> [\<lparr>eg_code = ''observation_source_health_missing'',
                 eg_detail = ''source `'' @ ob_source_id x @ ''` has no health record''\<rparr>])"

definition retraction_gaps :: "observation \<Rightarrow> evidence_gap list" where
  "retraction_gaps x =
     (if ob_retraction_status x \<noteq> ''active''
      then [\<lparr>eg_code = ''observation_retracted'',
             eg_detail = ''observation `'' @ ob_observation_id x @ ''` has status `'' @ ob_retraction_status x @ ''`''\<rparr>]
      else [])"

fun collect_gaps :: "(string \<rightharpoonup> source_health) \<Rightarrow> observation list \<Rightarrow> evidence_gap list \<Rightarrow> evidence_gap list" where
  "collect_gaps health [] gaps = gaps"
| "collect_gaps health (x # xs) gaps =
     collect_gaps health xs ((gaps @ source_gaps health x) @ retraction_gaps x)"

definition query :: "observation_port \<Rightarrow> observation_query \<Rightarrow> observation_query_result" where
  "query P q =
     (if \<not> valid_identifier (oq_tenant_id q) \<or> \<not> valid_identifier (oq_observation_id q)
      then gap ''invalid_observation_query'' ''tenant or observation identifier is invalid''
      else
        case op_lineage P (oq_tenant_id q) (oq_observation_id q) of
          Inl e \<Rightarrow> gap_for_error ''observation_lineage_unavailable'' e
        | Inr lineage \<Rightarrow>
            if lineage = [] then gap ''observation_not_found'' ''no tenant-visible observation lineage was returned''
            else
              case op_source_health P (oq_tenant_id q) of
                Inl e \<Rightarrow> gap_for_error ''observation_source_health_unavailable'' e
              | Inr health \<Rightarrow>
                  \<lparr>or_lineage = lineage, or_source_health = health,
                   or_evidence_gaps = collect_gaps (health_by_source health) lineage []\<rparr>)"

section \<open>Properties\<close>

lemma collect_gaps_eq:
  "collect_gaps health xs gaps = gaps @ concat (map (\<lambda>x. source_gaps health x @ retraction_gaps x) xs)"
  by (induction health xs gaps rule: collect_gaps.induct) simp_all

text \<open>The record that counts for a source is its last one.\<close>

lemma health_by_source_find: "health_by_source hs k = find (\<lambda>h. sh_source_id h = k) (rev hs)"
  by (induction hs rule: rev_induct) (auto simp: health_by_source_def)

definition healthy :: "source_health list \<Rightarrow> string \<Rightarrow> bool" where
  "healthy hs k \<longleftrightarrow>
     (case find (\<lambda>h. sh_source_id h = k) (rev hs) of
        None \<Rightarrow> False
      | Some h \<Rightarrow> sh_last_run_completed_at h \<noteq> None \<and> sh_cursor_observed_at h \<noteq> None)"

lemma source_gaps_iff: "source_gaps (health_by_source hs) x = [] \<longleftrightarrow> healthy hs (ob_source_id x)"
  by (simp add: source_gaps_def health_by_source_find healthy_def split: option.split)

lemma query_complete_iff:
  "is_complete (query P q) \<longleftrightarrow>
      valid_identifier (oq_tenant_id q) \<and> valid_identifier (oq_observation_id q)
      \<and> (\<exists>lineage health. op_lineage P (oq_tenant_id q) (oq_observation_id q) = Inr lineage \<and> lineage \<noteq> []
          \<and> op_source_health P (oq_tenant_id q) = Inr health
          \<and> (\<forall>x \<in> set lineage. ob_retraction_status x = ''active'' \<and> healthy health (ob_source_id x))
          \<and> or_lineage (query P q) = lineage \<and> or_source_health (query P q) = health)"
  by (auto simp: query_def is_complete_def gap_def gap_for_error_def collect_gaps_eq
      source_gaps_iff retraction_gaps_def split: sum.split)

lemmas query_complete = query_complete_iff [THEN iffD1, THEN conjunct2, THEN conjunct2]

text \<open>
  An observation result counts as complete only when nothing is missing. It is complete exactly when both
  identifiers are valid, the port answered both queries, the lineage is not empty, and every observation in it
  is active and comes from a source whose last health record shows a completed run and a
  cursor; the result then holds exactly what the port answered. No result ever permits an execution.
\<close>

theorem observation_complete_iff:
  "(is_complete (query P q) \<longleftrightarrow>
      valid_identifier (oq_tenant_id q) \<and> valid_identifier (oq_observation_id q)
      \<and> (\<exists>lineage health. op_lineage P (oq_tenant_id q) (oq_observation_id q) = Inr lineage \<and> lineage \<noteq> []
          \<and> op_source_health P (oq_tenant_id q) = Inr health
          \<and> (\<forall>x \<in> set lineage. ob_retraction_status x = ''active'' \<and> healthy health (ob_source_id x))
          \<and> or_lineage (query P q) = lineage \<and> or_source_health (query P q) = health))
    \<and> \<not> permits_execution (query P q)"
  unfolding query_complete_iff by (simp add: permits_execution_def)

definition example_observation :: observation where
  "example_observation =
     \<lparr>ob_observation_id = ''o'', ob_source_id = ''s'', ob_source_event_id = ''e'', ob_source_event_type = ''t'',
      ob_subject_refs = [], ob_asserted_event_time = None, ob_observed_at = 5, ob_normalized_profile_id = ''p'',
      ob_normalized_profile_version = 1, ob_normalized_payload_digest_hex = ''d'',
      ob_authenticity_material_refs = [], ob_collection_run_id = ''r'', ob_supersedes = None,
      ob_retraction_status = ''active'', ob_visibility_scope = ''v''\<rparr>"

text \<open>The older record of the source is healthy, the newer is not.\<close>

definition example_port :: observation_port where
  "example_port =
     \<lparr>op_lineage = (\<lambda>t o'. Inr [example_observation]),
      op_source_health = (\<lambda>t. Inr
        [\<lparr>sh_source_id = ''s'', sh_connector_kind = ''k'', sh_display_name = ''n'', sh_last_run_started_at = Some 1,
          sh_last_run_completed_at = Some 2, sh_cursor_observed_at = Some 2\<rparr>,
         \<lparr>sh_source_id = ''s'', sh_connector_kind = ''k'', sh_display_name = ''n'', sh_last_run_started_at = Some 3,
          sh_last_run_completed_at = None, sh_cursor_observed_at = Some 2\<rparr>])\<rparr>"

theorem observation_complete_iff_witness:
  "\<not> is_complete (query example_port \<lparr>oq_tenant_id = ''t'', oq_observation_id = ''o''\<rparr>)"
proof -
  have "\<not> healthy (projr (op_source_health example_port ''t'')) ''s''"
    by (simp add: healthy_def example_port_def)
  then show ?thesis
    using observation_complete_iff [of example_port "\<lparr>oq_tenant_id = ''t'', oq_observation_id = ''o''\<rparr>"]
    by (auto simp: example_observation_def example_port_def)
qed

end
