(* ===== verification/Intent.thy ===== *)
theory Intent
  imports Piteka_Prelude "HOL-Library.List_Lexorder" "HOL-Library.Char_ord"
begin

text \<open>
  GitHub intent normalization: \<^verbatim>\<open>crates/piteka-github/src/intent.rs\<close>. The Parwana SDK is not part of the
  repository: its functions are the argument \<open>parwana\<close>, its error type has the variants this code names
  and one for the others, and its intents, context sets, descriptors and codecs are type variables. The comparison
  of strings is that of their bytes.
\<close>

section \<open>Errors\<close>

text \<open>The SDK's \<open>IntentError\<close>, as far as the code looks at it.\<close>

datatype intent_error =
    EmptyField string
  | DisplayFieldTooLong string
  | InvalidCommitSha
  | InvalidRequiredContexts
  | GatePolicyMismatch
  | InvalidStableId
  | InvalidEvidenceSourceDeclaration
  | IdentityTooLong
  | TooManyContextCommitments
  | ParametersCommitmentMismatch
  | UnsupportedVersion
  | UnsupportedTask
  | TargetMismatch
  | UnregisteredProfile
  | OtherIntentError string

datatype normalize_error =
    EmptyField string
  | DisplayFieldTooLong string
  | InvalidCommitSha
  | RefMismatch
  | AutoMergeForbidden
  | InvalidEnvironmentClassification
  | InvalidRequiredContexts
  | GatePolicyMismatch
  | TooManyContextCommitments
  | IdentityTooLong
  | UnsupportedTask
  | InvalidContextsMode string
  | InvalidStableId
  | ParwanaError string
  | InvalidContextName string

fun normalize_error_display :: "normalize_error \<Rightarrow> string" where
  "normalize_error_display (EmptyField f) = ''empty field: '' @ f"
| "normalize_error_display (DisplayFieldTooLong f) = ''display field too long: '' @ f"
| "normalize_error_display InvalidCommitSha = ''invalid commit SHA: must be 40 lowercase hex characters''"
| "normalize_error_display RefMismatch = ''exact ref must equal commit SHA''"
| "normalize_error_display AutoMergeForbidden = ''auto_merge must be false for production deployments''"
| "normalize_error_display InvalidEnvironmentClassification =
     ''invalid environment classification: must be production=true, transient=false''"
| "normalize_error_display InvalidRequiredContexts =
     ''invalid required contexts: must be nonempty, sorted, and unique''"
| "normalize_error_display GatePolicyMismatch =
     ''gate policy digest mismatch: agent cannot weaken a configured gate''"
| "normalize_error_display TooManyContextCommitments = ''too many context commitments: maximum is 32''"
| "normalize_error_display IdentityTooLong = ''requester identity too long: maximum 4096 bytes''"
| "normalize_error_display UnsupportedTask = ''unsupported task: only '' @ [CHR 0x27] @ ''deploy'' @ [CHR 0x27] @ '' is allowed''"
| "normalize_error_display (InvalidContextsMode m) = ''invalid required contexts mode: '' @ m"
| "normalize_error_display InvalidStableId = ''stable provider identifier must be non-zero''"
| "normalize_error_display (ParwanaError m) = ''Parwana encoding error: '' @ m"
| "normalize_error_display (InvalidContextName m) = ''context name invalid: '' @ m"

definition max_display_bytes :: nat where "max_display_bytes = 255"
definition max_required_contexts :: nat where "max_required_contexts = 32"
definition max_identity_bytes :: nat where "max_identity_bytes = 4096"
definition github_deployment_task_v1 :: string where "github_deployment_task_v1 = ''deploy''"

section \<open>Input, profile and the SDK\<close>

datatype required_contexts_mode = AllSubmitted | ExplicitNonEmpty "string list"

record github_deployment_input =
  gi_repository_id :: u64
  gi_repository_owner :: string
  gi_repository_name :: string
  gi_commit_sha :: string
  gi_ref_field :: string
  gi_task :: string
  gi_environment_id :: u64
  gi_environment_name :: string
  gi_required_contexts :: required_contexts_mode
  gi_auto_merge :: bool
  gi_production_environment :: bool
  gi_transient_environment :: bool
  gi_artifact_digest :: "bytes option"
  gi_deployment_gate_policy_digest :: "bytes option"

record 'rc deployment_profile =
  dp_repository_id :: u64
  dp_repository_owner :: string
  dp_repository_name :: string
  dp_commit_sha :: string
  dp_exact_ref :: string
  dp_environment_id :: u64
  dp_environment_name :: string
  dp_required_contexts :: 'rc
  dp_payload_commitment :: bytes
  dp_artifact_digest :: "bytes option"
  dp_deployment_gate_policy_digest :: bytes

record ('i, 'rc) normalized_intent =
  ni_intent :: 'i
  ni_profile :: "'rc deployment_profile"
  ni_gate_policy_digest :: bytes

text \<open>A gate-policy identifier is its bytes; \<open>pa_registry\<close> is the looked up descriptor and codec.\<close>

record ('rc, 'd, 'c, 'i) parwana =
  pa_all_submitted :: 'rc
  pa_explicit :: "string list \<Rightarrow> intent_error + 'rc"
  pa_gate_policy_id :: "'rc \<Rightarrow> intent_error + bytes"
  pa_profile_validate :: "'rc deployment_profile \<Rightarrow> intent_error + unit"
  pa_profile_bytes :: "'rc deployment_profile \<Rightarrow> intent_error + bytes"
  pa_descriptor :: "'d option"
  pa_codec :: "'c option"
  pa_intent_new :: "'d \<Rightarrow> 'c \<Rightarrow> bytes \<Rightarrow> bytes \<Rightarrow> u64 \<Rightarrow> bytes \<Rightarrow> bytes list \<Rightarrow> intent_error + 'i"
  pa_intent_validate :: "'i \<Rightarrow> intent_error + unit"
  pa_parameters_commitment :: "'i \<Rightarrow> bytes"
  pa_debug :: "intent_error \<Rightarrow> string"

section \<open>Validation\<close>

text \<open>\<open>char::is_control\<close> over UTF-8: the ASCII controls, DEL and U+0080 to U+009F.\<close>

fun has_control :: "string \<Rightarrow> bool" where
  "has_control [] = False"
| "has_control (c # cs) =
     ((let n = of_char c :: nat in
       n < 32 \<or> n = 127
       \<or> (n = 194 \<and> (case cs of [] \<Rightarrow> False | d # _ \<Rightarrow> 128 \<le> (of_char d :: nat) \<and> (of_char d :: nat) \<le> 159)))
      \<or> has_control cs)"

definition validate_task :: "string \<Rightarrow> normalize_error + unit" where
  "validate_task task = reject_if (task \<noteq> github_deployment_task_v1) UnsupportedTask"

definition validate_auto_merge :: "bool \<Rightarrow> normalize_error + unit" where
  "validate_auto_merge auto_merge = reject_if auto_merge AutoMergeForbidden"

definition validate_environment_classification :: "bool \<Rightarrow> bool \<Rightarrow> normalize_error + unit" where
  "validate_environment_classification production transient =
     reject_if (\<not> production \<or> transient) InvalidEnvironmentClassification"

definition validate_display_field :: "string \<Rightarrow> string \<Rightarrow> normalize_error + unit" where
  "validate_display_field name value =
     (if value = [] then Inl (EmptyField name)
      else if length value > max_display_bytes then Inl (DisplayFieldTooLong name)
      else if trim value \<noteq> value then Inl (DisplayFieldTooLong name)
      else if has_control value then Inl (DisplayFieldTooLong name)
      else Inr ())"

definition validate_commit_sha :: "string \<Rightarrow> normalize_error + unit" where
  "validate_commit_sha sha =
     (if length sha \<noteq> 40 then Inl InvalidCommitSha
      else if \<not> list_all is_lower_hex sha then Inl InvalidCommitSha
      else Inr ())"

definition validate_context_name :: "string \<Rightarrow> normalize_error + unit" where
  "validate_context_name context =
     (if context = [] then Inl (InvalidContextName ''context name is empty'')
      else if trim context \<noteq> context then Inl (InvalidContextName ''context name has leading/trailing whitespace'')
      else if length context > max_display_bytes then Inl (InvalidContextName ''context name too long'')
      else if has_control context then Inl (InvalidContextName ''context name contains control characters'')
      else Inr ())"

fun validate_context_names :: "string list \<Rightarrow> normalize_error + unit" where
  "validate_context_names [] = Inr ()"
| "validate_context_names (x # xs) = try_result (validate_context_name x) (\<lambda>_. validate_context_names xs)"

text \<open>The loop over \<open>windows(2)\<close>.\<close>

fun validate_order :: "string list \<Rightarrow> normalize_error + unit" where
  "validate_order (x # y # zs) =
     (if y \<le> x then Inl InvalidRequiredContexts else validate_order (y # zs))"
| "validate_order _ = Inr ()"

definition validate_required_contexts ::
  "('rc, 'd, 'c, 'i) parwana \<Rightarrow> required_contexts_mode \<Rightarrow> normalize_error + 'rc" where
  "validate_required_contexts P mode =
     (case mode of
        AllSubmitted \<Rightarrow> Inr (pa_all_submitted P)
      | ExplicitNonEmpty contexts \<Rightarrow>
          if contexts = [] then Inl InvalidRequiredContexts
          else if length contexts > max_required_contexts then Inl InvalidRequiredContexts
          else
            try_result (validate_context_names contexts) (\<lambda>_.
            try_result (validate_order contexts) (\<lambda>_.
            map_error (\<lambda>_. InvalidRequiredContexts) (pa_explicit P contexts))))"

section \<open>Building the intent\<close>

fun map_profile_error :: "(intent_error \<Rightarrow> string) \<Rightarrow> intent_error \<Rightarrow> normalize_error" where
  "map_profile_error dbg (intent_error.EmptyField f) = EmptyField f"
| "map_profile_error dbg (intent_error.DisplayFieldTooLong f) = DisplayFieldTooLong f"
| "map_profile_error dbg intent_error.InvalidCommitSha = InvalidCommitSha"
| "map_profile_error dbg intent_error.InvalidRequiredContexts = InvalidRequiredContexts"
| "map_profile_error dbg intent_error.GatePolicyMismatch = GatePolicyMismatch"
| "map_profile_error dbg intent_error.InvalidStableId = InvalidStableId"
| "map_profile_error dbg InvalidEvidenceSourceDeclaration = InvalidRequiredContexts"
| "map_profile_error dbg e = InvalidContextsMode (dbg e)"

fun map_build_error :: "(intent_error \<Rightarrow> string) \<Rightarrow> intent_error \<Rightarrow> normalize_error" where
  "map_build_error dbg (intent_error.EmptyField f) = EmptyField f"
| "map_build_error dbg intent_error.IdentityTooLong = IdentityTooLong"
| "map_build_error dbg intent_error.TooManyContextCommitments = TooManyContextCommitments"
| "map_build_error dbg ParametersCommitmentMismatch = ParwanaError ''parameters commitment mismatch''"
| "map_build_error dbg e = ParwanaError (''intent construction failed: '' @ dbg e)"

fun map_validate_error :: "(intent_error \<Rightarrow> string) \<Rightarrow> intent_error \<Rightarrow> normalize_error" where
  "map_validate_error dbg UnsupportedVersion = ParwanaError ''unsupported protocol version''"
| "map_validate_error dbg intent_error.UnsupportedTask = UnsupportedTask"
| "map_validate_error dbg TargetMismatch = ParwanaError ''target mismatch''"
| "map_validate_error dbg ParametersCommitmentMismatch = ParwanaError ''parameters commitment mismatch''"
| "map_validate_error dbg (intent_error.EmptyField f) = EmptyField f"
| "map_validate_error dbg intent_error.IdentityTooLong = IdentityTooLong"
| "map_validate_error dbg intent_error.TooManyContextCommitments = TooManyContextCommitments"
| "map_validate_error dbg e = ParwanaError (''intent validation failed: '' @ dbg e)"

definition build_github_action_intent ::
  "('rc, 'd, 'c, 'i) parwana \<Rightarrow> 'rc deployment_profile \<Rightarrow> bytes \<Rightarrow> u64 \<Rightarrow> bytes \<Rightarrow> bytes list \<Rightarrow> intent_error + 'i" where
  "build_github_action_intent P profile requested_by requested_at nonce commitments =
     (case pa_descriptor P of
        None \<Rightarrow> Inl UnregisteredProfile
      | Some descriptor \<Rightarrow>
          (case pa_codec P of
             None \<Rightarrow> Inl UnregisteredProfile
           | Some codec \<Rightarrow>
               try_result (pa_profile_bytes P profile) (\<lambda>profile_bytes.
               pa_intent_new P descriptor codec profile_bytes requested_by requested_at nonce commitments)))"

definition profile_of :: "github_deployment_input \<Rightarrow> 'rc \<Rightarrow> bytes \<Rightarrow> 'rc deployment_profile" where
  "profile_of input contexts gate =
     \<lparr>dp_repository_id = gi_repository_id input, dp_repository_owner = gi_repository_owner input,
      dp_repository_name = gi_repository_name input, dp_commit_sha = gi_commit_sha input,
      dp_exact_ref = gi_ref_field input, dp_environment_id = gi_environment_id input,
      dp_environment_name = gi_environment_name input, dp_required_contexts = contexts,
      dp_payload_commitment = replicate 32 (CHR 0x00), dp_artifact_digest = gi_artifact_digest input,
      dp_deployment_gate_policy_digest = gate\<rparr>"

definition normalize ::
  "('rc, 'd, 'c, 'i) parwana \<Rightarrow> github_deployment_input \<Rightarrow> bytes \<Rightarrow> u64 \<Rightarrow> bytes \<Rightarrow> bytes list
    \<Rightarrow> normalize_error + ('i, 'rc) normalized_intent" where
  "normalize P input requested_by requested_at nonce commitments =
     try_result (validate_task (gi_task input)) (\<lambda>_.
     try_result (validate_auto_merge (gi_auto_merge input)) (\<lambda>_.
     try_result (validate_environment_classification (gi_production_environment input)
       (gi_transient_environment input)) (\<lambda>_.
     try_result (reject_if (gi_repository_id input = 0) InvalidStableId) (\<lambda>_.
     try_result (reject_if (gi_environment_id input = 0) InvalidStableId) (\<lambda>_.
     try_result (validate_display_field ''repository_owner'' (gi_repository_owner input)) (\<lambda>_.
     try_result (validate_display_field ''repository_name'' (gi_repository_name input)) (\<lambda>_.
     try_result (validate_display_field ''environment_name'' (gi_environment_name input)) (\<lambda>_.
     try_result (validate_commit_sha (gi_commit_sha input)) (\<lambda>_.
     try_result (reject_if (gi_ref_field input \<noteq> gi_commit_sha input) RefMismatch) (\<lambda>_.
     try_result (validate_required_contexts P (gi_required_contexts input)) (\<lambda>contexts.
     try_result (map_error (\<lambda>_. GatePolicyMismatch) (pa_gate_policy_id P contexts)) (\<lambda>gate.
     try_result (reject_if (case gi_deployment_gate_policy_digest input of
         None \<Rightarrow> False | Some supplied \<Rightarrow> supplied \<noteq> gate) GatePolicyMismatch) (\<lambda>_.
     try_result (reject_if (requested_by = []) (EmptyField ''requested_by'')) (\<lambda>_.
     try_result (reject_if (length requested_by > max_identity_bytes) IdentityTooLong) (\<lambda>_.
     try_result (reject_if (length commitments > 32) TooManyContextCommitments) (\<lambda>_.
     (let profile = profile_of input contexts gate in
     try_result (map_error (map_profile_error (pa_debug P)) (pa_profile_validate P profile)) (\<lambda>_.
     try_result (map_error (map_build_error (pa_debug P))
       (build_github_action_intent P profile requested_by requested_at nonce commitments)) (\<lambda>intent.
     try_result (map_error (map_validate_error (pa_debug P)) (pa_intent_validate P intent)) (\<lambda>_.
     Inr \<lparr>ni_intent = intent, ni_profile = profile, ni_gate_policy_digest = gate\<rparr>))))))))))))))))))))"

definition compute_gate_policy_digest ::
  "('rc, 'd, 'c, 'i) parwana \<Rightarrow> required_contexts_mode \<Rightarrow> normalize_error + bytes" where
  "compute_gate_policy_digest P mode =
     try_result
       (case mode of
          AllSubmitted \<Rightarrow> Inr (pa_all_submitted P)
        | ExplicitNonEmpty contexts \<Rightarrow>
            try_result (validate_required_contexts P mode) (\<lambda>_.
            map_error (\<lambda>_. InvalidRequiredContexts) (pa_explicit P contexts)))
       (\<lambda>contexts. map_error (\<lambda>_. GatePolicyMismatch) (pa_gate_policy_id P contexts))"

fun map_payload_error :: "(intent_error \<Rightarrow> string) \<Rightarrow> intent_error \<Rightarrow> normalize_error" where
  "map_payload_error dbg (intent_error.EmptyField f) = EmptyField f"
| "map_payload_error dbg (intent_error.DisplayFieldTooLong f) = DisplayFieldTooLong f"
| "map_payload_error dbg intent_error.InvalidCommitSha = InvalidCommitSha"
| "map_payload_error dbg intent_error.InvalidRequiredContexts = InvalidRequiredContexts"
| "map_payload_error dbg intent_error.GatePolicyMismatch = GatePolicyMismatch"
| "map_payload_error dbg intent_error.InvalidStableId = InvalidStableId"
| "map_payload_error dbg e = ParwanaError (''profile validation failed: '' @ dbg e)"

definition build_payload_commitment ::
  "('rc, 'd, 'c, 'i) parwana \<Rightarrow> 'rc deployment_profile \<Rightarrow> normalize_error + bytes" where
  "build_payload_commitment P profile =
     try_result (map_error (map_payload_error (pa_debug P)) (pa_profile_validate P profile)) (\<lambda>_.
     try_result (map_error (\<lambda>_. ParwanaError ''intent construction failed'')
       (build_github_action_intent P profile [CHR 0x00] 0 (replicate 32 (CHR 0x00)) [])) (\<lambda>intent.
     Inr (pa_parameters_commitment P intent)))"

section \<open>Properties\<close>

lemma validate_context_names_Inr:
  "validate_context_names xs = Inr u \<longleftrightarrow> list_all (\<lambda>x. validate_context_name x = Inr ()) xs"
  by (induction xs) (auto simp: try_result_Inr)

text \<open>The windows are in order exactly when the list is strictly sorted, hence without duplicates.\<close>

lemma validate_order_Inr: "validate_order xs = Inr u \<longleftrightarrow> sorted_wrt (<) xs"
proof (induction xs rule: validate_order.induct)
  case (1 x y zs)
  then show ?case by (auto simp: not_le intro: less_trans)
qed auto

text \<open>What the profile fixes of an input, apart from what the SDK decides.\<close>

definition display_ok :: "string \<Rightarrow> bool" where
  "display_ok s \<longleftrightarrow> s \<noteq> [] \<and> length s \<le> 255 \<and> trim s = s \<and> \<not> has_control s"

fun contexts_ok :: "required_contexts_mode \<Rightarrow> bool" where
  "contexts_ok AllSubmitted = True"
| "contexts_ok (ExplicitNonEmpty xs) =
     (xs \<noteq> [] \<and> length xs \<le> 32 \<and> list_all display_ok xs \<and> sorted_wrt (<) xs)"

fun contexts_value :: "('rc, 'd, 'c, 'i) parwana \<Rightarrow> required_contexts_mode \<Rightarrow> intent_error + 'rc" where
  "contexts_value P AllSubmitted = Inr (pa_all_submitted P)"
| "contexts_value P (ExplicitNonEmpty xs) = pa_explicit P xs"

definition input_ok :: "github_deployment_input \<Rightarrow> bool" where
  "input_ok i \<longleftrightarrow>
     gi_task i = ''deploy'' \<and> \<not> gi_auto_merge i \<and> gi_production_environment i \<and> \<not> gi_transient_environment i
     \<and> gi_repository_id i \<noteq> 0 \<and> gi_environment_id i \<noteq> 0
     \<and> display_ok (gi_repository_owner i) \<and> display_ok (gi_repository_name i) \<and> display_ok (gi_environment_name i)
     \<and> length (gi_commit_sha i) = 40 \<and> list_all is_lower_hex (gi_commit_sha i)
     \<and> gi_ref_field i = gi_commit_sha i \<and> contexts_ok (gi_required_contexts i)"

lemma validate_display_field_Inr: "validate_display_field n s = Inr u \<longleftrightarrow> display_ok s"
  by (auto simp: validate_display_field_def display_ok_def max_display_bytes_def)

lemma validate_context_name_Inr: "validate_context_name s = Inr u \<longleftrightarrow> display_ok s"
  by (auto simp: validate_context_name_def display_ok_def max_display_bytes_def)

lemma validate_commit_sha_Inr: "validate_commit_sha s = Inr u \<longleftrightarrow> length s = 40 \<and> list_all is_lower_hex s"
  by (simp add: validate_commit_sha_def)

lemma validate_required_contexts_Inr:
  "validate_required_contexts P m = Inr rc \<longleftrightarrow> contexts_ok m \<and> contexts_value P m = Inr rc"
  by (cases m)
    (auto simp: validate_required_contexts_def try_result_Inr validate_context_names_Inr validate_context_name_Inr
      validate_order_Inr max_required_contexts_def)

lemma digest_accepted: "\<not> (case d of None \<Rightarrow> False | Some supplied \<Rightarrow> supplied \<noteq> g) \<longleftrightarrow> d \<in> {None, Some g}"
  by (cases d) auto

lemma normalize_Inr:
  "normalize P input requested_by requested_at nonce commitments = Inr n \<longleftrightarrow>
     input_ok input
     \<and> (\<exists>contexts gate intent. contexts_value P (gi_required_contexts input) = Inr contexts
          \<and> pa_gate_policy_id P contexts = Inr gate
          \<and> gi_deployment_gate_policy_digest input \<in> {None, Some gate}
          \<and> 0 < length requested_by \<and> length requested_by \<le> 4096 \<and> length commitments \<le> 32
          \<and> pa_profile_validate P (profile_of input contexts gate) = Inr ()
          \<and> build_github_action_intent P (profile_of input contexts gate) requested_by requested_at nonce commitments
              = Inr intent
          \<and> pa_intent_validate P intent = Inr ()
          \<and> n = \<lparr>ni_intent = intent, ni_profile = profile_of input contexts gate, ni_gate_policy_digest = gate\<rparr>)"
  unfolding normalize_def Let_def try_result_Inr map_error_Inr reject_if_Inr validate_task_def validate_auto_merge_def
    validate_environment_classification_def validate_display_field_Inr validate_commit_sha_Inr
    validate_required_contexts_Inr input_ok_def github_deployment_task_v1_def max_identity_bytes_def
    digest_accepted length_greater_0_conv not_less not_not
  by (simp add: eq_commute [of _ n])

text \<open>
  C21. The normalizer accepts exactly the first production profile. An intent is produced if and only if the
  task is \<open>deploy\<close>, auto merge is off, the environment is production and not transient, the provider ids are not zero,
  the display fields are clean, the ref is the full lower-case commit, the explicit contexts are one to thirty-two clean
  names in strictly ascending order, a supplied gate digest equals the one derived from those very contexts, the
  requester and the commitments are within bounds, and the SDK accepts the profile and the intent; the
  profile then carries the input's own values and the derived digest.
\<close>

theorem normalize_accepts_iff:
  "normalize P input requested_by requested_at nonce commitments = Inr n \<longleftrightarrow>
     input_ok input
     \<and> (\<exists>contexts gate intent. contexts_value P (gi_required_contexts input) = Inr contexts
          \<and> pa_gate_policy_id P contexts = Inr gate
          \<and> gi_deployment_gate_policy_digest input \<in> {None, Some gate}
          \<and> 0 < length requested_by \<and> length requested_by \<le> 4096 \<and> length commitments \<le> 32
          \<and> pa_profile_validate P (profile_of input contexts gate) = Inr ()
          \<and> build_github_action_intent P (profile_of input contexts gate) requested_by requested_at nonce commitments
              = Inr intent
          \<and> pa_intent_validate P intent = Inr ()
          \<and> n = \<lparr>ni_intent = intent, ni_profile = profile_of input contexts gate, ni_gate_policy_digest = gate\<rparr>)"
  by (rule normalize_Inr)

lemma normalize_InrD:
  assumes "normalize P input r t c cs = Inr n"
  shows "\<exists>contexts. contexts_value P (gi_required_contexts input) = Inr contexts
    \<and> pa_gate_policy_id P contexts = Inr (ni_gate_policy_digest n)
    \<and> gi_deployment_gate_policy_digest input \<in> {None, Some (ni_gate_policy_digest n)}
    \<and> dp_deployment_gate_policy_digest (ni_profile n) = ni_gate_policy_digest n"
  using assms unfolding normalize_Inr by (auto simp: profile_of_def)

lemma normalize_without_digest:
  "normalize P input r t c cs = Inr n \<Longrightarrow>
    normalize P (input\<lparr>gi_deployment_gate_policy_digest := None\<rparr>) r t c cs = Inr n"
  unfolding normalize_Inr by (auto simp: profile_of_def input_ok_def)

text \<open>The identifier of a context set determines the set, and the two modes give different sets.\<close>

definition gate_laws :: "('rc, 'd, 'c, 'i) parwana \<Rightarrow> bool" where
  "gate_laws P \<longleftrightarrow>
     (\<forall>a b g. pa_gate_policy_id P a = Inr g \<longrightarrow> pa_gate_policy_id P b = Inr g \<longrightarrow> a = b)
     \<and> (\<forall>m k c. contexts_value P m = Inr c \<longrightarrow> contexts_value P k = Inr c \<longrightarrow> m = k)"

lemma compute_gate_policy_digest_Inr:
  "compute_gate_policy_digest P m = Inr d \<longleftrightarrow>
    contexts_ok m \<and> (\<exists>c. contexts_value P m = Inr c \<and> pa_gate_policy_id P c = Inr d)"
  by (cases m) (auto simp: compute_gate_policy_digest_def try_result_Inr validate_required_contexts_Inr)

text \<open>
  A digest pins the gate. An input that carries the digest computed for the administrator's context
  mode is accepted only with that very mode, so no other list of contexts passes under it, and the intent carries the
  digest. The digest is optional, though: the same input without it is accepted just the same, so an agent that leaves it
  out is held to no gate but the one it names itself.
\<close>

theorem gate_digest_pins_contexts:
  assumes "gate_laws P" and "compute_gate_policy_digest P mode = Inr d"
    and "gi_deployment_gate_policy_digest input = Some d"
    and "normalize P input requested_by requested_at nonce commitments = Inr n"
  shows "gi_required_contexts input = mode \<and> ni_gate_policy_digest n = d
    \<and> dp_deployment_gate_policy_digest (ni_profile n) = d
    \<and> normalize P (input\<lparr>gi_deployment_gate_policy_digest := None\<rparr>) requested_by requested_at nonce commitments
        = Inr n"
proof -
  from normalize_InrD [OF assms(4)] assms(3) obtain c where
    c: "contexts_value P (gi_required_contexts input) = Inr c" "pa_gate_policy_id P c = Inr d"
    and d: "ni_gate_policy_digest n = d" "dp_deployment_gate_policy_digest (ni_profile n) = d" by auto
  from assms(2) obtain c' where "contexts_value P mode = Inr c'" "pa_gate_policy_id P c' = Inr d"
    by (auto simp: compute_gate_policy_digest_Inr)
  with c assms(1) have "gi_required_contexts input = mode" unfolding gate_laws_def by metis
  with d normalize_without_digest [OF assms(4)] show ?thesis by simp
qed

text \<open>An SDK with at most one context per gate, for the witness.\<close>

definition parwana_ref :: "(string option, unit, unit, bytes) parwana" where
  "parwana_ref =
     \<lparr>pa_all_submitted = None,
      pa_explicit = (\<lambda>xs. case xs of [x] \<Rightarrow> Inr (Some x) | _ \<Rightarrow> Inl intent_error.InvalidRequiredContexts),
      pa_gate_policy_id = (\<lambda>rc. case rc of None \<Rightarrow> Inr [] | Some x \<Rightarrow> Inr (CHR ''c'' # x)),
      pa_profile_validate = (\<lambda>p. Inr ()), pa_profile_bytes = (\<lambda>p. Inr (dp_commit_sha p)),
      pa_descriptor = Some (), pa_codec = Some (),
      pa_intent_new = (\<lambda>d c b r t n cs. Inr b), pa_intent_validate = (\<lambda>i. Inr ()),
      pa_parameters_commitment = (\<lambda>i. i), pa_debug = (\<lambda>e. ''error'')\<rparr>"

lemma gate_laws_ref: "gate_laws parwana_ref"
proof -
  have "contexts_value parwana_ref m = Inr c \<Longrightarrow> contexts_value parwana_ref k = Inr c \<Longrightarrow> m = k" for m k c
    by (cases m; cases k) (auto simp: parwana_ref_def split: list.splits)
  moreover have "pa_gate_policy_id parwana_ref a = Inr g \<Longrightarrow> pa_gate_policy_id parwana_ref b = Inr g \<Longrightarrow> a = b" for a b g
    by (cases a; cases b) (auto simp: parwana_ref_def)
  ultimately show ?thesis unfolding gate_laws_def by blast
qed

definition example_input :: github_deployment_input where
  "example_input =
     \<lparr>gi_repository_id = 1, gi_repository_owner = ''diewan'', gi_repository_name = ''piteka'',
      gi_commit_sha = replicate 40 (CHR ''a''), gi_ref_field = replicate 40 (CHR ''a''), gi_task = ''deploy'',
      gi_environment_id = 7, gi_environment_name = ''prod'', gi_required_contexts = ExplicitNonEmpty [''ci''],
      gi_auto_merge = False, gi_production_environment = True, gi_transient_environment = False,
      gi_artifact_digest = None, gi_deployment_gate_policy_digest = Some ''cci''\<rparr>"

theorem gate_digest_pins_contexts_witness:
  "compute_gate_policy_digest parwana_ref (ExplicitNonEmpty [''ci'']) = Inr ''cci''
   \<and> (\<exists>n. normalize parwana_ref example_input ''alice'' 5 (replicate 32 (CHR 0x00)) [] = Inr n
        \<and> ni_gate_policy_digest n = ''cci'')"
proof -
  have disp: "display_ok ''diewan'' \<and> display_ok ''piteka'' \<and> display_ok ''prod'' \<and> display_ok ''ci''"
    by (simp add: display_ok_def trim_id ws_len_def ws_len_end_def ws_seq_def)
  have d: "compute_gate_policy_digest parwana_ref (ExplicitNonEmpty [''ci'']) = Inr ''cci''"
    using disp by (simp add: compute_gate_policy_digest_Inr) (simp add: parwana_ref_def)
  have "input_ok example_input"
    using disp
    by (simp add: input_ok_def example_input_def list_all_length is_lower_hex_def is_ascii_digit_def)
  then have "\<exists>n. normalize parwana_ref example_input ''alice'' 5 (replicate 32 (CHR 0x00)) [] = Inr n"
    unfolding normalize_Inr
    by (simp add: example_input_def parwana_ref_def build_github_action_intent_def)
  then obtain n where n: "normalize parwana_ref example_input ''alice'' 5 (replicate 32 (CHR 0x00)) [] = Inr n" ..
  have "gi_deployment_gate_policy_digest example_input = Some ''cci''" by (simp add: example_input_def)
  from gate_digest_pins_contexts [OF gate_laws_ref d this n] d n show ?thesis by blast
qed

end
