(* ===== verification/Anchor.thy ===== *)
theory Anchor
  imports Piteka_Prelude
begin

text \<open>
  Independent single-use anchoring: the port of \<^verbatim>\<open>crates/piteka-ports/src/anchor.rs\<close>, its in-process
  backing \<open>LocalCsvSealAnchor\<close> of \<^verbatim>\<open>crates/piteka-infra/src/anchor.rs\<close>, and the record an exported bundle
  keeps of a consumption (\<^verbatim>\<open>crates/piteka-parwana/src/anchor.rs\<close>). What the port documents is the locale
  \<open>single_use_anchor\<close>, in which the agreement of all proofs of a seal is derived; the local backing
  interprets it. The mutex makes each operation one step; it recovers a poisoned lock.
\<close>

section \<open>The port\<close>

type_synonym digest32 = bytes

definition local_seal_backend :: string where
  "local_seal_backend = ''csv-seal.local.v1''"

record anchor_ref =
  af_backend :: string
  af_reference :: bytes

record consumption_proof =
  cp_seal_id :: digest32
  cp_nullifier :: digest32
  cp_commitment :: digest32
  cp_backend :: string

datatype anchor_error =
    SealNotFound
  | SealAlreadyConsumed
  | CommitmentMismatch
  | SealAlreadyExists
  | AnchorBackend string

text \<open>
  The contract: \<open>view\<close> is what a backing knows of a seal, its commitment and the nullifier that consumed it.
  Creating a seal commits a free one and changes no other; consuming answers the commitment and uses
  the seal up; no operation changes a commitment or a nullifier that is there.
\<close>

type_synonym seal_view = "(digest32 \<times> digest32 option) option"

definition seal_le :: "seal_view \<Rightarrow> seal_view \<Rightarrow> bool" where
  "seal_le a b \<longleftrightarrow>
     (case a of
        None \<Rightarrow> True
      | Some (c, None) \<Rightarrow> (\<exists>n. b = Some (c, n))
      | Some (c, Some n) \<Rightarrow> b = Some (c, Some n))"

lemma seal_le_refl [simp]: "seal_le a a"
  by (auto simp: seal_le_def split: option.split)

lemma seal_le_trans: "seal_le a b \<Longrightarrow> seal_le b c \<Longrightarrow> seal_le a c"
  by (auto simp: seal_le_def split: option.splits prod.splits)

lemma seal_le_consumed: "seal_le (Some (c, Some n)) b \<Longrightarrow> b = Some (c, Some n)"
  by (simp add: seal_le_def)

text \<open>A caller's sequence of operations, with the proofs it was given.\<close>

datatype anchor_call = CreateSeal digest32 digest32 | ConsumeSeal digest32 digest32

fun anchor_run ::
  "(digest32 \<Rightarrow> digest32 \<Rightarrow> ('s, anchor_error, anchor_ref) op)
    \<Rightarrow> (digest32 \<Rightarrow> digest32 \<Rightarrow> ('s, anchor_error, consumption_proof) op)
    \<Rightarrow> anchor_call list \<Rightarrow> 's \<Rightarrow> consumption_proof list \<times> 's" where
  "anchor_run create consume [] s = ([], s)"
| "anchor_run create consume (CreateSeal i c # calls) s = anchor_run create consume calls (snd (create i c s))"
| "anchor_run create consume (ConsumeSeal i n # calls) s =
     (case consume i n s of
        (Inl e, s') \<Rightarrow> anchor_run create consume calls s'
      | (Inr p, s') \<Rightarrow> (case anchor_run create consume calls s' of (ps, s'') \<Rightarrow> (p # ps, s'')))"

locale single_use_anchor =
  fixes view :: "'s \<Rightarrow> digest32 \<Rightarrow> seal_view"
    and create :: "digest32 \<Rightarrow> digest32 \<Rightarrow> ('s, anchor_error, anchor_ref) op"
    and consume :: "digest32 \<Rightarrow> digest32 \<Rightarrow> ('s, anchor_error, consumption_proof) op"
  assumes create_keeps: "seal_le (view s j) (view (snd (create i c s)) j)"
    and consume_keeps: "seal_le (view s j) (view (snd (consume i n s)) j)"
    and consume_proof: "consume i n s = (Inr p, s') \<Longrightarrow>
      cp_seal_id p = i \<and> cp_nullifier p = n \<and> view s' i = Some (cp_commitment p, Some n)"
    and consume_again: "view s i = Some (c, Some n) \<Longrightarrow>
      (\<exists>p. consume i n s = (Inr p, s)) \<and> (m \<noteq> n \<longrightarrow> consume i m s = (Inl SealAlreadyConsumed, s))"
begin

lemma run_keeps: "seal_le (view s j) (view (snd (anchor_run create consume calls s)) j)"
proof (induction calls arbitrary: s)
  case (Cons a calls)
  show ?case
  proof (cases a)
    case (CreateSeal i c)
    with Cons [of "snd (create i c s)"] create_keeps [of s j i c] show ?thesis by (auto intro: seal_le_trans)
  next
    case (ConsumeSeal i n)
    with Cons [of "snd (consume i n s)"] consume_keeps [of s j i n] show ?thesis
      by (auto intro: seal_le_trans split: prod.split sum.split)
  qed
qed simp

text \<open>Every proof given out agrees with what the backing knows at the end.\<close>

lemma run_proofs:
  "p \<in> set (fst (anchor_run create consume calls s)) \<Longrightarrow>
    view (snd (anchor_run create consume calls s)) (cp_seal_id p) = Some (cp_commitment p, Some (cp_nullifier p))"
proof (induction calls arbitrary: s)
  case (Cons a calls)
  show ?case
  proof (cases a)
    case (CreateSeal i c)
    with Cons show ?thesis by simp
  next
    case (ConsumeSeal i n)
    obtain r s' where c: "consume i n s = (r, s')" by fastforce
    show ?thesis
    proof (cases r)
      case (Inl e)
      with Cons ConsumeSeal c show ?thesis by simp
    next
      case (Inr q)
      with c have q: "cp_seal_id q = i" "view s' i = Some (cp_commitment q, Some n)" "cp_nullifier q = n"
        using consume_proof by auto
      from run_keeps [of s' i calls] q(2)
      have "view (snd (anchor_run create consume calls s')) i = Some (cp_commitment q, Some n)"
        by (auto dest: seal_le_consumed)
      with Cons(1) [of s'] Cons(2) ConsumeSeal c Inr q show ?thesis by (auto split: prod.splits)
    qed
  qed
qed simp

end

section \<open>The local backing\<close>

record seal_state =
  ss_commitment :: digest32
  ss_consumed_by :: "digest32 option"

type_synonym seals = "digest32 \<rightharpoonup> seal_state"

definition local_anchor_new :: seals where
  "local_anchor_new = Map.empty"

definition create_seal :: "digest32 \<Rightarrow> digest32 \<Rightarrow> (seals, anchor_error, anchor_ref) op" where
  "create_seal seal_id commitment seals =
     (case seals seal_id of
        Some existing \<Rightarrow>
          if ss_commitment existing = commitment
          then (Inr \<lparr>af_backend = local_seal_backend, af_reference = seal_id\<rparr>, seals)
          else (Inl SealAlreadyExists, seals)
      | None \<Rightarrow>
          (Inr \<lparr>af_backend = local_seal_backend, af_reference = seal_id\<rparr>,
           seals(seal_id \<mapsto> \<lparr>ss_commitment = commitment, ss_consumed_by = None\<rparr>)))"

definition consume_seal :: "digest32 \<Rightarrow> digest32 \<Rightarrow> (seals, anchor_error, consumption_proof) op" where
  "consume_seal seal_id nullifier seals =
     (case seals seal_id of
        None \<Rightarrow> (Inl SealNotFound, seals)
      | Some seal \<Rightarrow>
          (let proof_of = \<lparr>cp_seal_id = seal_id, cp_nullifier = nullifier, cp_commitment = ss_commitment seal,
                           cp_backend = local_seal_backend\<rparr> in
           case ss_consumed_by seal of
             Some existing \<Rightarrow>
               if existing = nullifier then (Inr proof_of, seals) else (Inl SealAlreadyConsumed, seals)
           | None \<Rightarrow> (Inr proof_of, seals(seal_id \<mapsto> seal\<lparr>ss_consumed_by := Some nullifier\<rparr>))))"

definition anchor_commitment :: "digest32 \<Rightarrow> (seals, anchor_error, anchor_ref) op" where
  "anchor_commitment bundle_digest = ok \<lparr>af_backend = local_seal_backend, af_reference = bundle_digest\<rparr>"

definition local_view :: "seals \<Rightarrow> digest32 \<Rightarrow> seal_view" where
  "local_view seals i = map_option (\<lambda>x. (ss_commitment x, ss_consumed_by x)) (seals i)"

lemma consume_seal_Inr:
  "consume_seal i n s = (Inr p, s') \<Longrightarrow>
    cp_seal_id p = i \<and> cp_nullifier p = n \<and> local_view s' i = Some (cp_commitment p, Some n)"
  by (auto simp: consume_seal_def local_view_def Let_def split: option.splits if_splits)

interpretation local_anchor: single_use_anchor local_view create_seal consume_seal
proof (unfold_locales, goal_cases)
  case (1 s j i c)
  then show ?case by (auto simp: create_seal_def local_view_def seal_le_def split: option.split)
next
  case (2 s j i n)
  then show ?case by (auto simp: consume_seal_def local_view_def seal_le_def Let_def split: option.split)
next
  case (3 i n s p s')
  then show ?case by (rule consume_seal_Inr)
next
  case (4 s i c n m)
  then show ?case by (auto simp: consume_seal_def local_view_def Let_def)
qed

section \<open>The record of a consumption\<close>

record seal_consumption_record =
  sr_seal_id :: digest32
  sr_nullifier :: digest32
  sr_commitment :: digest32
  sr_anchor_backend :: string

definition consumption_record_from_proof :: "consumption_proof \<Rightarrow> seal_consumption_record" where
  "consumption_record_from_proof p =
     \<lparr>sr_seal_id = cp_seal_id p, sr_nullifier = cp_nullifier p, sr_commitment = cp_commitment p,
      sr_anchor_backend = cp_backend p\<rparr>"

lemma local_proofs_backend:
  "p \<in> set (fst (anchor_run create_seal consume_seal calls s)) \<Longrightarrow> cp_backend p = local_seal_backend"
proof (induction calls arbitrary: s)
  case (Cons a calls)
  show ?case
  proof (cases a)
    case (CreateSeal i c)
    with Cons show ?thesis by simp
  next
    case (ConsumeSeal i n)
    have "cp_backend q = local_seal_backend" if "consume_seal i n s = (Inr q, s')" for q s'
      using that by (auto simp: consume_seal_def Let_def split: option.splits if_splits)
    with ConsumeSeal Cons(2) Cons(1) [of "snd (consume_seal i n s)"] show ?thesis
      by (auto split: prod.splits sum.splits)
  qed
qed simp

text \<open>
  A seal is used once. Whatever sequence of creations and consumptions a caller runs, on whatever seals were
  there, all proofs it is given for one seal are the same proof and turn into the same consumption
  record; from then on the seal is known with that commitment and that nullifier, presenting the
  nullifier again is answered, and every other nullifier is refused as a double use.
\<close>

theorem seal_proofs_agree:
  assumes "anchor_run create_seal consume_seal calls s = (proofs, s')" and "p \<in> set proofs"
    and "q \<in> set proofs" and "cp_seal_id p = cp_seal_id q"
  shows "consumption_record_from_proof p = consumption_record_from_proof q
    \<and> fst (consume_seal (cp_seal_id p) (cp_nullifier q) s') = Inr p
    \<and> (n = cp_nullifier p \<or> consume_seal (cp_seal_id p) n s' = (Inl SealAlreadyConsumed, s'))"
proof -
  have v: "local_view s' (cp_seal_id x) = Some (cp_commitment x, Some (cp_nullifier x))
      \<and> cp_backend x = local_seal_backend" if "x \<in> set proofs" for x
    using local_anchor.run_proofs [of x calls s] local_proofs_backend [of x calls s] assms(1) that by simp
  with assms(2-4) have eq: "p = q" by (metis (full_types) consumption_proof.equality prod.inject option.inject old.unit.exhaust)
  moreover have "fst (consume_seal (cp_seal_id p) (cp_nullifier p) s') = Inr p"
    using v [OF assms(2)] by (auto simp: consume_seal_def local_view_def Let_def)
  ultimately show ?thesis
    using v [OF assms(2)] local_anchor.consume_again [of s' "cp_seal_id p" "cp_commitment p" "cp_nullifier p" n]
    by auto
qed

theorem seal_proofs_agree_witness:
  "\<exists>p s'. consume_seal ''seal'' ''token'' s' = (Inr p, s') \<and> cp_commitment p = ''intent''
    \<and> consume_seal ''seal'' ''other'' s' = (Inl SealAlreadyConsumed, s')"
proof -
  let ?p = "\<lparr>cp_seal_id = ''seal'', cp_nullifier = ''token'', cp_commitment = ''intent'',
    cp_backend = local_seal_backend\<rparr>"
  let ?s = "[''seal'' \<mapsto> \<lparr>ss_commitment = ''intent'', ss_consumed_by = Some ''token''\<rparr>]"
  have run: "anchor_run create_seal consume_seal
      [CreateSeal ''seal'' ''intent'', ConsumeSeal ''seal'' ''token'', ConsumeSeal ''seal'' ''other'',
       ConsumeSeal ''seal'' ''token''] local_anchor_new = ([?p, ?p], ?s)"
    by (simp add: create_seal_def consume_seal_def local_anchor_new_def Let_def)
  have "consume_seal ''seal'' ''other'' ?s = (Inl SealAlreadyConsumed, ?s)"
    using seal_proofs_agree [OF run, of ?p ?p "''other''"] by simp
  then show ?thesis by (intro exI [of _ ?p] exI [of _ ?s]) (simp add: consume_seal_def Let_def)
qed

end
