(* ===== verification/Parwana_Contract.thy ===== *)
theory Parwana_Contract
  imports Piteka_Prelude
begin

text \<open>
  The adapter of \<^verbatim>\<open>crates/piteka-parwana/src/lib.rs\<close> between the program and the accountability SDK: the
  version check that binds it, the canonical objects it passes around unchanged, and the encoding
  of intents and receipts. The SDK (crate csv-sdk) is an argument: a record of its constants and functions,
  whose errors are the text the adapter prints of them.
\<close>

section \<open>Versions\<close>

definition pinned_contract_version :: string where
  "pinned_contract_version = ''0.1.7''"

definition expected_protocol_version :: "u16 \<times> u16" where
  "expected_protocol_version = (0, 1)"

definition expected_object_version :: u16 where
  "expected_object_version = 1"

record contract_versions =
  cv_protocol_major :: u16
  cv_protocol_minor :: u16
  cv_object_version :: u16

text \<open>Intents, receipts, mandates, attempts and wire envelopes are types of the SDK.\<close>

record ('i, 'iw, 'r, 'm, 'a, 'k, 'w) sdk =
  sdk_protocol_major :: u16
  sdk_protocol_minor :: u16
  sdk_object_version :: u16
  sdk_execution_receipt_kind :: 'k
  sdk_encode_action_intent :: "'i \<Rightarrow> string + 'w"
  sdk_action_intent_from_wire :: "'iw \<Rightarrow> string + 'i"
  sdk_receipt_canonical_bytes :: "'r \<Rightarrow> 'm \<Rightarrow> 'a \<Rightarrow> string + bytes"
  sdk_receipt_id :: "'r \<Rightarrow> 'm \<Rightarrow> 'a \<Rightarrow> string + bytes"
  sdk_wire_new :: "'k \<Rightarrow> bytes \<Rightarrow> bytes \<Rightarrow> string + 'w"
  sdk_wire_canonical_bytes :: "'w \<Rightarrow> string + bytes"
  sdk_wire_kind :: "'w \<Rightarrow> 'k"
  sdk_wire_object_version :: "'w \<Rightarrow> u16"
  sdk_wire_object_id_hex :: "'w \<Rightarrow> string"

definition from_linked_sdk :: "('i, 'iw, 'r, 'm, 'a, 'k, 'w) sdk \<Rightarrow> contract_versions" where
  "from_linked_sdk K =
     \<lparr>cv_protocol_major = sdk_protocol_major K, cv_protocol_minor = sdk_protocol_minor K,
      cv_object_version = sdk_object_version K\<rparr>"

definition expected_versions :: contract_versions where
  "expected_versions =
     \<lparr>cv_protocol_major = fst expected_protocol_version, cv_protocol_minor = snd expected_protocol_version,
      cv_object_version = expected_object_version\<rparr>"

definition contract_versions_display :: "contract_versions \<Rightarrow> string" where
  "contract_versions_display v =
     ''protocol '' @ dec_nat (unat (cv_protocol_major v)) @ ''.'' @ dec_nat (unat (cv_protocol_minor v))
       @ '', object v'' @ dec_nat (unat (cv_object_version v))"

datatype adapter_error =
    ContractMismatch contract_versions contract_versions
  | InvalidIntent string
  | InvalidReceipt string
  | CorruptCanonicalObject

fun adapter_error_display :: "adapter_error \<Rightarrow> string" where
  "adapter_error_display (ContractMismatch expected found) =
     ''pinned Parwana contract '' @ pinned_contract_version @ '' expects '' @ contract_versions_display expected
       @ '', but the linked SDK reports '' @ contract_versions_display found"
| "adapter_error_display (InvalidIntent reason) = ''invalid action intent: '' @ reason"
| "adapter_error_display (InvalidReceipt reason) = ''invalid execution receipt: '' @ reason"
| "adapter_error_display CorruptCanonicalObject = ''canonical accountability object is malformed''"

definition verify_contract_versions :: "contract_versions \<Rightarrow> adapter_error + unit" where
  "verify_contract_versions found =
     (if found = expected_versions then Inr () else Inl (ContractMismatch expected_versions found))"

section \<open>Canonical objects\<close>

record 'w canonical_object =
  co_wire :: 'w

definition object_kind :: "('i, 'iw, 'r, 'm, 'a, 'k, 'w) sdk \<Rightarrow> 'w canonical_object \<Rightarrow> 'k" where
  "object_kind K x = sdk_wire_kind K (co_wire x)"

definition object_version :: "('i, 'iw, 'r, 'm, 'a, 'k, 'w) sdk \<Rightarrow> 'w canonical_object \<Rightarrow> u16" where
  "object_version K x = sdk_wire_object_version K (co_wire x)"

definition object_id_hex :: "('i, 'iw, 'r, 'm, 'a, 'k, 'w) sdk \<Rightarrow> 'w canonical_object \<Rightarrow> string" where
  "object_id_hex K x = sdk_wire_object_id_hex K (co_wire x)"

definition canonical_bytes ::
  "('i, 'iw, 'r, 'm, 'a, 'k, 'w) sdk \<Rightarrow> 'w canonical_object \<Rightarrow> adapter_error + bytes" where
  "canonical_bytes K x =
     (case sdk_wire_canonical_bytes K (co_wire x) of
        Inl _ \<Rightarrow> Inl CorruptCanonicalObject
      | Inr b \<Rightarrow> Inr b)"

definition into_wire :: "'w canonical_object \<Rightarrow> 'w" where
  "into_wire x = co_wire x"

definition from_wire ::
  "('i, 'iw, 'r, 'm, 'a, 'k, 'w) sdk \<Rightarrow> 'w \<Rightarrow> adapter_error + 'w canonical_object" where
  "from_wire K wire =
     (case sdk_wire_canonical_bytes K wire of
        Inl _ \<Rightarrow> Inl CorruptCanonicalObject
      | Inr _ \<Rightarrow> Inr \<lparr>co_wire = wire\<rparr>)"

section \<open>The contract\<close>

record parwana_contract =
  pc_versions :: contract_versions

definition bind_contract :: "('i, 'iw, 'r, 'm, 'a, 'k, 'w) sdk \<Rightarrow> adapter_error + parwana_contract" where
  "bind_contract K =
     (case verify_contract_versions (from_linked_sdk K) of
        Inl e \<Rightarrow> Inl e
      | Inr _ \<Rightarrow> Inr \<lparr>pc_versions = from_linked_sdk K\<rparr>)"

definition contract_version :: "parwana_contract \<Rightarrow> string" where
  "contract_version C = pinned_contract_version"

definition encode_action_intent ::
  "('i, 'iw, 'r, 'm, 'a, 'k, 'w) sdk \<Rightarrow> parwana_contract \<Rightarrow> 'i \<Rightarrow> adapter_error + 'w canonical_object" where
  "encode_action_intent K C intent =
     (case sdk_encode_action_intent K intent of
        Inl e \<Rightarrow> Inl (InvalidIntent e)
      | Inr wire \<Rightarrow> Inr \<lparr>co_wire = wire\<rparr>)"

definition decode_action_intent ::
  "('i, 'iw, 'r, 'm, 'a, 'k, 'w) sdk \<Rightarrow> parwana_contract \<Rightarrow> 'iw \<Rightarrow> adapter_error + 'i" where
  "decode_action_intent K C wire =
     (case sdk_action_intent_from_wire K wire of
        Inl e \<Rightarrow> Inl (InvalidIntent e)
      | Inr intent \<Rightarrow> Inr intent)"

definition encode_execution_receipt ::
  "('i, 'iw, 'r, 'm, 'a, 'k, 'w) sdk \<Rightarrow> parwana_contract \<Rightarrow> 'r \<Rightarrow> 'm \<Rightarrow> 'a
    \<Rightarrow> adapter_error + 'w canonical_object" where
  "encode_execution_receipt K C receipt mandate attempt =
     (case sdk_receipt_canonical_bytes K receipt mandate attempt of
        Inl e \<Rightarrow> Inl (InvalidReceipt e)
      | Inr bytes \<Rightarrow>
          (case sdk_receipt_id K receipt mandate attempt of
             Inl e \<Rightarrow> Inl (InvalidReceipt e)
           | Inr object_id \<Rightarrow>
               (case sdk_wire_new K (sdk_execution_receipt_kind K) object_id bytes of
                  Inl reason \<Rightarrow> Inl (InvalidReceipt reason)
                | Inr wire \<Rightarrow> Inr \<lparr>co_wire = wire\<rparr>)))"

section \<open>Properties\<close>

text \<open>
  The adapter binds to the pinned contract and to no other. Binding succeeds exactly when the linked
  SDK reports protocol 0.1 and object version 1, the handle then carries those versions, and any other SDK is
  refused with the versions expected and found.
\<close>

theorem bind_exactly_pinned:
  "bind_contract K =
     (if sdk_protocol_major K = 0 \<and> sdk_protocol_minor K = 1 \<and> sdk_object_version K = 1
      then Inr \<lparr>pc_versions = \<lparr>cv_protocol_major = 0, cv_protocol_minor = 1, cv_object_version = 1\<rparr>\<rparr>
      else Inl (ContractMismatch \<lparr>cv_protocol_major = 0, cv_protocol_minor = 1, cv_object_version = 1\<rparr>
        (from_linked_sdk K)))"
  by (auto simp: bind_contract_def verify_contract_versions_def from_linked_sdk_def expected_versions_def
      expected_protocol_version_def expected_object_version_def)

text \<open>The SDK's envelope gives back what it was made of.\<close>

definition wire_laws :: "('i, 'iw, 'r, 'm, 'a, 'k, 'w) sdk \<Rightarrow> bool" where
  "wire_laws K \<longleftrightarrow>
     (\<forall>k i b w. sdk_wire_new K k i b = Inr w \<longrightarrow>
        sdk_wire_canonical_bytes K w = Inr b \<and> sdk_wire_kind K w = k)"

text \<open>
  A canonical receipt is the SDK's own bytes, kept. An encoded receipt carries exactly the bytes the SDK
  serialized for that receipt, mandate and attempt, is of the receipt kind, and reloads from its envelope as
  the same object; when the SDK refuses the bindings there is no object but the SDK's reason.
\<close>

theorem encoded_receipt_reloads:
  assumes "wire_laws K"
  shows "case encode_execution_receipt K C receipt mandate attempt of
      Inr x \<Rightarrow> (\<exists>b. sdk_receipt_canonical_bytes K receipt mandate attempt = Inr b \<and> canonical_bytes K x = Inr b)
        \<and> object_kind K x = sdk_execution_receipt_kind K
        \<and> from_wire K (into_wire x) = Inr x
    | Inl e \<Rightarrow> \<exists>reason. e = InvalidReceipt reason"
  using assms
  by (auto simp: encode_execution_receipt_def wire_laws_def canonical_bytes_def object_kind_def from_wire_def
      into_wire_def split: sum.split)

text \<open>An SDK of byte strings, for the witness: the envelope of an object is its kind and its bytes.\<close>

definition sdk_ref :: "(bytes, bytes, bytes, bytes, bytes, nat, nat \<times> bytes) sdk" where
  "sdk_ref =
     \<lparr>sdk_protocol_major = 0, sdk_protocol_minor = 1, sdk_object_version = 1, sdk_execution_receipt_kind = 4,
      sdk_encode_action_intent = (\<lambda>i. Inr (1, i)), sdk_action_intent_from_wire = Inr,
      sdk_receipt_canonical_bytes = (\<lambda>r m a. if m = a then Inr (r @ m) else Inl ''binding''),
      sdk_receipt_id = (\<lambda>r m a. Inr r), sdk_wire_new = (\<lambda>k i b. Inr (k, b)),
      sdk_wire_canonical_bytes = (\<lambda>(k, b). Inr b), sdk_wire_kind = fst,
      sdk_wire_object_version = (\<lambda>w. 1), sdk_wire_object_id_hex = (\<lambda>w. [])\<rparr>"

theorem encoded_receipt_reloads_witness:
  "\<exists>x. encode_execution_receipt sdk_ref \<lparr>pc_versions = expected_versions\<rparr> ''r'' ''m'' ''m'' = Inr x
    \<and> from_wire sdk_ref (into_wire x) = Inr x \<and> canonical_bytes sdk_ref x = Inr ''rm''"
proof -
  let ?C = "\<lparr>pc_versions = expected_versions\<rparr>"
  have laws: "wire_laws sdk_ref" by (simp add: wire_laws_def sdk_ref_def)
  obtain x where x: "encode_execution_receipt sdk_ref ?C ''r'' ''m'' ''m'' = Inr x"
    by (simp add: encode_execution_receipt_def sdk_ref_def)
  from encoded_receipt_reloads [OF laws, where receipt = "''r''" and mandate = "''m''" and attempt = "''m''" and C = ?C] x
  show ?thesis by (auto simp: sdk_ref_def)
qed

end
