(* ===== verification/Json_Decode.thy ===== *)
theory Json_Decode
  imports Externals
begin

text \<open>
  How the structs that derive \<^verbatim>\<open>Deserialize\<close> read a parsed JSON value, for the adapters that decode the
  answers of GitHub and of Tuppira: the members of a struct, the types of a field, lists of values.
\<close>

section \<open>Members and fields\<close>

text \<open>
  A derived struct decodes from an object, in which a field may be missing but not be there twice and
  unknown members are passed over, or from an array with its values in order.
\<close>

definition struct_members :: "string list \<Rightarrow> json \<Rightarrow> json option list option" where
  "struct_members names v =
     (case v of
        JObject members \<Rightarrow>
          if list_all (\<lambda>n. length (filter (\<lambda>(k, x). k = n) members) \<le> 1) names
          then Some (map (map_of members) names) else None
      | JArray xs \<Rightarrow> if length xs = length names then Some (map Some xs) else None
      | _ \<Rightarrow> None)"

definition as_string :: "json option \<Rightarrow> string option" where
  "as_string v = Option.bind v json_as_str"

fun json_strings :: "json list \<Rightarrow> string list option" where
  "json_strings [] = Some []"
| "json_strings (JString s # xs) = map_option ((#) s) (json_strings xs)"
| "json_strings _ = None"

definition as_strings :: "json option \<Rightarrow> string list option" where
  "as_strings v = (case v of Some (JArray xs) \<Rightarrow> json_strings xs | _ \<Rightarrow> None)"

definition as_i64 :: "json option \<Rightarrow> i64 option" where
  "as_i64 v = Option.bind v json_as_i64"

definition as_u16 :: "json option \<Rightarrow> u16 option" where
  "as_u16 v = (case v of Some (JPosInt n) \<Rightarrow> if n < 65536 then Some (ucast n) else None | _ \<Rightarrow> None)"

text \<open>An optional field may be missing or null.\<close>

definition optional :: "(json option \<Rightarrow> 'a option) \<Rightarrow> json option \<Rightarrow> 'a option option" where
  "optional f v =
     (case v of
        None \<Rightarrow> Some None
      | Some JNull \<Rightarrow> Some None
      | Some x \<Rightarrow> map_option Some (f (Some x)))"

fun decode_all :: "(json \<Rightarrow> 'a option) \<Rightarrow> json list \<Rightarrow> 'a list option" where
  "decode_all f [] = Some []"
| "decode_all f (x # xs) = Option.bind (f x) (\<lambda>a. map_option ((#) a) (decode_all f xs))"

definition decode_list :: "(json \<Rightarrow> 'a option) \<Rightarrow> json \<Rightarrow> 'a list option" where
  "decode_list f v = (case v of JArray xs \<Rightarrow> decode_all f xs | _ \<Rightarrow> None)"

end
