(* ===== verification/Tuppira.thy ===== *)
theory Tuppira
  imports Observation Json_Decode
begin

text \<open>
  The REST adapter of \<^verbatim>\<open>crates/piteka-tuppira/src/lib.rs\<close> that answers the observation port from the Tuppira
  service: its configuration, the one authenticated GET, and the decoding and validation of rows.
  The crates url, reqwest and serde_json are arguments. Results of the service are those of one query.
\<close>

section \<open>What the adapter calls\<close>

record 'u url_ops =
  ul_parse :: "string \<Rightarrow> 'u option"
  ul_scheme :: "'u \<Rightarrow> string"
  ul_host_str :: "'u \<Rightarrow> string option"
  ul_username :: "'u \<Rightarrow> string"
  ul_password :: "'u \<Rightarrow> string option"
  ul_query :: "'u \<Rightarrow> string option"
  ul_fragment :: "'u \<Rightarrow> string option"
  ul_path :: "'u \<Rightarrow> string"
  ul_set_path :: "'u \<Rightarrow> string \<Rightarrow> 'u"
  ul_join :: "'u \<Rightarrow> string \<Rightarrow> 'u option"
  ul_byte_serialize :: "bytes \<Rightarrow> string"

record 'u http_request =
  hq_url :: 'u
  hq_headers :: "(string \<times> string) list"

record http_response =
  hr_status :: u16
  hr_content_length :: "u64 option"
  hr_bytes :: "bytes option"

text \<open>
  \<open>rw_build\<close> is the client builder, of the timeout and with redirects off; a request that cannot be sent, or
  gets no response, is None. \<open>rw_from_slice\<close> parses JSON, keeping the members of an object as they stand.
\<close>

record ('u, 'c) reqwest =
  rw_build :: "nat \<Rightarrow> 'c option"
  rw_send :: "'c \<Rightarrow> 'u http_request \<Rightarrow> http_response option"
  rw_from_slice :: "bytes \<Rightarrow> json option"

section \<open>Configuration\<close>

definition max_tuppira_bytes :: nat where
  "max_tuppira_bytes = 1024 * 1024"

record 'u tuppira_config =
  tc_base_url :: 'u
  tc_bearer_token :: string
  tc_timeout :: nat

definition ends_with_slash :: "string \<Rightarrow> bool" where
  "ends_with_slash s = (s \<noteq> [] \<and> last s = CHR 0x2F)"

text \<open>The timeout is in seconds.\<close>

definition tuppira_config_new :: "'u url_ops \<Rightarrow> string \<Rightarrow> string \<Rightarrow> observation_error + 'u tuppira_config" where
  "tuppira_config_new U base_url bearer_token =
     (case ul_parse U base_url of
        None \<Rightarrow> Inl (Unsupported ''invalid Tuppira base URL'')
      | Some u \<Rightarrow>
          if (ul_scheme U u \<noteq> ''http'' \<and> ul_scheme U u \<noteq> ''https'') \<or> ul_host_str U u = None
             \<or> ul_username U u \<noteq> [] \<or> ul_password U u \<noteq> None \<or> ul_query U u \<noteq> None \<or> ul_fragment U u \<noteq> None
          then Inl (Unsupported ''Tuppira URL must be an HTTP(S) origin without credentials, query, or fragment'')
          else
            (let v = if ends_with_slash (ul_path U u) then u else ul_set_path U u (ul_path U u @ [CHR 0x2F]) in
             if bearer_token = [] \<or> list_ex (\<lambda>c. c = CHR 0x0D \<or> c = CHR 0x0A) bearer_token
             then Inl (Unsupported ''invalid Tuppira bearer token'')
             else Inr \<lparr>tc_base_url = v, tc_bearer_token = bearer_token, tc_timeout = 5\<rparr>))"

definition with_timeout :: "nat \<Rightarrow> 'u tuppira_config \<Rightarrow> 'u tuppira_config" where
  "with_timeout timeout c = c\<lparr>tc_timeout := timeout\<rparr>"

record ('u, 'c) tuppira_adapter =
  ta_client :: 'c
  ta_config :: "'u tuppira_config"

definition tuppira_adapter_new ::
  "('u, 'c) reqwest \<Rightarrow> 'u tuppira_config \<Rightarrow> observation_error + ('u, 'c) tuppira_adapter" where
  "tuppira_adapter_new R c =
     (case rw_build R (tc_timeout c) of
        None \<Rightarrow> Inl Unavailable
      | Some client \<Rightarrow> Inr \<lparr>ta_client = client, ta_config = c\<rparr>)"

section \<open>Decoding\<close>

record 'a api_response =
  rp_data :: 'a
  rp_success :: bool

definition decode_api_response :: "(json \<Rightarrow> 'a option) \<Rightarrow> json \<Rightarrow> 'a api_response option" where
  "decode_api_response f v =
     (case struct_members [''data'', ''success''] v of
        Some [Some d, Some (JBool success)] \<Rightarrow>
          map_option (\<lambda>a. \<lparr>rp_data = a, rp_success = success\<rparr>) (f d)
      | _ \<Rightarrow> None)"

record observation_dto =
  od_observation_id :: string
  od_source_id :: string
  od_source_event_id :: string
  od_source_event_type :: string
  od_subject_refs :: "string list"
  od_asserted_event_time :: "i64 option"
  od_observed_at :: i64
  od_normalized_profile_id :: string
  od_normalized_profile_version :: u16
  od_normalized_payload_digest :: string
  od_authenticity_material_refs :: "string list"
  od_collection_run_id :: string
  od_supersedes :: "string option"
  od_retraction_status :: string
  od_visibility_scope :: string

definition observation_fields :: "string list" where
  "observation_fields =
     [''observation_id'', ''source_id'', ''source_event_id'', ''source_event_type'', ''subject_refs'',
      ''asserted_event_time'', ''observed_at'', ''normalized_profile_id'', ''normalized_profile_version'',
      ''normalized_payload_digest'', ''authenticity_material_refs'', ''collection_run_id'', ''supersedes'',
      ''retraction_status'', ''visibility_scope'']"

definition decode_observation_dto :: "json \<Rightarrow> observation_dto option" where
  "decode_observation_dto v =
     (case struct_members observation_fields v of
        Some [f1, f2, f3, f4, f5, f6, f7, f8, f9, f10, f11, f12, f13, f14, f15] \<Rightarrow>
          Option.bind (as_string f1) (\<lambda>observation_id.
          Option.bind (as_string f2) (\<lambda>source_id.
          Option.bind (as_string f3) (\<lambda>source_event_id.
          Option.bind (as_string f4) (\<lambda>source_event_type.
          Option.bind (as_strings f5) (\<lambda>subject_refs.
          Option.bind (optional as_i64 f6) (\<lambda>asserted_event_time.
          Option.bind (as_i64 f7) (\<lambda>observed_at.
          Option.bind (as_string f8) (\<lambda>profile_id.
          Option.bind (as_u16 f9) (\<lambda>profile_version.
          Option.bind (as_string f10) (\<lambda>payload_digest.
          Option.bind (as_strings f11) (\<lambda>material_refs.
          Option.bind (as_string f12) (\<lambda>collection_run_id.
          Option.bind (optional as_string f13) (\<lambda>supersedes.
          Option.bind (as_string f14) (\<lambda>retraction_status.
          Option.bind (as_string f15) (\<lambda>visibility_scope.
          Some
            \<lparr>od_observation_id = observation_id, od_source_id = source_id, od_source_event_id = source_event_id,
             od_source_event_type = source_event_type, od_subject_refs = subject_refs,
             od_asserted_event_time = asserted_event_time, od_observed_at = observed_at,
             od_normalized_profile_id = profile_id, od_normalized_profile_version = profile_version,
             od_normalized_payload_digest = payload_digest, od_authenticity_material_refs = material_refs,
             od_collection_run_id = collection_run_id, od_supersedes = supersedes,
             od_retraction_status = retraction_status, od_visibility_scope = visibility_scope\<rparr>)))))))))))))))
      | _ \<Rightarrow> None)"

record source_health_dto =
  hd_source_id :: string
  hd_connector_kind :: string
  hd_display_name :: string
  hd_last_run_started_at :: "i64 option"
  hd_last_run_completed_at :: "i64 option"
  hd_cursor_observed_at :: "i64 option"

definition source_health_fields :: "string list" where
  "source_health_fields =
     [''source_id'', ''connector_kind'', ''display_name'', ''last_run_started_at'', ''last_run_completed_at'',
      ''cursor_observed_at'']"

definition decode_source_health_dto :: "json \<Rightarrow> source_health_dto option" where
  "decode_source_health_dto v =
     (case struct_members source_health_fields v of
        Some [f1, f2, f3, f4, f5, f6] \<Rightarrow>
          Option.bind (as_string f1) (\<lambda>source_id.
          Option.bind (as_string f2) (\<lambda>connector_kind.
          Option.bind (as_string f3) (\<lambda>display_name.
          Option.bind (optional as_i64 f4) (\<lambda>started.
          Option.bind (optional as_i64 f5) (\<lambda>completed.
          Option.bind (optional as_i64 f6) (\<lambda>cursor.
          Some
            \<lparr>hd_source_id = source_id, hd_connector_kind = connector_kind, hd_display_name = display_name,
             hd_last_run_started_at = started, hd_last_run_completed_at = completed,
             hd_cursor_observed_at = cursor\<rparr>))))))
      | _ \<Rightarrow> None)"

section \<open>Validation\<close>

definition validate_identifier :: "string \<Rightarrow> string \<Rightarrow> observation_error + unit" where
  "validate_identifier value kind =
     (if blank value \<or> length value > 512
         \<or> list_ex (\<lambda>c. c = CHR 0x00 \<or> c = CHR '','' \<or> c = CHR ''='') value
      then Inl (Malformed (''invalid '' @ kind @ '' identifier''))
      else Inr ())"

fun validate_identifiers :: "(string \<times> string) list \<Rightarrow> observation_error + unit" where
  "validate_identifiers [] = Inr ()"
| "validate_identifiers ((kind, item) # rest) =
     try_result (validate_identifier item kind) (\<lambda>_. validate_identifiers rest)"

definition is_digest :: "string \<Rightarrow> bool" where
  "is_digest value = (length value = 64 \<and> list_all is_lower_hex value)"

definition observation_try_from :: "observation_dto \<Rightarrow> observation_error + observation" where
  "observation_try_from v =
     try_result (validate_identifiers
       [(''observation'', od_observation_id v), (''source'', od_source_id v),
        (''source event'', od_source_event_id v), (''profile'', od_normalized_profile_id v),
        (''collection run'', od_collection_run_id v)]) (\<lambda>_.
     if od_normalized_profile_version v = 0
        \<or> \<not> is_digest (od_normalized_payload_digest v)
        \<or> \<not> (od_visibility_scope v = ''public'' \<or> od_visibility_scope v = ''tenant'')
        \<or> \<not> (od_retraction_status v = ''active'' \<or> od_retraction_status v = ''retracted''
             \<or> od_retraction_status v = ''superseded'')
     then Inl (Malformed ''invalid observation fields'')
     else Inr
       \<lparr>ob_observation_id = od_observation_id v, ob_source_id = od_source_id v,
        ob_source_event_id = od_source_event_id v, ob_source_event_type = od_source_event_type v,
        ob_subject_refs = od_subject_refs v, ob_asserted_event_time = od_asserted_event_time v,
        ob_observed_at = od_observed_at v, ob_normalized_profile_id = od_normalized_profile_id v,
        ob_normalized_profile_version = od_normalized_profile_version v,
        ob_normalized_payload_digest_hex = od_normalized_payload_digest v,
        ob_authenticity_material_refs = od_authenticity_material_refs v,
        ob_collection_run_id = od_collection_run_id v, ob_supersedes = od_supersedes v,
        ob_retraction_status = od_retraction_status v, ob_visibility_scope = od_visibility_scope v\<rparr>)"

definition source_health_try_from :: "source_health_dto \<Rightarrow> observation_error + source_health" where
  "source_health_try_from v =
     try_result (validate_identifier (hd_source_id v) ''source'') (\<lambda>_.
     if blank (hd_connector_kind v) \<or> blank (hd_display_name v)
     then Inl (Malformed ''invalid source health fields'')
     else Inr
       \<lparr>sh_source_id = hd_source_id v, sh_connector_kind = hd_connector_kind v,
        sh_display_name = hd_display_name v, sh_last_run_started_at = hd_last_run_started_at v,
        sh_last_run_completed_at = hd_last_run_completed_at v,
        sh_cursor_observed_at = hd_cursor_observed_at v\<rparr>)"

text \<open>\<open>collect\<close> into a result: the first error, or all values.\<close>

fun collect_results :: "('a \<Rightarrow> 'e + 'b) \<Rightarrow> 'a list \<Rightarrow> 'e + 'b list" where
  "collect_results f [] = Inr []"
| "collect_results f (x # xs) =
     try_result (f x) (\<lambda>y. try_result (collect_results f xs) (\<lambda>ys. Inr (y # ys)))"

section \<open>The adapter\<close>

text \<open>The request the adapter sends: the tenant and the bearer token travel as headers.\<close>

definition tuppira_request :: "'u tuppira_config \<Rightarrow> string \<Rightarrow> 'u \<Rightarrow> 'u http_request" where
  "tuppira_request c tenant_id url =
     \<lparr>hq_url = url,
      hq_headers =
        [(''x-tuppira-tenant-id'', tenant_id), (''authorization'', ''Bearer '' @ tc_bearer_token c),
         (''accept'', ''application/json'')]\<rparr>"

definition check_status :: "u16 \<Rightarrow> observation_error + unit" where
  "check_status status =
     (if status = 401 \<or> status = 403 then Inl Unauthenticated
      else if status = 404 then Inl NotVisible
      else if \<not> (200 \<le> status \<and> status < 300) then Inl Unavailable
      else Inr ())"

text \<open>What becomes of a response.\<close>

definition read_response ::
  "('u, 'c) reqwest \<Rightarrow> (json \<Rightarrow> 'a option) \<Rightarrow> http_response \<Rightarrow> observation_error + 'a" where
  "read_response R f response =
     try_result (check_status (hr_status response)) (\<lambda>_.
     try_result (reject_if (case hr_content_length response of
         None \<Rightarrow> False | Some n \<Rightarrow> n > of_nat max_tuppira_bytes) (Malformed ''response exceeds size limit'')) (\<lambda>_.
     case hr_bytes response of
       None \<Rightarrow> Inl Unavailable
     | Some b \<Rightarrow>
         try_result (reject_if (length b > max_tuppira_bytes) (Malformed ''response exceeds size limit'')) (\<lambda>_.
         case Option.bind (rw_from_slice R b) (decode_api_response f) of
           None \<Rightarrow> Inl (Malformed ''invalid JSON response'')
         | Some envelope \<Rightarrow>
             if \<not> rp_success envelope then Inl (Malformed ''unsuccessful response used a success status'')
             else Inr (rp_data envelope))))"

definition tuppira_get ::
  "'u url_ops \<Rightarrow> ('u, 'c) reqwest \<Rightarrow> ('u, 'c) tuppira_adapter \<Rightarrow> (json \<Rightarrow> 'a option) \<Rightarrow> string \<Rightarrow> string
    \<Rightarrow> observation_error + 'a" where
  "tuppira_get U R A f tenant_id path =
     try_result (validate_identifier tenant_id ''tenant'') (\<lambda>_.
     case ul_join U (tc_base_url (ta_config A)) path of
       None \<Rightarrow> Inl (Unsupported ''invalid observation path'')
     | Some url \<Rightarrow>
         (case rw_send R (ta_client A) (tuppira_request (ta_config A) tenant_id url) of
            None \<Rightarrow> Inl Unavailable
          | Some response \<Rightarrow> read_response R f response))"

definition lineage_path :: "'u url_ops \<Rightarrow> string \<Rightarrow> string" where
  "lineage_path U observation_id =
     ''api/v1/observations/'' @ ul_byte_serialize U observation_id @ ''/lineage''"

definition lineage ::
  "'u url_ops \<Rightarrow> ('u, 'c) reqwest \<Rightarrow> ('u, 'c) tuppira_adapter \<Rightarrow> string \<Rightarrow> string
    \<Rightarrow> observation_error + observation list" where
  "lineage U R A tenant_id observation_id =
     try_result (validate_identifier observation_id ''observation'') (\<lambda>_.
     try_result (tuppira_get U R A (decode_list decode_observation_dto) tenant_id (lineage_path U observation_id))
       (collect_results observation_try_from))"

definition source_health_of ::
  "'u url_ops \<Rightarrow> ('u, 'c) reqwest \<Rightarrow> ('u, 'c) tuppira_adapter \<Rightarrow> string
    \<Rightarrow> observation_error + source_health list" where
  "source_health_of U R A tenant_id =
     try_result (tuppira_get U R A (decode_list decode_source_health_dto) tenant_id
       ''api/v1/observation-sources/health'')
       (collect_results source_health_try_from)"

definition tuppira_port ::
  "'u url_ops \<Rightarrow> ('u, 'c) reqwest \<Rightarrow> ('u, 'c) tuppira_adapter \<Rightarrow> observation_port" where
  "tuppira_port U R A = \<lparr>op_lineage = lineage U R A, op_source_health = source_health_of U R A\<rparr>"

section \<open>The observation source the use case relies on\<close>

text \<open>
  What an adapter owes the use case: the rows it hands over are well formed. Whatever the service answered, a
  result of the use case then holds well-formed rows only.
\<close>

locale observation_source =
  fixes P :: observation_port
    and row_ok :: "observation \<Rightarrow> bool" and health_ok :: "source_health \<Rightarrow> bool"
  assumes lineage_ok: "op_lineage P tenant i = Inr rows \<Longrightarrow> x \<in> set rows \<Longrightarrow> row_ok x"
    and source_health_ok: "op_source_health P tenant = Inr hs \<Longrightarrow> h \<in> set hs \<Longrightarrow> health_ok h"
begin

lemma query_rows_ok: "x \<in> set (or_lineage (query P q)) \<Longrightarrow> row_ok x"
  by (auto simp: query_def gap_def gap_for_error_def split: if_splits sum.splits dest: lineage_ok)

lemma query_health_ok: "h \<in> set (or_source_health (query P q)) \<Longrightarrow> health_ok h"
  by (auto simp: query_def gap_def gap_for_error_def split: if_splits sum.splits dest: source_health_ok)

end

definition observation_ok :: "observation \<Rightarrow> bool" where
  "observation_ok x \<longleftrightarrow>
     valid_identifier (ob_observation_id x) \<and> valid_identifier (ob_source_id x)
     \<and> valid_identifier (ob_source_event_id x) \<and> valid_identifier (ob_normalized_profile_id x)
     \<and> valid_identifier (ob_collection_run_id x)
     \<and> ob_normalized_profile_version x \<noteq> 0 \<and> is_digest (ob_normalized_payload_digest_hex x)
     \<and> ob_visibility_scope x \<in> {''public'', ''tenant''}
     \<and> ob_retraction_status x \<in> {''active'', ''retracted'', ''superseded''}"

definition source_health_ok :: "source_health \<Rightarrow> bool" where
  "source_health_ok h \<longleftrightarrow>
     valid_identifier (sh_source_id h) \<and> \<not> blank (sh_connector_kind h) \<and> \<not> blank (sh_display_name h)"

text \<open>The adapter's check of an identifier is the use case's.\<close>

lemma validate_identifier_Inr: "validate_identifier value kind = Inr u \<longleftrightarrow> valid_identifier value"
  by (auto simp: validate_identifier_def valid_identifier_def list_ex_iff list_all_iff)

lemma observation_try_from_Inr: "observation_try_from v = Inr x \<Longrightarrow> observation_ok x"
  by (auto simp: observation_try_from_def observation_ok_def try_result_Inr validate_identifier_Inr split: if_splits)

lemma source_health_try_from_Inr: "source_health_try_from v = Inr h \<Longrightarrow> source_health_ok h"
  by (auto simp: source_health_try_from_def source_health_ok_def try_result_Inr validate_identifier_Inr
      split: if_splits)

lemma collect_results_Inr: "collect_results f xs = Inr ys \<longleftrightarrow> list_all2 (\<lambda>x y. f x = Inr y) xs ys"
proof (induction xs arbitrary: ys)
  case (Cons x xs)
  then show ?case by (cases ys) (auto simp: try_result_Inr)
qed auto

lemma collect_results_all:
  "collect_results f xs = Inr ys \<Longrightarrow> y \<in> set ys \<Longrightarrow> (\<And>x y. f x = Inr y \<Longrightarrow> Q y) \<Longrightarrow> Q y"
  unfolding collect_results_Inr by (auto simp: list_all2_conv_all_nth in_set_conv_nth)

interpretation tuppira: observation_source "tuppira_port U R A" observation_ok source_health_ok
  for U :: "'u url_ops" and R :: "('u, 'c) reqwest" and A :: "('u, 'c) tuppira_adapter"
  by unfold_locales
    (auto simp: tuppira_port_def lineage_def source_health_of_def try_result_Inr
       intro: collect_results_all observation_try_from_Inr source_health_try_from_Inr)

section \<open>Properties\<close>

text \<open>When a response is accepted.\<close>

lemma read_response_Inr:
  "read_response R f r = Inr a \<longleftrightarrow>
     200 \<le> hr_status r \<and> hr_status r < 300
     \<and> (case hr_content_length r of None \<Rightarrow> True | Some n \<Rightarrow> n \<le> 1048576)
     \<and> (\<exists>b v. hr_bytes r = Some b \<and> length b \<le> 1048576 \<and> rw_from_slice R b = Some v
          \<and> decode_api_response f v = Some \<lparr>rp_data = a, rp_success = True\<rparr>)"
proof -
  have status: "check_status st = Inr () \<longleftrightarrow> 200 \<le> st \<and> st < 300" for st
    by (auto simp: check_status_def)
  have bind: "Option.bind x g = Some y \<longleftrightarrow> (\<exists>v. x = Some v \<and> g v = Some y)" for x :: "json option" and g y
    by (cases x) simp_all
  show ?thesis
    by (auto simp: read_response_def try_result_Inr status max_tuppira_bytes_def not_less bind
        split: option.splits)
qed

text \<open>What the adapter had to be told for its answer.\<close>

definition answered ::
  "'u url_ops \<Rightarrow> ('u, 'c) reqwest \<Rightarrow> ('u, 'c) tuppira_adapter \<Rightarrow> (json \<Rightarrow> 'a option) \<Rightarrow> string \<Rightarrow> string \<Rightarrow> 'a \<Rightarrow> bool"
where
  "answered U R A f tenant path a \<longleftrightarrow>
     (\<exists>url r b v. ul_join U (tc_base_url (ta_config A)) path = Some url
        \<and> rw_send R (ta_client A) (tuppira_request (ta_config A) tenant url) = Some r
        \<and> 200 \<le> hr_status r \<and> hr_status r < 300
        \<and> hr_bytes r = Some b \<and> length b \<le> 1048576 \<and> rw_from_slice R b = Some v
        \<and> decode_api_response f v = Some \<lparr>rp_data = a, rp_success = True\<rparr>)"

lemma tuppira_get_answered:
  "tuppira_get U R A f tenant path = Inr a \<Longrightarrow> valid_identifier tenant \<and> answered U R A f tenant path a"
  by (auto simp: tuppira_get_def answered_def try_result_Inr validate_identifier_Inr read_response_Inr
      split: option.splits)

lemma lineage_answered:
  assumes "lineage U R A tenant i = Inr rows"
  shows "\<exists>dtos. answered U R A (decode_list decode_observation_dto) tenant (lineage_path U i) dtos
    \<and> list_all2 (\<lambda>d x. observation_try_from d = Inr x) dtos rows"
  using assms by (auto simp: lineage_def try_result_Inr collect_results_Inr dest!: tuppira_get_answered)

lemma source_health_answered:
  assumes "source_health_of U R A tenant = Inr hs"
  shows "\<exists>dtos. answered U R A (decode_list decode_source_health_dto) tenant
        ''api/v1/observation-sources/health'' dtos
    \<and> list_all2 (\<lambda>d h. source_health_try_from d = Inr h) dtos hs"
  using assms by (auto simp: source_health_of_def try_result_Inr collect_results_Inr dest!: tuppira_get_answered)

text \<open>
  C16. A complete observation from Tuppira is a validated one. When a query through the adapter is complete, the
  service answered two requests that carried the caller's tenant and the bearer token, each with a success
  status, at most one MiB and a successful envelope; the rows of the first are exactly the result, and each is well
  formed, active and from a source whose last health record, well formed too, shows a completed run.
\<close>

theorem tuppira_complete_validated:
  assumes "is_complete (query (tuppira_port U R A) q)"
  shows "(\<exists>dtos. answered U R A (decode_list decode_observation_dto) (oq_tenant_id q)
        (lineage_path U (oq_observation_id q)) dtos
      \<and> list_all2 (\<lambda>d x. observation_try_from d = Inr x) dtos (or_lineage (query (tuppira_port U R A) q)))
    \<and> (\<exists>dtos. answered U R A (decode_list decode_source_health_dto) (oq_tenant_id q)
        ''api/v1/observation-sources/health'' dtos
      \<and> list_all2 (\<lambda>d h. source_health_try_from d = Inr h) dtos (or_source_health (query (tuppira_port U R A) q)))
    \<and> or_lineage (query (tuppira_port U R A) q) \<noteq> []
    \<and> (\<forall>x \<in> set (or_lineage (query (tuppira_port U R A) q)).
        observation_ok x \<and> ob_retraction_status x = ''active''
        \<and> healthy (or_source_health (query (tuppira_port U R A) q)) (ob_source_id x))
    \<and> (\<forall>h \<in> set (or_source_health (query (tuppira_port U R A) q)). source_health_ok h)"
proof -
  from query_complete [OF assms] obtain rows hs where q:
    "lineage U R A (oq_tenant_id q) (oq_observation_id q) = Inr rows" "rows \<noteq> []"
    "source_health_of U R A (oq_tenant_id q) = Inr hs"
    "\<forall>x \<in> set rows. ob_retraction_status x = ''active'' \<and> healthy hs (ob_source_id x)"
    "or_lineage (query (tuppira_port U R A) q) = rows" "or_source_health (query (tuppira_port U R A) q) = hs"
    by (auto simp: tuppira_port_def)
  with lineage_answered [OF q(1)] source_health_answered [OF q(3)] show ?thesis
    using tuppira.query_rows_ok [of _ U R A q] tuppira.query_health_ok [of _ U R A q] by simp
qed

text \<open>A service with one observation, for the witness: URLs are strings and two bodies are known.\<close>

definition urls_ref :: "string url_ops" where
  "urls_ref =
     \<lparr>ul_parse = Some, ul_scheme = (\<lambda>u. ''https''), ul_host_str = (\<lambda>u. Some u), ul_username = (\<lambda>u. []),
      ul_password = (\<lambda>u. None), ul_query = (\<lambda>u. None), ul_fragment = (\<lambda>u. None), ul_path = (\<lambda>u. [CHR 0x2F]),
      ul_set_path = (\<lambda>u p. u), ul_join = (\<lambda>u p. Some p), ul_byte_serialize = (\<lambda>b. b)\<rparr>"

definition envelope_ref :: "json \<Rightarrow> json" where
  "envelope_ref row = JObject [(''success'', JBool True), (''data'', JArray [row])]"

definition row_ref :: json where
  "row_ref = JArray
     [JString ''o'', JString ''s'', JString ''e'', JString ''t'', JArray [], JNull, JPosInt 5, JString ''p'',
      JPosInt 1, JString (replicate 64 CHR ''a''), JArray [], JString ''r'', JNull, JString ''active'',
      JString ''tenant'']"

definition health_ref :: json where
  "health_ref = JObject
     [(''source_id'', JString ''s''), (''connector_kind'', JString ''k''), (''display_name'', JString ''n''),
      (''last_run_completed_at'', JPosInt 4), (''cursor_observed_at'', JPosInt 4)]"

definition service_ref :: "(string, unit) reqwest" where
  "service_ref =
     \<lparr>rw_build = (\<lambda>t. Some ()),
      rw_send = (\<lambda>c q. Some \<lparr>hr_status = 200, hr_content_length = None,
        hr_bytes = Some (if hq_url q = ''api/v1/observation-sources/health'' then ''H'' else ''L'')\<rparr>),
      rw_from_slice = (\<lambda>b. if b = ''H'' then Some (envelope_ref health_ref) else Some (envelope_ref row_ref))\<rparr>"

definition adapter_ref :: "(string, unit) tuppira_adapter" where
  "adapter_ref =
     \<lparr>ta_client = (), ta_config = \<lparr>tc_base_url = ''b'', tc_bearer_token = ''k'', tc_timeout = 5\<rparr>\<rparr>"

lemma valid_identifier_ref: "c \<in> {CHR ''o'', CHR ''s'', CHR ''e'', CHR ''p'', CHR ''r''} \<Longrightarrow> valid_identifier [c]"
  by (auto simp: valid_identifier_def blank_def trim_printable)

definition dto_ref :: observation_dto where
  "dto_ref =
     \<lparr>od_observation_id = ''o'', od_source_id = ''s'', od_source_event_id = ''e'', od_source_event_type = ''t'',
      od_subject_refs = [], od_asserted_event_time = None, od_observed_at = 5, od_normalized_profile_id = ''p'',
      od_normalized_profile_version = 1, od_normalized_payload_digest = replicate 64 CHR ''a'',
      od_authenticity_material_refs = [], od_collection_run_id = ''r'', od_supersedes = None,
      od_retraction_status = ''active'', od_visibility_scope = ''tenant''\<rparr>"

definition health_dto_ref :: source_health_dto where
  "health_dto_ref =
     \<lparr>hd_source_id = ''s'', hd_connector_kind = ''k'', hd_display_name = ''n'', hd_last_run_started_at = None,
      hd_last_run_completed_at = Some 4, hd_cursor_observed_at = Some 4\<rparr>"

lemma decode_refs:
  "decode_observation_dto row_ref = Some dto_ref" "decode_source_health_dto health_ref = Some health_dto_ref"
  by (simp_all add: decode_observation_dto_def decode_source_health_dto_def row_ref_def health_ref_def
      struct_members_def observation_fields_def source_health_fields_def as_string_def as_strings_def as_i64_def
      as_u16_def optional_def i64_max_def dto_ref_def health_dto_ref_def)

lemma decode_envelope_ref:
  "f row = Some a \<Longrightarrow>
    decode_api_response (decode_list f) (envelope_ref row) = Some \<lparr>rp_data = [a], rp_success = True\<rparr>"
  by (simp add: decode_api_response_def envelope_ref_def struct_members_def decode_list_def)

lemma get_ref:
  "tuppira_get urls_ref service_ref adapter_ref (decode_list decode_observation_dto) ''o''
     (lineage_path urls_ref ''o'') = Inr [dto_ref]"
  "tuppira_get urls_ref service_ref adapter_ref (decode_list decode_source_health_dto) ''o''
     ''api/v1/observation-sources/health'' = Inr [health_dto_ref]"
proof -
  have ident: "validate_identifier ''o'' ''tenant'' = Inr ()"
    by (simp add: validate_identifier_Inr valid_identifier_ref)
  show "tuppira_get urls_ref service_ref adapter_ref (decode_list decode_observation_dto) ''o''
      (lineage_path urls_ref ''o'') = Inr [dto_ref]"
    by (simp add: tuppira_get_def ident urls_ref_def service_ref_def tuppira_request_def lineage_path_def
        read_response_Inr decode_envelope_ref decode_refs)
  show "tuppira_get urls_ref service_ref adapter_ref (decode_list decode_source_health_dto) ''o''
      ''api/v1/observation-sources/health'' = Inr [health_dto_ref]"
    by (simp add: tuppira_get_def ident urls_ref_def service_ref_def tuppira_request_def
        read_response_Inr decode_envelope_ref decode_refs)
qed

lemma try_from_refs:
  "\<exists>x. observation_try_from dto_ref = Inr x \<and> ob_retraction_status x = ''active'' \<and> ob_source_id x = ''s''"
  "\<exists>h. source_health_try_from health_dto_ref = Inr h \<and> healthy [h] ''s''"
proof -
  have i: "validate_identifier [c] k = Inr ()" if "c \<in> {CHR ''o'', CHR ''s'', CHR ''e'', CHR ''p'', CHR ''r''}" for c k
    using valid_identifier_ref [OF that] by (simp add: validate_identifier_Inr)
  have "is_digest (replicate 64 CHR ''a'')"
    by (simp add: is_digest_def list_all_iff is_lower_hex_def)
  then show "\<exists>x. observation_try_from dto_ref = Inr x \<and> ob_retraction_status x = ''active'' \<and> ob_source_id x = ''s''"
    by (simp add: observation_try_from_def dto_ref_def i)
  have "\<not> blank ''k''" "\<not> blank ''n''" by (simp_all add: blank_def trim_printable)
  then show "\<exists>h. source_health_try_from health_dto_ref = Inr h \<and> healthy [h] ''s''"
    by (simp add: source_health_try_from_def health_dto_ref_def i healthy_def)
qed

theorem tuppira_complete_validated_witness:
  "\<exists>x. or_lineage (query (tuppira_port urls_ref service_ref adapter_ref)
        \<lparr>oq_tenant_id = ''o'', oq_observation_id = ''o''\<rparr>) = [x] \<and> observation_ok x"
proof -
  let ?P = "tuppira_port urls_ref service_ref adapter_ref"
  let ?q = "\<lparr>oq_tenant_id = ''o'', oq_observation_id = ''o''\<rparr>"
  obtain x h where x: "observation_try_from dto_ref = Inr x" "ob_retraction_status x = ''active''" "ob_source_id x = ''s''"
    and h: "source_health_try_from health_dto_ref = Inr h" "healthy [h] ''s''"
    using try_from_refs by blast
  have ident: "valid_identifier ''o''" by (simp add: valid_identifier_ref)
  then have rows: "op_lineage ?P ''o'' ''o'' = Inr [x]" "op_source_health ?P ''o'' = Inr [h]"
    using validate_identifier_Inr [of "''o''" "''observation''"]
    by (simp_all add: tuppira_port_def lineage_def source_health_of_def get_ref x(1) h(1))
  then have q: "or_lineage (query ?P ?q) = [x]" "or_source_health (query ?P ?q) = [h]"
    using ident by (simp_all add: query_def)
  with rows x h ident have "is_complete (query ?P ?q)" by (simp add: query_complete_iff)
  from tuppira_complete_validated [OF this] q show ?thesis by simp
qed

text \<open>
  The path of a lineage is joined to the base without regard to dot segments: the form encoding leaves dots
  alone, so the observation \<open>..\<close>, a valid identifier, asks for a path outside the observations.
\<close>

lemma lineage_path_dots:
  assumes "ul_byte_serialize U ''..'' = ''..''"
  shows "valid_identifier ''..'' \<and> lineage_path U ''..'' = ''api/v1/observations/../lineage''"
  using assms by (simp add: lineage_path_def valid_identifier_def blank_def trim_printable)

end
