(* ===== verification/Evidence_Feed.thy ===== *)
theory Evidence_Feed
  imports Read_Api_Facts "HOL-Library.Product_Lexorder" "HOL-Library.List_Lexorder" "HOL-Library.Char_ord"
begin

text \<open>
  The signed evidence feed of \<^verbatim>\<open>src/bin/evidence_feed_server.rs\<close>: an export wraps the manifest bytes of one
  receipt, signed over a domain-separated layout; the feed is rebuilt from the PostgreSQL stores on every
  pull and a consumer pages through it by sequence number. The crate ed25519-dalek is an argument. The value
  of the authorization header is an option, None when it is absent or not text; starting the
  server (environment, network, printing) is not modelled beyond the parsing of its allow list and key.
\<close>

section \<open>Exports\<close>

definition feed_schema_version :: u16 where
  "feed_schema_version = 1"

definition signature_domain :: bytes where
  "signature_domain = ''diewan.piteka.evidence-feed.v1'' @ [CHR 0x00]"

record signed_export =
  se_schema_version :: u16
  se_sequence :: u64
  se_export_id :: string
  se_revision :: u32
  se_supersedes_export_id :: "string option"
  se_tenant_id :: string
  se_emitted_at :: u64
  se_payload :: bytes
  se_payload_sha256 :: bytes
  se_signing_key_id :: string
  se_signature :: bytes

definition put_text :: "bytes \<Rightarrow> string \<Rightarrow> bytes" where
  "put_text out value = (out @ be_u32 (of_nat (length value))) @ value"

definition export_signing_bytes :: "signed_export \<Rightarrow> bytes" where
  "export_signing_bytes x =
     (let b = signature_domain;
          b = b @ be_u16 (se_schema_version x);
          b = b @ be_u64 (se_sequence x);
          b = put_text b (se_export_id x);
          b = b @ be_u32 (se_revision x);
          b = (case se_supersedes_export_id x of
                 Some value \<Rightarrow> put_text (b @ [CHR 0x01]) value
               | None \<Rightarrow> b @ [CHR 0x00]);
          b = put_text b (se_tenant_id x);
          b = b @ be_u64 (se_emitted_at x);
          b = b @ se_payload_sha256 x;
          b = b @ be_u64 (of_nat (length (se_payload x)))
      in b @ se_payload x)"

record feed_page =
  fp_schema_version :: u16
  fp_exports :: "signed_export list"
  fp_next_sequence :: u64

definition default_limit :: u32 where
  "default_limit = 64"

record feed_query =
  fq_after_sequence :: u64
  fq_limit :: u32

text \<open>The query string, a parameter of which may be missing.\<close>

definition feed_query_of :: "u64 option \<Rightarrow> u32 option \<Rightarrow> feed_query" where
  "feed_query_of after limit =
     \<lparr>fq_after_sequence = (case after of None \<Rightarrow> 0 | Some n \<Rightarrow> n),
      fq_limit = (case limit of None \<Rightarrow> default_limit | Some n \<Rightarrow> n)\<rparr>"

section \<open>The state of the server\<close>

record 'k ed25519 =
  ed_from_bytes :: "bytes \<Rightarrow> 'k"
  ed_sign :: "'k \<Rightarrow> bytes \<Rightarrow> bytes"

record 'k feed_state =
  fs_bearer_token :: string
  fs_signing_key :: 'k
  fs_signing_key_id :: string
  fs_tenant_id :: string
  fs_allow_list :: "string list option"

definition load_signing_key ::
  "ext \<Rightarrow> 'k ed25519 \<Rightarrow> (string \<Rightarrow> string + string) \<Rightarrow> string \<Rightarrow> string + 'k" where
  "load_signing_key E D read_to_string path =
     (case read_to_string path of
        Inl e \<Rightarrow> Inl (''cannot read '' @ path @ '': '' @ e)
      | Inr raw \<Rightarrow>
          (case ext_hex_decode E (trim raw) of
             None \<Rightarrow> Inl (path @ '' must contain a 64-hex-char ed25519 seed'')
           | Some seed \<Rightarrow>
               if length seed = 32 then Inr (ed_from_bytes D seed)
               else Inl (path @ '' must decode to exactly 32 bytes'')))"

text \<open>The allow list of the environment: the trimmed, nonempty parts between commas, or none at all.\<close>

fun split_commas :: "string \<Rightarrow> string \<Rightarrow> string list" where
  "split_commas part [] = [part]"
| "split_commas part (c # cs) =
     (if c = CHR '','' then part # split_commas [] cs else split_commas (part @ [c]) cs)"

definition parse_allow_list :: "string option \<Rightarrow> string list option" where
  "parse_allow_list raw =
     (case raw of
        None \<Rightarrow> None
      | Some s \<Rightarrow>
          (let ids = filter (\<lambda>v. v \<noteq> []) (map trim (split_commas [] s)) in
           if ids \<noteq> [] then Some ids else None))"

section \<open>Building the feed\<close>

text \<open>\<open>created_at.max(0) as u64\<close>, then never at or before the last one.\<close>

definition emission_time :: "i64 \<Rightarrow> u64 \<Rightarrow> u64" where
  "emission_time created_at last_emitted =
     max (if sint created_at < 0 then 0 else created_at) (last_emitted + 1)"

definition make_export ::
  "ext \<Rightarrow> 'k ed25519 \<Rightarrow> 'k feed_state \<Rightarrow> nat \<Rightarrow> string \<Rightarrow> bytes \<Rightarrow> u64 \<Rightarrow> signed_export" where
  "make_export E D st count receipt_id payload emitted_at =
     (let export =
        \<lparr>se_schema_version = feed_schema_version, se_sequence = of_nat count + 1, se_export_id = receipt_id,
         se_revision = 1, se_supersedes_export_id = None, se_tenant_id = fs_tenant_id st,
         se_emitted_at = emitted_at, se_payload = payload, se_payload_sha256 = ext_sha256 E payload,
         se_signing_key_id = fs_signing_key_id st, se_signature = []\<rparr>
      in export\<lparr>se_signature := ed_sign D (fs_signing_key st) (export_signing_bytes export)\<rparr>)"

fun build_exports ::
  "ext \<Rightarrow> sql \<Rightarrow> 'k ed25519 \<Rightarrow> 'k feed_state \<Rightarrow> (string \<times> i64) list \<Rightarrow> signed_export list \<Rightarrow> u64
    \<Rightarrow> (pg_db, string, signed_export list) op" where
  "build_exports E S D st [] exports last_emitted db = (Inr exports, db)"
| "build_exports E S D st ((receipt_id, created_at) # rest) exports last_emitted db =
     (case pg_export_manifest_bytes E S receipt_id db of
        (Inl e, db') \<Rightarrow> build_exports E S D st rest exports last_emitted db'
      | (Inr payload, db') \<Rightarrow>
          (let emitted_at = emission_time created_at last_emitted in
           build_exports E S D st rest
             (exports @ [make_export E D st (length exports) receipt_id payload emitted_at]) emitted_at db'))"

fun allowed_pairs :: "ext \<Rightarrow> sql \<Rightarrow> string list \<Rightarrow> (string \<times> i64) list \<Rightarrow> (pg_db, string, (string \<times> i64) list) op" where
  "allowed_pairs E S [] pairs = ok pairs"
| "allowed_pairs E S (i # ids) pairs =
     try_op (map_err (\<lambda>e. ''cannot load receipt '' @ i @ '': '' @ storage_error_display E e)
       (pg_receipt_get S i)) (\<lambda>found.
     case found of
       None \<Rightarrow> fail (''receipt '' @ i @ '' not found'')
     | Some receipt \<Rightarrow> allowed_pairs E S ids (pairs @ [(i, rp_created_at receipt)]))"

text \<open>\<open>scan\<close> lists the identifiers of the table in their collation order.\<close>

definition current_receipts ::
  "ext \<Rightarrow> sql \<Rightarrow> string list \<Rightarrow> 'k feed_state \<Rightarrow> (pg_db, string, (string \<times> i64) list) op" where
  "current_receipts E S scan st =
     (case fs_allow_list st of
        Some ids \<Rightarrow>
          try_op (allowed_pairs E S ids []) (\<lambda>pairs. ok (sort_key (\<lambda>(k, t). (sint t, k)) pairs))
      | None \<Rightarrow>
          map_err (\<lambda>e. ''cannot list receipts: '' @ storage_error_display E e) (pg_list_ids_ordered scan))"

section \<open>Serving a pull\<close>

definition bearer_of :: "string option \<Rightarrow> string option" where
  "bearer_of authorization =
     (case authorization of
        None \<Rightarrow> None
      | Some v \<Rightarrow> if starts_with v ''Bearer '' then Some (drop (length ''Bearer '') v) else None)"

definition page_of :: "feed_query \<Rightarrow> signed_export list \<Rightarrow> feed_page" where
  "page_of q exports =
     (let selected = take (unat (fq_limit q)) (filter (\<lambda>x. se_sequence x > fq_after_sequence q) exports) in
      \<lparr>fp_schema_version = feed_schema_version, fp_exports = selected,
       fp_next_sequence = (if selected = [] then fq_after_sequence q else se_sequence (last selected))\<rparr>)"

text \<open>A refusal is its status code.\<close>

definition serve_feed ::
  "ext \<Rightarrow> sql \<Rightarrow> 'k ed25519 \<Rightarrow> 'k feed_state \<Rightarrow> string list \<Rightarrow> string option \<Rightarrow> feed_query
    \<Rightarrow> (pg_db, nat, feed_page) op" where
  "serve_feed E S D st scan authorization q =
     (if bearer_of authorization \<noteq> Some (fs_bearer_token st) then fail 401
      else if fq_limit q = 0 \<or> fq_limit q > 1024 then fail 400
      else
        try_op (map_err (\<lambda>e. 500) (current_receipts E S scan st)) (\<lambda>ordered.
        try_op (map_err (\<lambda>e. 500) (build_exports E S D st ordered [] 0)) (\<lambda>exports.
        ok (page_of q exports))))"

text \<open>
  A consumer pulls page after page from a sequence number until a page is empty; None when it is refused or
  the fuel runs out.
\<close>

fun pull_feed ::
  "ext \<Rightarrow> sql \<Rightarrow> 'k ed25519 \<Rightarrow> 'k feed_state \<Rightarrow> string list \<Rightarrow> u32 \<Rightarrow> nat \<Rightarrow> u64 \<Rightarrow> pg_db \<Rightarrow> signed_export list option" where
  "pull_feed E S D st scan limit 0 after db = None"
| "pull_feed E S D st scan limit (Suc fuel) after db =
     (case serve_feed E S D st scan (Some (''Bearer '' @ fs_bearer_token st))
         \<lparr>fq_after_sequence = after, fq_limit = limit\<rparr> db of
        (Inl e, db') \<Rightarrow> None
      | (Inr page, db') \<Rightarrow>
          if fp_exports page = [] then Some []
          else map_option ((@) (fp_exports page)) (pull_feed E S D st scan limit fuel (fp_next_sequence page) db'))"

end
