(* ===== verification/Evidence_Feed_Facts.thy ===== *)
theory Evidence_Feed_Facts
  imports Evidence_Feed
begin

text \<open>
  Facts of the evidence feed: the feed of a database as one list, what a page holds of it, the injectivity of
  the signing layout, complete and finite pulling, and the receipt that a consumer can lose.
\<close>

section \<open>The feed as a list\<close>

definition manifest_of :: "ext \<Rightarrow> sql \<Rightarrow> pg_db \<Rightarrow> string \<Rightarrow> bytes option" where
  "manifest_of E S db k = (case fst (pg_export_manifest_bytes E S k db) of Inl e \<Rightarrow> None | Inr b \<Rightarrow> Some b)"

lemma manifest_of_iff: "manifest_of E S db k \<noteq> None \<longleftrightarrow> succeeded (fst (pg_export_manifest_bytes E S k db))"
  by (cases "fst (pg_export_manifest_bytes E S k db)") (simp_all add: manifest_of_def)

fun exports_from ::
  "ext \<Rightarrow> sql \<Rightarrow> 'k ed25519 \<Rightarrow> 'k feed_state \<Rightarrow> pg_db \<Rightarrow> nat \<Rightarrow> u64 \<Rightarrow> (string \<times> i64) list \<Rightarrow> signed_export list" where
  "exports_from E S D st db n last_emitted [] = []"
| "exports_from E S D st db n last_emitted ((k, t) # xs) =
     (case manifest_of E S db k of
        None \<Rightarrow> exports_from E S D st db n last_emitted xs
      | Some b \<Rightarrow> make_export E D st n k b (emission_time t last_emitted)
          # exports_from E S D st db (Suc n) (emission_time t last_emitted) xs)"

lemma build_exports_run:
  "build_exports E S D st xs exports last_emitted db =
     (Inr (exports @ exports_from E S D st db (length exports) last_emitted xs), db)"
proof (induction xs arbitrary: exports last_emitted)
  case (Cons x xs)
  obtain k t where x: "x = (k, t)" by fastforce
  obtain r where "pg_export_manifest_bytes E S k db = (r, db)"
    using snd_pg_export [of E S k db] by (cases "pg_export_manifest_bytes E S k db") auto
  with Cons x show ?case by (cases r) (auto simp: manifest_of_def Let_def)
qed simp

lemma make_export_sel [simp]:
  "se_sequence (make_export E D st n k b e) = of_nat n + 1"
  "se_export_id (make_export E D st n k b e) = k"
  "se_emitted_at (make_export E D st n k b e) = e"
  by (simp_all add: make_export_def Let_def)

lemma exports_from_sequences:
  "map se_sequence (exports_from E S D st db n l xs) =
     map of_nat [Suc n..<Suc n + length (exports_from E S D st db n l xs)]"
proof (induction xs arbitrary: n l)
  case (Cons x xs)
  then show ?case by (cases x) (auto simp: upt_conv_Cons split: option.split simp del: upt_Suc)
qed simp

lemma exports_from_ids:
  "map se_export_id (exports_from E S D st db n l xs) =
     filter (\<lambda>k. manifest_of E S db k \<noteq> None) (map fst xs)"
  by (induction E S D st db n l xs rule: exports_from.induct) (auto split: option.split)

lemma length_exports_from: "length (exports_from E S D st db n l xs) \<le> length xs"
  by (induction E S D st db n l xs rule: exports_from.induct) (auto split: option.split intro: le_SucI)

lemma exports_from_made:
  "x \<in> set (exports_from E S D st db n l xs) \<Longrightarrow>
    \<exists>n k b e. manifest_of E S db k = Some b \<and> k \<in> set (map fst xs) \<and> x = make_export E D st n k b e"
  by (induction E S D st db n l xs rule: exports_from.induct) (fastforce split: option.splits)+

text \<open>An \<open>i64\<close> that is not negative is the same number as a \<open>u64\<close>.\<close>

lemma unat_nonneg_i64:
  assumes "\<not> sint (t :: i64) < 0"
  shows "int (unat t) = sint t"
proof -
  have "sint t < 2 ^ 63" using sint_lt [of t] by simp
  then have "take_bit 64 (sint t) = sint t"
    using assms by (intro take_bit_int_eq_self) simp_all
  moreover have "uint t = take_bit 64 (sint t)" by (simp add: uint_sint)
  ultimately show ?thesis by simp
qed

lemma emission_time_bound:
  assumes "unat l + 1 < 2 ^ 64"
  shows "unat l < unat (emission_time t l) \<and> unat (emission_time t l) \<le> max (2 ^ 63 - 1) (unat l + 1)"
proof -
  have l: "unat (l + 1) = unat l + 1" using assms by (simp add: unat_word_ariths)
  have t: "unat t \<le> 2 ^ 63 - 1" if "\<not> sint t < 0"
  proof -
    have "int (unat t) < int (2 ^ 63)" unfolding unat_nonneg_i64 [OF that] using sint_lt [of t] by simp
    then have "unat t < 2 ^ 63" by (simp only: of_nat_less_iff)
    then show ?thesis by simp
  qed
  show ?thesis
    using l t by (auto simp: emission_time_def max_def word_le_nat_alt)
qed

lemma filter_drop:
  "(\<And>i. i < length xs \<Longrightarrow> P (xs ! i) \<longleftrightarrow> k \<le> i) \<Longrightarrow> filter P xs = drop k xs"
proof (induction xs arbitrary: k)
  case (Cons x xs)
  from Cons.prems [of 0] have P: "P x \<longleftrightarrow> k = 0" by simp
  have "filter P xs = drop (k - 1) xs"
    using Cons.prems [of "Suc _"] by (intro Cons.IH) (auto simp: le_diff_conv)
  with P show ?case by (cases k) simp_all
qed simp

lemma filter_after:
  assumes "map se_sequence xs = map of_nat [1..<Suc (length xs)]" and "length xs < 2 ^ 64"
  shows "filter (\<lambda>x. se_sequence x > a) xs = drop (unat a) xs"
proof (rule filter_drop)
  fix i assume i: "i < length xs"
  have "se_sequence (xs ! i) = map se_sequence xs ! i" using i by simp
  also have "\<dots> = of_nat (Suc i)" unfolding assms(1) using i by (simp del: upt_Suc)
  finally have "se_sequence (xs ! i) = of_nat (Suc i)" .
  moreover have "unat (of_nat (Suc i) :: u64) = Suc i"
    using i assms(2) by (simp add: unat_of_nat del: of_nat_Suc)
  ultimately show "a < se_sequence (xs ! i) \<longleftrightarrow> unat a \<le> i"
    by (simp only: word_less_nat_alt less_Suc_eq_le)
qed

lemma emissions_increase:
  assumes "unat l + length xs < 2 ^ 64" and "length xs \<le> 2 ^ 63"
  shows "sorted_wrt (<) (l # map se_emitted_at (exports_from E S D st db n l xs))"
  using assms
proof (induction E S D st db n l xs rule: exports_from.induct)
  case (2 E S D st db n l k t xs)
  from 2(3) have bound: "l < emission_time t l" "unat (emission_time t l) \<le> max (2 ^ 63 - 1) (unat l + 1)"
    using emission_time_bound [of l t] by (simp_all add: word_less_nat_alt)
  show ?case
  proof (cases "manifest_of E S db k")
    case None
    with 2(1) 2(3,4) show ?thesis by simp
  next
    case (Some b)
    have "unat (emission_time t l) + length xs < 2 ^ 64" "length xs \<le> 2 ^ 63"
      using bound(2) 2(3,4) by (auto simp: max_def split: if_splits)
    with 2(2) Some have "sorted_wrt (<)
        (emission_time t l # map se_emitted_at (exports_from E S D st db (Suc n) (emission_time t l) xs))"
      by blast
    with Some bound(1) show ?thesis by (auto intro: less_trans)
  qed
qed simp

lemma snd_allowed_pairs [simp]: "snd (allowed_pairs E S ids pairs db) = db"
  by (induction ids arbitrary: pairs) (auto intro!: snd_try_read split: option.split)

lemma snd_current_receipts [simp]: "snd (current_receipts E S scan st db) = db"
  by (auto simp: current_receipts_def pg_list_ids_ordered_def intro!: snd_try_read split: option.split)

text \<open>The whole feed of a database.\<close>

definition feed_of ::
  "ext \<Rightarrow> sql \<Rightarrow> 'k ed25519 \<Rightarrow> 'k feed_state \<Rightarrow> pg_db \<Rightarrow> (string \<times> i64) list \<Rightarrow> signed_export list" where
  "feed_of E S D st db ordered = exports_from E S D st db 0 0 ordered"

lemma bearer_of_Bearer [simp]: "bearer_of (Some (''Bearer '' @ t)) = Some t"
  by (simp add: bearer_of_def)

lemma serve_feed_run:
  "serve_feed E S D st scan authorization q db =
     (if bearer_of authorization \<noteq> Some (fs_bearer_token st) then (Inl 401, db)
      else if fq_limit q = 0 \<or> fq_limit q > 1024 then (Inl 400, db)
      else (case fst (current_receipts E S scan st db) of
              Inl e \<Rightarrow> (Inl 500, db)
            | Inr ordered \<Rightarrow> (Inr (page_of q (feed_of E S D st db ordered)), db)))"
  using snd_current_receipts [of E S scan st db]
  by (cases "current_receipts E S scan st db")
    (auto simp: serve_feed_def try_op_run map_err_run build_exports_run feed_of_def split: sum.split)

lemma feed_of_sequences:
  "map se_sequence (feed_of E S D st db ordered) = map of_nat [1..<Suc (length (feed_of E S D st db ordered))]"
  using exports_from_sequences [of E S D st db 0 0 ordered] by (simp add: feed_of_def)

lemma length_feed_of: "length (feed_of E S D st db ordered) \<le> length ordered"
  by (simp add: feed_of_def length_exports_from)

lemma feed_of_sequence_nth:
  assumes "i < length (feed_of E S D st db ordered)" and "length ordered < 2 ^ 63"
  shows "unat (se_sequence (feed_of E S D st db ordered ! i)) = Suc i"
proof -
  have "se_sequence (feed_of E S D st db ordered ! i) = map se_sequence (feed_of E S D st db ordered) ! i"
    using assms(1) by simp
  also have "\<dots> = of_nat (Suc i)" unfolding feed_of_sequences using assms(1) by (simp del: upt_Suc)
  finally show ?thesis
    using assms length_feed_of [of E S D st db ordered] by (simp add: unat_of_nat del: of_nat_Suc)
qed

lemma page_of_feed:
  assumes "length ordered < 2 ^ 63"
  shows "fp_exports (page_of q (feed_of E S D st db ordered)) =
    take (unat (fq_limit q)) (drop (unat (fq_after_sequence q)) (feed_of E S D st db ordered))"
  using filter_after [OF feed_of_sequences, of E S D st db ordered "fq_after_sequence q"] assms
    length_feed_of [of E S D st db ordered]
  by (simp add: page_of_def Let_def)

lemma next_sequence_feed:
  assumes "length ordered < 2 ^ 63" and "fp_exports (page_of q (feed_of E S D st db ordered)) \<noteq> []"
  shows "unat (fp_next_sequence (page_of q (feed_of E S D st db ordered))) =
    unat (fq_after_sequence q) + length (fp_exports (page_of q (feed_of E S D st db ordered)))"
proof -
  let ?ys = "feed_of E S D st db ordered" and ?a = "unat (fq_after_sequence q)"
  let ?p = "fp_exports (page_of q ?ys)"
  note p = page_of_feed [OF assms(1), of q E S D st db]
  have "fp_next_sequence (page_of q ?ys) = se_sequence (last ?p)"
    using assms(2) by (simp add: page_of_def Let_def)
  moreover define i where "i = ?a + (length ?p - 1)"
  moreover have "last ?p = ?ys ! i" and i: "i < length ?ys"
    using assms(2) unfolding p i_def by (auto simp: last_conv_nth)
  moreover have "Suc i = ?a + length ?p" using assms(2) by (cases ?p) (simp_all add: i_def)
  ultimately show ?thesis using feed_of_sequence_nth [OF i assms(1)] by simp
qed

lemma take_append_drop_after:
  "take k (drop a ys) @ drop (a + length (take k (drop a ys))) ys = drop a ys"
proof -
  have "drop (a + length (take k (drop a ys))) ys = drop (length (take k (drop a ys))) (drop a ys)"
    by (simp add: add.commute)
  also have "\<dots> = drop k (drop a ys)" by (cases "k \<le> length (drop a ys)") auto
  finally show ?thesis by (simp only: append_take_drop_id)
qed

lemma pull_feed_run:
  assumes "fst (current_receipts E S scan st db) = Inr ordered" and "length ordered < 2 ^ 63"
    and "0 < limit" and "limit \<le> 1024"
  shows "length (feed_of E S D st db ordered) - unat after < fuel \<Longrightarrow>
    pull_feed E S D st scan limit fuel after db = Some (drop (unat after) (feed_of E S D st db ordered))"
proof (induction fuel arbitrary: after)
  case (Suc fuel)
  let ?q = "\<lparr>fq_after_sequence = after, fq_limit = limit\<rparr>"
  let ?ys = "feed_of E S D st db ordered" and ?page = "page_of ?q (feed_of E S D st db ordered)"
  have serve: "serve_feed E S D st scan (Some (''Bearer '' @ fs_bearer_token st)) ?q db = (Inr ?page, db)"
    unfolding serve_feed_run bearer_of_Bearer assms(1) using assms(3,4) by auto
  have page: "fp_exports ?page = take (unat limit) (drop (unat after) ?ys)"
    using page_of_feed [OF assms(2), of ?q] by simp
  show ?case
  proof (cases "fp_exports ?page = []")
    case True
    moreover from True have "drop (unat after) ?ys = []"
      using assms(3) unfolding page by (simp add: word_less_nat_alt)
    ultimately show ?thesis by (simp only: pull_feed.simps serve prod.case sum.case if_True refl)
  next
    case False
    let ?n = "length (fp_exports ?page)"
    from next_sequence_feed [OF assms(2) False] have nxt: "unat (fp_next_sequence ?page) = unat after + ?n" by simp
    moreover have "?n \<noteq> 0" using False by simp
    ultimately have "length ?ys - unat (fp_next_sequence ?page) < fuel" using Suc.prems False page by auto
    from Suc.IH [OF this] have "pull_feed E S D st scan limit fuel (fp_next_sequence ?page) db =
        Some (drop (unat after + ?n) ?ys)" by (simp only: nxt)
    moreover have "fp_exports ?page @ drop (unat after + ?n) ?ys = drop (unat after) ?ys"
      unfolding page by (rule take_append_drop_after)
    ultimately show ?thesis using False by (simp only: pull_feed.simps serve prod.case sum.case if_False option.map)
  qed
qed simp

section \<open>Signing bytes\<close>

text \<open>An export whose texts and hash have the sizes the layout can hold.\<close>

definition export_fits :: "signed_export \<Rightarrow> bool" where
  "export_fits x \<longleftrightarrow>
     fits_u32 (se_export_id x) \<and> fits_u32 (se_tenant_id x)
     \<and> (\<forall>v. se_supersedes_export_id x = Some v \<longrightarrow> fits_u32 v) \<and> length (se_payload_sha256 x) = 32"

lemma put_text_append: "put_text out v @ b = out @ be_u32 (of_nat (length v)) @ v @ b"
  by (simp add: put_text_def)

definition supersedes_bytes :: "string option \<Rightarrow> bytes" where
  "supersedes_bytes s = (case s of None \<Rightarrow> [CHR 0x00] | Some v \<Rightarrow> CHR 0x01 # be_u32 (of_nat (length v)) @ v)"

lemma export_signing_bytes_eq:
  "export_signing_bytes x = signature_domain @ be_u16 (se_schema_version x) @ be_u64 (se_sequence x)
     @ be_u32 (of_nat (length (se_export_id x))) @ se_export_id x @ be_u32 (se_revision x)
     @ supersedes_bytes (se_supersedes_export_id x)
     @ be_u32 (of_nat (length (se_tenant_id x))) @ se_tenant_id x @ be_u64 (se_emitted_at x)
     @ se_payload_sha256 x @ be_u64 (of_nat (length (se_payload x))) @ se_payload x"
  by (simp add: export_signing_bytes_def Let_def put_text_def supersedes_bytes_def split: option.split)

lemma supersedes_bytes_inject:
  assumes "supersedes_bytes s @ xs = supersedes_bytes t @ ys"
    and "\<forall>v. s = Some v \<longrightarrow> fits_u32 v" and "\<forall>v. t = Some v \<longrightarrow> fits_u32 v"
  shows "s = t \<and> xs = ys"
proof (cases s)
  case None
  with assms(1) show ?thesis by (cases t) (simp_all add: supersedes_bytes_def)
next
  case (Some v)
  show ?thesis
  proof (cases t)
    case None
    with assms(1) Some show ?thesis by (simp add: supersedes_bytes_def)
  next
    case t: (Some u)
    with assms(1) Some have "be_u32 (of_nat (length v)) @ v @ xs = be_u32 (of_nat (length u)) @ u @ ys"
      by (simp add: supersedes_bytes_def)
    from prefixed_inject [OF _ _ this] assms(2,3) Some t show ?thesis by simp
  qed
qed

text \<open>
  A signature is over one export. The bytes that are signed determine every field but the signature and
  the name of the key, so a signature made for one receipt, tenant, sequence number or payload is
  valid for no other.
\<close>

theorem export_signing_bytes_inject:
  assumes "export_fits x" and "export_fits y" and "export_signing_bytes x = export_signing_bytes y"
  shows "y = x\<lparr>se_signing_key_id := se_signing_key_id y, se_signature := se_signature y\<rparr>"
proof -
  let ?r4 = "\<lambda>x. be_u64 (se_emitted_at x) @ se_payload_sha256 x @ be_u64 (of_nat (length (se_payload x))) @ se_payload x"
  let ?r3 = "\<lambda>x. be_u32 (of_nat (length (se_tenant_id x))) @ se_tenant_id x @ ?r4 x"
  let ?r2 = "\<lambda>x. supersedes_bytes (se_supersedes_export_id x) @ ?r3 x"
  let ?r1 = "\<lambda>x. be_u32 (of_nat (length (se_export_id x))) @ se_export_id x @ be_u32 (se_revision x) @ ?r2 x"
  note fits = assms(1,2) [unfolded export_fits_def]
  have "be_u16 (se_schema_version x) @ be_u64 (se_sequence x) @ ?r1 x
      = be_u16 (se_schema_version y) @ be_u64 (se_sequence y) @ ?r1 y"
    using assms(3) unfolding export_signing_bytes_eq by (simp only: same_append_eq)
  then have f1: "se_schema_version x = se_schema_version y" "se_sequence x = se_sequence y" and r1: "?r1 x = ?r1 y"
    by (simp_all only: append_eq_same_length length_be_u16 length_be_u64 be_u16_inject be_u64_inject)
  from prefixed_inject [OF _ _ r1] fits have f2: "se_export_id x = se_export_id y"
    and "be_u32 (se_revision x) @ ?r2 x = be_u32 (se_revision y) @ ?r2 y" by blast+
  then have f3: "se_revision x = se_revision y" and r2: "?r2 x = ?r2 y"
    by (simp_all only: append_eq_same_length length_be_u32 be_u32_inject)
  from supersedes_bytes_inject [OF r2] fits have f4: "se_supersedes_export_id x = se_supersedes_export_id y"
    and r3: "?r3 x = ?r3 y" by blast+
  from prefixed_inject [OF _ _ r3] fits have f5: "se_tenant_id x = se_tenant_id y" and r4: "?r4 x = ?r4 y"
    by blast+
  have "length (se_payload_sha256 x) = length (se_payload_sha256 y)" using fits by simp
  with r4 have "se_emitted_at x = se_emitted_at y" "se_payload_sha256 x = se_payload_sha256 y"
    "se_payload x = se_payload y"
    by (simp_all only: append_eq_same_length length_be_u64 be_u64_inject)
  with f1 f2 f3 f4 f5 show ?thesis by (cases x; cases y) simp
qed

section \<open>Properties\<close>

text \<open>What a consumer can check of an export.\<close>

definition authentic :: "ext \<Rightarrow> sql \<Rightarrow> 'k ed25519 \<Rightarrow> 'k feed_state \<Rightarrow> pg_db \<Rightarrow> signed_export \<Rightarrow> bool" where
  "authentic E S D st db x \<longleftrightarrow>
     se_schema_version x = 1 \<and> se_revision x = 1 \<and> se_supersedes_export_id x = None
     \<and> se_tenant_id x = fs_tenant_id st \<and> se_signing_key_id x = fs_signing_key_id st
     \<and> fst (pg_export_manifest_bytes E S (se_export_id x) db) = Inr (se_payload x)
     \<and> se_payload_sha256 x = ext_sha256 E (se_payload x)
     \<and> se_signature x = ed_sign D (fs_signing_key st) (export_signing_bytes x)"

lemma signing_bytes_unsigned [simp]: "export_signing_bytes (x\<lparr>se_signature := s\<rparr>) = export_signing_bytes x"
  by (simp add: export_signing_bytes_def)

lemma make_export_signature:
  "se_signature (make_export E D st n k b e) =
    ed_sign D (fs_signing_key st) (export_signing_bytes (make_export E D st n k b e))"
proof -
  have "se_signature (x\<lparr>se_signature := s\<rparr>) = s" for x :: signed_export and s by simp
  then show ?thesis unfolding make_export_def Let_def signing_bytes_unsigned by this
qed

lemma feed_of_authentic: "x \<in> set (feed_of E S D st db ordered) \<Longrightarrow> authentic E S D st db x"
  by (auto simp: feed_of_def authentic_def make_export_signature manifest_of_def
      dest!: exports_from_made split: sum.splits)
    (simp_all add: make_export_def feed_schema_version_def Let_def)

text \<open>
  C20. A page is authentic and only for the authorized. The server answers a page exactly when the bearer token
  is the configured one, the limit is between 1 and 1024 and the receipts can be listed (401, 400 and 500
  otherwise), and it never changes the database. A receipt that cannot be exported is skipped and refuses nothing: the
  page holds the receipts that can be exported, in the order of the list, from the given sequence number on,
  as many as asked or all that are left (of fewer than 2^63 receipts); and each export carries the manifest of its receipt as the export endpoint
  computes it, that manifest's hash, the tenant, and the key's signature over all of it.
\<close>

theorem feed_page_authentic:
  assumes "serve_feed E S D st scan authorization q db = (r, db')"
  shows "db' = db
    \<and> ((\<exists>page. r = Inr page) \<longleftrightarrow> bearer_of authorization = Some (fs_bearer_token st)
         \<and> 0 < fq_limit q \<and> fq_limit q \<le> 1024 \<and> succeeded (fst (current_receipts E S scan st db)))
    \<and> (case r of
        Inl status \<Rightarrow>
          status = (if bearer_of authorization \<noteq> Some (fs_bearer_token st) then 401
                    else if fq_limit q = 0 \<or> fq_limit q > 1024 then 400 else 500)
      | Inr page \<Rightarrow>
          length (fp_exports page) \<le> unat (fq_limit q)
          \<and> (\<forall>x \<in> set (fp_exports page). se_sequence x > fq_after_sequence q \<and> authentic E S D st db x)
          \<and> (\<exists>ordered. fst (current_receipts E S scan st db) = Inr ordered
               \<and> (length ordered < 2 ^ 63 \<longrightarrow> map se_export_id (fp_exports page) =
                    take (unat (fq_limit q)) (drop (unat (fq_after_sequence q))
                      (filter (\<lambda>k. succeeded (fst (pg_export_manifest_bytes E S k db))) (map fst ordered))))))"
proof (cases "bearer_of authorization = Some (fs_bearer_token st) \<and> fq_limit q \<noteq> 0 \<and> fq_limit q \<le> 1024")
  case False
  with assms show ?thesis by (auto simp: serve_feed_run word_gt_0 split: if_splits)
next
  case True
  then have one: "0 < fq_limit q" and small: "\<not> 1024 < fq_limit q"
    by (simp add: word_gt_0) (use True in \<open>simp only: not_less\<close>)
  show ?thesis
  proof (cases "fst (current_receipts E S scan st db)")
    case (Inl e)
    with assms True small show ?thesis by (auto simp: serve_feed_run)
  next
    case (Inr ordered)
    let ?feed = "feed_of E S D st db ordered"
    have r: "r = Inr (page_of q ?feed)" "db' = db" using assms True small Inr by (auto simp: serve_feed_run)
    have ids: "map se_export_id ?feed = filter (\<lambda>k. succeeded (fst (pg_export_manifest_bytes E S k db))) (map fst ordered)"
      by (simp only: feed_of_def exports_from_ids manifest_of_iff)
    have "map se_export_id (fp_exports (page_of q ?feed)) = take (unat (fq_limit q)) (drop (unat (fq_after_sequence q))
        (filter (\<lambda>k. succeeded (fst (pg_export_manifest_bytes E S k db))) (map fst ordered)))"
      if "length ordered < 2 ^ 63"
      by (simp only: page_of_feed [OF that] take_map [symmetric] drop_map [symmetric] ids [symmetric])
    moreover have "length (fp_exports (page_of q ?feed)) \<le> unat (fq_limit q)" by (simp add: page_of_def Let_def)
    moreover have "\<forall>x \<in> set (fp_exports (page_of q ?feed)). se_sequence x > fq_after_sequence q \<and> authentic E S D st db x"
      by (auto simp: page_of_def Let_def dest!: in_set_takeD feed_of_authentic)
    ultimately show ?thesis using True one Inr by (simp add: r)
  qed
qed

lemma length_fetch_all: "length (fetch_all m ks) \<le> length ks"
  by (induction ks) (auto split: option.split)

lemma sorted_map_filter: "sorted (map f xs) \<Longrightarrow> sorted (map f (filter P xs))"
  by (rule sorted_filter)

text \<open>
  C19. Pulling the feed ends and yields everything, once and in order. With a database at rest and no allow
  list, a consumer that starts at zero and follows the next sequence number, with any permitted limit, sees after
  finitely many pulls an empty page; it has then received exactly the receipts that can be
  exported, each once and oldest first, numbered from one without a gap and with strictly increasing emission
  times, and one pull more than there are receipts is always enough.
\<close>

theorem feed_pull_complete:
  assumes "db_down db = None" and "fs_allow_list st = None" and "distinct scan"
    and "set scan = dom (db_receipts db)" and "length scan < 2 ^ 63"
    and "0 < limit" and "limit \<le> 1024" and "length scan < fuel"
  shows "\<exists>xs. pull_feed E S D st scan limit fuel 0 db = Some xs
    \<and> distinct (map se_export_id xs)
    \<and> set (map se_export_id xs) =
        {k \<in> dom (db_receipts db). succeeded (fst (pg_export_manifest_bytes E S k db))}
    \<and> sorted (map (\<lambda>x. sint (rw_created_at (the (db_receipts db (se_export_id x))))) xs)
    \<and> map se_sequence xs = map of_nat [1..<Suc (length xs)]
    \<and> sorted_wrt (<) (map se_emitted_at xs)"
proof -
  let ?rows = "rows_ordered scan (\<lambda>k r. True) rw_created_at (db_receipts db)"
  let ?ordered = "map (\<lambda>(k, r). (k, rw_created_at r)) ?rows"
  let ?xs = "feed_of E S D st db ?ordered"
  have cur: "fst (current_receipts E S scan st db) = Inr ?ordered"
    using assms(1,2) by (simp add: current_receipts_def map_err_run pg_list_ids_ordered_def sql_select_run)
  have len: "length ?ordered \<le> length scan"
    using length_filter_le [of "\<lambda>_. True"] length_fetch_all [of _ scan] by (simp add: rows_ordered_def)
  have pull: "pull_feed E S D st scan limit fuel 0 db = Some ?xs"
    using pull_feed_run [OF cur _ assms(6,7), where fuel = fuel and after = 0] len assms(5,8) length_feed_of [of E S D st db ?ordered]
    by simp
  have ids: "map se_export_id ?xs = filter (\<lambda>k. manifest_of E S db k \<noteq> None) (map fst ?rows)"
    by (simp add: feed_of_def exports_from_ids case_prod_unfold comp_def)
  have rows: "set ?rows = {(k, r). db_receipts db k = Some r}"
    using assms(4) by (auto simp: set_rows_ordered)
  have dist: "distinct (map se_export_id ?xs)"
    unfolding ids by (intro distinct_filter distinct_rows_ordered [OF assms(3)])
  have set: "set (map se_export_id ?xs) =
      {k \<in> dom (db_receipts db). succeeded (fst (pg_export_manifest_bytes E S k db))}"
    unfolding ids manifest_of_iff by (auto simp: rows image_iff)
  have "map (\<lambda>x. sint (rw_created_at (the (db_receipts db (se_export_id x))))) ?xs =
      map (\<lambda>k. sint (rw_created_at (the (db_receipts db k)))) (map se_export_id ?xs)" by simp
  also have "sorted \<dots>" unfolding ids
  proof (rule sorted_map_filter)
    have "map (\<lambda>k. sint (rw_created_at (the (db_receipts db k)))) (map fst ?rows) =
        map (\<lambda>(k, r). sint (rw_created_at r)) ?rows"
      using rows by auto
    then show "sorted (map (\<lambda>k. sint (rw_created_at (the (db_receipts db k)))) (map fst ?rows))"
      by (simp only: rows_ordered_sorted)
  qed
  finally have sorted: "sorted (map (\<lambda>x. sint (rw_created_at (the (db_receipts db (se_export_id x))))) ?xs)" .
  have "sorted_wrt (<) (0 # map se_emitted_at ?xs)"
    unfolding feed_of_def using len assms(5) by (intro emissions_increase) auto
  then have "sorted_wrt (<) (map se_emitted_at ?xs)" by simp
  then show ?thesis using pull dist set sorted feed_of_sequences by blast
qed

text \<open>
  C38. Sequence numbers do not stay with their receipts, so a consumer can lose one. A receipt that is stored
  later but ordered before the last one, created in the same second with a smaller identifier say, moves the
  numbers behind it: a consumer that pulled the whole feed and pulls on from where it stopped is sent the last
  receipt once more and never the new one, although it can be exported.
\<close>

theorem late_receipt_never_delivered:
  assumes "fs_allow_list st = None" and "0 < limit" and "limit \<le> 1024"
    and "pg_list_ids_ordered scan db = (Inr (xs @ ys @ [(j, t)]), db)"
    and "pg_list_ids_ordered scan' db' = (Inr (xs @ (k, u) # ys @ [(j, t)]), db')"
    and "distinct (map fst (xs @ (k, u) # ys @ [(j, t)]))"
    and "\<forall>i \<in> set (map fst (xs @ (k, u) # ys @ [(j, t)])). succeeded (fst (pg_export_manifest_bytes E S i db'))"
    and "\<forall>i \<in> set (map fst (xs @ ys @ [(j, t)])). succeeded (fst (pg_export_manifest_bytes E S i db))"
    and "length xs + length ys + 2 < fuel" and "fuel < 2 ^ 63"
    and "pull_feed E S D st scan limit fuel 0 db = Some got"
    and "pull_feed E S D st scan' limit fuel (se_sequence (last got)) db' = Some rest"
  shows "map se_export_id rest = [j] \<and> k \<notin> set (map se_export_id (got @ rest))"
proof -
  let ?old = "xs @ ys @ [(j, t)]" and ?new = "xs @ (k, u) # ys @ [(j, t)]"
  have cur: "fst (current_receipts E S scan st db) = Inr ?old" "fst (current_receipts E S scan' st db') = Inr ?new"
    using assms(1,4,5) by (simp_all add: current_receipts_def map_err_run)
  have all: "map se_export_id (feed_of E S D st db ?old) = map fst ?old"
    "map se_export_id (feed_of E S D st db' ?new) = map fst ?new"
    unfolding feed_of_def exports_from_ids manifest_of_iff using assms(7,8) by (auto intro!: filter_True)
  then have len: "length (feed_of E S D st db ?old) = length ?old" "length (feed_of E S D st db' ?new) = length ?new"
    by (metis length_map)+
  have got: "got = feed_of E S D st db ?old"
    using pull_feed_run [OF cur(1) _ assms(2,3), where fuel = fuel and after = 0] assms(9-11) len(1) by simp
  then have "got \<noteq> []" using len(1) by auto
  then have "unat (se_sequence (last got)) = length got"
    using feed_of_sequence_nth [of "length got - 1" E S D st db ?old] got assms(9,10) len(1)
    by (simp add: last_conv_nth)
  then have "rest = drop (length ?old) (feed_of E S D st db' ?new)"
    using pull_feed_run [OF cur(2) _ assms(2,3), where fuel = fuel and after = "se_sequence (last got)"]
      assms(9,10,12) got len by simp
  then have "map se_export_id rest = drop (length ?old) (map fst ?new)" by (simp only: drop_map [symmetric] all(2))
  then have ids: "map se_export_id rest = [j]" by simp
  with assms(6) got all(1) show ?thesis by auto
qed

text \<open>Three receipts without evidence, created at the same time, for the witnesses.\<close>

definition feed_receipt :: "string \<Rightarrow> receipt_projection" where
  "feed_receipt k =
     \<lparr>rp_receipt_id_hex = k, rp_mandate_id_hex = ''m'', rp_intent_id_hex = ''i'', rp_attempt_id_hex = ''att-m'',
      rp_outcome = Failed, rp_created_at = 50, rp_dispatch_evidence_refs = [], rp_target_evidence_refs = [],
      rp_evidence_gaps = [], rp_canonical_bytes = None\<rparr>"

definition feed_db :: "string list \<Rightarrow> pg_db" where
  "feed_db ids = example_db\<lparr>db_receipts :=
     (\<lambda>k. if k \<in> set ids then Some (receipt_row_of sql_ref (feed_receipt k)) else None)\<rparr>"

definition feed_state_ref :: "nat feed_state" where
  "feed_state_ref =
     \<lparr>fs_bearer_token = ''t'', fs_signing_key = 7, fs_signing_key_id = ''key-1'', fs_tenant_id = ''tenant'',
      fs_allow_list = None\<rparr>"

definition ed25519_ref :: "nat ed25519" where
  "ed25519_ref = \<lparr>ed_from_bytes = length, ed_sign = (\<lambda>k b. replicate k CHR ''s'')\<rparr>"

lemma feed_db_export:
  assumes "k \<in> set ids"
  shows "pg_export_manifest_bytes ext_ref sql_ref k (feed_db ids) = (Inr [], feed_db ids)"
proof -
  have "decode_receipt sql_ref (k, receipt_row_of sql_ref (feed_receipt k)) = Inr (feed_receipt k)"
    using decode_receipt_row [OF sql_laws_ref, of "feed_receipt k"] by (simp add: feed_receipt_def)
  with assms have "pg_receipt_get sql_ref k (feed_db ids) = (Inr (Some (feed_receipt k)), feed_db ids)"
    by (simp add: pg_receipt_get_run feed_db_def example_db_def)
  then show ?thesis
    by (simp add: pg_export_manifest_bytes_def try_op_run map_err_run pg_fetch_nodes_def feed_receipt_def ext_ref_def)
qed

lemma feed_db_list:
  assumes "set ids = set ids'"
  shows "pg_list_ids_ordered ids' (feed_db ids) = (Inr (map (\<lambda>k. (k, 50)) ids'), feed_db ids)"
proof -
  have rows: "fetch_all (\<lambda>k. map_option (Pair k) (db_receipts (feed_db ids) k)) ks =
      map (\<lambda>k. (k, receipt_row_of sql_ref (feed_receipt k))) ks" if "set ks \<subseteq> set ids" for ks
    using that by (induction ks) (simp_all add: feed_db_def)
  have "rows_ordered ids' (\<lambda>k r. True) rw_created_at (db_receipts (feed_db ids)) =
      map (\<lambda>k. (k, receipt_row_of sql_ref (feed_receipt k))) ids'"
    using assms unfolding rows_ordered_def
    by (subst sort_key_id_if_sorted) (simp_all add: rows receipt_row_of_def feed_receipt_def sorted_wrt_map comp_def)
  then show ?thesis
    by (simp add: pg_list_ids_ordered_def sql_select_run feed_db_def example_db_def receipt_row_of_def feed_receipt_def)
qed

lemma feed_db_simps [simp]:
  "db_down (feed_db ids) = None" "dom (db_receipts (feed_db ids)) = set ids"
  by (auto simp: feed_db_def example_db_def split: if_splits)

theorem feed_page_authentic_witness:
  "fst (serve_feed ext_ref sql_ref ed25519_ref feed_state_ref [''rcpt-1''] (Some ''Bearer wrong'')
      (feed_query_of None None) (feed_db [''rcpt-1''])) = Inl 401
   \<and> (\<exists>page. fst (serve_feed ext_ref sql_ref ed25519_ref feed_state_ref [''rcpt-1''] (Some ''Bearer t'')
        (feed_query_of None None) (feed_db [''rcpt-1''])) = Inr page
      \<and> (\<forall>x \<in> set (fp_exports page).
           authentic ext_ref sql_ref ed25519_ref feed_state_ref (feed_db [''rcpt-1'']) x))"
proof -
  let ?db = "feed_db [''rcpt-1'']" and ?q = "feed_query_of None None"
  let ?serve = "\<lambda>a. serve_feed ext_ref sql_ref ed25519_ref feed_state_ref [''rcpt-1''] a ?q ?db"
  have refused: "fst (?serve (Some ''Bearer wrong'')) = Inl 401"
    by (simp add: serve_feed_run bearer_of_def feed_state_ref_def)
  have served: "\<exists>page. fst (?serve (Some ''Bearer t'')) = Inr page"
    by (simp add: serve_feed_run bearer_of_def feed_state_ref_def feed_query_of_def default_limit_def
        current_receipts_def map_err_run feed_db_list)
  then obtain page db' where "?serve (Some ''Bearer t'') = (Inr page, db')"
    by (cases "?serve (Some ''Bearer t'')") auto
  from feed_page_authentic [OF this] refused this show ?thesis by auto
qed

theorem feed_pull_complete_witness:
  "\<exists>xs. pull_feed ext_ref sql_ref ed25519_ref feed_state_ref [''rcpt-1'', ''rcpt-2''] 1 3 0
      (feed_db [''rcpt-1'', ''rcpt-2'']) = Some xs
    \<and> set (map se_export_id xs) = {''rcpt-1'', ''rcpt-2''} \<and> sorted_wrt (<) (map se_emitted_at xs)"
proof -
  let ?ids = "[''rcpt-1'', ''rcpt-2'']"
  obtain xs where xs: "pull_feed ext_ref sql_ref ed25519_ref feed_state_ref ?ids 1 3 0 (feed_db ?ids) = Some xs"
    "set (map se_export_id xs) = {k \<in> dom (db_receipts (feed_db ?ids)).
      succeeded (fst (pg_export_manifest_bytes ext_ref sql_ref k (feed_db ?ids)))}"
    "sorted_wrt (<) (map se_emitted_at xs)"
    using feed_pull_complete [of "feed_db ?ids" feed_state_ref ?ids 1 3 ext_ref sql_ref ed25519_ref]
    by (auto simp: feed_state_ref_def)
  have "succeeded (fst (pg_export_manifest_bytes ext_ref sql_ref k (feed_db ?ids)))" if "k \<in> set ?ids" for k
    using feed_db_export [OF that] by simp
  with xs(2) have "set (map se_export_id xs) = set ?ids" by auto
  with xs(1,3) show ?thesis by auto
qed

theorem late_receipt_never_delivered_witness:
  "\<exists>got rest. pull_feed ext_ref sql_ref ed25519_ref feed_state_ref [''rcpt-2''] 1 5 0 (feed_db [''rcpt-2'']) = Some got
    \<and> pull_feed ext_ref sql_ref ed25519_ref feed_state_ref [''rcpt-1'', ''rcpt-2''] 1 5 (se_sequence (last got))
        (feed_db [''rcpt-1'', ''rcpt-2'']) = Some rest
    \<and> map se_export_id rest = [''rcpt-2''] \<and> ''rcpt-1'' \<notin> set (map se_export_id (got @ rest))"
proof -
  let ?pull = "\<lambda>ids a. pull_feed ext_ref sql_ref ed25519_ref feed_state_ref ids 1 5 a (feed_db ids)"
  have pull: "\<exists>xs. ?pull ids a = Some xs" if "length ids \<le> 2" for ids a
  proof -
    have "fst (current_receipts ext_ref sql_ref ids feed_state_ref (feed_db ids)) = Inr (map (\<lambda>k. (k, 50)) ids)"
      by (simp add: current_receipts_def feed_state_ref_def map_err_run feed_db_list)
    from pull_feed_run [OF this, where limit = 1 and fuel = 5 and after = a and D = ed25519_ref] that
      length_feed_of [of ext_ref sql_ref ed25519_ref feed_state_ref "feed_db ids" "map (\<lambda>k. (k, 50)) ids"]
    show ?thesis by fastforce
  qed
  obtain got where got: "?pull [''rcpt-2''] 0 = Some got" using pull [of "[''rcpt-2'']" 0] by auto
  obtain rest where rest: "?pull [''rcpt-1'', ''rcpt-2''] (se_sequence (last got)) = Some rest"
    using pull [of "[''rcpt-1'', ''rcpt-2'']" "se_sequence (last got)"] by auto
  have "map se_export_id rest = [''rcpt-2''] \<and> ''rcpt-1'' \<notin> set (map se_export_id (got @ rest))"
    by (rule late_receipt_never_delivered [where xs = "[]" and ys = "[]" and j = "''rcpt-2''" and t = 50
          and k = "''rcpt-1''" and u = 50 and scan = "[''rcpt-2'']" and scan' = "[''rcpt-1'', ''rcpt-2'']"
          and fuel = 5 and limit = 1 and E = ext_ref and S = sql_ref and D = ed25519_ref and st = feed_state_ref
          and db = "feed_db [''rcpt-2'']" and db' = "feed_db [''rcpt-1'', ''rcpt-2'']"])
      (use got rest in \<open>simp_all add: feed_db_list feed_db_export feed_state_ref_def\<close>)
  with got rest show ?thesis by (intro exI [of _ got] exI [of _ rest]) (simp only: simp_thms)
qed

theorem export_signing_bytes_inject_witness:
  "export_signing_bytes (make_export ext_ref ed25519_ref feed_state_ref 0 ''rcpt-1'' ''p'' 5)
    \<noteq> export_signing_bytes (make_export ext_ref ed25519_ref feed_state_ref 0 ''rcpt-2'' ''p'' 5)"
proof
  let ?x = "\<lambda>k. make_export ext_ref ed25519_ref feed_state_ref 0 k ''p'' 5"
  have fits: "export_fits (?x k)" if "length k < 2 ^ 32" for k
    using that by (simp add: export_fits_def make_export_def Let_def fits_u32_def feed_state_ref_def ext_ref_def)
  assume "export_signing_bytes (?x ''rcpt-1'') = export_signing_bytes (?x ''rcpt-2'')"
  from export_signing_bytes_inject [OF fits fits this] show False
    by (simp add: make_export_def Let_def)
qed

end
