(* ===== verification/Web_Pages.thy ===== *)
theory Web_Pages
  imports Dispatch Action_Requests "HOL-Library.Signed_Division"
begin

text \<open>
  The data of the HTML pages (\<^verbatim>\<open>apps/piteka-web/src/lib.rs\<close>, \<^verbatim>\<open>apps/piteka-web/src/pages/mod.rs\<close> and the row types of
  \<^verbatim>\<open>crates/piteka-ui/src/lib.rs\<close>): timestamps, status labels, rows and panels. A page is the data its
  template is given; rendering is askama's and not modelled, nor is the router. A panic is None. Texts
  outside ASCII are their UTF-8 bytes.
\<close>

section \<open>Timestamps\<close>

text \<open>A number zero-padded to a width, as \<open>{:04}\<close> prints one that is not negative.\<close>

definition pad0 :: "nat \<Rightarrow> int \<Rightarrow> string" where
  "pad0 w n = (let s = dec_int n in replicate (w - length s) CHR ''0'' @ s)"

text \<open>
  The conversion of a day count since 1970 to a civil date, over the \<open>i64\<close> arithmetic of the code: \<open>div_euclid\<close> by a
  positive number rounds down, and \<open>/\<close> is \<open>sdiv\<close>, toward zero.
\<close>

definition civil_from_days :: "int \<Rightarrow> int \<times> int \<times> int" where
  "civil_from_days days =
     (let z = days + 719468;
          era = (if z \<ge> 0 then z else z - 146096) div 146097;
          day_of_era = z - era * 146097;
          year_of_era = (day_of_era - day_of_era sdiv 1460 + day_of_era sdiv 36524 - day_of_era sdiv 146096) sdiv 365;
          year = year_of_era + era * 400;
          day_of_year = day_of_era - (365 * year_of_era + year_of_era sdiv 4 - year_of_era sdiv 100);
          month_prime = (5 * day_of_year + 2) sdiv 153;
          day = day_of_year - (153 * month_prime + 2) sdiv 5 + 1;
          month = month_prime + (if month_prime < 10 then 3 else - 9);
          year = year + (if month \<le> 2 then 1 else 0)
      in (year, month, day))"

definition render_utc :: "int \<times> int \<times> int \<Rightarrow> int \<Rightarrow> int \<Rightarrow> int \<Rightarrow> string" where
  "render_utc date hour minute second =
     (case date of (year, month, day) \<Rightarrow>
        pad0 4 year @ ''-'' @ pad0 2 month @ ''-'' @ pad0 2 day @ ''T'' @ pad0 2 hour @ '':'' @ pad0 2 minute
          @ '':'' @ pad0 2 second @ ''Z'')"

definition format_timestamp :: "u64 \<Rightarrow> string \<times> string" where
  "format_timestamp unix_secs =
     (let seconds = sint (i64_from_u64_or_max unix_secs);
          days = seconds div 86400;
          day_seconds = seconds mod 86400;
          hour = day_seconds sdiv 3600;
          minute = day_seconds smod 3600 sdiv 60;
          second = day_seconds smod 60;
          iso = render_utc (civil_from_days days) hour minute second
      in (iso, iso))"

section \<open>Filters and labels\<close>

text \<open>Slicing a string anywhere but at a character boundary panics.\<close>

definition char_boundary :: "string \<Rightarrow> nat \<Rightarrow> bool" where
  "char_boundary s i =
     (i = 0 \<or> i = length s
      \<or> (i < length s \<and> \<not> (128 \<le> (of_char (s ! i) :: nat) \<and> (of_char (s ! i) :: nat) < 192)))"

definition truncate_hash :: "string \<Rightarrow> string option" where
  "truncate_hash hash =
     (if length hash \<le> 12 then Some hash
      else if char_boundary hash 6 \<and> char_boundary hash (length hash - 4)
      then Some (take 6 hash @ [CHR 0xE2, CHR 0x80, CHR 0xA6] @ drop (length hash - 4) hash)
      else None)"

text \<open>The length of the UTF-8 sequence a byte leads.\<close>

definition utf8_len :: "char \<Rightarrow> nat" where
  "utf8_len c =
     (let n = of_char c :: nat in if n < 128 then 1 else if n < 224 then 2 else if n < 240 then 3 else 4)"

definition ascii_upper :: "char \<Rightarrow> char" where
  "ascii_upper c = (let n = of_char c :: nat in if 97 \<le> n \<and> n \<le> 122 then char_of (n - 32) else c)"

definition first_char :: "string \<Rightarrow> string" where
  "first_char s =
     (case s of
        [] \<Rightarrow> ''?''
      | c # cs \<Rightarrow> map ascii_upper (take (utf8_len c) s))"

fun request_status_name :: "action_request_status \<Rightarrow> string" where
  "request_status_name action_request_status.Pending = ''Pending''"
| "request_status_name action_request_status.Approved = ''Approved''"
| "request_status_name action_request_status.Rejected = ''Rejected''"
| "request_status_name action_request_status.Revoked = ''Revoked''"

definition status_for_request :: "string \<Rightarrow> string \<times> string \<times> string" where
  "status_for_request status =
     (if status = ''Pending'' then (''pending'', [CHR 0xE2, CHR 0x8F, CHR 0xB3], ''Awaiting review'')
      else if status = ''Approved'' then
        (''approved'', [CHR 0xE2, CHR 0x9C, CHR 0x93],
         ''Approved '' @ [CHR 0xE2, CHR 0x80, CHR 0x94] @ '' not yet used'')
      else if status = ''Rejected'' then (''rejected'', [CHR 0xE2, CHR 0x9C, CHR 0x97], ''Rejected'')
      else if status = ''Revoked'' then (''revoked'', [CHR 0xE2, CHR 0x86, CHR 0xA9], ''Revoked'')
      else (''indeterminate'', ''?'', status))"

definition status_for_decision :: "string \<Rightarrow> string \<times> string" where
  "status_for_decision decision =
     (if decision = ''approved'' then (''approved'', ''Approved'')
      else if decision = ''rejected'' then (''rejected'', ''Rejected'')
      else (''indeterminate'', decision))"

section \<open>Rows and pages\<close>

record work_queue_row =
  wq_id :: string
  wq_requested_by :: string
  wq_status :: string
  wq_status_class :: string
  wq_status_icon :: string
  wq_status_label :: string
  wq_created_at_human :: string
  wq_created_at_iso :: string

record decision_row =
  dr_decided_by :: string
  dr_decision :: string
  dr_decision_class :: string
  dr_decision_label :: string
  dr_decided_at_human :: string
  dr_decided_at_iso :: string

record request_detail_row =
  qd_id :: string
  qd_requested_by :: string
  qd_status :: string
  qd_status_class :: string
  qd_status_icon :: string
  qd_status_label :: string
  qd_created_at_human :: string
  qd_created_at_iso :: string
  qd_decisions :: "decision_row list"

record intent_panel_data =
  ip_repository_owner :: string
  ip_repository_name :: string
  ip_commit_sha :: string
  ip_environment_name :: string
  ip_production_environment :: bool
  ip_task :: string
  ip_expires_at :: "string option"
  ip_expires_at_human :: string
  ip_expired :: bool
  ip_digest :: string
  ip_evidence_requirements :: "string list"

record replay_rejection_page =
  rj_title :: string
  rj_current_page :: string
  rj_reason_code :: string
  rj_mandate_id :: string
  rj_executor_identity :: string
  rj_mandate_state :: string
  rj_message :: string

text \<open>The templates of the request pages, and the pages that show nothing but their title.\<close>

datatype page =
    WorkQueueTemplate string string "work_queue_row list"
  | RequestDetailTemplate string string request_detail_row intent_panel_data
  | StaticTemplate string string

definition render_replay_rejection :: "replay_rejection \<Rightarrow> replay_rejection_page" where
  "render_replay_rejection rejection =
     \<lparr>rj_title = ''Repeat use rejected'', rj_current_page = ''executions'',
      rj_reason_code = rr_reason_code rejection, rj_mandate_id = rr_mandate_id_hex rejection,
      rj_executor_identity = rr_executor_identity rejection, rj_mandate_state = rr_mandate_state rejection,
      rj_message = rr_message rejection\<rparr>"

definition work_queue_row_of :: "action_request \<Rightarrow> work_queue_row" where
  "work_queue_row_of r =
     (let status = request_status_name (ar_status r) in
      case (status_for_request status, format_timestamp (ar_created_at r)) of
        ((status_class, status_icon, status_label), (human, iso_text)) \<Rightarrow>
          \<lparr>wq_id = ar_request_id r, wq_requested_by = ar_requested_by r, wq_status = status,
           wq_status_class = status_class, wq_status_icon = status_icon, wq_status_label = status_label,
           wq_created_at_human = human, wq_created_at_iso = iso_text\<rparr>)"

definition work_queue :: "string list \<Rightarrow> world \<Rightarrow> page" where
  "work_queue order w =
     WorkQueueTemplate ''Work queue'' ''work-queue'' (map work_queue_row_of (list_requests order w))"

definition decision_row_of :: "approval_decision \<Rightarrow> decision_row" where
  "decision_row_of d =
     (case (status_for_decision (ad_decision d), format_timestamp (ad_decided_at d)) of
        ((dec_class, dec_label), (human, iso_text)) \<Rightarrow>
          \<lparr>dr_decided_by = ad_decided_by d, dr_decision = ad_decision d, dr_decision_class = dec_class,
           dr_decision_label = dec_label, dr_decided_at_human = human, dr_decided_at_iso = iso_text\<rparr>)"

definition request_detail_row_of :: "action_request \<Rightarrow> approval_decision list \<Rightarrow> request_detail_row" where
  "request_detail_row_of r decisions =
     (let status = request_status_name (ar_status r) in
      case (status_for_request status, format_timestamp (ar_created_at r)) of
        ((status_class, status_icon, status_label), (human, iso_text)) \<Rightarrow>
          \<lparr>qd_id = ar_request_id r, qd_requested_by = ar_requested_by r, qd_status = status,
           qd_status_class = status_class, qd_status_icon = status_icon, qd_status_label = status_label,
           qd_created_at_human = human, qd_created_at_iso = iso_text, qd_decisions = map decision_row_of decisions\<rparr>)"

definition intent_or_zeros :: "string option \<Rightarrow> string" where
  "intent_or_zeros i = (case i of Some s \<Rightarrow> s | None \<Rightarrow> replicate 64 CHR ''0'')"

definition intent_panel_of :: "action_request \<Rightarrow> intent_panel_data" where
  "intent_panel_of r =
     \<lparr>ip_repository_owner = ''diewan'', ip_repository_name = ''demo-app'',
      ip_commit_sha = intent_or_zeros (ar_intent_id_hex r), ip_environment_name = ''production'',
      ip_production_environment = True, ip_task = ''deploy'', ip_expires_at = None,
      ip_expires_at_human = ''No expiry set'', ip_expired = False, ip_digest = intent_or_zeros (ar_intent_id_hex r),
      ip_evidence_requirements =
        [''GitHub commit status: all required contexts passed'', ''Artifact attestation present'']\<rparr>"

definition request_detail :: "string \<Rightarrow> world \<Rightarrow> page" where
  "request_detail request_id w =
     (case get_request w request_id of
        None \<Rightarrow> WorkQueueTemplate ''Not found'' ''work-queue'' []
      | Some r \<Rightarrow>
          RequestDetailTemplate (''Request '' @ request_id) ''work-queue''
            (request_detail_row_of r (get_decisions w request_id)) (intent_panel_of r))"

definition executions :: page where
  "executions = StaticTemplate ''Executions'' ''executions''"

definition case_files :: page where
  "case_files = StaticTemplate ''Case files'' ''case-files''"

definition verification :: page where
  "verification = StaticTemplate ''Verification'' ''verification''"

definition settings :: page where
  "settings = StaticTemplate ''Settings'' ''settings''"

section \<open>The calendar\<close>

text \<open>The Gregorian rule, and the number of days from 1 January 1970 to a date.\<close>

definition leap :: "int \<Rightarrow> bool" where
  "leap y \<longleftrightarrow> 4 dvd y \<and> (\<not> 100 dvd y \<or> 400 dvd y)"

definition month_length :: "int \<Rightarrow> int \<Rightarrow> int" where
  "month_length y m = (if m = 2 then if leap y then 29 else 28 else if m \<in> {4, 6, 9, 11} then 30 else 31)"

definition year_length :: "int \<Rightarrow> int" where
  "year_length y = (if leap y then 366 else 365)"

definition valid_date :: "int \<times> int \<times> int \<Rightarrow> bool" where
  "valid_date date \<longleftrightarrow> (case date of (y, m, d) \<Rightarrow> 1 \<le> m \<and> m \<le> 12 \<and> 1 \<le> d \<and> d \<le> month_length y m)"

definition epoch_day :: "int \<times> int \<times> int \<Rightarrow> int" where
  "epoch_day date =
     (case date of (y, m, d) \<Rightarrow>
        (\<Sum>x\<in>{1970..<y}. year_length x) + sum_list (map (month_length y) [1..m - 1]) + (d - 1))"

text \<open>The years since 1970 add up to the closed form.\<close>

definition days_before :: "int \<Rightarrow> int" where
  "days_before y = 365 * y + (y + 3) div 4 - (y + 99) div 100 + (y + 399) div 400"

lemma div_unique: "(a :: int) = b * q + r \<Longrightarrow> 0 \<le> r \<Longrightarrow> r < b \<Longrightarrow> a div b = q"
  by (rule int_div_pos_eq)

lemma div_round_up:
  assumes "0 < (k :: int)"
  shows "(y + k) div k = (y + (k - 1)) div k + (if k dvd y then 1 else 0)"
proof -
  have y: "y = k * (y div k) + y mod k" by simp
  have "(y + k) div k = y div k + 1" using assms by (intro div_add_self2) simp
  moreover have "(y + (k - 1)) div k = y div k" if "y mod k = 0"
    by (rule div_unique [of _ _ _ "k - 1"]) (use assms y that in auto)
  moreover have "(y + (k - 1)) div k = y div k + 1" if "y mod k \<noteq> 0"
    by (rule div_unique [of _ _ _ "y mod k - 1"])
      (use assms y that pos_mod_sign [OF assms, of y] pos_mod_bound [OF assms, of y] in \<open>auto simp: algebra_simps\<close>)
  ultimately show ?thesis by (auto simp: dvd_eq_mod_eq_0)
qed

lemma days_before_Suc: "days_before (y + 1) = days_before y + year_length y"
proof -
  have dvd: "100 dvd y \<Longrightarrow> 4 dvd y" "400 dvd y \<Longrightarrow> 100 dvd y"
    by (erule dvd_trans [rotated], simp)+
  have step: "(y + 4) div 4 = (y + 3) div 4 + (if 4 dvd y then 1 else 0)"
    "(y + 100) div 100 = (y + 99) div 100 + (if 100 dvd y then 1 else 0)"
    "(y + 400) div 400 = (y + 399) div 400 + (if 400 dvd y then 1 else 0)"
    using div_round_up [of 4 y] div_round_up [of 100 y] div_round_up [of 400 y] by simp_all
  have "days_before (y + 1) = 365 * y + 365 + (y + 4) div 4 - (y + 100) div 100 + (y + 400) div 400"
    by (simp add: days_before_def add.assoc)
  also have "\<dots> = days_before y + (365 + (if 4 dvd y then 1 else 0) - (if 100 dvd y then 1 else 0)
      + (if 400 dvd y then 1 else 0))"
    unfolding step days_before_def by simp
  also have "365 + (if 4 dvd y then 1 else 0) - (if 100 dvd y then 1 else 0) + (if 400 dvd y then 1 else 0)
      = year_length y"
    using dvd by (cases "400 dvd y"; cases "100 dvd y"; cases "4 dvd y") (simp_all add: year_length_def leap_def)
  finally show ?thesis .
qed

lemma sum_year_length: "(\<Sum>x\<in>{1970..<1970 + int n}. year_length x) = days_before (1970 + int n) - days_before 1970"
proof (induction n)
  case (Suc n)
  have range: "{1970..<1970 + int (Suc n)} = insert (1970 + int n) {1970..<1970 + int n}" by auto
  have "(\<Sum>x\<in>{1970..<1970 + int (Suc n)}. year_length x) =
      year_length (1970 + int n) + (\<Sum>x\<in>{1970..<1970 + int n}. year_length x)"
    unfolding range by (rule sum.insert) simp_all
  also have "\<dots> = days_before (1970 + int n + 1) - days_before 1970"
    unfolding Suc days_before_Suc by simp
  finally show ?case by (simp only: of_nat_Suc add.assoc add.commute [of 1])
qed simp

text \<open>The quotients of the algorithm on a day of the era, split into centuries, quadrennia, years and days.\<close>

lemma era_split:
  assumes "0 \<le> (doe :: int)" and "doe \<le> 146096"
  obtains c q t u where "doe = 36524 * c + 1461 * q + 365 * t + u" and "0 \<le> c" "c \<le> 3" "0 \<le> q" "q \<le> 24"
    "0 \<le> t" "t \<le> 3" "0 \<le> u" "u \<le> 365" and "u = 365 \<Longrightarrow> t = 3 \<and> (q = 24 \<longrightarrow> c = 3)"
proof -
  define c where "c = min 3 (doe div 36524)"
  define r where "r = doe - 36524 * c"
  define q where "q = r div 1461"
  define s where "s = r - 1461 * q"
  define t where "t = min 3 (s div 365)"
  have d: "36524 * (doe div 36524) \<le> doe" "doe < 36524 * (doe div 36524) + 36524" "0 \<le> doe div 36524"
    using assms by linarith+
  then have c: "0 \<le> c" "c \<le> 3" "0 \<le> r" "r \<le> 36524"
    using assms by (auto simp: c_def r_def min_def)
  have c3: "c = 3" if "r = 36524"
  proof (rule ccontr)
    assume "c \<noteq> 3"
    then have "c = doe div 36524" by (auto simp: c_def)
    with d that show False by (simp add: r_def)
  qed
  have s: "s = r mod 1461" by (simp add: s_def q_def minus_mult_div_eq_mod)
  have "0 \<le> r mod 1461" "r mod 1461 < 1461" by simp_all
  then have q: "0 \<le> q" "q \<le> 24" "0 \<le> s" "s \<le> 1460" "r = 1461 * q + s"
    using c by (simp_all add: s) (simp_all add: q_def s_def)
  have d: "365 * (s div 365) \<le> s" "s < 365 * (s div 365) + 365" "0 \<le> s div 365"
    using q(3) by linarith+
  then have t: "0 \<le> t" "t \<le> 3" "0 \<le> s - 365 * t" "s - 365 * t \<le> 365"
    using q(4) by (auto simp: t_def min_def)
  have t3: "t = 3" if "s - 365 * t = 365"
  proof (rule ccontr)
    assume "t \<noteq> 3"
    then have "t = s div 365" by (auto simp: t_def)
    with d that show False by simp
  qed
  show ?thesis
  proof (rule that [of c q t "s - 365 * t"])
    show "doe = 36524 * c + 1461 * q + 365 * t + (s - 365 * t)" using q(5) by (simp add: r_def)
    assume "s - 365 * t = 365"
    with t3 have "t = 3" by blast
    with \<open>s - 365 * t = 365\<close> have "s = 1460" by simp
    with q(5) c3 \<open>t = 3\<close> show "t = 3 \<and> (q = 24 \<longrightarrow> c = 3)" by auto
  qed (use c q t in auto)
qed

lemma year_of_era:
  assumes "doe = 36524 * c + 1461 * q + 365 * t + (u :: int)" and "0 \<le> c" "c \<le> 3" "0 \<le> q" "q \<le> 24"
    "0 \<le> t" "t \<le> 3" "0 \<le> u" "u \<le> 365" and "u = 365 \<Longrightarrow> t = 3 \<and> (q = 24 \<longrightarrow> c = 3)"
  shows "(doe - doe div 1460 + doe div 36524 - doe div 146096) div 365 = 100 * c + 4 * q + t"
proof -
  define f where "f = (if 24 * c + q + 365 * t + u \<ge> 1460 then 1 else 0 :: int)"
  have f: "doe div 1460 = 25 * c + q + f"
    by (rule div_unique [of _ _ _ "24 * c + q + 365 * t + u - 1460 * f"]) (use assms in \<open>auto simp: f_def\<close>)
  have g: "doe div 36524 - doe div 146096 = c"
  proof (cases "doe = 146096")
    case True
    with assms have "c = 3" by auto
    with True show ?thesis by simp
  next
    case False
    have r: "1461 * q + 365 * t + u < 36524"
    proof (rule ccontr)
      assume "\<not> 1461 * q + 365 * t + u < 36524"
      then have "q = 24" "t = 3" "u = 365" using assms(4-9) by linarith+
      with assms(1,10) False show False by simp
    qed
    have "doe div 36524 = c"
      by (rule div_unique [of _ _ _ "1461 * q + 365 * t + u"]) (use assms r in auto)
    moreover have "doe div 146096 = 0" using assms r by (intro div_pos_pos_trivial) auto
    ultimately show ?thesis by simp
  qed
  have "u \<noteq> 365 \<or> t = 3" using assms(10) by blast
  then have "0 \<le> u - f" "u - f < 365"
    using assms(2-9) by (auto simp: f_def)
  moreover have "doe - doe div 1460 + doe div 36524 - doe div 146096 =
      doe - doe div 1460 + (doe div 36524 - doe div 146096)" by simp
  then have "doe - doe div 1460 + doe div 36524 - doe div 146096 = 365 * (100 * c + 4 * q + t) + (u - f)"
    unfolding f g by (simp add: assms(1))
  ultimately show ?thesis by (intro div_unique)
qed

lemma day_of_year:
  assumes "doe = 36524 * c + 1461 * q + 365 * t + (u :: int)" and "0 \<le> q" "q \<le> 24" "0 \<le> t" "t \<le> 3"
    and "yoe = 100 * c + 4 * q + t"
  shows "doe - (365 * yoe + yoe div 4 - yoe div 100) = u"
proof -
  have "yoe div 4 = 25 * c + q"
    by (rule div_unique [of _ _ _ t]) (use assms in simp_all)
  moreover have "yoe div 100 = c"
    by (rule div_unique [of _ _ _ "4 * q + t"]) (use assms in simp_all)
  ultimately show ?thesis by (simp add: assms(1,6))
qed

text \<open>Within a year that starts in March the days of month \<open>k\<close> follow those of the months before it.\<close>

definition march_start :: "int \<Rightarrow> int" where
  "march_start k = (153 * k + 2) div 5"

lemma month_of_day:
  assumes "0 \<le> (u :: int)" and "u \<le> 365"
  shows "\<exists>k\<in>{0..11}. (5 * u + 2) div 153 = k \<and> march_start k \<le> u \<and> (k < 11 \<longrightarrow> u < march_start (k + 1))"
proof -
  define k where "k = (5 * u + 2) div 153"
  have k: "153 * k \<le> 5 * u + 2" "5 * u + 2 < 153 * k + 153" unfolding k_def by linarith+
  have k': "0 \<le> k" "k \<le> 11" using k assms by linarith+
  have "march_start (k + 1) = (153 * k + 155) div 5" by (simp add: march_start_def algebra_simps)
  then have "5 * march_start k \<le> 153 * k + 2" "153 * k + 155 \<le> 5 * march_start (k + 1) + 4"
    unfolding march_start_def [of k] by linarith+
  with k have "march_start k \<le> u" "u < march_start (k + 1)" by linarith+
  with k' show ?thesis by (auto simp: k_def)
qed

definition march_year_days :: "int \<Rightarrow> int" where
  "march_year_days y = 365 * y + y div 4 - y div 100 + y div 400"

lemma days_before_march: "days_before (y + 1) = march_year_days y + 366"
proof -
  have "(y + 4) div 4 = y div 4 + 1" "(y + 100) div 100 = y div 100 + 1" "(y + 400) div 400 = y div 400 + 1"
    by (rule div_add_self2, simp)+
  then show ?thesis by (simp add: days_before_def march_year_days_def add.assoc)
qed

lemma days_before_leap: "days_before y = march_year_days y + 366 - year_length y"
  using days_before_march [of y] days_before_Suc [of y] by simp

text \<open>The twelve months, from March on.\<close>

lemma march_to_december:
  assumes "0 \<le> k" and "k \<le> 9"
  shows "sum_list (map (month_length y) [1..k + 3 - 1]) = march_start k + 59 + (if leap y then 1 else 0)
    \<and> march_start (k + 1) - march_start k = month_length y (k + 3)"
proof -
  have "k = 0 \<or> k = 1 \<or> k = 2 \<or> k = 3 \<or> k = 4 \<or> k = 5 \<or> k = 6 \<or> k = 7 \<or> k = 8 \<or> k = 9"
    using assms by presburger
  then show ?thesis by (elim disjE) (simp_all add: month_length_def march_start_def upto_rec1)
qed

lemma january_february:
  assumes "k = 10 \<or> k = 11"
  shows "sum_list (map (month_length y) [1..k - 9 - 1]) = march_start k - 306"
  using assms by (auto simp: month_length_def march_start_def upto_rec1)

text \<open>The closed form of a date, and why it is the count from 1970.\<close>

definition closed_day :: "int \<times> int \<times> int \<Rightarrow> int" where
  "closed_day date =
     (case date of (y, m, d) \<Rightarrow>
        days_before y - 719528 + sum_list (map (month_length y) [1..m - 1]) + (d - 1))"

lemma epoch_day_closed: "1970 \<le> fst date \<Longrightarrow> epoch_day date = closed_day date"
  using sum_year_length [of "nat (fst date - 1970)"]
  by (cases date) (simp add: epoch_day_def closed_day_def days_before_def)

lemma sdiv_nonneg [simp]: "0 \<le> (a :: int) \<Longrightarrow> 0 < b \<Longrightarrow> a sdiv b = a div b"
  by (simp add: signed_divide_int_def sgn_if)

lemma smod_nonneg [simp]: "0 \<le> (a :: int) \<Longrightarrow> 0 < b \<Longrightarrow> a smod b = a mod b"
  using smod_sdiv_mult_eq [of a b] by (simp add: minus_div_mult_eq_mod [symmetric])

lemma march_year_days_era:
  assumes "0 \<le> yoe" and "yoe < 400"
  shows "march_year_days (yoe + era * 400) = 365 * yoe + yoe div 4 - yoe div 100 + era * 146097"
proof -
  have "(yoe + era * 400) div 4 = yoe div 4 + era * 100" "(yoe + era * 400) div 100 = yoe div 100 + era * 4"
    by (subst div_plus_div_distrib_dvd_right; simp)+
  moreover have "(yoe + era * 400) div 400 = era"
    by (rule div_unique [of _ _ _ yoe]) (use assms in simp_all)
  moreover have "365 * (yoe + era * 400) + (a + era * 100) - (b + era * 4) + era = 365 * yoe + a - b + era * 146097"
    for a b :: int by (simp add: algebra_simps)
  ultimately show ?thesis unfolding march_year_days_def by (simp only:)
qed

text \<open>The last day of February falls on the last day of a March year only in a leap year.\<close>

lemma leap_day:
  assumes "t = 3" and "q = 24 \<longrightarrow> c = 3" and "0 \<le> q" "q \<le> 24" "0 \<le> c" "c \<le> 3"
  shows "leap (100 * c + 4 * q + t + era * 400 + 1)"
proof -
  have y: "100 * c + 4 * q + t + era * 400 + 1 = 4 * (25 * c + q + 1 + 100 * era)" using assms(1) by simp
  have "100 dvd 4 * (25 * c + q + 1 + 100 * era) \<longleftrightarrow> 25 dvd (25 * c + q + 1 + 100 * era)"
    using dvd_mult_cancel_left [of 4 25 "25 * c + q + 1 + 100 * era"] by simp
  also have "\<dots> \<longleftrightarrow> 25 dvd q + 1"
    using dvd_add_right_iff [of 25 "25 * c + 100 * era" "q + 1"] by (simp add: algebra_simps)
  also have "\<dots> \<longleftrightarrow> q = 24" using assms(3,4) zdvd_imp_le [of 25 "q + 1"] by auto
  finally have "100 dvd 4 * (25 * c + q + 1 + 100 * era) \<longleftrightarrow> q = 24" .
  moreover have "400 dvd 4 * (25 * c + q + 1 + 100 * era)" if "q = 24" "c = 3"
    using that by (intro dvdI [of _ _ "1 + era"]) simp
  ultimately show ?thesis using assms(2) unfolding leap_def y by auto
qed

lemma civil_from_days_run:
  assumes "0 \<le> days"
  obtains Y u k where "civil_from_days days =
      (if k < 10 then (Y, k + 3, u - march_start k + 1) else (Y + 1, k - 9, u - march_start k + 1))"
    and "march_year_days Y + u = days + 719468" and "0 \<le> u" "u \<le> 365" "u = 365 \<Longrightarrow> leap (Y + 1)"
    and "0 \<le> k" "k \<le> 11" "march_start k \<le> u" "k < 11 \<longrightarrow> u < march_start (k + 1)"
proof -
  define z where "z = days + 719468"
  define era where "era = z div 146097"
  define doe where "doe = z - era * 146097"
  define yoe where "yoe = (doe - doe div 1460 + doe div 36524 - doe div 146096) div 365"
  have z: "0 \<le> z" using assms by (simp add: z_def)
  have doe: "0 \<le> doe" "doe \<le> 146096" by (simp_all add: doe_def era_def minus_div_mult_eq_mod)
  from era_split [OF doe] obtain c q t u where split: "doe = 36524 * c + 1461 * q + 365 * t + u"
    "0 \<le> c" "c \<le> 3" "0 \<le> q" "q \<le> 24" "0 \<le> t" "t \<le> 3" "0 \<le> u" "u \<le> 365"
    "u = 365 \<Longrightarrow> t = 3 \<and> (q = 24 \<longrightarrow> c = 3)" by metis
  have yoe: "yoe = 100 * c + 4 * q + t" unfolding yoe_def by (rule year_of_era [OF split])
  then have bounds: "0 \<le> yoe" "yoe < 400" using split by simp_all
  have doy: "doe - (365 * yoe + yoe div 4 - yoe div 100) = u"
    by (rule day_of_year [OF split(1,4-7) yoe])
  have num: "0 \<le> doe - doe div 1460 + doe div 36524 - doe div 146096"
    using bounds(1) unfolding yoe_def by (rule pos_imp_zdiv_nonneg_iff [THEN iffD1, rotated]) simp
  obtain k where k: "0 \<le> k" "k \<le> 11" "(5 * u + 2) div 153 = k" "march_start k \<le> u" "k < 11 \<longrightarrow> u < march_start (k + 1)"
    using month_of_day [OF split(8,9)] by auto
  have "0 \<le> 5 * u + 2" "0 \<le> 153 * k + 2" using split(8) k(1) by linarith+
  then have sd: "doe sdiv 1460 = doe div 1460" "doe sdiv 36524 = doe div 36524" "doe sdiv 146096 = doe div 146096"
    "(doe - doe div 1460 + doe div 36524 - doe div 146096) sdiv 365 = yoe"
    "yoe sdiv 4 = yoe div 4" "yoe sdiv 100 = yoe div 100" "(5 * u + 2) sdiv 153 = k"
    "(153 * k + 2) sdiv 5 = march_start k"
    unfolding yoe_def [symmetric] march_start_def k(3) [symmetric]
    using sdiv_nonneg [OF doe(1)] sdiv_nonneg [OF num, of 365] sdiv_nonneg [OF bounds(1)]
      sdiv_nonneg [of "5 * u + 2" 153] sdiv_nonneg [of "153 * k + 2" 5]
    by (simp_all only: yoe_def zero_less_numeral k(3))
  have "civil_from_days days =
      (if k < 10 then (yoe + era * 400, k + 3, u - march_start k + 1)
       else (yoe + era * 400 + 1, k - 9, u - march_start k + 1))"
    unfolding civil_from_days_def Let_def z_def [symmetric] if_P [OF z] era_def [symmetric] doe_def [symmetric]
      sd(1-6) doy sd(7,8)
    using k(1,2) by simp
  moreover have "a - b = c \<Longrightarrow> b = a - c" for a b c :: int by simp
  from this [OF doy] have "march_year_days (yoe + era * 400) + u = days + 719468"
    unfolding march_year_days_era [OF bounds] by (simp add: doe_def z_def)
  moreover have "leap (yoe + era * 400 + 1)" if "u = 365"
    using leap_day [of t q c era] split(2-7) split(10) [OF that] by (simp add: yoe)
  ultimately show ?thesis using that split(8,9) k(1,2,4,5) by blast
qed

lemma civil_from_days_closed:
  assumes "0 \<le> days"
  shows "valid_date (civil_from_days days) \<and> closed_day (civil_from_days days) = days
    \<and> 1970 \<le> fst (civil_from_days days)"
proof -
  obtain Y u k where run: "civil_from_days days =
      (if k < 10 then (Y, k + 3, u - march_start k + 1) else (Y + 1, k - 9, u - march_start k + 1))"
    and days: "march_year_days Y + u = days + 719468" and u: "0 \<le> u" "u \<le> 365" "u = 365 \<Longrightarrow> leap (Y + 1)"
    and k: "0 \<le> k" "k \<le> 11" "march_start k \<le> u" "k < 11 \<longrightarrow> u < march_start (k + 1)"
    using civil_from_days_run [OF assms] by metis
  have Y: "1969 \<le> Y"
  proof (rule ccontr)
    assume "\<not> 1969 \<le> Y"
    moreover have "4 * (Y div 4) \<le> Y" "Y - 99 \<le> 100 * (Y div 100)" "400 * (Y div 400) \<le> Y" by linarith+
    ultimately show False using days u(2) assms by (simp add: march_year_days_def)
  qed
  show ?thesis
  proof (cases "k < 10")
    case True
    with k have "sum_list (map (month_length Y) [1..k + 3 - 1]) = march_start k + 59 + (if leap Y then 1 else 0)"
      "march_start (k + 1) - march_start k = month_length Y (k + 3)"
      using march_to_december [of k Y] by auto
    moreover have "Y \<noteq> 1969"
    proof
      assume "Y = 1969"
      with days assms have "306 \<le> u" by (simp add: march_year_days_def)
      with True k(1,4) show False by (auto simp: march_start_def)
    qed
    ultimately show ?thesis using True k Y days_before_leap [of Y] days
      by (auto simp: run valid_date_def closed_day_def year_length_def)
  next
    case False
    then have k': "k = 10 \<or> k = 11" using k(2) by auto
    have u': "u \<le> 364 \<or> leap (Y + 1)" using u(2,3) by (cases "u = 365") auto
    from k' have "u - march_start k + 1 \<le> month_length (Y + 1) (k - 9)"
      using u' u(2) k(4) by (auto simp: march_start_def month_length_def)
    then show ?thesis using False k Y k' january_february [OF k', of "Y + 1"] days_before_march [of Y] days
      by (auto simp: run valid_date_def closed_day_def)
  qed
qed

text \<open>A \<open>u64\<close> within the range of \<open>i64\<close> is the same number there.\<close>

lemma sint_small:
  assumes "unat (t :: i64) < 2 ^ 63"
  shows "sint t = int (unat t)"
proof -
  have "int (unat t) < int (2 ^ 63)" using assms by (simp only: of_nat_less_iff)
  then have "uint t < 2 ^ 63" unfolding uint_nat [symmetric] by simp
  moreover have "- (2 ^ 63) \<le> uint t" by (rule order_trans [OF _ uint_ge_0]) simp
  ultimately have "signed_take_bit 63 (uint t) = uint t" by (intro signed_take_bit_int_eq_self)
  then have "sint t = uint t" by (simp add: sint_uint)
  then show ?thesis unfolding uint_nat .
qed

lemma sint_capped: "sint (i64_from_u64_or_max t) = min (int (unat t)) (2 ^ 63 - 1)"
proof (cases "t \<le> i64_max")
  case True
  then have t: "unat t < 2 ^ 63" by (simp add: word_le_nat_alt i64_max_def)
  then have "int (unat t) < int (2 ^ 63)" by (simp only: of_nat_less_iff)
  with True show ?thesis unfolding i64_from_u64_or_max_def if_P [OF True] sint_small [OF t] by simp
next
  case False
  then have "2 ^ 63 - 1 < unat t" by (simp add: word_le_nat_alt i64_max_def)
  then have "int (2 ^ 63 - 1) < int (unat t)" by (simp only: of_nat_less_iff)
  moreover have "sint i64_max = 2 ^ 63 - 1" by (simp add: i64_max_def)
  ultimately show ?thesis unfolding i64_from_u64_or_max_def if_not_P [OF False] by simp
qed

text \<open>
  C29. Every timestamp on a page is the right civil date and time. For a Unix time, capped at the largest
  \<open>i64\<close>, the text shows a date of the Gregorian calendar and a time of day whose distance from 1 January
  1970, counted in days, hours, minutes and seconds, is exactly that time.
\<close>

theorem format_timestamp_correct:
  "\<exists>date h mi s. format_timestamp t = (render_utc date h mi s, render_utc date h mi s)
    \<and> valid_date date \<and> 1970 \<le> fst date \<and> h \<in> {0..23} \<and> mi \<in> {0..59} \<and> s \<in> {0..59}
    \<and> ((epoch_day date * 24 + h) * 60 + mi) * 60 + s = min (int (unat t)) (2 ^ 63 - 1)"
proof -
  define sec where "sec = sint (i64_from_u64_or_max t)"
  have sec: "sec = min (int (unat t)) (2 ^ 63 - 1)" "0 \<le> sec" by (simp_all add: sec_def sint_capped)
  define r where "r = sec mod 86400"
  define date where "date = civil_from_days (sec div 86400)"
  have date: "valid_date date" "epoch_day date = sec div 86400" "1970 \<le> fst date"
    using civil_from_days_closed [of "sec div 86400"] epoch_day_closed [of date] sec(2)
    by (simp_all add: date_def pos_imp_zdiv_nonneg_iff)
  have r: "0 \<le> r" "r < 86400" "sec = sec div 86400 * 86400 + r" by (simp_all add: r_def)
  have "format_timestamp t = (render_utc date (r div 3600) (r mod 3600 div 60) (r mod 60),
      render_utc date (r div 3600) (r mod 3600 div 60) (r mod 60))"
    using r(1) by (simp add: format_timestamp_def Let_def sec_def [symmetric] r_def [symmetric] date_def)
  moreover have "r div 3600 \<in> {0..23}" "r mod 3600 div 60 \<in> {0..59}" "r mod 60 \<in> {0..59}"
    using r(1,2) by auto
  moreover have "r mod 60 = r mod 3600 mod 60" by (simp add: mod_mod_cancel)
  then have "r mod 3600 div 60 * 60 + r mod 60 = r mod 3600" by simp
  then have "r div 3600 * 3600 + (r mod 3600 div 60 * 60 + r mod 60) = r" by simp
  then have "((epoch_day date * 24 + r div 3600) * 60 + r mod 3600 div 60) * 60 + r mod 60 = sec"
    using r(3) date(2) by (simp add: algebra_simps)
  ultimately show ?thesis using date sec(1) by metis
qed

section \<open>What an approver sees\<close>

text \<open>
  The page of a request shows the stored request and decisions, but not what is to be deployed. Its row
  names the stored request, requester and status and every decision on it in order; its panel, though,
  names the same repository, environment, task, expiry and evidence for every request, and as the commit it
  shows the intent identifier, or zeros when there is none.
\<close>

theorem request_page_panel_constant:
  assumes "get_request w k = Some r"
  shows "\<exists>row panel. request_detail k w = RequestDetailTemplate (''Request '' @ k) ''work-queue'' row panel
    \<and> qd_id row = ar_request_id r \<and> qd_requested_by row = ar_requested_by r
    \<and> qd_status row = request_status_name (ar_status r)
    \<and> map (\<lambda>d. (dr_decided_by d, dr_decision d)) (qd_decisions row) =
        map (\<lambda>d. (ad_decided_by d, ad_decision d)) (get_decisions w k)
    \<and> ip_repository_owner panel = ''diewan'' \<and> ip_repository_name panel = ''demo-app''
    \<and> ip_environment_name panel = ''production'' \<and> ip_task panel = ''deploy'' \<and> ip_expires_at panel = None
    \<and> ip_commit_sha panel = ip_digest panel \<and> ip_digest panel = intent_or_zeros (ar_intent_id_hex r)
    \<and> (\<forall>r'. ip_evidence_requirements (intent_panel_of r') = ip_evidence_requirements panel)"
  using assms
  by (simp add: request_detail_def request_detail_row_of_def decision_row_of_def intent_panel_of_def Let_def
      case_prod_unfold)

theorem request_page_panel_constant_witness:
  "\<exists>row panel. request_detail ''r-1'' (world_new\<lparr>w_requests := \<lparr>rs_requests = [''r-1'' \<mapsto>
        \<lparr>ar_request_id = ''r-1'', ar_requested_by = ''agent'', ar_intent_id_hex = Some ''other-repo@abc'',
         ar_status = Pending, ar_created_at = 5\<rparr>], rs_versions = Map.empty\<rparr>\<rparr>) =
      RequestDetailTemplate ''Request r-1'' ''work-queue'' row panel
    \<and> ip_repository_name panel = ''demo-app'' \<and> ip_commit_sha panel = ''other-repo@abc''"
proof -
  let ?r = "\<lparr>ar_request_id = ''r-1'', ar_requested_by = ''agent'', ar_intent_id_hex = Some ''other-repo@abc'',
    ar_status = Pending, ar_created_at = 5\<rparr>"
  let ?w = "world_new\<lparr>w_requests := \<lparr>rs_requests = [''r-1'' \<mapsto> ?r], rs_versions = Map.empty\<rparr>\<rparr>"
  have "get_request ?w ''r-1'' = Some ?r" by (simp add: get_request_def request_get_def)
  from request_page_panel_constant [OF this] show ?thesis by (auto simp: intent_or_zeros_def)
qed

text \<open>A short text outside ASCII breaks the page that abbreviates it.\<close>

lemma truncate_hash_panics:
  "truncate_hash (replicate 5 CHR ''a'' @ [CHR 0xC3, CHR 0xA9] @ replicate 10 CHR ''b'') = None"
  by (simp add: truncate_hash_def char_boundary_def nth_append)

lemma truncate_hash_ascii:
  assumes "\<forall>c \<in> set s. (of_char c :: nat) < 128"
  shows "\<exists>t. truncate_hash s = Some t \<and> length t \<le> 13"
proof -
  have "char_boundary s i" if "i \<le> length s" for i
  proof (cases "i < length s")
    case True
    with assms have "(of_char (s ! i) :: nat) < 128" by simp
    with True show ?thesis by (simp add: char_boundary_def)
  qed (use that in \<open>simp add: char_boundary_def\<close>)
  then show ?thesis by (auto simp: truncate_hash_def)
qed

end
