(* ===== verification/Local_Evidence.thy ===== *)
theory Local_Evidence
  imports Storage_Memory
begin

text \<open>
  The filesystem evidence store of \<^verbatim>\<open>crates/piteka-storage/src/evidence.rs\<close>, over a model of the file system:
  files by path, and any call to the operating system may fail, a write then having left nothing, or a
  part of the bytes. What every evidence store promises is the locale \<open>content_addressed\<close>; the in-memory store
  and the filesystem store interpret it. The directories are those that opening the store created.
\<close>

section \<open>The file system\<close>

datatype io_error = IoNotFound string | IoOther string

fun io_error_display :: "io_error \<Rightarrow> string" where
  "io_error_display (IoNotFound m) = m"
| "io_error_display (IoOther m) = m"

text \<open>
  \<open>fs_fault n\<close> is the error of the \<open>n\<close>-th call, None when it works, with the number of bytes a failing write
  still wrote (None when the file was not even opened).
\<close>

type_synonym fpath = "string list"

record file_system =
  fs_files :: "fpath \<rightharpoonup> bytes"
  fs_calls :: nat
  fs_fault :: "nat \<Rightarrow> (io_error \<times> nat option) option"

definition next_fault :: "file_system \<Rightarrow> (io_error \<times> nat option) option" where
  "next_fault fs = fs_fault fs (fs_calls fs)"

definition count_call :: "file_system \<Rightarrow> file_system" where
  "count_call fs = fs\<lparr>fs_calls := Suc (fs_calls fs)\<rparr>"

definition set_file :: "fpath \<Rightarrow> bytes option \<Rightarrow> file_system \<Rightarrow> file_system" where
  "set_file p b fs = fs\<lparr>fs_files := (fs_files fs)(p := b)\<rparr>"

definition no_such_file :: string where
  "no_such_file = ''No such file or directory (os error 2)''"

text \<open>\<open>Path::exists\<close> answers false when the call fails.\<close>

definition fs_exists :: "fpath \<Rightarrow> file_system \<Rightarrow> bool \<times> file_system" where
  "fs_exists p fs = (next_fault fs = None \<and> fs_files fs p \<noteq> None, count_call fs)"

definition fs_create_dir_all :: "fpath \<Rightarrow> (file_system, io_error, unit) op" where
  "fs_create_dir_all p fs =
     (case next_fault fs of
        None \<Rightarrow> (Inr (), count_call fs)
      | Some (e, _) \<Rightarrow> (Inl e, count_call fs))"

definition fs_write :: "fpath \<Rightarrow> bytes \<Rightarrow> (file_system, io_error, unit) op" where
  "fs_write p b fs =
     (case next_fault fs of
        None \<Rightarrow> (Inr (), set_file p (Some b) (count_call fs))
      | Some (e, None) \<Rightarrow> (Inl e, count_call fs)
      | Some (e, Some n) \<Rightarrow> (Inl e, set_file p (Some (take n b)) (count_call fs)))"

definition fs_rename :: "fpath \<Rightarrow> fpath \<Rightarrow> (file_system, io_error, unit) op" where
  "fs_rename p q fs =
     (case next_fault fs of
        Some (e, _) \<Rightarrow> (Inl e, count_call fs)
      | None \<Rightarrow>
          (case fs_files fs p of
             None \<Rightarrow> (Inl (IoNotFound no_such_file), count_call fs)
           | Some b \<Rightarrow> (Inr (), set_file q (Some b) (set_file p None (count_call fs)))))"

definition fs_read :: "fpath \<Rightarrow> (file_system, io_error, bytes) op" where
  "fs_read p fs =
     (case next_fault fs of
        Some (e, _) \<Rightarrow> (Inl e, count_call fs)
      | None \<Rightarrow>
          (case fs_files fs p of
             None \<Rightarrow> (Inl (IoNotFound no_such_file), count_call fs)
           | Some b \<Rightarrow> (Inr b, count_call fs)))"

section \<open>The store\<close>

definition storage_error_of_io :: "io_error \<Rightarrow> storage_error" where
  "storage_error_of_io e = Backend (io_error_display e)"

record local_evidence_store =
  le_root :: fpath

definition local_open :: "fpath \<Rightarrow> (file_system, storage_error, local_evidence_store) op" where
  "local_open root =
     try_op (map_err storage_error_of_io (fs_create_dir_all (root @ [''blobs'']))) (\<lambda>_.
     try_op (map_err storage_error_of_io (fs_create_dir_all (root @ [''descriptors'']))) (\<lambda>_.
     ok \<lparr>le_root = root\<rparr>))"

definition blob_path :: "ext \<Rightarrow> local_evidence_store \<Rightarrow> content_digest \<Rightarrow> fpath" where
  "blob_path E L digest = le_root L @ [''blobs'', to_hex E digest]"

definition descriptor_path :: "ext \<Rightarrow> local_evidence_store \<Rightarrow> content_digest \<Rightarrow> fpath" where
  "descriptor_path E L digest = le_root L @ [''descriptors'', to_hex E digest]"

definition temp_path :: "nat \<Rightarrow> fpath \<Rightarrow> fpath" where
  "temp_path pid path = butlast path @ [''.'' @ last path @ ''.tmp-'' @ dec_nat pid]"

text \<open>A path of this program always has a name, so only the empty one is refused.\<close>

definition atomic_write :: "nat \<Rightarrow> fpath \<Rightarrow> bytes \<Rightarrow> (file_system, storage_error, unit) op" where
  "atomic_write pid path bytes =
     (if path = [] then fail (Backend ''evidence path has no parent'')
      else
        try_op (map_err storage_error_of_io (fs_write (temp_path pid path) bytes)) (\<lambda>_.
        map_err storage_error_of_io (fs_rename (temp_path pid path) path)))"

definition local_put ::
  "ext \<Rightarrow> nat \<Rightarrow> local_evidence_store \<Rightarrow> bytes \<Rightarrow> (file_system, storage_error, content_digest) op" where
  "local_put E pid L bytes fs =
     (let digest = content_digest_of E bytes; path = blob_path E L digest in
      case fs_exists path fs of
        (True, fs') \<Rightarrow> (Inr digest, fs')
      | (False, fs') \<Rightarrow> try_op (atomic_write pid path bytes) (\<lambda>_. ok digest) fs')"

definition local_get ::
  "ext \<Rightarrow> local_evidence_store \<Rightarrow> content_digest \<Rightarrow> (file_system, storage_error, bytes option) op" where
  "local_get E L digest fs =
     (case fs_read (blob_path E L digest) fs of
        (Inr bytes, fs') \<Rightarrow>
          (let found = content_digest_of E bytes in
           if found \<noteq> digest then (Inl (EvidenceDigestMismatch digest found), fs') else (Inr (Some bytes), fs'))
      | (Inl (IoNotFound _), fs') \<Rightarrow> (Inr None, fs')
      | (Inl (IoOther m), fs') \<Rightarrow> (Inl (storage_error_of_io (IoOther m)), fs'))"

definition descriptor_line :: "ext \<Rightarrow> evidence_descriptor \<Rightarrow> bytes" where
  "descriptor_line E d =
     to_hex E (ed_digest d) @ [CHR 0x09] @ ed_media_type d @ [CHR 0x09] @ dec_u64 (ed_size_bytes d) @ [CHR 0x0A]"

definition local_put_descriptor ::
  "ext \<Rightarrow> nat \<Rightarrow> local_evidence_store \<Rightarrow> evidence_descriptor \<Rightarrow> (file_system, storage_error, unit) op" where
  "local_put_descriptor E pid L d =
     atomic_write pid (descriptor_path E L (ed_digest d)) (descriptor_line E d)"

section \<open>What an evidence store promises\<close>

text \<open>
  \<open>blobs\<close> is what a store holds by content address. A put that succeeds answers the address of the bytes and
  leaves a blob there; one that fails leaves everything as it was; neither touches another address, and no
  address loses its blob. A get answers a blob only under its own address. The promise is made where the
  environment is \<open>usable\<close>: the filesystem store needs two digests never to share a file name.
\<close>

locale content_addressed =
  fixes E :: ext
    and usable :: bool
    and blobs :: "'s \<Rightarrow> bytes \<rightharpoonup> bytes"
    and put :: "bytes \<Rightarrow> ('s, storage_error, content_digest) op"
    and get :: "content_digest \<Rightarrow> ('s, storage_error, bytes option) op"
  assumes put_done: "usable \<Longrightarrow> put b s = (Inr d, s') \<Longrightarrow> d = content_digest_of E b
      \<and> (blobs s' = (blobs s)(digest_bytes d \<mapsto> b) \<or> blobs s' = blobs s \<and> blobs s (digest_bytes d) \<noteq> None)"
    and put_failed: "usable \<Longrightarrow> put b s = (Inl e, s') \<Longrightarrow> blobs s' = blobs s"
    and get_blobs: "blobs (snd (get d s)) = blobs s"
    and get_found: "get d s = (Inr (Some b), s') \<Longrightarrow> blobs s (digest_bytes d) = Some b \<and> content_digest_of E b = d"
begin

text \<open>
  The client: puts and gets in any order, whatever the environment does to them, with the bytes each call
  was answered for, a put the ones it stored and a get the ones it found, under their address.
\<close>

fun run_calls :: "(bytes + content_digest) list \<Rightarrow> 's \<Rightarrow> (content_digest \<times> bytes) list \<times> 's" where
  "run_calls [] s = ([], s)"
| "run_calls (Inl b # cs) s =
     (let (r, s') = put b s; (answers, s'') = run_calls cs s' in
      (case r of Inl _ \<Rightarrow> answers | Inr d \<Rightarrow> (d, b) # answers, s''))"
| "run_calls (Inr d # cs) s =
     (let (r, s') = get d s; (answers, s'') = run_calls cs s' in
      (case r of Inr (Some b) \<Rightarrow> (d, b) # answers | _ \<Rightarrow> answers, s''))"

definition addresses_ok :: "'s \<Rightarrow> bool" where
  "addresses_ok s \<longleftrightarrow> (\<forall>k b. blobs s k = Some b \<longrightarrow> ext_sha256 E b = k)"

lemma put_steps:
  assumes "usable" and "put b s = (r, s')"
  shows "dom (blobs s) \<subseteq> dom (blobs s')"
    and "addresses_ok s \<Longrightarrow> addresses_ok s'"
    and "r = Inr d \<Longrightarrow> d = content_digest_of E b \<and> digest_bytes d \<in> dom (blobs s')"
  using assms put_done [of b s _ s'] put_failed [of b s _ s']
  by (cases r; auto simp: addresses_ok_def content_digest_of_def split: if_splits)+

lemma run_calls_addresses_ok: "usable \<Longrightarrow> addresses_ok s \<Longrightarrow> addresses_ok (snd (run_calls cs s))"
proof (induction cs arbitrary: s)
  case (Cons c cs)
  show ?case
  proof (cases c)
    case (Inl b)
    obtain r s' where s': "put b s = (r, s')" by fastforce
    from Cons.IH [OF Cons.prems(1) put_steps(2) [OF Cons.prems(1) s' Cons.prems(2)]] show ?thesis
      by (simp add: Inl s' case_prod_beta)
  next
    case (Inr d)
    obtain r s' where s': "get d s = (r, s')" by fastforce
    from get_blobs [of d s] Cons.prems(2) have "addresses_ok s'" by (simp add: s' addresses_ok_def)
    from Cons.IH [OF Cons.prems(1) this] show ?thesis by (simp add: Inr s' case_prod_beta)
  qed
qed simp

lemma run_calls_keeps: "usable \<Longrightarrow> dom (blobs s) \<subseteq> dom (blobs (snd (run_calls cs s)))"
proof (induction cs arbitrary: s)
  case (Cons c cs)
  show ?case
  proof (cases c)
    case (Inl b)
    obtain r s' where s': "put b s = (r, s')" by fastforce
    from Cons.IH [OF Cons.prems, of s'] put_steps(1) [OF Cons.prems s'] show ?thesis
      by (simp add: Inl s' case_prod_beta)
  next
    case (Inr d)
    obtain r s' where s': "get d s = (r, s')" by fastforce
    from Cons.IH [OF Cons.prems, of s'] get_blobs [of d s] show ?thesis
      by (simp add: Inr s' case_prod_beta)
  qed
qed simp

lemma run_calls_answers:
  assumes "usable" and "(d, b) \<in> set (fst (run_calls cs s))"
  shows "d = content_digest_of E b \<and> digest_bytes d \<in> dom (blobs (snd (run_calls cs s)))"
  using assms(2)
proof (induction cs arbitrary: s)
  case (Cons c cs)
  show ?case
  proof (cases c)
    case (Inl x)
    obtain r s' where s': "put x s = (r, s')" by fastforce
    from Cons.prems consider "(d, b) \<in> set (fst (run_calls cs s'))" | "r = Inr d" "x = b"
      by (auto simp: Inl s' case_prod_beta split: sum.splits)
    then show ?thesis
    proof cases
      case 2
      from put_steps(3) [OF assms(1) s' 2(1)] run_calls_keeps [OF assms(1), of s' cs]
      have "d = content_digest_of E x" and "digest_bytes d \<in> dom (blobs (snd (run_calls cs s')))" by auto
      moreover have "snd (run_calls (c # cs) s) = snd (run_calls cs s')" by (simp add: Inl s' case_prod_beta)
      ultimately show ?thesis using 2(2) by simp
    qed (use Cons.IH [of s'] in \<open>auto simp: Inl s' case_prod_beta\<close>)
  next
    case (Inr x)
    obtain r s' where s': "get x s = (r, s')" by fastforce
    from Cons.prems consider "(d, b) \<in> set (fst (run_calls cs s'))" | "r = Inr (Some b)" "x = d"
      by (auto simp: Inr s' case_prod_beta split: sum.splits option.splits)
    then show ?thesis
    proof cases
      case 2
      from get_found [of x s b s'] get_blobs [of x s] run_calls_keeps [OF assms(1), of s' cs] s' 2(1)
      have "x = content_digest_of E b" and "digest_bytes x \<in> dom (blobs (snd (run_calls cs s')))" by auto
      moreover have "snd (run_calls (c # cs) s) = snd (run_calls cs s')" by (simp add: Inr s' case_prod_beta)
      ultimately show ?thesis using 2(2) by simp
    qed (use Cons.IH [of s'] in \<open>auto simp: Inr s' case_prod_beta\<close>)
  qed
qed simp

end

interpretation memory_blobs: content_addressed E True es_blobs "evidence_put E" "\<lambda>d s. (evidence_get E d s, s)"
  for E :: ext
  by unfold_locales
    (auto simp: evidence_put_def evidence_get_def content_digest_of_def Let_def split: option.splits if_splits)

section \<open>The filesystem store keeps the promise\<close>

definition blobs_of :: "ext \<Rightarrow> local_evidence_store \<Rightarrow> file_system \<Rightarrow> bytes \<rightharpoonup> bytes" where
  "blobs_of E L fs k = fs_files fs (blob_path E L (ContentDigest k))"

lemma fs_sel [simp]:
  "fs_files (count_call fs) = fs_files fs" "fs_files (set_file p b fs) = (fs_files fs)(p := b)"
  "blobs_of E L (count_call fs) = blobs_of E L fs"
  by (simp_all add: count_call_def set_file_def blobs_of_def fun_eq_iff)

text \<open>A temporary name starts with a dot, a blob's name with a hexadecimal digit.\<close>

lemma hex_not_dot: "hex_laws E \<Longrightarrow> to_hex E d \<noteq> ''.'' @ s"
  by (auto simp: hex_laws_def to_hex_def dest: spec [of _ "digest_bytes d"]
      simp: is_lower_hex_def is_ascii_digit_def)

lemma to_hex_inject: "hex_laws E \<Longrightarrow> to_hex E d = to_hex E d' \<longleftrightarrow> d = d'"
  by (cases d; cases d') (metis content_digest.inject digest_bytes.simps hex_laws_def option.inject to_hex_def)

lemma blob_path_inject: "hex_laws E \<Longrightarrow> blob_path E L d = blob_path E L d' \<longleftrightarrow> d = d'"
  by (simp add: blob_path_def to_hex_inject)

lemma temp_not_blob:
  assumes "hex_laws E"
  shows "temp_path pid (blob_path E L d) \<noteq> blob_path E L d'"
    and "temp_path pid (descriptor_path E L d) \<noteq> blob_path E L d'"
    and "descriptor_path E L d \<noteq> blob_path E L d'"
  using hex_not_dot [OF assms, of d']
  by (auto simp: temp_path_def blob_path_def descriptor_path_def butlast_append dest: sym)

lemma blobs_of_temp:
  "hex_laws E \<Longrightarrow> blobs_of E L (set_file (temp_path pid (blob_path E L d)) b fs) = blobs_of E L fs"
  using temp_not_blob(1) [of E pid L d, symmetric] by (auto simp: blobs_of_def fun_eq_iff)

lemma blobs_of_blob:
  "hex_laws E \<Longrightarrow> blobs_of E L (set_file (blob_path E L d) b fs) = (blobs_of E L fs)(digest_bytes d := b)"
  by (cases d) (auto simp: blobs_of_def fun_eq_iff blob_path_inject)

lemma blob_path_nonempty [simp]: "blob_path E L d \<noteq> []"
  by (simp add: blob_path_def)

lemma atomic_write_blobs:
  assumes "hex_laws E" and "atomic_write pid (blob_path E L d) b fs = (r, fs')"
  shows "r = Inr () \<and> blobs_of E L fs' = (blobs_of E L fs)(digest_bytes d \<mapsto> b)
    \<or> (\<exists>e. r = Inl (Backend e)) \<and> blobs_of E L fs' = blobs_of E L fs"
  using assms(2)
  by (auto simp: atomic_write_def fs_write_def fs_rename_def try_op_def map_err_def storage_error_of_io_def
      blobs_of_temp [OF assms(1)] blobs_of_blob [OF assms(1)] split: option.splits)

lemma local_put_eq:
  "local_put E pid L b fs =
     (if next_fault fs = None \<and> blobs_of E L fs (ext_sha256 E b) \<noteq> None
      then (Inr (content_digest_of E b), count_call fs)
      else try_op (atomic_write pid (blob_path E L (content_digest_of E b)) b)
             (\<lambda>_. ok (content_digest_of E b)) (count_call fs))"
  by (simp add: local_put_def fs_exists_def blobs_of_def content_digest_of_def Let_def split: bool.split)

lemma local_put_blobs:
  assumes "hex_laws E" and "local_put E pid L b fs = (r, fs')"
  shows "(\<exists>e. r = Inl e \<and> blobs_of E L fs' = blobs_of E L fs)
    \<or> r = Inr (content_digest_of E b)
      \<and> (blobs_of E L fs' = (blobs_of E L fs)(ext_sha256 E b \<mapsto> b)
         \<or> blobs_of E L fs' = blobs_of E L fs \<and> blobs_of E L fs (ext_sha256 E b) \<noteq> None)"
proof (cases "next_fault fs = None \<and> blobs_of E L fs (ext_sha256 E b) \<noteq> None")
  case True
  with assms(2) show ?thesis by (auto simp: local_put_eq)
next
  case False
  obtain x fs1 where w: "atomic_write pid (blob_path E L (content_digest_of E b)) b (count_call fs) = (x, fs1)"
    by fastforce
  from atomic_write_blobs [OF assms(1) w] w False assms(2) show ?thesis
    by (auto simp: local_put_eq try_op_def content_digest_of_def)
qed

interpretation local_blobs: content_addressed E "hex_laws E" "blobs_of E L" "local_put E pid L" "local_get E L"
  for E :: ext and L :: local_evidence_store and pid :: nat
proof unfold_locales
  show "hex_laws E \<Longrightarrow> local_put E pid L b s = (Inr d, s') \<Longrightarrow> d = content_digest_of E b
      \<and> (blobs_of E L s' = (blobs_of E L s)(digest_bytes d \<mapsto> b)
         \<or> blobs_of E L s' = blobs_of E L s \<and> blobs_of E L s (digest_bytes d) \<noteq> None)" for b s d s'
    using local_put_blobs [of E pid L b s "Inr d" s'] by (auto simp: content_digest_of_def)
  show "hex_laws E \<Longrightarrow> local_put E pid L b s = (Inl e, s') \<Longrightarrow> blobs_of E L s' = blobs_of E L s" for b s e s'
    using local_put_blobs [of E pid L b s "Inl e" s'] by auto
  show "blobs_of E L (snd (local_get E L d s)) = blobs_of E L s" for d s
    by (auto simp: local_get_def fs_read_def Let_def split: option.splits io_error.splits)
  show "local_get E L d s = (Inr (Some b), s') \<Longrightarrow> blobs_of E L s (digest_bytes d) = Some b \<and> content_digest_of E b = d"
    for d s b s'
    by (cases d) (auto simp: local_get_def fs_read_def blobs_of_def Let_def split: option.splits io_error.splits if_splits)
qed

section \<open>Two puts of the same bytes at once\<close>

text \<open>
  The calls that a put makes to the operating system, one at a time. A task of the same process may run
  between any two of them.
\<close>

datatype put_pc =
    CheckExists
  | WriteTemp
  | RenameTemp
  | PutDone "storage_error + content_digest"

definition put_step ::
  "ext \<Rightarrow> nat \<Rightarrow> local_evidence_store \<Rightarrow> bytes \<Rightarrow> put_pc \<Rightarrow> file_system \<Rightarrow> put_pc \<times> file_system" where
  "put_step E pid L bytes pc fs =
     (let digest = content_digest_of E bytes; path = blob_path E L digest in
      case pc of
        CheckExists \<Rightarrow>
          (case fs_exists path fs of
             (True, fs') \<Rightarrow> (PutDone (Inr digest), fs')
           | (False, fs') \<Rightarrow> (WriteTemp, fs'))
      | WriteTemp \<Rightarrow>
          (case map_err storage_error_of_io (fs_write (temp_path pid path) bytes) fs of
             (Inl e, fs') \<Rightarrow> (PutDone (Inl e), fs')
           | (Inr _, fs') \<Rightarrow> (RenameTemp, fs'))
      | RenameTemp \<Rightarrow>
          (case map_err storage_error_of_io (fs_rename (temp_path pid path) path) fs of
             (Inl e, fs') \<Rightarrow> (PutDone (Inl e), fs')
           | (Inr _, fs') \<Rightarrow> (PutDone (Inr digest), fs'))
      | PutDone r \<Rightarrow> (PutDone r, fs))"

text \<open>A schedule says which of the two tasks makes its next call.\<close>

fun run_two_puts ::
  "ext \<Rightarrow> nat \<Rightarrow> local_evidence_store \<Rightarrow> bytes \<Rightarrow> bool list \<Rightarrow> put_pc \<times> put_pc \<times> file_system
   \<Rightarrow> put_pc \<times> put_pc \<times> file_system" where
  "run_two_puts E pid L bytes [] st = st"
| "run_two_puts E pid L bytes (True # sch) (a, b, fs) =
     (let (a', fs') = put_step E pid L bytes a fs in run_two_puts E pid L bytes sch (a', b, fs'))"
| "run_two_puts E pid L bytes (False # sch) (a, b, fs) =
     (let (b', fs') = put_step E pid L bytes b fs in run_two_puts E pid L bytes sch (a, b', fs'))"

text \<open>Three calls of one task are the whole put.\<close>

lemma three_steps_are_put:
  "run_two_puts E pid L b [True, True, True] (CheckExists, c, fs) =
     (let (r, fs') = local_put E pid L b fs in (PutDone r, c, fs'))"
  by (simp add: put_step_def local_put_def fs_exists_def atomic_write_def try_op_def map_err_def Let_def
      split: bool.split sum.split prod.split)

section \<open>Properties\<close>

lemma fs_fault_sel [simp]: "fs_fault (count_call fs) = fs_fault fs" "fs_fault (set_file p b fs) = fs_fault fs"
  by (simp_all add: count_call_def set_file_def)

lemma no_fault: "fs_fault fs = (\<lambda>_. None) \<Longrightarrow> next_fault fs = None"
  by (simp add: next_fault_def)

lemma atomic_write_fault_free:
  assumes "hex_laws E" and "fs_fault fs = (\<lambda>_. None)"
  shows "fst (atomic_write pid (blob_path E L d) b fs) = Inr ()"
    and "blobs_of E L (snd (atomic_write pid (blob_path E L d) b fs)) = (blobs_of E L fs)(digest_bytes d \<mapsto> b)"
  using assms(2)
  by (simp_all add: atomic_write_def fs_write_def fs_rename_def try_op_def map_err_def no_fault
      blobs_of_temp [OF assms(1)] blobs_of_blob [OF assms(1)])

text \<open>
  C17. On a file system that does not fail, the filesystem store is the in-memory store: related stores give
  the same answer to every put and every get, the refusal of a blob with another digest included, and stay
  related.
\<close>

theorem local_store_refines_memory:
  assumes "hex_laws E" and "fs_fault fs = (\<lambda>_. None)" and "blobs_of E L fs = es_blobs s"
  shows "fst (local_put E pid L b fs) = fst (evidence_put E b s)
    \<and> blobs_of E L (snd (local_put E pid L b fs)) = es_blobs (snd (evidence_put E b s))
    \<and> fst (local_get E L d fs) = evidence_get E d s
    \<and> blobs_of E L (snd (local_get E L d fs)) = es_blobs s"
proof -
  have get: "fs_read (blob_path E L d) fs =
      ((case es_blobs s (digest_bytes d) of None \<Rightarrow> Inl (IoNotFound no_such_file) | Some x \<Rightarrow> Inr x), count_call fs)"
    using assms(2) fun_cong [OF assms(3), of "digest_bytes d"]
    by (cases d) (auto simp: fs_read_def next_fault_def blobs_of_def split: option.split)
  have get': "fst (local_get E L d fs) = evidence_get E d s \<and> blobs_of E L (snd (local_get E L d fs)) = es_blobs s"
    using assms(3) by (auto simp: local_get_def get evidence_get_def Let_def split: option.splits)
  have put: "fst (local_put E pid L b fs) = fst (evidence_put E b s)
    \<and> blobs_of E L (snd (local_put E pid L b fs)) = es_blobs (snd (evidence_put E b s))"
  proof (cases "es_blobs s (ext_sha256 E b)")
    case None
    then show ?thesis using assms(3)
      by (simp add: local_put_eq evidence_put_def content_digest_of_def try_op_fst atomic_write_fault_free [OF assms(1)]
          assms(2) no_fault)
  next
    case (Some x)
    then show ?thesis using assms(3)
      by (simp add: local_put_eq evidence_put_def content_digest_of_def no_fault [OF assms(2)])
  qed
  from put get' show ?thesis by blast
qed

text \<open>
  C18. Whatever calls to the operating system fail, and wherever, partial writes included: after any puts and
  gets every blob lies under the digest of its own bytes, no address has lost its blob, and the bytes of
  every successful put and of every get that found something have the digest it was made with, whose blob is
  still there.
\<close>

theorem local_store_survives_faults:
  assumes "hex_laws E" and "\<And>k x. blobs_of E L fs k = Some x \<Longrightarrow> ext_sha256 E x = k"
    and "local_blobs.run_calls E pid L cs fs = (answers, fs')"
  shows "(\<forall>k x. blobs_of E L fs' k = Some x \<longrightarrow> ext_sha256 E x = k)
    \<and> dom (blobs_of E L fs) \<subseteq> dom (blobs_of E L fs')
    \<and> (\<forall>(d, b) \<in> set answers. d = content_digest_of E b \<and> blobs_of E L fs' (digest_bytes d) \<noteq> None)"
proof -
  have ok: "local_blobs.addresses_ok E L fs" using assms(2) by (simp add: local_blobs.addresses_ok_def)
  from local_blobs.run_calls_addresses_ok [OF assms(1) ok, of pid cs]
    local_blobs.run_calls_keeps [OF assms(1), of L fs pid cs]
    local_blobs.run_calls_answers [OF assms(1), of _ _ pid L cs fs]
  show ?thesis by (fastforce simp: assms(3) local_blobs.addresses_ok_def)
qed

text \<open>The calls of a put by what they find: the file there or not, the call failing or not.\<close>

lemma put_step_CheckExists:
  "next_fault fs = None \<Longrightarrow> blobs_of E L fs (ext_sha256 E b) = None
   \<Longrightarrow> put_step E pid L b CheckExists fs = (WriteTemp, count_call fs)"
  by (simp add: put_step_def fs_exists_def blobs_of_def content_digest_of_def)

lemma put_step_WriteTemp:
  "put_step E pid L b WriteTemp fs =
     (let temp = temp_path pid (blob_path E L (content_digest_of E b)) in
      case next_fault fs of
        None \<Rightarrow> (RenameTemp, set_file temp (Some b) (count_call fs))
      | Some (e, None) \<Rightarrow> (PutDone (Inl (storage_error_of_io e)), count_call fs)
      | Some (e, Some n) \<Rightarrow> (PutDone (Inl (storage_error_of_io e)), set_file temp (Some (take n b)) (count_call fs)))"
  by (simp add: put_step_def fs_write_def map_err_def Let_def split: option.split prod.split)

lemma put_step_RenameTemp:
  "next_fault fs = None \<Longrightarrow> put_step E pid L b RenameTemp fs =
     (let d = content_digest_of E b; temp = temp_path pid (blob_path E L d) in
      case fs_files fs temp of
        None \<Rightarrow> (PutDone (Inl (Backend no_such_file)), count_call fs)
      | Some x \<Rightarrow> (PutDone (Inr d), set_file (blob_path E L d) (Some x) (set_file temp None (count_call fs))))"
  by (simp add: put_step_def fs_rename_def map_err_def storage_error_of_io_def Let_def split: option.split)

lemma fs_calls_sel [simp]: "fs_calls (count_call fs) = Suc (fs_calls fs)" "fs_calls (set_file p b fs) = fs_calls fs"
  by (simp_all add: count_call_def set_file_def)

lemmas put_steps = put_step_CheckExists put_step_WriteTemp put_step_RenameTemp next_fault_def content_digest_of_def


text \<open>The root, and a file system that has only the directories.\<close>

definition evidence_root :: local_evidence_store where
  "evidence_root = \<lparr>le_root = [''var'', ''evidence'']\<rparr>"

definition empty_disk :: file_system where
  "empty_disk = \<lparr>fs_files = (\<lambda>_. None), fs_calls = 0, fs_fault = (\<lambda>_. None)\<rparr>"

lemma empty_disk_facts [simp]:
  "blobs_of E L empty_disk = (\<lambda>_. None)" "fs_fault empty_disk = (\<lambda>_. None)" "fs_calls empty_disk = 0"
  by (simp_all add: blobs_of_def empty_disk_def fun_eq_iff)

theorem local_store_refines_memory_witness:
  "fst (local_get ext_ref evidence_root (content_digest_of ext_ref ''abc'') empty_disk)
   = evidence_get ext_ref (content_digest_of ext_ref ''abc'') \<lparr>es_blobs = (\<lambda>_. None), es_descriptors = (\<lambda>_. None)\<rparr>"
  using local_store_refines_memory [OF hex_laws_ref, of empty_disk evidence_root
      "\<lparr>es_blobs = (\<lambda>_. None), es_descriptors = (\<lambda>_. None)\<rparr>" 7 "''abc''" "content_digest_of ext_ref ''abc''"]
  by simp

theorem local_store_survives_faults_witness:
  "list_all (\<lambda>(d, b). d = content_digest_of ext_ref b \<and> blobs_of ext_ref evidence_root
        (snd (local_blobs.run_calls ext_ref 7 evidence_root [Inl ''abc'', Inl ''abc'']
          (empty_disk\<lparr>fs_fault := [1 \<mapsto> (IoOther ''disk full'', Some 2)]\<rparr>))) (digest_bytes d) \<noteq> None)
     (fst (local_blobs.run_calls ext_ref 7 evidence_root [Inl ''abc'', Inl ''abc'']
        (empty_disk\<lparr>fs_fault := [1 \<mapsto> (IoOther ''disk full'', Some 2)]\<rparr>)))"
proof -
  let ?fs = "empty_disk\<lparr>fs_fault := [1 \<mapsto> (IoOther ''disk full'', Some 2)]\<rparr>"
  have "blobs_of ext_ref evidence_root ?fs k = Some x \<Longrightarrow> ext_sha256 ext_ref x = k" for k x
    by (simp add: blobs_of_def empty_disk_def)
  from local_store_survives_faults [OF hex_laws_ref this prod.collapse [symmetric]] show ?thesis
    unfolding list_all_iff by blast
qed


end
