(* ===== verification/GitHub_Transport.thy ===== *)
theory GitHub_Transport
  imports GitHub_App Json_Decode
begin

text \<open>
  The live transport of the GitHub App adapter, \<^verbatim>\<open>crates/piteka-github/src/lib.rs\<close>: the App's token, the
  exchange for an installation token, the deployment request and the three webhook maintenance calls, over
  a wire that records every request sent, those included that the client adds by following redirects. RSA,
  base64, reqwest and serde_json are arguments, and GitHub answers each request as it likes, from all
  requests so far.
\<close>

section \<open>What the adapter calls\<close>

text \<open>The bearer is empty in a request that has no authorization header.\<close>

record gh_request =
  gq_verb :: http_verb
  gq_url :: string
  gq_bearer :: string
  gq_headers :: "(string \<times> string) list"
  gq_json :: "deployment_request option"

text \<open>Reading the body may fail, with the text of the error.\<close>

record gh_response =
  gr_status :: u16
  gr_body :: "string + bytes"

text \<open>
  The tools: the JSON parser and the text of its errors, the text of a body and of a status, URL-safe
  base64 without padding, the RS256 signature under a PEM key, the request the client makes of a redirect
  (none when the response is final), and the text of its error after too many of them.
\<close>

record gh_tools =
  gt_parse :: "bytes \<Rightarrow> string + json"
  gt_decode_error :: "json \<Rightarrow> string"
  gt_text :: "bytes \<Rightarrow> string"
  gt_status :: "u16 \<Rightarrow> string"
  gt_base64 :: "bytes \<Rightarrow> string"
  gt_sign :: "string \<Rightarrow> bytes \<Rightarrow> string + bytes"
  gt_redirect :: "gh_request \<Rightarrow> gh_response \<Rightarrow> gh_request option"
  gt_too_many_redirects :: string

text \<open>\<open>gw_answer\<close> answers the last of the requests sent, with the text of the error when there is no response.\<close>

record gh_wire =
  gw_sent :: "gh_request list"
  gw_answer :: "gh_request list \<Rightarrow> string + gh_response"

text \<open>
  \<open>reqwest::Client::new()\<close> has the default policy: it follows a redirect with another request, up to ten times,
  and ends in an error at the eleventh. \<open>gh_hop\<close> is one request, \<open>continue\<close> what is done with a redirect.
\<close>

definition gh_hop ::
  "gh_tools \<Rightarrow> (gh_request \<Rightarrow> (gh_wire, string, gh_response) op) \<Rightarrow> gh_request \<Rightarrow> (gh_wire, string, gh_response) op" where
  "gh_hop T continue q w =
     (let sent = gw_sent w @ [q]; w' = w\<lparr>gw_sent := sent\<rparr> in
      case gw_answer w sent of
        Inl e \<Rightarrow> (Inl e, w')
      | Inr response \<Rightarrow>
          (case gt_redirect T q response of
             None \<Rightarrow> (Inr response, w')
           | Some q' \<Rightarrow> continue q' w'))"

primrec gh_follow :: "gh_tools \<Rightarrow> nat \<Rightarrow> gh_request \<Rightarrow> (gh_wire, string, gh_response) op" where
  "gh_follow T 0 = gh_hop T (\<lambda>_. fail (gt_too_many_redirects T))"
| "gh_follow T (Suc n) = gh_hop T (gh_follow T n)"

definition gh_send :: "gh_tools \<Rightarrow> gh_request \<Rightarrow> (gh_wire, string, gh_response) op" where
  "gh_send T = gh_follow T 10"

definition is_success :: "u16 \<Rightarrow> bool" where
  "is_success status = (200 \<le> status \<and> status < 300)"

definition response_json :: "gh_tools \<Rightarrow> gh_response \<Rightarrow> string + json" where
  "response_json T response = try_result (gr_body response) (gt_parse T)"

definition response_text :: "gh_tools \<Rightarrow> gh_response \<Rightarrow> string" where
  "response_text T response = (case gr_body response of Inl _ \<Rightarrow> [] | Inr b \<Rightarrow> gt_text T b)"

definition response_as :: "gh_tools \<Rightarrow> (json \<Rightarrow> 'a option) \<Rightarrow> gh_response \<Rightarrow> string + 'a" where
  "response_as T f response =
     try_result (response_json T response) (\<lambda>j.
     case f j of None \<Rightarrow> Inl (gt_decode_error T j) | Some a \<Rightarrow> Inr a)"

section \<open>The App's token\<close>

record jwt_token =
  jt_token :: string
  jt_expires_at :: u64

definition jwt_is_valid :: "jwt_token \<Rightarrow> u64 \<Rightarrow> bool" where
  "jwt_is_valid t now = (now < jt_expires_at t)"

definition quoted :: "string \<Rightarrow> string" where
  "quoted s = [CHR 0x22] @ s @ [CHR 0x22]"

definition jwt_header :: string where
  "jwt_header = ''{'' @ quoted ''alg'' @ '':'' @ quoted ''RS256'' @ '','' @ quoted ''typ'' @ '':'' @ quoted ''JWT'' @ ''}''"

definition jwt_payload :: "u64 \<Rightarrow> u64 \<Rightarrow> string" where
  "jwt_payload app_id issued_at =
     ''{'' @ quoted ''iat'' @ '':'' @ dec_u64 issued_at @ '','' @ quoted ''exp'' @ '':'' @ dec_u64 (issued_at + 600)
     @ '','' @ quoted ''iss'' @ '':'' @ quoted (dec_u64 app_id) @ ''}''"

definition generate_jwt :: "gh_tools \<Rightarrow> u64 \<Rightarrow> bytes \<Rightarrow> u64 \<Rightarrow> github_app_error + jwt_token" where
  "generate_jwt T app_id private_key issued_at =
     (let signing_input = gt_base64 T jwt_header @ ''.'' @ gt_base64 T (jwt_payload app_id issued_at) in
      case from_utf8 private_key of
        None \<Rightarrow> Inl (SecretResolution EmptySecret)
      | Some pem \<Rightarrow>
          (case gt_sign T pem signing_input of
             Inl e \<Rightarrow> Inl (SecretResolution (StoreUnavailable (''invalid GitHub App private key: '' @ e)))
           | Inr signature \<Rightarrow>
               Inr \<lparr>jt_token = signing_input @ ''.'' @ gt_base64 T signature, jt_expires_at = issued_at + 600\<rparr>))"

section \<open>Requests\<close>

definition github_request :: "http_verb \<Rightarrow> string \<Rightarrow> string \<Rightarrow> deployment_request option \<Rightarrow> gh_request" where
  "github_request verb url bearer body =
     \<lparr>gq_verb = verb, gq_url = url, gq_bearer = bearer,
      gq_headers =
        [(''accept'', ''application/vnd.github+json''), (''X-GitHub-Api-Version'', ''2022-11-28''),
         (''user-agent'', ''piteka-controlled-demo'')],
      gq_json = body\<rparr>"

text \<open>Of two members with one name a parsed value has the later.\<close>

definition value_get :: "json \<Rightarrow> string \<Rightarrow> json option" where
  "value_get v k = (case v of JObject members \<Rightarrow> map_of (rev members) k | _ \<Rightarrow> None)"

definition redact_api_body :: "gh_tools \<Rightarrow> string \<Rightarrow> string" where
  "redact_api_body T body =
     (case gt_parse T body of
        Inl _ \<Rightarrow> ''GitHub API request failed''
      | Inr value \<Rightarrow>
          (case Option.bind (value_get value ''message'') json_as_str of
             None \<Rightarrow> ''GitHub API request failed''
           | Some m \<Rightarrow> m))"

primrec installation_as_u64 :: "installation_id \<Rightarrow> u64" where
  "installation_as_u64 (GitHubInstallationId s) = id_as_u64 s"

definition installation_token_request :: "string \<Rightarrow> installation_id \<Rightarrow> string \<Rightarrow> gh_request" where
  "installation_token_request base installation bearer =
     github_request POST
       (base @ ''/app/installations/'' @ dec_u64 (installation_as_u64 installation) @ ''/access_tokens'') bearer None"

definition decode_installation_token :: "json \<Rightarrow> string option" where
  "decode_installation_token v =
     (case struct_members [''token''] v of Some [t] \<Rightarrow> as_string t | _ \<Rightarrow> None)"

definition create_installation_token ::
  "gh_tools \<Rightarrow> string \<Rightarrow> u64 \<Rightarrow> installation_id \<Rightarrow> bytes \<Rightarrow> u64 \<Rightarrow> (gh_wire, github_app_error, string) op" where
  "create_installation_token T base app_id installation app_secret now =
     try_op (lift_result (generate_jwt T app_id app_secret (saturating_sub_u64 now 60))) (\<lambda>jwt.
     try_op (map_err ApiError (gh_send T (installation_token_request base installation (jt_token jwt)))) (\<lambda>response.
     if \<not> is_success (gr_status response)
     then fail (ApiError (''installation token exchange returned '' @ gt_status T (gr_status response) @ '': ''
            @ redact_api_body T (response_text T response)))
     else lift_result (map_error ApiError (response_as T decode_installation_token response))))"

section \<open>The adapter\<close>

record live_adapter = github_app_adapter +
  la_webhook_secret_reference :: string
  la_serving_org :: organization_id
  la_api_base_url :: string

definition secret_reference_new :: "string \<Rightarrow> github_id_error + string" where
  "secret_reference_new value = (if blank value then Inl Empty else Inr value)"

definition adapter_new ::
  "in_memory_secret_resolver \<Rightarrow> installation_context \<Rightarrow> string \<Rightarrow> string \<Rightarrow> organization_id
   \<Rightarrow> github_app_error + live_adapter" where
  "adapter_new resolver context app_secret_reference webhook_secret_reference serving_org =
     require_field ''app_secret_reference'' (secret_reference_new app_secret_reference) (\<lambda>a.
     require_field ''webhook_secret_reference'' (secret_reference_new webhook_secret_reference) (\<lambda>s.
     Inr \<lparr>ga_resolver = resolver, ga_context = context, ga_app_secret_reference = a, ga_app_id = None,
          la_webhook_secret_reference = s, la_serving_org = serving_org,
          la_api_base_url = ''https://api.github.com''\<rparr>))"

definition with_live_transport :: "u64 \<Rightarrow> live_adapter \<Rightarrow> live_adapter" where
  "with_live_transport app_id A = A\<lparr>ga_app_id := Some app_id\<rparr>"

definition trim_end_slashes :: "string \<Rightarrow> string" where
  "trim_end_slashes s = rev (dropWhile (\<lambda>c. c = CHR 0x2F) (rev s))"

definition with_api_base_url :: "string \<Rightarrow> live_adapter \<Rightarrow> live_adapter" where
  "with_api_base_url api_base_url A = A\<lparr>la_api_base_url := trim_end_slashes api_base_url\<rparr>"

text \<open>The start of the three webhook calls; the clock may be before the epoch.\<close>

definition app_jwt :: "gh_tools \<Rightarrow> string + u64 \<Rightarrow> live_adapter \<Rightarrow> github_app_error + jwt_token" where
  "app_jwt T clock A =
     (case ga_app_id A of
        None \<Rightarrow> Inl (ApiError ''live GitHub transport is not configured'')
      | Some app_id \<Rightarrow>
          try_result (map_error SecretResolution (resolve_app_secret (ga_resolver A) (ga_app_secret_reference A))) (\<lambda>secret.
          try_result (map_error ApiError clock) (\<lambda>now.
          generate_jwt T app_id secret (saturating_sub_u64 now 60))))"

definition webhook_config_url ::
  "gh_tools \<Rightarrow> string + u64 \<Rightarrow> live_adapter \<Rightarrow> (gh_wire, github_app_error, string) op" where
  "webhook_config_url T clock A =
     try_op (lift_result (app_jwt T clock A)) (\<lambda>jwt.
     try_op (map_err ApiError (gh_send T
       (github_request GET (la_api_base_url A @ ''/app/hook/config'') (jt_token jwt) None))) (\<lambda>response.
     try_op (lift_result (map_error ApiError (response_json T response))) (\<lambda>value.
     if \<not> is_success (gr_status response)
     then fail (ApiError (''webhook configuration returned '' @ gt_status T (gr_status response)))
     else
       (case Option.bind (value_get value ''url'') json_as_str of
          None \<Rightarrow> fail (ApiError ''webhook configuration omitted url'')
        | Some url \<Rightarrow> ok url))))"

definition recent_webhook_deliveries ::
  "gh_tools \<Rightarrow> string + u64 \<Rightarrow> live_adapter \<Rightarrow> (gh_wire, github_app_error, json) op" where
  "recent_webhook_deliveries T clock A =
     try_op (lift_result (app_jwt T clock A)) (\<lambda>jwt.
     try_op (map_err ApiError (gh_send T
       (github_request GET (la_api_base_url A @ ''/app/hook/deliveries?per_page=100'') (jt_token jwt) None))) (\<lambda>response.
     try_op (lift_result (map_error ApiError (response_json T response))) (\<lambda>value.
     if is_success (gr_status response) then ok value
     else fail (ApiError (''webhook deliveries returned '' @ gt_status T (gr_status response))))))"

definition redeliver_webhook ::
  "gh_tools \<Rightarrow> string + u64 \<Rightarrow> live_adapter \<Rightarrow> u64 \<Rightarrow> (gh_wire, github_app_error, unit) op" where
  "redeliver_webhook T clock A delivery_id =
     try_op (lift_result (app_jwt T clock A)) (\<lambda>jwt.
     try_op (map_err ApiError (gh_send T
       (github_request POST (la_api_base_url A @ ''/app/hook/deliveries/'' @ dec_u64 delivery_id @ ''/attempts'')
         (jt_token jwt) None))) (\<lambda>response.
     if is_success (gr_status response) then ok ()
     else fail (ApiError (''webhook redelivery returned '' @ gt_status T (gr_status response)))))"

section \<open>Creating a deployment\<close>

primrec repository_name_as_str :: "repository_name \<Rightarrow> string" where
  "repository_name_as_str (GitHubRepositoryName s) = s"

definition deployment_post :: "string \<Rightarrow> repository_name \<Rightarrow> string \<Rightarrow> deployment_request \<Rightarrow> gh_request" where
  "deployment_post base repository token body =
     github_request POST (base @ ''/repos/'' @ repository_name_as_str repository @ ''/deployments'') token (Some body)"

definition decode_deployment_response :: "json \<Rightarrow> (u64 \<times> string) option" where
  "decode_deployment_response v =
     (case struct_members [''id'', ''url''] v of
        Some [i, u] \<Rightarrow> Option.bind (Option.bind i json_as_u64) (\<lambda>i. map_option (Pair i) (as_string u))
      | _ \<Rightarrow> None)"

definition post_deployment ::
  "gh_tools \<Rightarrow> string \<Rightarrow> string \<Rightarrow> repository_name \<Rightarrow> deployment_request
   \<Rightarrow> (gh_wire, github_app_error, u64 \<times> string) op" where
  "post_deployment T base token repository body =
     try_op (map_err ApiError (gh_send T (deployment_post base repository token body))) (\<lambda>response.
     if \<not> is_success (gr_status response)
     then fail (ApiError (''deployment creation returned '' @ gt_status T (gr_status response) @ '': ''
            @ redact_api_body T (response_text T response)))
     else lift_result (map_error ApiError (response_as T decode_deployment_response response)))"

definition live_create_deployment ::
  "ext \<Rightarrow> gh_tools \<Rightarrow> u64 \<Rightarrow> live_adapter
    \<Rightarrow> installation_id \<Rightarrow> repository_id \<Rightarrow> string \<Rightarrow> environment_name \<Rightarrow> bool \<Rightarrow> string \<Rightarrow> bytes
    \<Rightarrow> (gh_wire, github_app_error, deployment_created) op" where
  "live_create_deployment E T now A installation repository commit_sha environment auto_merge
     payload_commitment attempt_digest =
     try_op (lift_result (reject_if (installation \<noteq> ic_installation_id (ga_context A))
       (Unauthorized ''installation does not match the configured GitHub App context''))) (\<lambda>_.
     try_op (lift_result (reject_if (repository \<noteq> ic_repository_id (ga_context A))
       (Unauthorized ''repository does not match the configured GitHub App context''))) (\<lambda>_.
     try_op (lift_result (reject_if (environment \<noteq> ic_environment_name (ga_context A))
       (Unauthorized ''environment does not match the configured GitHub App context''))) (\<lambda>_.
     try_op (lift_result (reject_if (commit_sha = [] \<or> length commit_sha \<noteq> 40) (EmptyField ''commit_sha''))) (\<lambda>_.
     try_op (lift_result (reject_if (\<not> list_all is_ascii_hexdigit commit_sha)
       (ApiError ''commit_sha must be a 40-character hexadecimal object ID''))) (\<lambda>_.
     try_op (lift_result (reject_if (length payload_commitment \<noteq> 64 \<or> \<not> list_all is_ascii_hexdigit payload_commitment)
       (EmptyField ''payload_commitment''))) (\<lambda>_.
     try_op (lift_result (reject_if auto_merge
       (ApiError ''auto_merge must be false for production deployments''))) (\<lambda>_.
     try_op (lift_result (map_error SecretResolution
       (resolve_app_secret (ga_resolver A) (ga_app_secret_reference A)))) (\<lambda>app_secret.
     case ga_app_id A of
       None \<Rightarrow> fail (ApiError ''live GitHub transport is not configured'')
     | Some app_id \<Rightarrow>
         try_op (create_installation_token T (la_api_base_url A) app_id installation app_secret now) (\<lambda>token.
         try_op (post_deployment T (la_api_base_url A) token (ic_repository_name (ga_context A))
           (deployment_request_body E commit_sha environment attempt_digest)) (\<lambda>(i, url).
         ok \<lparr>dc_deployment_id = i, dc_url = url, dc_attempt_digest = attempt_digest\<rparr>))))))))))"

section \<open>What a call does\<close>

text \<open>The requests after the first, \<open>q\<close>, are what the client made of the redirects that answered them.\<close>

fun followed ::
  "gh_tools \<Rightarrow> (gh_request list \<Rightarrow> string + gh_response) \<Rightarrow> gh_request list \<Rightarrow> gh_request \<Rightarrow> gh_request list \<Rightarrow> bool" where
  "followed T answer sent q [] = True"
| "followed T answer sent q (q' # qs) =
     ((\<exists>r. answer (sent @ [q]) = Inr r \<and> gt_redirect T q r = Some q') \<and> followed T answer (sent @ [q]) q' qs)"

lemma gh_follow_sends:
  "gh_follow T n q w = (x, w') \<Longrightarrow>
    gw_answer w' = gw_answer w
    \<and> (\<exists>hops. gw_sent w' = gw_sent w @ q # hops \<and> length hops \<le> n \<and> followed T (gw_answer w) (gw_sent w) q hops)
    \<and> (\<forall>r. x = Inr r \<longrightarrow> gw_answer w (gw_sent w') = Inr r)"
proof (induction n arbitrary: q w)
  case 0
  then show ?case by (auto simp: gh_hop_def Let_def split: sum.splits option.splits)
next
  case (Suc n)
  show ?case
  proof (cases "\<exists>r q'. gw_answer w (gw_sent w @ [q]) = Inr r \<and> gt_redirect T q r = Some q'")
    case False
    with Suc.prems show ?thesis by (auto simp: gh_hop_def Let_def split: sum.splits option.splits)
  next
    case True
    then obtain r q' where redirect: "gw_answer w (gw_sent w @ [q]) = Inr r" "gt_redirect T q r = Some q'" by blast
    with Suc.prems have "gh_follow T n q' (w\<lparr>gw_sent := gw_sent w @ [q]\<rparr>) = (x, w')"
      by (simp add: gh_hop_def Let_def)
    from Suc.IH [OF this] obtain hops where "gw_answer w' = gw_answer w"
      and "gw_sent w' = (gw_sent w @ [q]) @ q' # hops" "length hops \<le> n" "followed T (gw_answer w) (gw_sent w @ [q]) q' hops"
      and "\<forall>r. x = Inr r \<longrightarrow> gw_answer w (gw_sent w') = Inr r" by auto
    with redirect show ?thesis by (intro conjI exI [of _ "q' # hops"]) simp_all
  qed
qed

text \<open>The requests of one call of the client: the one asked for and at most ten redirects.\<close>

definition one_call ::
  "gh_tools \<Rightarrow> (gh_request list \<Rightarrow> string + gh_response) \<Rightarrow> gh_request list \<Rightarrow> gh_request \<Rightarrow> gh_request list \<Rightarrow> bool" where
  "one_call T answer sent q qs \<longleftrightarrow> (\<exists>hops. qs = q # hops \<and> length hops \<le> 10 \<and> followed T answer sent q hops)"

lemma gh_send_sends:
  assumes "gh_send T q w = (x, w')"
  shows "gw_answer w' = gw_answer w
    \<and> (\<exists>qs. gw_sent w' = gw_sent w @ qs \<and> one_call T (gw_answer w) (gw_sent w) q qs)
    \<and> (\<forall>r. x = Inr r \<longrightarrow> gw_answer w (gw_sent w') = Inr r)"
  using gh_follow_sends [OF assms [unfolded gh_send_def]] unfolding one_call_def by blast

lemma gh_send_direct:
  assumes "gw_answer w (gw_sent w @ [q]) = Inr r" and "gt_redirect T q r = None"
  shows "gh_send T q w = (Inr r, w\<lparr>gw_sent := gw_sent w @ [q]\<rparr>)"
  using assms by (simp add: gh_send_def numeral_eq_Suc gh_hop_def Let_def)

text \<open>
  What reqwest documents of its redirects: they answer with one of five statuses, and the new request has
  the body of the old one or none, and its authorization or, at another host, none.
\<close>

definition redirect_laws :: "gh_tools \<Rightarrow> bool" where
  "redirect_laws T \<longleftrightarrow>
     (\<forall>q r q'. gt_redirect T q r = Some q' \<longrightarrow>
        gr_status r \<in> {301, 302, 303, 307, 308}
        \<and> (gq_json q' = gq_json q \<or> gq_json q' = None) \<and> (gq_bearer q' = gq_bearer q \<or> gq_bearer q' = []))"

text \<open>A request that carries no more than \<open>q\<close> does: neither another body nor another token.\<close>

definition carries_at_most :: "gh_request \<Rightarrow> gh_request \<Rightarrow> bool" where
  "carries_at_most q q' \<longleftrightarrow>
     (gq_json q' = gq_json q \<or> gq_json q' = None) \<and> (gq_bearer q' = gq_bearer q \<or> gq_bearer q' = [])"

lemma followed_carries:
  assumes "redirect_laws T"
  shows "followed T answer sent q hops \<Longrightarrow> \<forall>q' \<in> set hops. carries_at_most q q'"
proof (induction hops arbitrary: sent q)
  case Nil
  then show ?case by simp
next
  case (Cons q' hops)
  then obtain r where "gt_redirect T q r = Some q'" by auto
  with assms have "carries_at_most q q'" by (simp add: redirect_laws_def carries_at_most_def)
  moreover have "\<forall>q'' \<in> set hops. carries_at_most q' q''" using Cons.IH [of "sent @ [q]" q'] Cons.prems by simp
  ultimately show ?case unfolding carries_at_most_def by auto
qed

lemma one_call_carries:
  "redirect_laws T \<Longrightarrow> one_call T answer sent q qs \<Longrightarrow> \<forall>q' \<in> set qs. carries_at_most q q'"
  using followed_carries by (fastforce simp: one_call_def carries_at_most_def)

text \<open>What makes a deployment request acceptable to the adapter.\<close>

definition within_context ::
  "live_adapter \<Rightarrow> installation_id \<Rightarrow> repository_id \<Rightarrow> string \<Rightarrow> environment_name \<Rightarrow> bool \<Rightarrow> string \<Rightarrow> bool" where
  "within_context A i r sha env am commitment \<longleftrightarrow>
     i = ic_installation_id (ga_context A) \<and> r = ic_repository_id (ga_context A)
     \<and> env = ic_environment_name (ga_context A) \<and> \<not> am
     \<and> length sha = 40 \<and> list_all is_ascii_hexdigit sha
     \<and> length commitment = 64 \<and> list_all is_ascii_hexdigit commitment"

lemma live_create_deployment_guarded:
  assumes "within_context A i r sha env am commitment"
  shows "live_create_deployment E T now A i r sha env am commitment digest w =
    try_op (lift_result (map_error SecretResolution
       (resolve_app_secret (ga_resolver A) (ga_app_secret_reference A)))) (\<lambda>app_secret.
     case ga_app_id A of
       None \<Rightarrow> fail (ApiError ''live GitHub transport is not configured'')
     | Some app_id \<Rightarrow>
         try_op (create_installation_token T (la_api_base_url A) app_id i app_secret now) (\<lambda>token.
         try_op (post_deployment T (la_api_base_url A) token (ic_repository_name (ga_context A))
           (deployment_request_body E sha env digest)) (\<lambda>(n, url).
         ok \<lparr>dc_deployment_id = n, dc_url = url, dc_attempt_digest = digest\<rparr>))) w"
  using assms by (auto simp: live_create_deployment_def within_context_def try_lift_reject)

lemma live_create_deployment_refused:
  assumes "\<not> within_context A i r sha env am commitment"
  shows "\<exists>e. live_create_deployment E T now A i r sha env am commitment digest w = (Inl e, w)"
  using assms by (auto simp: live_create_deployment_def within_context_def try_lift_reject)

text \<open>An exchange is one call of the client, or none when there is no App token; a post is one call.\<close>

lemma create_installation_token_sends:
  assumes "create_installation_token T base app_id i secret now w = (r, w')"
  shows "gw_answer w' = gw_answer w
    \<and> (gw_sent w' = gw_sent w \<and> (\<exists>e. r = Inl e)
       \<or> (\<exists>jwt qs. gw_sent w' = gw_sent w @ qs
            \<and> one_call T (gw_answer w) (gw_sent w) (installation_token_request base i jwt) qs
            \<and> (\<forall>token. r = Inr token \<longrightarrow> (\<exists>answer. gw_answer w (gw_sent w') = Inr answer
                 \<and> is_success (gr_status answer) \<and> response_as T decode_installation_token answer = Inr token))))"
proof (cases "generate_jwt T app_id secret (saturating_sub_u64 now 60)")
  case (Inl e)
  with assms show ?thesis by (auto simp: create_installation_token_def)
next
  case (Inr jwt)
  let ?q = "installation_token_request base i (jt_token jwt)"
  obtain x w1 where send: "gh_send T ?q w = (x, w1)" by fastforce
  have "w' = w1 \<and> (\<forall>token. r = Inr token \<longrightarrow> (\<exists>answer. x = Inr answer
      \<and> is_success (gr_status answer) \<and> response_as T decode_installation_token answer = Inr token))"
    using assms
    by (auto simp: create_installation_token_def Inr try_op_def map_err_def send lift_result_def map_error_def
        split: sum.splits if_splits)
  moreover from gh_send_sends [OF send] obtain qs where "gw_answer w1 = gw_answer w" "gw_sent w1 = gw_sent w @ qs"
    "one_call T (gw_answer w) (gw_sent w) ?q qs" "\<And>r. x = Inr r \<Longrightarrow> gw_answer w (gw_sent w1) = Inr r"
    by blast
  ultimately show ?thesis by auto
qed

lemma post_deployment_sends:
  assumes "post_deployment T base token repository body w = (r, w')"
  shows "gw_answer w' = gw_answer w
    \<and> (\<exists>qs. gw_sent w' = gw_sent w @ qs
         \<and> one_call T (gw_answer w) (gw_sent w) (deployment_post base repository token body) qs)
    \<and> (\<forall>d. r = Inr d \<longrightarrow> (\<exists>answer. gw_answer w (gw_sent w') = Inr answer
         \<and> is_success (gr_status answer) \<and> response_as T decode_deployment_response answer = Inr d))"
proof -
  let ?q = "deployment_post base repository token body"
  obtain x w1 where send: "gh_send T ?q w = (x, w1)" by fastforce
  have "w' = w1 \<and> (\<forall>d. r = Inr d \<longrightarrow> (\<exists>answer. x = Inr answer
      \<and> is_success (gr_status answer) \<and> response_as T decode_deployment_response answer = Inr d))"
    using assms
    by (auto simp: post_deployment_def try_op_def map_err_def send lift_result_def map_error_def
        split: sum.splits if_splits)
  moreover from gh_send_sends [OF send] obtain qs where "gw_answer w1 = gw_answer w" "gw_sent w1 = gw_sent w @ qs"
    "one_call T (gw_answer w) (gw_sent w) ?q qs" "\<And>r. x = Inr r \<Longrightarrow> gw_answer w (gw_sent w1) = Inr r"
    by blast
  ultimately show ?thesis by auto
qed

text \<open>The adapter of \<open>create_deployment\<close>, without the fields that only the transport reads.\<close>

definition offline :: "live_adapter \<Rightarrow> github_app_adapter" where
  "offline A = \<lparr>ga_resolver = ga_resolver A, ga_context = ga_context A,
     ga_app_secret_reference = ga_app_secret_reference A, ga_app_id = ga_app_id A\<rparr>"

lemma offline_sel [simp]:
  "ga_resolver (offline A) = ga_resolver A" "ga_context (offline A) = ga_context A"
  "ga_app_secret_reference (offline A) = ga_app_secret_reference A" "ga_app_id (offline A) = ga_app_id A"
  by (simp_all add: offline_def)

text \<open>
  The webhook configuration is parsed before its status is read, so an error page that is not JSON is
  reported by what is wrong with its JSON and its status is lost; a redelivery reports the status.
\<close>

lemma config_error_hides_status:
  assumes "app_jwt T clock A = Inr jwt"
    and "gh_send T (github_request GET (la_api_base_url A @ ''/app/hook/config'') (jt_token jwt) None) w
      = (Inr \<lparr>gr_status = status, gr_body = Inr page\<rparr>, w')"
    and "gt_parse T page = Inl e"
  shows "fst (webhook_config_url T clock A w) = Inl (ApiError e)"
  using assms
  by (simp add: webhook_config_url_def try_op_def map_err_def lift_result_def response_json_def map_error_def)

lemma redelivery_reports_status:
  assumes "app_jwt T clock A = Inr jwt" and "\<not> is_success (gr_status answer)"
    and "gh_send T (github_request POST
        (la_api_base_url A @ ''/app/hook/deliveries/'' @ dec_u64 n @ ''/attempts'') (jt_token jwt) None) w = (Inr answer, w')"
  shows "fst (redeliver_webhook T clock A n w)
    = Inl (ApiError (''webhook redelivery returned '' @ gt_status T (gr_status answer)))"
  using assms by (simp add: redeliver_webhook_def try_op_def map_err_def lift_result_def)

section \<open>Properties\<close>

text \<open>The second call of a deployment and what its answer makes of the result.\<close>

lemma exchanged_deployment_sends:
  assumes inside: "within_context A i r sha env am commitment"
    and ids: "ga_app_id A = Some app_id"
      "resolve_app_secret (ga_resolver A) (ga_app_secret_reference A) = Inr secret"
    and one: "create_installation_token T (la_api_base_url A) app_id i secret now w = (Inr token, w1)"
    and run: "live_create_deployment E T now A i r sha env am commitment digest w = (x, w')"
  obtains ps where "gw_sent w' = gw_sent w1 @ ps"
    and "one_call T (gw_answer w1) (gw_sent w1) (deployment_post (la_api_base_url A)
          (ic_repository_name (ga_context A)) token (deployment_request_body E sha env digest)) ps"
    and "(\<exists>e. x = Inl e) \<or> (\<exists>d created. x = Inr d \<and> gw_answer w1 (gw_sent w') = Inr created
          \<and> is_success (gr_status created) \<and> dc_attempt_digest d = digest
          \<and> response_as T decode_deployment_response created = Inr (dc_deployment_id d, dc_url d))"
proof -
  obtain y w2 where two: "post_deployment T (la_api_base_url A) token (ic_repository_name (ga_context A))
      (deployment_request_body E sha env digest) w1 = (y, w2)" by fastforce
  have "x = (case y of Inl e \<Rightarrow> Inl e
       | Inr d \<Rightarrow> Inr \<lparr>dc_deployment_id = fst d, dc_url = snd d, dc_attempt_digest = digest\<rparr>) \<and> w' = w2"
    using run by (cases y) (auto simp: live_create_deployment_guarded [OF inside] ids map_error_def one two)
  then show ?thesis
    using post_deployment_sends [OF two] by (cases y) (auto intro: that)
qed

text \<open>
  C13. The whole traffic of a deployment. Outside the adapter's context nothing is sent. Inside it the client is
  called at most twice: for the token exchange of the configured installation, then, only with the token of
  an accepted exchange, for one POST to the configured repository that names the commit, the environment and the
  attempt digest, with auto-merge off. Each call sends its request and, as the client follows redirects, at most ten
  more, each made of the redirect that answered the one before and carrying no other body and no other token than
  the call's own; without a redirect each call is one request. Success means that both final answers were
  accepted and the second named the deployment returned.
\<close>

theorem live_deployment_traffic:
  assumes "redirect_laws T"
  shows "case live_create_deployment E T now A i r sha env am commitment digest w of (x, w') \<Rightarrow>
     (gw_sent w' = gw_sent w \<and> (\<exists>e. x = Inl e))
     \<or> within_context A i r sha env am commitment
       \<and> (\<exists>jwt qs. let exchange = installation_token_request (la_api_base_url A) i jwt in
           one_call T (gw_answer w) (gw_sent w) exchange qs \<and> (\<forall>q \<in> set qs. carries_at_most exchange q)
           \<and> (gw_sent w' = gw_sent w @ qs \<and> (\<exists>e. x = Inl e)
             \<or> (\<exists>token answer ps. let post = deployment_post (la_api_base_url A) (ic_repository_name (ga_context A)) token
                                              (deployment_request_body E sha env digest) in
                 gw_sent w' = gw_sent w @ qs @ ps
                 \<and> gw_answer w (gw_sent w @ qs) = Inr answer \<and> is_success (gr_status answer)
                 \<and> response_as T decode_installation_token answer = Inr token
                 \<and> one_call T (gw_answer w) (gw_sent w @ qs) post ps \<and> (\<forall>q \<in> set ps. carries_at_most post q)
                 \<and> ((\<exists>e. x = Inl e)
                    \<or> (\<exists>d created. x = Inr d \<and> gw_answer w (gw_sent w') = Inr created
                         \<and> is_success (gr_status created) \<and> dc_attempt_digest d = digest
                         \<and> response_as T decode_deployment_response created
                           = Inr (dc_deployment_id d, dc_url d))))))"
proof (cases "within_context A i r sha env am commitment")
  case False
  then obtain e where "live_create_deployment E T now A i r sha env am commitment digest w = (Inl e, w)"
    using live_create_deployment_refused by blast
  then show ?thesis by simp
next
  case True
  note guarded = live_create_deployment_guarded [OF True, of E T now digest w]
  note carries = one_call_carries [OF assms]
  show ?thesis
  proof (cases "\<exists>app_id secret. ga_app_id A = Some app_id
      \<and> resolve_app_secret (ga_resolver A) (ga_app_secret_reference A) = Inr secret")
    case False
    then show ?thesis
      by (cases "resolve_app_secret (ga_resolver A) (ga_app_secret_reference A)"; cases "ga_app_id A")
        (simp_all add: guarded map_error_def)
  next
    case ready: True
    then obtain app_id secret where ids: "ga_app_id A = Some app_id"
      "resolve_app_secret (ga_resolver A) (ga_app_secret_reference A) = Inr secret" by blast
    obtain x1 w1 where one: "create_installation_token T (la_api_base_url A) app_id i secret now w = (x1, w1)"
      by fastforce
    note sent1 = create_installation_token_sends [OF one]
    show ?thesis
    proof (cases x1)
      case (Inl e)
      with sent1 consider "gw_sent w1 = gw_sent w" | jwt qs where "gw_sent w1 = gw_sent w @ qs"
        "one_call T (gw_answer w) (gw_sent w) (installation_token_request (la_api_base_url A) i jwt) qs" by blast
      then show ?thesis
      proof cases
        case 1
        then show ?thesis by (simp add: guarded ids map_error_def one Inl)
      next
        case (2 jwt qs)
        with carries [OF 2(2)] True show ?thesis
          by (auto simp: guarded ids map_error_def one Inl Let_def intro!: exI [of _ jwt] exI [of _ qs])
      qed
    next
      case (Inr token)
      obtain x w' where run: "live_create_deployment E T now A i r sha env am commitment digest w = (x, w')"
        by fastforce
      from sent1 obtain jwt qs answer where exchange: "gw_sent w1 = gw_sent w @ qs"
        "one_call T (gw_answer w) (gw_sent w) (installation_token_request (la_api_base_url A) i jwt) qs"
        "gw_answer w (gw_sent w1) = Inr answer" "is_success (gr_status answer)"
        "response_as T decode_installation_token answer = Inr token" "gw_answer w1 = gw_answer w"
        using Inr by auto
      from exchanged_deployment_sends [OF True ids one [unfolded Inr] run] obtain ps
        where post: "gw_sent w' = gw_sent w @ qs @ ps" "one_call T (gw_answer w) (gw_sent w @ qs)
            (deployment_post (la_api_base_url A) (ic_repository_name (ga_context A)) token
              (deployment_request_body E sha env digest)) ps"
          "(\<exists>e. x = Inl e) \<or> (\<exists>d created. x = Inr d \<and> gw_answer w (gw_sent w') = Inr created
            \<and> is_success (gr_status created) \<and> dc_attempt_digest d = digest
            \<and> response_as T decode_deployment_response created = Inr (dc_deployment_id d, dc_url d))"
        unfolding exchange(1,6) append_assoc .
      show ?thesis
        unfolding run prod.case Let_def
        using True exchange(2-5) [unfolded exchange(1)] post carries [OF exchange(2)] carries [OF post(2)] by blast
    qed
  qed
qed

text \<open>An adapter, and a GitHub that accepts the exchange, redirects the post with status 307 and then is gone.\<close>

definition traffic_adapter :: live_adapter where
  "traffic_adapter =
     \<lparr>ga_resolver = store_app_secret ''k'' ''pem'' resolver_new,
      ga_context = \<lparr>ic_installation_id = GitHubInstallationId ''1'', ic_repository_id = GitHubRepositoryId ''2'',
        ic_repository_name = GitHubRepositoryName ''o/r'', ic_environment_id = GitHubEnvironmentId ''3'',
        ic_environment_name = GitHubEnvironmentName ''production''\<rparr>,
      ga_app_secret_reference = ''k'', ga_app_id = Some 4, la_webhook_secret_reference = ''s'',
      la_serving_org = OrganizationId ''org'', la_api_base_url = ''https://api.github.com''\<rparr>"

definition traffic_tools :: gh_tools where
  "traffic_tools =
     \<lparr>gt_parse = (\<lambda>_. Inr (JObject [(''token'', JString ''tok'')])), gt_decode_error = (\<lambda>_. []), gt_text = id,
      gt_status = (\<lambda>_. []), gt_base64 = id, gt_sign = (\<lambda>_ _. Inr ''sig''),
      gt_redirect = (\<lambda>q r. if gr_status r = 307 then Some (q\<lparr>gq_url := ''https://other''\<rparr>) else None),
      gt_too_many_redirects = ''too many''\<rparr>"

definition traffic_wire :: gh_wire where
  "traffic_wire =
     \<lparr>gw_sent = [],
      gw_answer = (\<lambda>sent.
        if length sent = 1 then Inr \<lparr>gr_status = 201, gr_body = Inr []\<rparr>
        else if length sent = 2 then Inr \<lparr>gr_status = 307, gr_body = Inr []\<rparr>
        else Inl ''gone'')\<rparr>"

definition traffic_run :: "(github_app_error + deployment_created) \<times> gh_wire" where
  "traffic_run = live_create_deployment ext_ref traffic_tools 100 traffic_adapter (GitHubInstallationId ''1'')
     (GitHubRepositoryId ''2'') (replicate 40 (CHR ''0'')) (GitHubEnvironmentName ''production'') False
     (replicate 64 (CHR ''0'')) ''digest'' traffic_wire"

lemma traffic_laws: "redirect_laws traffic_tools"
  by (auto simp: redirect_laws_def traffic_tools_def split: if_splits)

text \<open>
  A deployment is posted again when GitHub redirects the post: one call of \<open>create_deployment\<close> sends the
  body twice, the second time to another address.
\<close>

lemma redirected_deployment_posted_twice:
  "map (\<lambda>q. (gq_verb q, gq_json q)) (gw_sent (snd traffic_run)) =
    (let body = deployment_request_body ext_ref (replicate 40 (CHR ''0'')) (GitHubEnvironmentName ''production'') ''digest''
     in [(POST, None), (POST, Some body), (POST, Some body)])"
proof -
  have c: "within_context traffic_adapter (GitHubInstallationId ''1'') (GitHubRepositoryId ''2'') (replicate 40 (CHR ''0''))
      (GitHubEnvironmentName ''production'') False (replicate 64 (CHR ''0''))"
    unfolding within_context_def traffic_adapter_def by code_simp
  have u: "from_utf8 ''pem'' = Some ''pem''" by code_simp
  have hops: "gh_send T = gh_hop T (gh_hop T (gh_follow T 8))" for T
    by (simp add: gh_send_def numeral_eq_Suc)
  show ?thesis
    unfolding traffic_run_def live_create_deployment_guarded [OF c]
    by (simp add: traffic_adapter_def resolve_app_secret_def resolve_secret_def store_app_secret_def resolver_new_def
        map_error_def try_op_def map_err_def lift_result_def create_installation_token_def generate_jwt_def u traffic_tools_def hops gh_hop_def
        traffic_wire_def Let_def post_deployment_def is_success_def response_as_def response_json_def decode_installation_token_def
        struct_members_def as_string_def installation_token_request_def deployment_post_def github_request_def)
qed

theorem live_deployment_traffic_witness:
  "list_all (\<lambda>q. gq_json q \<in> {None, Some (deployment_request_body ext_ref (replicate 40 (CHR ''0''))
      (GitHubEnvironmentName ''production'') ''digest'')}) (gw_sent (snd traffic_run))
    \<and> length (gw_sent (snd traffic_run)) \<le> 22"
proof -
  obtain x w' where run: "traffic_run = (x, w')" by fastforce
  have start: "gw_sent traffic_wire = []" by (simp add: traffic_wire_def)
  from live_deployment_traffic [OF traffic_laws, where E = ext_ref and now = 100 and A = traffic_adapter
      and i = "GitHubInstallationId ''1''" and r = "GitHubRepositoryId ''2''" and sha = "replicate 40 (CHR ''0'')"
      and env = "GitHubEnvironmentName ''production''" and am = False and commitment = "replicate 64 (CHR ''0'')"
      and digest = "''digest''" and w = traffic_wire, folded traffic_run_def, unfolded run prod.case start Let_def]
  show ?thesis
    by (auto simp: run one_call_def carries_at_most_def list_all_iff installation_token_request_def deployment_post_def
        github_request_def)
qed

text \<open>
  The live adapter is \<open>create_deployment\<close> with the exchange and the post that the wire gives: what the
  guards, the secret and the transport decide is the same.
\<close>

theorem live_deployment_refines:
  "fst (live_create_deployment E T now A i r sha env am commitment digest w) =
   create_deployment E (offline A)
     (\<lambda>app_id inst secret. fst (create_installation_token T (la_api_base_url A) app_id inst secret now w))
     (\<lambda>token repository body. fst (post_deployment T (la_api_base_url A) token repository body
        (case (ga_app_id A, resolve_app_secret (ga_resolver A) (ga_app_secret_reference A)) of
           (Some app_id, Inr secret) \<Rightarrow> snd (create_installation_token T (la_api_base_url A) app_id i secret now w)
         | _ \<Rightarrow> w)))
     i r sha env am commitment digest"
proof (cases "within_context A i r sha env am commitment")
  case True
  show ?thesis
    unfolding live_create_deployment_guarded [OF True]
    using True
    by (auto simp: create_deployment_def within_context_def map_error_def try_op_def case_prod_beta split: sum.split option.split)
next
  case False
  then show ?thesis
    by (auto simp: live_create_deployment_def within_context_def try_lift_reject create_deployment_def)
qed

end
