(* ===== verification/Api_Wiring.thy ===== *)
theory Api_Wiring
  imports Webhooks
begin

text \<open>
  The rest of \<^verbatim>\<open>apps/piteka-api/src/lib.rs\<close>, next to the stores of \<open>world\<close>: the tenant middleware, the stepping
  clock, and the doubles of the GitHub adapter and the webhook processor that \<open>TestPorts\<close> serves webhooks
  with. The environment variable of the webhook secret is an argument, None when it is unset or not text.
\<close>

section \<open>The tenant header\<close>

text \<open>The middleware answers itself or hands the request, with its tenant, to \<open>next\<close>.\<close>

definition require_tenant :: "bytes option \<Rightarrow> (string \<Rightarrow> 'r) \<Rightarrow> (u16 \<times> error_detail) + 'r" where
  "require_tenant header run_next =
     (case header_text header of
        Some tenant_id \<Rightarrow> Inr (run_next tenant_id)
      | None \<Rightarrow>
          Inl (400,
            \<lparr>ed_code = ''MISSING_REQUIRED_HEADER'', ed_message = ''The `X-Tenant-Id` header is required'',
             ed_causes = Some [error_cause_of ''MISSING_REQUIRED_HEADER''
               ''The `X-Tenant-Id` header must be present'' (Some ''X-Tenant-Id'')]\<rparr>))"

section \<open>The clock\<close>

record test_clock =
  tk_now :: u64

definition test_clock_at :: "u64 \<Rightarrow> test_clock" where
  "test_clock_at second = \<lparr>tk_now = second\<rparr>"

definition test_clock_unix_seconds :: "test_clock \<Rightarrow> u64 \<times> test_clock" where
  "test_clock_unix_seconds c = (tk_now c, c\<lparr>tk_now := tk_now c + 1\<rparr>)"

section \<open>The doubles\<close>

record mock_github_adapter =
  mg_verify_result :: "webhook_signature_result option"

definition mock_github_adapter_default :: mock_github_adapter where
  "mock_github_adapter_default = \<lparr>mg_verify_result = Some Invalid\<rparr>"

definition mock_verify_webhook_signature ::
  "ext \<Rightarrow> bytes option \<Rightarrow> mock_github_adapter \<Rightarrow> github_webhook_payload \<Rightarrow> webhook_signature_result" where
  "mock_verify_webhook_signature E env A payload =
     (case env of
        Some secret \<Rightarrow>
          if secret = [] then Invalid
          else verify_webhook_signature_internal E (wp_body payload) (wp_signature payload) secret
      | None \<Rightarrow> (case mg_verify_result A of Some r \<Rightarrow> r | None \<Rightarrow> Invalid))"

definition mock_create_deployment :: deployment_created where
  "mock_create_deployment =
     \<lparr>dc_deployment_id = 0, dc_url = [], dc_attempt_digest = replicate 32 (CHR 0x00)\<rparr>"

definition mock_installation_context :: installation_context where
  "mock_installation_context =
     \<lparr>ic_installation_id = GitHubInstallationId ''1'', ic_repository_id = GitHubRepositoryId ''1'',
      ic_repository_name = GitHubRepositoryName ''demo/demo'', ic_environment_id = GitHubEnvironmentId ''1'',
      ic_environment_name = GitHubEnvironmentName ''production''\<rparr>"

record webhook_event_record =
  wv_event_type :: string
  wv_delivery_id :: string
  wv_payload_length :: nat
  wv_out_of_order :: bool

definition mock_process ::
  "string \<Rightarrow> bytes \<Rightarrow> string \<Rightarrow> bool \<Rightarrow> (webhook_event_record list, webhook_error, unit) op" where
  "mock_process event_type payload delivery_id out_of_order recorded =
     (Inr (), recorded @
        [\<lparr>wv_event_type = event_type, wv_delivery_id = delivery_id, wv_payload_length = length payload,
          wv_out_of_order = out_of_order\<rparr>])"

text \<open>
  The webhook endpoint, with this adapter and any processor: \<open>TestPorts::webhook_state\<close> serves it with the recording
  processor, and \<open>build_live_webhook_router\<close>, over PostgreSQL, with the one that produces receipts.
\<close>

definition webhook_endpoint ::
  "ext \<Rightarrow> bytes option \<Rightarrow> mock_github_adapter \<Rightarrow> webhook_processor \<Rightarrow> u64 \<Rightarrow> u64 \<Rightarrow> u64
   \<Rightarrow> webhook_request \<Rightarrow> world \<Rightarrow> webhook_response \<times> world" where
  "webhook_endpoint E env A processor t1 t2 t3 =
     handle_webhook E (\<lambda>payload. Some (mock_verify_webhook_signature E env A payload)) processor t1 t2 t3"

section \<open>Lemmas\<close>

text \<open>The middleware looks no further than that the header is text: the empty one passes.\<close>

lemma require_tenant_accepts: "require_tenant h f = Inr x \<longleftrightarrow> (\<exists>v. h = Some v \<and> list_all visible_ascii v \<and> x = f v)"
  by (auto simp: require_tenant_def header_text_def split: option.split)

lemma mock_context_valid:
  "installation_context_new ''1'' ''1'' ''demo/demo'' ''1'' ''production'' = Inr mock_installation_context"
  by code_simp

lemma test_clock_runs: "((\<lambda>c. snd (test_clock_unix_seconds c)) ^^ n) (test_clock_at s) = test_clock_at (s + of_nat n)"
  by (induction n) (simp_all add: test_clock_at_def test_clock_unix_seconds_def add_ac)

section \<open>Properties\<close>

text \<open>
  The webhook endpoint, live or not, is served with the default double and fails closed: a request that changes any store
  carries the HMAC of its body under the secret of the environment, so with no secret or an empty one every
  request is answered with an error.
\<close>

theorem webhook_endpoint_fails_closed:
  assumes "hmac_laws E"
    and "\<nexists>secret hex body. env = Some secret \<and> secret \<noteq> [] \<and> hr_body r = Some body
      \<and> hr_signature r = Some (''sha256='' @ hex)
      \<and> ext_hex_decode E hex = Some (ext_hmac_sha256 E secret body)"
  shows "snd (webhook_endpoint E env mock_github_adapter_default P t1 t2 t3 r w) = w
    \<and> (\<exists>e. fst (webhook_endpoint E env mock_github_adapter_default P t1 t2 t3 r w) = ErrorReply e)"
  unfolding webhook_endpoint_def
proof (rule handle_rejected)
  have "mock_verify_webhook_signature E env mock_github_adapter_default p = Valid \<Longrightarrow>
      \<exists>secret hex. env = Some secret \<and> secret \<noteq> [] \<and> wp_signature p = ''sha256='' @ hex
        \<and> ext_hex_decode E hex = Some (ext_hmac_sha256 E secret (wp_body p))" for p
    using webhook_signature_iff_aux [OF assms(1)]
    by (fastforce simp: mock_verify_webhook_signature_def mock_github_adapter_default_def
        split: option.splits if_splits)
  with assms(2) show "\<not> (\<exists>p. payload_of r = Some p
      \<and> Some (mock_verify_webhook_signature E env mock_github_adapter_default p) = Some Valid)"
    by (fastforce simp: payload_of_def header_value_def bind_eq_Some_conv split: option.splits if_splits)
qed

theorem webhook_endpoint_fails_closed_witness:
  "snd (webhook_endpoint ext_ref (Some []) mock_github_adapter_default (process ext_ref [] 1 2) 3 4 5
      \<lparr>hr_delivery = Some ''d'', hr_event = Some ''deployment_status'', hr_signature = Some ''sha256=00'',
       hr_body = Some ''b''\<rparr> world_new) = world_new"
  using webhook_endpoint_fails_closed [OF hmac_laws_ref, of "Some []" "\<lparr>hr_delivery = Some ''d'',
      hr_event = Some ''deployment_status'', hr_signature = Some ''sha256=00'', hr_body = Some ''b''\<rparr>"] by simp

end
