(* ===== verification/Controlled_Demo.thy ===== *)
theory Controlled_Demo
  imports Action_Requests Dispatch GitHub_Transport
begin

text \<open>
  The two command-line programs that run the system against GitHub: \<^verbatim>\<open>src/bin/controlled_demo_flow.rs\<close>, which takes
  one request from its proposal to a deployment and its journal, and
  \<^verbatim>\<open>crates/piteka-github/src/bin/controlled_demo_dispatch.rs\<close>, which only calls the adapter. They compose the
  use cases, the stores and the live adapter of the other theories. The environment and the files read are
  arguments. The request and decision stores live in the process; the mandates, attempts and audit
  are PostgreSQL's and outlive it; here they are maps, and \<open>Demo_Postgres\<close> shows that the run on the tables is this one.
  What is printed on the terminal is not modelled.
\<close>

section \<open>The program's state\<close>

text \<open>The text of a failure is that of its value; \<open>NotDispatched\<close> and \<open>Disappeared\<close> are texts in the code, \<open>HexFailed\<close> is hex's.\<close>

datatype demo_error =
    Text string
  | Identity identity_error
  | RequestFailed action_request_error
  | StoreFailed storage_error
  | DispatchError dispatch_error
  | NotDispatched dispatch_outcome
  | GitHubFailed github_app_error
  | GitHubId github_id_error
  | HexFailed

record demo_journal =
  dj_run_id :: string
  dj_request_id :: string
  dj_request_status :: string
  dj_approver :: string
  dj_intent_id :: string
  dj_mandate_id :: string
  dj_mandate_state :: string
  dj_mandate_version :: i64
  dj_attempt_id :: string
  dj_attempt_state :: execution_attempt_state
  dj_attempt_digest :: string
  dj_github_deployment_id :: u64
  dj_github_deployment_url :: string
  dj_repository :: string
  dj_commit_sha :: string
  dj_environment :: string

record demo_state =
  dm_world :: world
  dm_wire :: gh_wire
  dm_journals :: "string \<rightharpoonup> demo_journal"

abbreviation at_world :: "(world, 'e, 'a) op \<Rightarrow> (demo_state, 'e, 'a) op" where
  "at_world \<equiv> on dm_world dm_world_update"

abbreviation at_wire :: "(gh_wire, 'e, 'a) op \<Rightarrow> (demo_state, 'e, 'a) op" where
  "at_wire \<equiv> on dm_wire dm_wire_update"

text \<open>
  The outside of one run: the environment variables, the files, what connecting to the
  database answers, the clock readings in the order they are
  taken, and the error of the final write, if it fails.
\<close>

record outside =
  ou_env :: "string \<Rightarrow> string option"
  ou_read :: "string \<Rightarrow> string + bytes"
  ou_connect :: "string \<Rightarrow> string + unit"
  ou_clock :: "nat \<Rightarrow> u64"
  ou_write_error :: "string option"

definition required :: "outside \<Rightarrow> string \<Rightarrow> demo_error + string" where
  "required X name = (case ou_env X name of None \<Rightarrow> Inl (Text (name @ '' is required'')) | Some v \<Rightarrow> Inr v)"

text \<open>\<open>str::parse::<u64>\<close>, with the texts of its errors.\<close>

definition parse_u64 :: "string \<Rightarrow> string + u64" where
  "parse_u64 s =
     (let digits = (if starts_with s ''+'' then drop 1 s else s) in
      if s = [] then Inl ''cannot parse integer from empty string''
      else if digits = [] \<or> \<not> list_all is_ascii_digit digits then Inl ''invalid digit found in string''
      else if dec_value digits < 2 ^ 64 then Inr (of_nat (dec_value digits))
      else Inl ''number too large to fit in target type'')"

section \<open>What the run is about\<close>

definition demo_digest :: "ext \<Rightarrow> string \<Rightarrow> string list \<Rightarrow> string" where
  "demo_digest E label values =
     ext_hex_encode E (ext_sha256 E (label @ concat (map (\<lambda>v. ''|'' @ v) values)))"

record demo_plan =
  dp_repository :: string
  dp_commit_sha :: string
  dp_environment :: string
  dp_run_id :: string
  dp_intent_id :: string
  dp_mandate_id :: string
  dp_request_id :: string
  dp_reservation_digest :: string
  dp_correlation_key :: string

definition demo_plan_of :: "ext \<Rightarrow> outside \<Rightarrow> demo_error + demo_plan" where
  "demo_plan_of E X =
     try_result (required X ''PITEKA_DEMO_REPOSITORY'') (\<lambda>repository.
     try_result (reject_if (ou_env X ''PITEKA_CONFIRM_LIVE_DEMO'' \<noteq> Some repository)
       (Text ''PITEKA_CONFIRM_LIVE_DEMO must exactly match PITEKA_DEMO_REPOSITORY'')) (\<lambda>_.
     try_result (required X ''PITEKA_DEMO_COMMIT_SHA'') (\<lambda>commit_sha.
     try_result (required X ''PITEKA_DEMO_ENVIRONMENT'') (\<lambda>environment.
     try_result (required X ''PITEKA_DEMO_RUN_ID'') (\<lambda>run_id.
     let intent_id = demo_digest E ''piteka-demo-intent-v1'' [repository, commit_sha, environment, run_id];
         mandate_id = demo_digest E ''piteka-demo-mandate-v1'' [intent_id] in
     Inr \<lparr>dp_repository = repository, dp_commit_sha = commit_sha, dp_environment = environment,
          dp_run_id = run_id, dp_intent_id = intent_id, dp_mandate_id = mandate_id,
          dp_request_id = ''req-'' @ take 16 intent_id,
          dp_reservation_digest = demo_digest E ''piteka-demo-reservation-v1'' [mandate_id],
          dp_correlation_key = ''piteka:'' @ take 24 mandate_id\<rparr>)))))"

section \<open>Up to the reservation\<close>

definition demo_authorize :: "outside \<Rightarrow> demo_plan \<Rightarrow> (world, demo_error, unit) op" where
  "demo_authorize X p =
     try_op (lift_result (map_error Identity (user_id_new ''demo-requester''))) (\<lambda>requester.
     try_op (map_err RequestFailed
       (propose (ou_clock X 0) (dp_request_id p) requester (Some (dp_intent_id p)))) (\<lambda>_.
     try_op (lift_result (map_error Identity (user_id_new ''demo-approver''))) (\<lambda>approver.
     try_op (map_err RequestFailed
       (approve (ou_clock X 1) (dp_request_id p) approver (Some (dp_intent_id p)) 1)) (\<lambda>_.
     map_err StoreFailed (at_mandates (mandate_insert (dp_mandate_id p) ''issued''))))))"

definition demo_args :: "demo_plan \<Rightarrow> dispatch_args" where
  "demo_args p =
     \<lparr>da_request_id = dp_request_id p, da_mandate_id_hex = dp_mandate_id p, da_intent_id_hex = dp_intent_id p,
      da_executor_identity = ''piteka-controlled-demo'', da_reservation_token_digest = dp_reservation_digest p,
      da_correlation_key = dp_correlation_key p, da_expected_mandate_version = 1\<rparr>"

definition demo_reserve :: "outside \<Rightarrow> demo_plan \<Rightarrow> (world, demo_error, dispatched) op" where
  "demo_reserve X p =
     try_op (map_err DispatchError (reserve (ou_clock X 2) (demo_args p))) (\<lambda>reserved.
       case reserved of
         Dispatched value \<Rightarrow> ok value
       | other \<Rightarrow> fail (NotDispatched other))"

section \<open>The adapter\<close>

record demo_target =
  dt_adapter :: live_adapter
  dt_installation_id :: string
  dt_repository_id :: string

definition demo_resolver :: "bytes \<Rightarrow> in_memory_secret_resolver" where
  "demo_resolver key =
     store_webhook_secret ''controlled-demo-webhook'' ''unused-by-dispatch''
       (store_app_secret ''controlled-demo-key'' key resolver_new)"

definition demo_adapter :: "outside \<Rightarrow> demo_plan \<Rightarrow> demo_error + demo_target" where
  "demo_adapter X p =
     try_result (required X ''PITEKA_GITHUB_APP_PRIVATE_KEY_FILE'') (\<lambda>path.
     try_result (map_error Text (ou_read X path)) (\<lambda>key.
     try_result (required X ''PITEKA_GITHUB_INSTALLATION_ID'') (\<lambda>installation_id.
     try_result (required X ''PITEKA_GITHUB_REPOSITORY_ID'') (\<lambda>repository_id.
     try_result (required X ''PITEKA_GITHUB_ENVIRONMENT_ID'') (\<lambda>environment_id.
     try_result (map_error GitHubFailed (installation_context_new installation_id repository_id
       (dp_repository p) environment_id (dp_environment p))) (\<lambda>context.
     try_result (map_error Identity (organization_id_new ''diewan-controlled-demo'')) (\<lambda>organization.
     try_result (map_error GitHubFailed (adapter_new (demo_resolver key) context
       ''controlled-demo-key'' ''controlled-demo-webhook'' organization)) (\<lambda>adapter.
     try_result (required X ''PITEKA_GITHUB_APP_ID'') (\<lambda>app_id.
     try_result (map_error Text (parse_u64 app_id)) (\<lambda>app_id.
     Inr \<lparr>dt_adapter = with_live_transport app_id adapter, dt_installation_id = installation_id,
          dt_repository_id = repository_id\<rparr>))))))))))"

definition demo_print_webhook_url ::
  "gh_tools \<Rightarrow> outside \<Rightarrow> live_adapter \<Rightarrow> (gh_wire, demo_error, unit) op" where
  "demo_print_webhook_url T X A =
     (if ou_env X ''PITEKA_PRINT_WEBHOOK_URL'' = Some ''1''
      then try_op (map_err GitHubFailed (webhook_config_url T (Inr (ou_clock X 3)) A)) (\<lambda>_. ok ())
      else ok ())"

definition demo_deploy ::
  "ext \<Rightarrow> gh_tools \<Rightarrow> outside \<Rightarrow> demo_plan \<Rightarrow> demo_target \<Rightarrow> bytes
   \<Rightarrow> (gh_wire, demo_error, github_app_error + deployment_created) op" where
  "demo_deploy E T X p target attempt_digest =
     try_op (lift_result (map_error GitHubId (installation_id_new (dt_installation_id target)))) (\<lambda>installation.
     try_op (lift_result (map_error GitHubId (repository_id_new (dt_repository_id target)))) (\<lambda>repository.
     try_op (lift_result (map_error GitHubId (environment_name_new (dp_environment p)))) (\<lambda>environment.
     (\<lambda>w. case live_create_deployment E T (ou_clock X 4) (dt_adapter target) installation repository
               (dp_commit_sha p) environment False (dp_intent_id p) attempt_digest w of
            (created, w') \<Rightarrow> (Inr created, w')))))"

section \<open>The run\<close>

definition demo_complete ::
  "outside \<Rightarrow> demo_plan \<Rightarrow> dispatched \<Rightarrow> u64 option \<Rightarrow> (world, demo_error, unit) op" where
  "demo_complete X p d deployment =
     map_err DispatchError (complete_dispatch (ou_clock X 5) (di_attempt_id_hex d) (dp_mandate_id p)
       (deployment \<noteq> None) deployment ''piteka-controlled-demo'' 2)"

definition demo_write_journal ::
  "ext \<Rightarrow> outside \<Rightarrow> demo_plan \<Rightarrow> dispatched \<Rightarrow> bytes \<Rightarrow> deployment_created \<Rightarrow> (demo_state, demo_error, unit) op" where
  "demo_write_journal E X p d attempt_digest created =
     try_op (reading (\<lambda>s. mandate_get (w_mandates (dm_world s)) (dp_mandate_id p))) (\<lambda>mandate.
     case mandate of
       None \<Rightarrow> fail (Text ''mandate disappeared'')
     | Some mandate \<Rightarrow>
     try_op (reading (\<lambda>s. attempt_get (w_attempts (dm_world s)) (di_attempt_id_hex d))) (\<lambda>attempt.
     case attempt of
       None \<Rightarrow> fail (Text ''attempt disappeared'')
     | Some attempt \<Rightarrow>
     try_op (lift_result (required X ''PITEKA_DEMO_JOURNAL'')) (\<lambda>path.
     case ou_write_error X of
       Some e \<Rightarrow> fail (Text e)
     | None \<Rightarrow>
         (\<lambda>s. (Inr (), s\<lparr>dm_journals := (dm_journals s)(path \<mapsto>
            \<lparr>dj_run_id = dp_run_id p, dj_request_id = dp_request_id p, dj_request_status = ''approved'',
             dj_approver = ''demo-approver'', dj_intent_id = dp_intent_id p, dj_mandate_id = dp_mandate_id p,
             dj_mandate_state = mp_state mandate, dj_mandate_version = mp_version mandate,
             dj_attempt_id = ea_attempt_id_hex attempt, dj_attempt_state = ea_state attempt,
             dj_attempt_digest = ext_hex_encode E attempt_digest,
             dj_github_deployment_id = dc_deployment_id created, dj_github_deployment_url = dc_url created,
             dj_repository = dp_repository p, dj_commit_sha = dp_commit_sha p,
             dj_environment = dp_environment p\<rparr>)\<rparr>)))))"

text \<open>From the reservation on.\<close>

definition demo_execute ::
  "ext \<Rightarrow> gh_tools \<Rightarrow> outside \<Rightarrow> demo_plan \<Rightarrow> dispatched \<Rightarrow> (demo_state, demo_error, unit) op" where
  "demo_execute E T X p d =
     (let attempt_digest = compute_attempt_digest E (di_attempt_id_hex d) (dp_mandate_id p) (dp_intent_id p) in
      try_op (lift_result (demo_adapter X p)) (\<lambda>target.
      try_op (at_wire (demo_print_webhook_url T X (dt_adapter target))) (\<lambda>_.
      try_op (at_wire (demo_deploy E T X p target attempt_digest)) (\<lambda>answer.
      case answer of
        Inr created \<Rightarrow>
          try_op (at_world (demo_complete X p d (Some (dc_deployment_id created)))) (\<lambda>_.
          demo_write_journal E X p d attempt_digest created)
      | Inl error \<Rightarrow>
          try_op (at_world (demo_complete X p d None)) (\<lambda>_. fail (GitHubFailed error))))))"

definition demo_flow :: "ext \<Rightarrow> gh_tools \<Rightarrow> outside \<Rightarrow> (demo_state, demo_error, unit) op" where
  "demo_flow E T X =
     try_op (lift_result (demo_plan_of E X)) (\<lambda>p.
     try_op (lift_result (required X ''DATABASE_URL'')) (\<lambda>database_url.
     try_op (lift_result (map_error Text (ou_connect X database_url))) (\<lambda>_.
     try_op (at_world (demo_authorize X p)) (\<lambda>_.
     try_op (at_world (demo_reserve X p)) (\<lambda>d.
     demo_execute E T X p d)))))"

text \<open>The next run is another process: it starts with no requests and no decisions.\<close>

definition restart :: "demo_state \<Rightarrow> demo_state" where
  "restart s = s\<lparr>dm_world := (dm_world s)\<lparr>w_requests := w_requests world_new, w_decisions := w_decisions world_new\<rparr>\<rparr>"

fun demo_runs :: "ext \<Rightarrow> gh_tools \<Rightarrow> outside list \<Rightarrow> demo_state \<Rightarrow> demo_state" where
  "demo_runs E T [] s = s"
| "demo_runs E T (X # Xs) s = demo_runs E T Xs (snd (demo_flow E T X (restart s)))"

section \<open>Calling the adapter alone\<close>

text \<open>
  \<open>controlled_demo_dispatch\<close>: no store is involved, and the caller names the commitment and the attempt digest.
  It answers None when it only inspected the webhook.
\<close>

definition demo_inspect :: "gh_tools \<Rightarrow> outside \<Rightarrow> live_adapter \<Rightarrow> (gh_wire, demo_error, unit) op" where
  "demo_inspect T X A =
     try_op
       (case ou_env X ''PITEKA_REDELIVER_ID'' of
          None \<Rightarrow> ok ()
        | Some delivery_id \<Rightarrow>
            try_op (lift_result (map_error Text (parse_u64 delivery_id))) (\<lambda>n.
            map_err GitHubFailed (redeliver_webhook T (Inr (ou_clock X 0)) A n))) (\<lambda>_.
     try_op (map_err GitHubFailed (webhook_config_url T (Inr (ou_clock X 1)) A)) (\<lambda>_.
     try_op (map_err GitHubFailed (recent_webhook_deliveries T (Inr (ou_clock X 2)) A)) (\<lambda>_. ok ())))"

definition demo_dispatch ::
  "ext \<Rightarrow> gh_tools \<Rightarrow> outside \<Rightarrow> (gh_wire, demo_error, deployment_created option) op" where
  "demo_dispatch E T X =
     try_op (lift_result (reject_if (ou_env X ''PITEKA_CONFIRM_LIVE_DEMO'' \<noteq> Some ''zorvan/piteka-demo'')
       (Text ''set PITEKA_CONFIRM_LIVE_DEMO=zorvan/piteka-demo to authorize the live dispatch''))) (\<lambda>_.
     try_op (lift_result (required X ''PITEKA_GITHUB_APP_PRIVATE_KEY_FILE'')) (\<lambda>key_path.
     try_op (lift_result (map_error (\<lambda>e. Text (''cannot read private key file: '' @ e)) (ou_read X key_path))) (\<lambda>key.
     try_op (lift_result (required X ''PITEKA_GITHUB_APP_ID'')) (\<lambda>app_id.
     try_op (lift_result (map_error Text (parse_u64 app_id))) (\<lambda>app_id.
     try_op (lift_result (required X ''PITEKA_GITHUB_INSTALLATION_ID'')) (\<lambda>installation_id.
     try_op (lift_result (required X ''PITEKA_GITHUB_REPOSITORY_ID'')) (\<lambda>repository_id.
     try_op (lift_result (required X ''PITEKA_DEMO_REPOSITORY'')) (\<lambda>repository.
     try_op (lift_result (required X ''PITEKA_GITHUB_ENVIRONMENT_ID'')) (\<lambda>environment_id.
     try_op (lift_result (required X ''PITEKA_DEMO_ENVIRONMENT'')) (\<lambda>environment.
     try_op (lift_result (required X ''PITEKA_DEMO_COMMIT_SHA'')) (\<lambda>commit_sha.
     try_op (lift_result (required X ''PITEKA_DEMO_PAYLOAD_COMMITMENT'')) (\<lambda>payload_commitment.
     try_op (lift_result (required X ''PITEKA_DEMO_ATTEMPT_DIGEST'')) (\<lambda>attempt_digest_hex.
     case ext_hex_decode E attempt_digest_hex of
       None \<Rightarrow> fail HexFailed
     | Some attempt_digest \<Rightarrow>
     try_op (lift_result (reject_if (length attempt_digest \<noteq> 32)
       (Text ''PITEKA_DEMO_ATTEMPT_DIGEST must be 64 hexadecimal characters''))) (\<lambda>_.
     try_op (lift_result (map_error GitHubFailed (installation_context_new installation_id repository_id
       repository environment_id environment))) (\<lambda>context.
     try_op (lift_result (map_error Identity (organization_id_new ''diewan-controlled-demo''))) (\<lambda>organization.
     try_op (lift_result (map_error GitHubFailed (adapter_new (demo_resolver key) context
       ''controlled-demo-key'' ''controlled-demo-webhook'' organization))) (\<lambda>adapter.
     let adapter = with_live_transport app_id adapter in
     if ou_env X ''PITEKA_INSPECT_WEBHOOK_ONLY'' = Some ''1''
     then try_op (demo_inspect T X adapter) (\<lambda>_. ok None)
     else
       try_op (lift_result (map_error GitHubId (installation_id_new installation_id))) (\<lambda>installation.
       try_op (lift_result (map_error GitHubId (repository_id_new repository_id))) (\<lambda>repository.
       try_op (lift_result (map_error GitHubId (environment_name_new environment))) (\<lambda>environment.
       try_op (map_err GitHubFailed (live_create_deployment E T (ou_clock X 3) adapter installation repository
         commit_sha environment False payload_commitment attempt_digest)) (\<lambda>created.
       ok (Some created))))))))))))))))))))))"

section \<open>Up to the reservation, on a fresh process\<close>

lemma demo_ids [simp]:
  "user_id_new ''demo-requester'' = Inr (UserId ''demo-requester'')"
  "user_id_new ''demo-approver'' = Inr (UserId ''demo-approver'')"
  by code_simp+

lemma demo_digest_hex:
  assumes "hex_laws E" and "sha256_laws E"
  shows "length (demo_digest E l vs) = 64" and "list_all is_lower_hex (demo_digest E l vs)"
  using assms by (simp_all add: demo_digest_def hex_laws_def sha256_laws_def)

lemma demo_plan_ids:
  assumes "hex_laws E" and "sha256_laws E" and "demo_plan_of E X = Inr p"
  shows "dp_mandate_id p \<noteq> []" and "dp_request_id p \<noteq> []"
    and "length (dp_intent_id p) = 64" and "list_all is_lower_hex (dp_intent_id p)"
proof -
  obtain vs ws where "dp_mandate_id p = demo_digest E ''piteka-demo-mandate-v1'' ws"
    and i: "dp_intent_id p = demo_digest E ''piteka-demo-intent-v1'' vs" and r: "dp_request_id p \<noteq> []"
    using assms(3) by (auto simp: demo_plan_of_def try_result_Inr Let_def)
  then have "length (dp_mandate_id p) = 64" using demo_digest_hex [OF assms(1,2)] by simp
  then show "dp_mandate_id p \<noteq> []" by auto
  show "dp_request_id p \<noteq> []" by (rule r)
  show "length (dp_intent_id p) = 64" "list_all is_lower_hex (dp_intent_id p)"
    using demo_digest_hex [OF assms(1,2)] by (simp_all add: i)
qed

definition fresh_process :: "world \<Rightarrow> bool" where
  "fresh_process w \<longleftrightarrow> w_requests w = w_requests world_new \<and> w_decisions w = w_decisions world_new"

lemma fresh_restart [simp]: "fresh_process (dm_world (restart s))"
  by (simp add: fresh_process_def restart_def)

lemma fresh_lifecycle: "fresh_process w \<Longrightarrow> lifecycle_ok w"
  using lifecycle_ok_new by (simp add: fresh_process_def lifecycle_ok_def)

text \<open>The world after proposal and approval, of a process that has just started.\<close>

lemma demo_approved:
  assumes "fresh_process w" and "dp_request_id p \<noteq> []"
  obtains w1 where "demo_authorize X p w = map_err StoreFailed (at_mandates (mandate_insert (dp_mandate_id p) ''issued'')) w1"
    and "approved w1 (dp_request_id p)" and "w_mandates w1 = w_mandates w" and "w_attempts w1 = w_attempts w"
proof -
  let ?k = "dp_request_id p"
  let ?r = "\<lparr>ar_request_id = ?k, ar_requested_by = ''demo-requester'', ar_intent_id_hex = Some (dp_intent_id p),
              ar_status = Pending, ar_created_at = ou_clock X 0\<rparr>"
  have none: "rs_requests (w_requests w) ?k = None" "rs_versions (w_requests w) ?k = None"
    using assms(1) by (simp_all add: fresh_process_def world_new_def)
  let ?w0 = "w\<lparr>w_requests := (w_requests w)\<lparr>rs_requests := (rs_requests (w_requests w))(?k \<mapsto> ?r)\<rparr>\<rparr>"
  obtain e where proposed: "propose (ou_clock X 0) ?k (UserId ''demo-requester'') (Some (dp_intent_id p)) w
      = (Inr ?r, add_audit e ?w0)"
    using none(1) assms(2) by (auto simp: propose_run Let_def)
  have life: "lifecycle_ok (add_audit e ?w0)"
    using lifecycle_ok_propose [OF fresh_lifecycle [OF assms(1)] none(1), of ?r] by simp
  let ?a = "approve (ou_clock X 1) ?k (UserId ''demo-approver'') (Some (dp_intent_id p)) 1 (add_audit e ?w0)"
  have at: "rs_requests (w_requests (add_audit e ?w0)) ?k = Some ?r" "current_version (add_audit e ?w0) ?k = 1"
    using none(2) by (simp_all add: add_audit_def current_version_def)
  have appr: "\<exists>x. fst ?a = Inr x" "approved (snd ?a) ?k" "w_mandates (snd ?a) = w_mandates w"
    "w_attempts (snd ?a) = w_attempts w"
    unfolding approve_run [OF life] at option.case
    by (simp_all add: at approved_def set_status_def add_decision_def add_audit_def)
  obtain x w1 where a: "?a = (Inr x, w1)" using appr(1) by (cases ?a) auto
  have "demo_authorize X p w = map_err StoreFailed (at_mandates (mandate_insert (dp_mandate_id p) ''issued'')) (snd ?a)"
    by (simp add: demo_authorize_def proposed a map_err_eq try_op_eq del: One_nat_def)
  from that [OF this appr(2-4)] show thesis .
qed

lemma demo_authorize_fresh:
  assumes "fresh_process w" and "dp_request_id p \<noteq> []" and "dp_mandate_id p \<noteq> []"
    and "w_mandates w (dp_mandate_id p) = None"
  obtains w1 where "demo_authorize X p w = (Inr (), w1)" and "approved w1 (dp_request_id p)"
    and "w_mandates w1 = (w_mandates w)(dp_mandate_id p \<mapsto>
       \<lparr>mp_mandate_id_hex = dp_mandate_id p, mp_version = 1, mp_state = ''issued''\<rparr>)"
    and "w_attempts w1 = w_attempts w"
proof -
  obtain w1 where "demo_authorize X p w = map_err StoreFailed (at_mandates (mandate_insert (dp_mandate_id p) ''issued'')) w1"
    and "approved w1 (dp_request_id p)" and "w_mandates w1 = w_mandates w" and "w_attempts w1 = w_attempts w"
    using demo_approved [OF assms(1,2)] .
  then show thesis
    using assms(3,4) that [of "w1\<lparr>w_mandates := (w_mandates w)(dp_mandate_id p \<mapsto>
       \<lparr>mp_mandate_id_hex = dp_mandate_id p, mp_version = 1, mp_state = ''issued''\<rparr>)\<rparr>"]
    by (simp add: map_err_eq on_eq mandate_insert_def approved_def)
qed

lemma demo_authorize_repeated:
  assumes "fresh_process w" and "dp_request_id p \<noteq> []" and "dp_mandate_id p \<noteq> []"
    and "w_mandates w (dp_mandate_id p) \<noteq> None"
  obtains e w1 where "demo_authorize X p w = (Inl (StoreFailed e), w1)" and "w_mandates w1 = w_mandates w"
proof -
  obtain w1 where "demo_authorize X p w = map_err StoreFailed (at_mandates (mandate_insert (dp_mandate_id p) ''issued'')) w1"
    and "approved w1 (dp_request_id p)" and "w_mandates w1 = w_mandates w" and "w_attempts w1 = w_attempts w"
    using demo_approved [OF assms(1,2)] .
  then show thesis
    using assms(3,4) that [of _ "w1\<lparr>w_mandates := w_mandates w\<rparr>"] by (simp add: map_err_eq on_eq mandate_insert_def)
qed

section \<open>A run\<close>

lemma demo_args_sel [simp]:
  "da_request_id (demo_args p) = dp_request_id p" "da_mandate_id_hex (demo_args p) = dp_mandate_id p"
  "da_intent_id_hex (demo_args p) = dp_intent_id p" "da_expected_mandate_version (demo_args p) = 1"
  "da_executor_identity (demo_args p) = ''piteka-controlled-demo''"
  by (simp_all add: demo_args_def)

definition connects :: "outside \<Rightarrow> bool" where
  "connects X = (case ou_env X ''DATABASE_URL'' of None \<Rightarrow> False | Some url \<Rightarrow> ou_connect X url = Inr ())"

lemma demo_flow_connected:
  assumes "demo_plan_of E X = Inr p"
  shows "demo_flow E T X s =
    (if connects X
     then try_op (at_world (demo_authorize X p)) (\<lambda>_.
          try_op (at_world (demo_reserve X p)) (demo_execute E T X p)) s
     else (Inl (case ou_env X ''DATABASE_URL'' of None \<Rightarrow> Text (''DATABASE_URL'' @ '' is required'')
                | Some url \<Rightarrow> Text (projl (ou_connect X url))), s))"
proof (cases "ou_env X ''DATABASE_URL''")
  case None
  then show ?thesis by (simp add: demo_flow_def assms required_def connects_def)
next
  case (Some url)
  then show ?thesis
    by (cases "ou_connect X url") (simp_all add: demo_flow_def assms required_def connects_def)
qed

text \<open>A run whose mandate is there already stops before the adapter exists.\<close>

lemma demo_flow_repeated:
  assumes "hex_laws E" and "sha256_laws E" and "demo_plan_of E X = Inr p"
    and "w_mandates (dm_world s) (dp_mandate_id p) \<noteq> None"
  shows "(\<exists>e. fst (demo_flow E T X (restart s)) = Inl e) \<and> dm_wire (snd (demo_flow E T X (restart s))) = dm_wire s
    \<and> dm_journals (snd (demo_flow E T X (restart s))) = dm_journals s
    \<and> w_mandates (dm_world (snd (demo_flow E T X (restart s)))) = w_mandates (dm_world s)"
proof -
  have kept: "w_mandates (dm_world (restart s)) = w_mandates (dm_world s)" "dm_wire (restart s) = dm_wire s"
    "dm_journals (restart s) = dm_journals s"
    by (simp_all add: restart_def)
  note ids = demo_plan_ids [OF assms(1-3)]
  have "w_mandates (dm_world (restart s)) (dp_mandate_id p) \<noteq> None" using assms(4) kept by simp
  then obtain e w1 where "demo_authorize X p (dm_world (restart s)) = (Inl (StoreFailed e), w1)"
    and "w_mandates w1 = w_mandates (dm_world (restart s))"
    using demo_authorize_repeated [OF fresh_restart ids(2,1)] by metis
  then show ?thesis
    by (auto simp: demo_flow_connected [OF assms(3)] try_op_eq kept)
qed

text \<open>A run with a new mandate: it holds the reservation when the adapter is built, or sends nothing.\<close>

lemma demo_flow_first:
  assumes "hex_laws E" and "sha256_laws E" and "demo_plan_of E X = Inr p" and "connects X"
    and "w_mandates (dm_world s) (dp_mandate_id p) = None"
  obtains (reserved) w1 where "row_map (w_attempts (dm_world s)) (attempt_id_of (dp_mandate_id p)) = None"
    and "demo_flow E T X (restart s) = demo_execute E T X p (reserved_result (demo_args p))
       (s\<lparr>dm_world := reserved_world (ou_clock X 2) (demo_args p) w1\<rparr>)"
    and "w_mandates w1 = (w_mandates (dm_world s))(dp_mandate_id p \<mapsto>
       \<lparr>mp_mandate_id_hex = dp_mandate_id p, mp_version = 1, mp_state = ''issued''\<rparr>)"
  | (taken) e w2 where "row_map (w_attempts (dm_world s)) (attempt_id_of (dp_mandate_id p)) \<noteq> None"
    and "demo_flow E T X (restart s) = (Inl e, s\<lparr>dm_world := w2\<rparr>)"
    and "dom (w_mandates w2) = insert (dp_mandate_id p) (dom (w_mandates (dm_world s)))"
proof -
  have kept: "w_mandates (dm_world (restart s)) = w_mandates (dm_world s)"
    "w_attempts (dm_world (restart s)) = w_attempts (dm_world s)"
    "restart s\<lparr>dm_world := v\<rparr> = s\<lparr>dm_world := v\<rparr>" for v
    by (simp_all add: restart_def)
  note ids = demo_plan_ids [OF assms(1-3)]
  obtain w1 where w1: "demo_authorize X p (dm_world (restart s)) = (Inr (), w1)" "approved w1 (dp_request_id p)"
    "w_mandates w1 = (w_mandates (dm_world s))(dp_mandate_id p \<mapsto>
       \<lparr>mp_mandate_id_hex = dp_mandate_id p, mp_version = 1, mp_state = ''issued''\<rparr>)"
    "w_attempts w1 = w_attempts (dm_world s)"
    using demo_authorize_fresh [OF fresh_restart ids(2,1), of s X] assms(5) by (auto simp: kept)
  have flow: "demo_flow E T X (restart s) =
      try_op (at_world (demo_reserve X p)) (demo_execute E T X p) (s\<lparr>dm_world := w1\<rparr>)"
    using assms(4) by (simp add: demo_flow_connected [OF assms(3)] try_op_eq on_eq w1(1) kept)
  have res: "reserve (ou_clock X 2) (demo_args p) w1 =
      (if row_map (w_attempts (dm_world s)) (attempt_id_of (dp_mandate_id p)) = None
       then (Inr (Dispatched (reserved_result (demo_args p))), reserved_world (ou_clock X 2) (demo_args p) w1)
       else (Inl (Storage (Backend (''execution attempt `'' @ attempt_id_of (dp_mandate_id p) @ ''` already exists''))),
             set_mandate (dp_mandate_id p) 2 ''reserved'' w1))"
    using reserve_run [of w1 "demo_args p" "ou_clock X 2"] w1(2-4) by simp
  show thesis
  proof (cases "row_map (w_attempts (dm_world s)) (attempt_id_of (dp_mandate_id p)) = None")
    case True
    show thesis
      by (rule reserved [OF True _ w1(3)]) (simp add: flow try_op_eq on_eq demo_reserve_def map_err_eq res True)
  next
    case False
    show thesis
      by (rule taken [OF False, of _ "set_mandate (dp_mandate_id p) 2 ''reserved'' w1"])
        (simp_all add: flow try_op_eq on_eq demo_reserve_def map_err_eq res False set_mandate_def w1(3))
  qed
qed

section \<open>Runs never lose a mandate\<close>

lemma mandate_cas_keeps: "dom (snd (mandate_cas m e st s)) = dom s"
  by (auto simp: mandate_cas_def split: option.splits)

lemma demo_complete_keeps: "dom (w_mandates (snd (demo_complete X p d x w))) = dom (w_mandates w)"
  by (auto simp: demo_complete_def complete_dispatch_def record_accepted_def record_ambiguous_def map_err_eq
      try_op_eq on_eq Let_def mandate_cas_keeps split: option.split sum.split bool.split cas_outcome.split)

lemma demo_write_journal_world: "dm_world (snd (demo_write_journal E X p d a c s)) = dm_world s"
  by (simp add: demo_write_journal_def try_op_eq lift_result_def split: option.split sum.split)

lemma demo_execute_keeps: "dom (w_mandates (dm_world (snd (demo_execute E T X p d s)))) = dom (w_mandates (dm_world s))"
  by (simp add: demo_execute_def Let_def try_op_eq on_eq demo_complete_keeps demo_write_journal_world lift_result_def
      split: sum.split)

lemma demo_flow_mandates:
  assumes "hex_laws E" and "sha256_laws E"
  shows "dom (w_mandates (dm_world s)) \<subseteq> dom (w_mandates (dm_world (snd (demo_flow E T X (restart s)))))
    \<and> (dm_wire (snd (demo_flow E T X (restart s))) \<noteq> dm_wire s \<longrightarrow>
        (\<exists>p. demo_plan_of E X = Inr p \<and> w_mandates (dm_world s) (dp_mandate_id p) = None
           \<and> dp_mandate_id p \<in> dom (w_mandates (dm_world (snd (demo_flow E T X (restart s)))))))"
proof (cases "demo_plan_of E X")
  case (Inl e)
  then show ?thesis by (simp add: demo_flow_def restart_def)
next
  case (Inr p)
  show ?thesis
  proof (cases "connects X \<and> w_mandates (dm_world s) (dp_mandate_id p) = None")
    case True
    then have c: "connects X" and none: "w_mandates (dm_world s) (dp_mandate_id p) = None" by simp_all
    show ?thesis
    proof (cases rule: demo_flow_first [OF assms Inr c none, of T, case_names reserved taken])
      case (reserved w1)
      then show ?thesis
        using none by (auto simp: Inr demo_execute_keeps reserved_world_def Let_def dispatch_frame set_mandate_def
            add_audit_def set_attempt_def index_attempt_def)
    next
      case (taken e w2)
      then show ?thesis using none by (auto simp: Inr)
    qed
  next
    case False
    then consider "\<not> connects X" | "w_mandates (dm_world s) (dp_mandate_id p) \<noteq> None" by auto
    then show ?thesis
    proof cases
      case 1
      then show ?thesis by (simp add: demo_flow_connected [OF Inr] restart_def)
    next
      case 2
      from demo_flow_repeated [OF assms Inr 2, of T] show ?thesis by simp
    qed
  qed
qed

text \<open>How many of the runs sent anything.\<close>

fun sending_runs :: "ext \<Rightarrow> gh_tools \<Rightarrow> outside list \<Rightarrow> demo_state \<Rightarrow> nat" where
  "sending_runs E T [] s = 0"
| "sending_runs E T (X # Xs) s =
     (let s' = snd (demo_flow E T X (restart s)) in
      (if dm_wire s' = dm_wire s then 0 else 1) + sending_runs E T Xs s')"

section \<open>From the reservation to the end\<close>

lemma installation_context_new_ids:
  "installation_context_new i r rn e en = Inr ctx \<Longrightarrow> installation_id_new i = Inr (ic_installation_id ctx)
    \<and> repository_id_new r = Inr (ic_repository_id ctx) \<and> environment_name_new en = Inr (ic_environment_name ctx)"
  by (auto simp: installation_context_new_def require_field_def split: sum.splits)

lemma demo_adapter_ids:
  assumes "demo_adapter X p = Inr t"
  shows "installation_id_new (dt_installation_id t) = Inr (ic_installation_id (ga_context (dt_adapter t)))"
    and "repository_id_new (dt_repository_id t) = Inr (ic_repository_id (ga_context (dt_adapter t)))"
    and "environment_name_new (dp_environment p) = Inr (ic_environment_name (ga_context (dt_adapter t)))"
proof -
  obtain i r e ctx org key A n where
    "installation_context_new i r (dp_repository p) e (dp_environment p) = Inr ctx"
    and a: "adapter_new (demo_resolver key) ctx ''controlled-demo-key'' ''controlled-demo-webhook'' org = Inr A"
    and t: "t = \<lparr>dt_adapter = with_live_transport n A, dt_installation_id = i, dt_repository_id = r\<rparr>"
    using assms by (auto simp: demo_adapter_def try_result_Inr)
  moreover have "ga_context A = ctx"
    using a by (auto simp: adapter_new_def require_field_def split: sum.splits)
  ultimately show "installation_id_new (dt_installation_id t) = Inr (ic_installation_id (ga_context (dt_adapter t)))"
    "repository_id_new (dt_repository_id t) = Inr (ic_repository_id (ga_context (dt_adapter t)))"
    "environment_name_new (dp_environment p) = Inr (ic_environment_name (ga_context (dt_adapter t)))"
    using installation_context_new_ids by (simp_all add: with_live_transport_def)
qed

definition demo_call ::
  "ext \<Rightarrow> gh_tools \<Rightarrow> outside \<Rightarrow> demo_plan \<Rightarrow> live_adapter \<Rightarrow> (gh_wire, github_app_error, deployment_created) op" where
  "demo_call E T X p A =
     live_create_deployment E T (ou_clock X 4) A (ic_installation_id (ga_context A)) (ic_repository_id (ga_context A))
       (dp_commit_sha p) (ic_environment_name (ga_context A)) False (dp_intent_id p)
       (compute_attempt_digest E (attempt_id_of (dp_mandate_id p)) (dp_mandate_id p) (dp_intent_id p))"

lemma demo_deploy_run:
  assumes "demo_adapter X p = Inr t"
  shows "demo_deploy E T X p t (compute_attempt_digest E (attempt_id_of (dp_mandate_id p)) (dp_mandate_id p) (dp_intent_id p)) w =
    (case demo_call E T X p (dt_adapter t) w of (x, w') \<Rightarrow> (Inr x, w'))"
  using demo_adapter_ids [OF assms] by (simp add: demo_deploy_def demo_call_def)

text \<open>The rows of the mandate and of its attempt in a state.\<close>

definition mandate_row :: "demo_state \<Rightarrow> demo_plan \<Rightarrow> (string \<times> i64) option" where
  "mandate_row s p = map_option (\<lambda>r. (mp_state r, mp_version r)) (w_mandates (dm_world s) (dp_mandate_id p))"

definition attempt_row :: "demo_state \<Rightarrow> demo_plan \<Rightarrow> (execution_attempt_state \<times> u64 option) option" where
  "attempt_row s p = map_option (\<lambda>r. (ea_state r, ea_github_deployment_id r))
     (row_map (w_attempts (dm_world s)) (attempt_id_of (dp_mandate_id p)))"

lemma demo_complete_at:
  assumes "row_map (w_attempts w) (attempt_id_of (dp_mandate_id p)) = Some r"
    and "ea_attempt_id_hex r = attempt_id_of (dp_mandate_id p)"
    and "w_mandates w (dp_mandate_id p) = Some \<lparr>mp_mandate_id_hex = dp_mandate_id p, mp_version = 2, mp_state = st\<rparr>"
  shows "demo_complete X p (reserved_result (demo_args p)) (Some n) w = (Inr (),
      add_audit (consume_event (ou_clock X 5) (attempt_id_of (dp_mandate_id p)) (dp_mandate_id p) ''piteka-controlled-demo'')
        (set_mandate (dp_mandate_id p) 3 ''consumed''
          (set_attempt (r\<lparr>ea_state := Accepted, ea_github_deployment_id := Some n\<rparr>) w)))"
    and "demo_complete X p (reserved_result (demo_args p)) None w = (Inr (),
      add_audit (quarantine_event (ou_clock X 5) (attempt_id_of (dp_mandate_id p)) (dp_mandate_id p) ''piteka-controlled-demo'')
        (set_mandate (dp_mandate_id p) 3 ''quarantined'' (set_attempt (r\<lparr>ea_state := OutcomeAmbiguous\<rparr>) w)))"
  by (simp_all add: demo_complete_def complete_dispatch_def map_err_eq try_op_eq Let_def assms(3)
      record_accepted_run [OF assms(1,2)] record_ambiguous_run [OF assms(1,2)])

lemma demo_complete_run:
  assumes "w_mandates w1 (dp_mandate_id p) = Some \<lparr>mp_mandate_id_hex = dp_mandate_id p, mp_version = 1, mp_state = st\<rparr>"
  shows "\<exists>w2. demo_complete X p (reserved_result (demo_args p)) x (reserved_world now (demo_args p) w1) = (Inr (), w2)
    \<and> w_mandates w2 (dp_mandate_id p) = Some \<lparr>mp_mandate_id_hex = dp_mandate_id p, mp_version = 3,
         mp_state = (case x of Some _ \<Rightarrow> ''consumed'' | None \<Rightarrow> ''quarantined'')\<rparr>
    \<and> row_map (w_attempts w2) (attempt_id_of (dp_mandate_id p)) = Some ((new_attempt now (demo_args p))
         \<lparr>ea_state := (case x of Some _ \<Rightarrow> Accepted | None \<Rightarrow> OutcomeAmbiguous), ea_github_deployment_id := x\<rparr>)"
proof -
  let ?w = "reserved_world now (demo_args p) w1" and ?r = "(new_attempt now (demo_args p))\<lparr>ea_state := Dispatching\<rparr>"
  have row: "row_map (w_attempts ?w) (attempt_id_of (dp_mandate_id p)) = Some ?r"
    and id: "ea_attempt_id_hex ?r = attempt_id_of (dp_mandate_id p)"
    by (simp_all add: dispatch_frame)
  have m: "w_mandates ?w (dp_mandate_id p) = Some \<lparr>mp_mandate_id_hex = dp_mandate_id p, mp_version = 2, mp_state = ''reserved''\<rparr>"
    using reserved_world_mandate [of w1 "demo_args p"] assms by simp
  have none: "ea_github_deployment_id (new_attempt now (demo_args p)) = None" by (simp add: new_attempt_def)
  note frame = dispatch_frames
  show ?thesis
  proof (cases x)
    case None
    have "r\<lparr>ea_github_deployment_id := None\<rparr> = r" if "ea_github_deployment_id r = None" for r :: execution_attempt
      using that by (cases r) simp
    with none have "?r\<lparr>ea_state := OutcomeAmbiguous\<rparr>
        = (new_attempt now (demo_args p))\<lparr>ea_state := OutcomeAmbiguous, ea_github_deployment_id := None\<rparr>"
      by simp
    then show ?thesis by (simp add: None demo_complete_at(2) [OF row id m] frame m)
  next
    case (Some n)
    then show ?thesis by (simp add: demo_complete_at(1) [OF row id m] frame m)
  qed
qed

text \<open>An example: a complete environment, one without the key file, and tools that parse nothing.\<close>

definition example_env :: "string \<Rightarrow> string option" where
  "example_env = map_of
     [(''PITEKA_DEMO_REPOSITORY'', ''o/r''), (''PITEKA_CONFIRM_LIVE_DEMO'', ''o/r''), (''PITEKA_DEMO_COMMIT_SHA'', ''c''),
      (''PITEKA_DEMO_ENVIRONMENT'', ''production''), (''PITEKA_DEMO_RUN_ID'', ''1''), (''DATABASE_URL'', ''db''),
      (''PITEKA_GITHUB_APP_PRIVATE_KEY_FILE'', ''key''), (''PITEKA_GITHUB_INSTALLATION_ID'', ''1''),
      (''PITEKA_GITHUB_REPOSITORY_ID'', ''2''), (''PITEKA_GITHUB_ENVIRONMENT_ID'', ''3''), (''PITEKA_GITHUB_APP_ID'', ''4'')]"

definition example_outside :: "(string \<Rightarrow> string option) \<Rightarrow> outside" where
  "example_outside env =
     \<lparr>ou_env = env, ou_read = (\<lambda>_. Inr ''pem''), ou_connect = (\<lambda>_. Inr ()), ou_clock = (\<lambda>n. 100), ou_write_error = None\<rparr>"

definition without_key :: "string \<Rightarrow> string option" where
  "without_key = example_env(''PITEKA_GITHUB_APP_PRIVATE_KEY_FILE'' := None)"

definition example_plan :: demo_plan where
  "example_plan = projr (demo_plan_of ext_ref (example_outside example_env))"

definition example_state :: demo_state where
  "example_state = \<lparr>dm_world = world_new, dm_wire = \<lparr>gw_sent = [], gw_answer = (\<lambda>_. Inl ''refused'')\<rparr>, dm_journals = Map.empty\<rparr>"

definition example_tools :: gh_tools where
  "example_tools = \<lparr>gt_parse = (\<lambda>_. Inl ''no JSON''), gt_decode_error = (\<lambda>_. []), gt_text = id, gt_status = (\<lambda>_. []),
     gt_base64 = id, gt_sign = (\<lambda>_ _. Inr ''sig''), gt_redirect = (\<lambda>_ _. None), gt_too_many_redirects = []\<rparr>"

lemma example_plans [simp]:
  "demo_plan_of ext_ref (example_outside example_env) = Inr example_plan"
  "demo_plan_of ext_ref (example_outside without_key) = Inr example_plan"
  by (simp_all add: example_plan_def demo_plan_of_def required_def example_outside_def without_key_def example_env_def
      reject_if_def Let_def)

lemma example_plan_sel: "dp_repository example_plan = ''o/r''" "dp_environment example_plan = ''production''"
  by (simp_all add: example_plan_def demo_plan_of_def required_def example_outside_def example_env_def
      reject_if_def Let_def)

lemma example_state_new [simp]:
  "w_mandates (dm_world example_state) k = None" "row_map (w_attempts (dm_world example_state)) k = None"
  by (simp_all add: example_state_def world_new_def empty_rows_def)

lemma example_adapter: "\<exists>t. demo_adapter (example_outside example_env) example_plan = Inr t"
proof -
  have "\<not> isl (installation_context_new ''1'' ''2'' ''o/r'' ''3'' ''production'')" by code_simp
  then obtain c where "installation_context_new ''1'' ''2'' ''o/r'' ''3'' ''production'' = Inr c" by (metis isl_def sum.exhaust)
  moreover have "organization_id_new ''diewan-controlled-demo'' = Inr (OrganizationId ''diewan-controlled-demo'')" by code_simp
  moreover have "\<not> blank ''controlled-demo-key''" "\<not> blank ''controlled-demo-webhook''" by code_simp+
  moreover have "parse_u64 ''4'' = Inr (of_nat 4)"
    by (simp add: parse_u64_def is_ascii_digit_def dec_value_def digit_value_def)
  ultimately show ?thesis
    by (auto simp: demo_adapter_def required_def example_outside_def example_env_def example_plan_sel adapter_new_def
        require_field_def secret_reference_new_def)
qed

section \<open>Properties\<close>

lemma taken_mandate_silences:
  assumes "hex_laws E" and "sha256_laws E" and "\<forall>X \<in> set Xs. \<forall>q. demo_plan_of E X = Inr q \<longrightarrow> q = p"
    and "dp_mandate_id p \<in> dom (w_mandates (dm_world s))"
  shows "sending_runs E T Xs s = 0 \<and> dm_wire (demo_runs E T Xs s) = dm_wire s"
  using assms(3,4)
proof (induction Xs arbitrary: s)
  case (Cons X Xs)
  let ?s = "snd (demo_flow E T X (restart s))"
  from demo_flow_mandates [OF assms(1,2), of s T X] Cons.prems
  have "dm_wire ?s = dm_wire s" and "dp_mandate_id p \<in> dom (w_mandates (dm_world ?s))" by auto
  with Cons.IH [of ?s] Cons.prems(1) show ?case by simp
qed simp

text \<open>
  However often the demo is run for one repository, commit, environment and run id, with any keys, clocks,
  failures and answers of GitHub, and a restart before every run: at most one of the runs sends GitHub
  anything, because the mandate it must insert first outlives the process.
\<close>

theorem demo_sends_once:
  assumes "hex_laws E" and "sha256_laws E" and "\<forall>X \<in> set Xs. \<forall>q. demo_plan_of E X = Inr q \<longrightarrow> q = p"
  shows "sending_runs E T Xs s \<le> 1"
  using assms(3)
proof (induction Xs arbitrary: s)
  case (Cons X Xs)
  let ?s = "snd (demo_flow E T X (restart s))"
  show ?case
  proof (cases "dm_wire ?s = dm_wire s")
    case True
    then show ?thesis using Cons.IH [of ?s] Cons.prems by simp
  next
    case False
    with demo_flow_mandates [OF assms(1,2), of s T X] Cons.prems
    have "dp_mandate_id p \<in> dom (w_mandates (dm_world ?s))" by auto
    with taken_mandate_silences [OF assms(1,2), of Xs p ?s T] Cons.prems False show ?thesis by simp
  qed
qed simp

theorem demo_sends_once_witness:
  "sending_runs ext_ref example_tools [example_outside example_env, example_outside without_key] example_state \<le> 1"
  using demo_sends_once [OF hex_laws_ref sha256_laws_ref,
      of "[example_outside example_env, example_outside without_key]" example_plan example_tools example_state] by simp

text \<open>
  A first run in full, once its adapter can be built. When \<open>PITEKA_PRINT_WEBHOOK_URL\<close> is \<open>1\<close> it asks GitHub for the
  webhook address first; if that fails the run ends with the mandate reserved and the attempt dispatching.
  Otherwise GitHub is called exactly as the adapter's
  \<open>create_deployment\<close> calls it, for the configured target, with the digest of this attempt. When it answers with a
  deployment, the mandate is consumed and the attempt accepted with that id; the run succeeds and writes a journal
  that says so, or fails only because the journal has no path or cannot be written. When it answers
  with an error, the run ends with that error, the mandate is quarantined, the attempt
  ambiguous, and no journal is written.
\<close>

theorem demo_flow_outcome:
  assumes "hex_laws E" and "sha256_laws E" and "demo_plan_of E X = Inr p" and "connects X"
    and "w_mandates (dm_world s) (dp_mandate_id p) = None"
    and "row_map (w_attempts (dm_world s)) (attempt_id_of (dp_mandate_id p)) = None"
    and "demo_adapter X p = Inr t"
  shows "case demo_print_webhook_url T X (dt_adapter t) (dm_wire s) of (shown, wire0) \<Rightarrow>
    case demo_call E T X p (dt_adapter t) wire0 of (x, wire) \<Rightarrow>
    case demo_flow E T X (restart s) of (r, s') \<Rightarrow>
      (case shown of
        Inl e \<Rightarrow> r = Inl e \<and> dm_wire s' = wire0 \<and> mandate_row s' p = Some (''reserved'', 2)
          \<and> attempt_row s' p = Some (Dispatching, None) \<and> dm_journals s' = dm_journals s
      | Inr _ \<Rightarrow> dm_wire s' = wire
      \<and> (case x of
           Inr c \<Rightarrow> mandate_row s' p = Some (''consumed'', 3)
             \<and> attempt_row s' p = Some (Accepted, Some (dc_deployment_id c))
             \<and> (case (ou_env X ''PITEKA_DEMO_JOURNAL'', ou_write_error X) of
                  (Some path, None) \<Rightarrow> r = Inr () \<and> (\<exists>j. dm_journals s' = (dm_journals s)(path \<mapsto> j)
                    \<and> dj_mandate_state j = ''consumed'' \<and> dj_attempt_state j = Accepted
                    \<and> dj_github_deployment_id j = dc_deployment_id c \<and> dj_intent_id j = dp_intent_id p)
                | _ \<Rightarrow> (\<exists>e. r = Inl e) \<and> dm_journals s' = dm_journals s)
         | Inl e \<Rightarrow> r = Inl (GitHubFailed e) \<and> mandate_row s' p = Some (''quarantined'', 3)
             \<and> attempt_row s' p = Some (OutcomeAmbiguous, None) \<and> dm_journals s' = dm_journals s))"
proof (cases rule: demo_flow_first [OF assms(1-5), of T, case_names reserved taken])
  case (reserved w1)
  obtain shown wire0 where print: "demo_print_webhook_url T X (dt_adapter t) (dm_wire s) = (shown, wire0)" by fastforce
  obtain x wire where call: "demo_call E T X p (dt_adapter t) wire0 = (x, wire)" by fastforce
  have m: "w_mandates w1 (dp_mandate_id p) = Some \<lparr>mp_mandate_id_hex = dp_mandate_id p, mp_version = 1, mp_state = ''issued''\<rparr>"
    using reserved(3) by simp
  show ?thesis
  proof (cases shown)
    case (Inl e)
    have "w_mandates (reserved_world (ou_clock X 2) (demo_args p) w1) (dp_mandate_id p)
        = Some \<lparr>mp_mandate_id_hex = dp_mandate_id p, mp_version = 2, mp_state = ''reserved''\<rparr>"
      using reserved_world_mandate [of w1 "demo_args p"] m by simp
    then show ?thesis
      by (simp add: print Inl call reserved(2) demo_execute_def Let_def try_op_eq on_eq assms(7) mandate_row_def
          attempt_row_def dispatch_frame new_attempt_def)
  next
    case (Inr u)
    obtain w2 where w2: "demo_complete X p (reserved_result (demo_args p)) (case x of Inr c \<Rightarrow> Some (dc_deployment_id c) | Inl _ \<Rightarrow> None)
        (reserved_world (ou_clock X 2) (demo_args p) w1) = (Inr (), w2)"
      and rows: "w_mandates w2 (dp_mandate_id p) = Some \<lparr>mp_mandate_id_hex = dp_mandate_id p, mp_version = 3,
           mp_state = (case x of Inr _ \<Rightarrow> ''consumed'' | Inl _ \<Rightarrow> ''quarantined'')\<rparr>"
        "row_map (w_attempts w2) (attempt_id_of (dp_mandate_id p)) = Some ((new_attempt (ou_clock X 2) (demo_args p))
           \<lparr>ea_state := (case x of Inr _ \<Rightarrow> Accepted | Inl _ \<Rightarrow> OutcomeAmbiguous),
            ea_github_deployment_id := (case x of Inr c \<Rightarrow> Some (dc_deployment_id c) | Inl _ \<Rightarrow> None)\<rparr>)"
      using demo_complete_run [OF m, of X "case x of Inr c \<Rightarrow> Some (dc_deployment_id c) | Inl _ \<Rightarrow> None" "ou_clock X 2"]
      by (cases x) auto
    show ?thesis
      using w2 rows
      by (cases x) (auto simp: print Inr call reserved(2) demo_execute_def Let_def try_op_eq on_eq assms(7)
          demo_deploy_run [OF assms(7)] mandate_row_def attempt_row_def demo_write_journal_def mandate_get_def
          attempt_get_def row_get_def required_def split: option.split)
  qed
next
  case (taken e w2)
  with assms(6) show ?thesis by simp
qed

text \<open>A run that is not asked to print the address sends nothing for it.\<close>

lemma demo_print_quiet:
  "ou_env X ''PITEKA_PRINT_WEBHOOK_URL'' \<noteq> Some ''1'' \<Longrightarrow> demo_print_webhook_url T X A w = (Inr (), w)"
  by (simp add: demo_print_webhook_url_def)

theorem demo_flow_outcome_witness:
  "\<exists>t. demo_adapter (example_outside example_env) example_plan = Inr t
    \<and> dm_wire (snd (demo_flow ext_ref example_tools (example_outside example_env) (restart example_state)))
      = snd (demo_call ext_ref example_tools (example_outside example_env) example_plan (dt_adapter t) (dm_wire example_state))"
proof -
  obtain t where t: "demo_adapter (example_outside example_env) example_plan = Inr t" using example_adapter by blast
  have "connects (example_outside example_env)" "ou_env (example_outside example_env) ''PITEKA_PRINT_WEBHOOK_URL'' \<noteq> Some ''1''"
    by (simp_all add: connects_def example_outside_def example_env_def)
  from demo_flow_outcome [where T = example_tools, OF hex_laws_ref sha256_laws_ref example_plans(1) this(1) example_state_new(1,2) t]
    demo_print_quiet [OF this(2)] t
  show ?thesis by (auto simp: case_prod_beta)
qed

text \<open>
  A run that cannot build its adapter fails after it has reserved: a missing key file, identifier or App id
  is only looked at then. GitHub is sent nothing, but the mandate stays reserved and the attempt
  dispatching, for neither is completed, and every later run of the same plan fails, so the run id is spent.
\<close>

theorem demo_missing_setting_strands:
  assumes "hex_laws E" and "sha256_laws E" and "demo_plan_of E X = Inr p" and "connects X"
    and "w_mandates (dm_world s) (dp_mandate_id p) = None"
    and "row_map (w_attempts (dm_world s)) (attempt_id_of (dp_mandate_id p)) = None"
    and "demo_adapter X p = Inl e"
  shows "case demo_flow E T X (restart s) of (r, s') \<Rightarrow>
      r = Inl e \<and> dm_wire s' = dm_wire s \<and> dm_journals s' = dm_journals s
      \<and> mandate_row s' p = Some (''reserved'', 2) \<and> attempt_row s' p = Some (Dispatching, None)
      \<and> (demo_plan_of E Y = Inr p \<longrightarrow> (\<exists>e'. fst (demo_flow E T Y (restart s')) = Inl e'))"
proof (cases rule: demo_flow_first [OF assms(1-5), of T, case_names reserved taken])
  case (reserved w1)
  let ?w = "reserved_world (ou_clock X 2) (demo_args p) w1"
  have flow: "demo_flow E T X (restart s) = (Inl e, s\<lparr>dm_world := ?w\<rparr>)"
    by (simp add: reserved(2) demo_execute_def Let_def try_op_eq assms(7))
  have m: "w_mandates ?w (dp_mandate_id p) = Some \<lparr>mp_mandate_id_hex = dp_mandate_id p, mp_version = 2, mp_state = ''reserved''\<rparr>"
    using reserved_world_mandate [of w1 "demo_args p"] reserved(3) by simp
  have "\<exists>e'. fst (demo_flow E T Y (restart (s\<lparr>dm_world := ?w\<rparr>))) = Inl e'" if "demo_plan_of E Y = Inr p"
    using demo_flow_repeated [OF assms(1,2) that, of "s\<lparr>dm_world := ?w\<rparr>" T] m by simp
  then show ?thesis
    by (simp add: flow m mandate_row_def attempt_row_def dispatch_frame new_attempt_def)
next
  case (taken e w2)
  with assms(6) show ?thesis by simp
qed

theorem demo_missing_setting_strands_witness:
  "mandate_row (snd (demo_flow ext_ref example_tools (example_outside without_key) (restart example_state))) example_plan
   = Some (''reserved'', 2)"
proof -
  have "connects (example_outside without_key)" and "demo_adapter (example_outside without_key) example_plan
      = Inl (Text (''PITEKA_GITHUB_APP_PRIVATE_KEY_FILE'' @ '' is required''))"
    by (simp_all add: connects_def demo_adapter_def required_def example_outside_def without_key_def example_env_def)
  from demo_missing_setting_strands [where T = example_tools and Y = "example_outside without_key", OF hex_laws_ref sha256_laws_ref example_plans(2) this(1) example_state_new(1,2) this(2)]
  show ?thesis by (auto simp: case_prod_beta)
qed

end
