(* ===== verification/Routing.thy ===== *)
theory Routing
  imports Piteka_Prelude
begin

text \<open>
  How the programs mount their endpoints: the routers of \<^verbatim>\<open>apps/piteka-api/src/routes.rs\<close> and
  \<^verbatim>\<open>apps/piteka-web/src/lib.rs\<close>, and the applications that \<^verbatim>\<open>apps/piteka-web/src/main.rs\<close> and \<^verbatim>\<open>src/main.rs\<close> merge from
  them. A router is the list of its routes; what axum does with it, refusing a route it has already and finding
  the route of a request, is modelled as documented. An endpoint is the name of its handler.
\<close>

section \<open>Routers\<close>

datatype segment = Lit string | Param string

datatype endpoint =
    ListActionRequests | ProposeActionRequest | GetActionRequest | ApproveActionRequest | RejectActionRequest
  | RevokeActionRequest | OpenApi | GithubWebhook | LiveGithubWebhook | ListReceipts | GetReceipt | ExportReceipt
  | GetMandate | GetMandateChain | WorkQueue | RequestDetail | Executions | CaseFiles | Verification | Settings
  | Health | Stylesheet

type_synonym route = "http_verb \<times> segment list \<times> endpoint"

text \<open>
  Adding a route panics when its path has that verb already, or when its path differs from another one
  only in the name of a parameter.
\<close>

fun same_shape :: "segment list \<Rightarrow> segment list \<Rightarrow> bool" where
  "same_shape [] [] = True"
| "same_shape (Lit a # p) (Lit b # q) = (a = b \<and> same_shape p q)"
| "same_shape (Param a # p) (Param b # q) = same_shape p q"
| "same_shape _ _ = False"

definition clashes :: "route \<Rightarrow> route \<Rightarrow> bool" where
  "clashes r r' = (case (r, r') of ((v, p, e), (v', p', e')) \<Rightarrow> same_shape p p' \<and> (v = v' \<or> p \<noteq> p'))"

fun add_routes :: "route list \<Rightarrow> route list \<Rightarrow> route list option" where
  "add_routes R [] = Some R"
| "add_routes R (r # rs) = (if list_ex (clashes r) R then None else add_routes (R @ [r]) rs)"

definition merge_routers :: "route list option \<Rightarrow> route list option \<Rightarrow> route list option" where
  "merge_routers R S = Option.bind R (\<lambda>r. Option.bind S (add_routes r))"

definition nest :: "segment list \<Rightarrow> route list \<Rightarrow> route list" where
  "nest prefix R = map (\<lambda>(v, p, e). (v, prefix @ p, e)) R"

section \<open>The routers of the API\<close>

definition action_requests :: "route list option" where
  "action_requests = add_routes []
     [(GET, [], ListActionRequests), (POST, [], ProposeActionRequest), (GET, [Param ''id''], GetActionRequest),
      (POST, [Param ''id'', Lit ''approve''], ApproveActionRequest), (POST, [Param ''id'', Lit ''reject''], RejectActionRequest),
      (POST, [Param ''id'', Lit ''revoke''], RevokeActionRequest)]"

definition build_full_router :: "route list option" where
  "build_full_router =
     Option.bind action_requests (\<lambda>actions.
     add_routes [] (nest [Lit ''api'', Lit ''v1'', Lit ''action-requests''] actions
       @ [(GET, [Lit ''api'', Lit ''v1'', Lit ''openapi.json''], OpenApi)]))"

definition webhook_path :: "segment list" where
  "webhook_path = [Lit ''api'', Lit ''v1'', Lit ''webhooks'', Lit ''github'']"

definition build_full_router_with_webhook :: "route list option" where
  "build_full_router_with_webhook = merge_routers build_full_router (add_routes [] [(POST, webhook_path, GithubWebhook)])"

definition build_live_webhook_router :: "route list option" where
  "build_live_webhook_router = add_routes [] [(POST, webhook_path, LiveGithubWebhook)]"

definition build_live_read_router :: "route list option" where
  "build_live_read_router = add_routes []
     [(GET, [Lit ''api'', Lit ''v1'', Lit ''receipts''], ListReceipts),
      (GET, [Lit ''api'', Lit ''v1'', Lit ''receipts'', Param ''id''], GetReceipt),
      (GET, [Lit ''api'', Lit ''v1'', Lit ''receipts'', Param ''id'', Lit ''export''], ExportReceipt),
      (GET, [Lit ''api'', Lit ''v1'', Lit ''mandates'', Param ''id''], GetMandate),
      (GET, [Lit ''api'', Lit ''v1'', Lit ''mandates'', Param ''id'', Lit ''chain''], GetMandateChain)]"

section \<open>The web interface and the applications\<close>

definition web_router :: "route list option" where
  "web_router = add_routes []
     [(GET, [Lit ''work-queue''], WorkQueue), (GET, [Lit ''request'', Param ''id''], RequestDetail),
      (GET, [Lit ''executions''], Executions), (GET, [Lit ''case-files''], CaseFiles),
      (GET, [Lit ''verification''], Verification), (GET, [Lit ''settings''], Settings), (GET, [Lit ''health''], Health)]"

definition assets_router :: "route list option" where
  "assets_router = add_routes [] [(GET, [Lit ''assets'', Lit ''piteka.css''], Stylesheet)]"

text \<open>\<open>live\<close>: the program was given a database and connected to it.\<close>

definition web_app :: "bool \<Rightarrow> route list option" where
  "web_app live =
     (let api_router =
        (if live then merge_routers (merge_routers build_full_router build_live_webhook_router) build_live_read_router
         else build_full_router_with_webhook)
      in merge_routers (merge_routers (merge_routers (Some []) assets_router) web_router) api_router)"

definition api_app :: "route list option" where
  "api_app = Option.bind (merge_routers (Some []) build_full_router_with_webhook)
     (\<lambda>R. add_routes R [(GET, [Lit ''health''], Health)])"

section \<open>Finding the route of a request\<close>

text \<open>A parameter takes one segment, which is not empty.\<close>

fun bindings :: "segment list \<Rightarrow> string list \<Rightarrow> string list option" where
  "bindings [] [] = Some []"
| "bindings (Lit a # p) (s # ss) = (if a = s then bindings p ss else None)"
| "bindings (Param a # p) (s # ss) = (if s = [] then None else map_option ((#) s) (bindings p ss))"
| "bindings _ _ = None"

datatype routed = NotFound | MethodNotAllowed | Handled endpoint "string list"

definition matching :: "route list \<Rightarrow> string list \<Rightarrow> route list" where
  "matching R path = filter (\<lambda>(v, p, e). bindings p path \<noteq> None) R"

definition find_route :: "route list \<Rightarrow> http_verb \<Rightarrow> string list \<Rightarrow> routed" where
  "find_route R verb path =
     (case matching R path of
        [] \<Rightarrow> NotFound
      | candidates \<Rightarrow>
          (case filter (\<lambda>(v, p, e). v = verb) candidates of
             [] \<Rightarrow> MethodNotAllowed
           | (v, p, e) # _ \<Rightarrow> Handled e (the (bindings p path))))"

section \<open>No request has two paths\<close>

fun overlap :: "segment list \<Rightarrow> segment list \<Rightarrow> bool" where
  "overlap [] [] = True"
| "overlap (Lit a # p) (Lit b # q) = (a = b \<and> overlap p q)"
| "overlap (a # p) (b # q) = overlap p q"
| "overlap _ _ = False"

lemma bindings_tail: "bindings (a # p) (s # ss) = Some y \<Longrightarrow> \<exists>z. bindings p ss = Some z"
  by (cases a) (auto split: if_splits)

lemma bindings_overlap: "bindings p path = Some y \<Longrightarrow> bindings q path = Some z \<Longrightarrow> overlap p q"
proof (induction path arbitrary: p q y z)
  case Nil
  then show ?case by (cases p; cases q) (auto elim: bindings.elims)
next
  case (Cons s ss)
  then obtain a p' b q' where pq: "p = a # p'" "q = b # q'" by (cases p; cases q) auto
  from Cons.prems obtain u v where "bindings p' ss = Some u" "bindings q' ss = Some v"
    unfolding pq by (auto dest!: bindings_tail)
  then have "overlap p' q'" by (rule Cons.IH)
  with Cons.prems show ?case unfolding pq by (cases a; cases b) (auto split: if_splits)
qed

definition no_overlaps :: "route list \<Rightarrow> bool" where
  "no_overlaps R = list_all (\<lambda>(v, p, e). list_all (\<lambda>(v', p', e'). overlap p p' \<longrightarrow> p = p' \<and> (v = v' \<longrightarrow> e = e')) R) R"

lemma no_overlaps_one_path:
  assumes "no_overlaps R"
  shows "card (set (map (\<lambda>(v, p, e). p) (matching R path))) \<le> 1"
proof -
  have "p = q" if "(v, p, e) \<in> set (matching R path)" and "(w, q, f) \<in> set (matching R path)" for v p e w q f
  proof -
    from that obtain y z where "bindings p path = Some y" "bindings q path = Some z"
      and "(v, p, e) \<in> set R" "(w, q, f) \<in> set R" by (auto simp: matching_def)
    with bindings_overlap [of p path y q z] assms show ?thesis by (fastforce simp: no_overlaps_def list_all_iff)
  qed
  then show ?thesis by (auto simp: card_le_Suc0_iff_eq)
qed

lemma web_app_built: "\<exists>R. web_app live = Some R \<and> no_overlaps R"
proof -
  have "\<not> Option.is_none (web_app True) \<and> no_overlaps (the (web_app True))" by code_simp
  moreover have "\<not> Option.is_none (web_app False) \<and> no_overlaps (the (web_app False))" by code_simp
  ultimately show ?thesis by (cases live) (auto simp: Option.is_none_def)
qed

lemma api_app_built: "\<exists>R. api_app = Some R \<and> no_overlaps R"
proof -
  have "\<not> Option.is_none api_app \<and> no_overlaps (the api_app)" by code_simp
  then show ?thesis by (metis Option.is_none_simps(1) not_None_eq option.sel)
qed

section \<open>Properties\<close>

text \<open>
  Neither application panics while it is put together, with or without a database, and no request
  fits more than one path, so the order of the routes does not matter.
\<close>

theorem requests_have_one_path:
  "(\<exists>R. web_app live = Some R \<and> card (set (map (\<lambda>(v, p, e). p) (matching R path))) \<le> 1)
   \<and> (\<exists>R. api_app = Some R \<and> card (set (map (\<lambda>(v, p, e). p) (matching R path))) \<le> 1)"
  using web_app_built [of live] api_app_built no_overlaps_one_path by blast

text \<open>
  The receipt and mandate endpoints exist only with a database; without one their paths are not found. The two
  webhook endpoints take the same path, one or the other.
\<close>

theorem read_api_needs_database:
  "map_option (\<lambda>R. (find_route R GET [''api'', ''v1'', ''receipts'', ''r''], find_route R POST [''api'', ''v1'', ''webhooks'', ''github'']))
     (web_app True) = Some (Handled GetReceipt [''r''], Handled LiveGithubWebhook [])
   \<and> map_option (\<lambda>R. (find_route R GET [''api'', ''v1'', ''receipts'', ''r''], find_route R POST [''api'', ''v1'', ''webhooks'', ''github'']))
     (web_app False) = Some (NotFound, Handled GithubWebhook [])"
  by (rule conjI; code_simp)

end
