(* ===== verification/Simulation.thy ===== *)
theory Simulation
  imports World
begin

text \<open>
  Simulation between operations over two states, as a relation built from the relators of functions, pairs
  and sums. The rules in the collection \<open>sim\<close> follow the combinators operations are built with, so
  that a use case written over two families of stores simulates itself as soon as the stores do.
\<close>

section \<open>Simulating operations\<close>

text \<open>
  Two operations simulate each other when from related states they give related results and related
  states: the relators of pairs, sums and functions say so. Errors are related by \<open>F\<close>, values are equal.
\<close>

definition simulates ::
  "('s \<Rightarrow> 't \<Rightarrow> bool) \<Rightarrow> ('e \<Rightarrow> 'f \<Rightarrow> bool) \<Rightarrow> ('s, 'e, 'a) op \<Rightarrow> ('t, 'f, 'a) op \<Rightarrow> bool" where
  "simulates R F = rel_fun R (rel_prod (rel_sum F (=)) R)"

lemma simulatesI:
  "(\<And>s t. R s t \<Longrightarrow> rel_sum F (=) (fst (m s)) (fst (n t)) \<and> R (snd (m s)) (snd (n t))) \<Longrightarrow> simulates R F m n"
  by (simp add: simulates_def rel_fun_def rel_prod_sel)

lemma simulatesD:
  "simulates R F m n \<Longrightarrow> R s t \<Longrightarrow> rel_sum F (=) (fst (m s)) (fst (n t)) \<and> R (snd (m s)) (snd (n t))"
  by (simp add: simulates_def rel_fun_def rel_prod_sel)

named_theorems sim \<open>operations built alike simulate each other\<close>

lemma sim_ok [sim]: "simulates R F (ok a) (ok a)"
  by (rule simulatesI) simp

lemma sim_fail [sim]: "F e e' \<Longrightarrow> simulates R F (fail e) (fail e')"
  by (rule simulatesI) simp

lemma sim_try [sim]:
  assumes "simulates R F m n" and "\<And>a. simulates R F (k a) (l a)"
  shows "simulates R F (try_op m k) (try_op n l)"
proof (rule simulatesI)
  fix s t
  assume R: "R s t"
  from simulatesD [OF assms(1) R] show "rel_sum F (=) (fst (try_op m k s)) (fst (try_op n l t))
      \<and> R (snd (try_op m k s)) (snd (try_op n l t))"
    by (cases "fst (m s)"; cases "fst (n t)") (auto simp: try_op_eq dest: simulatesD [OF assms(2)])
qed

lemma sim_map_err [sim]:
  assumes "simulates R G m n" and "\<And>e e'. G e e' \<Longrightarrow> F (f e) (g e')"
  shows "simulates R F (map_err f m) (map_err g n)"
proof (rule simulatesI)
  fix s t
  assume R: "R s t"
  from simulatesD [OF assms(1) R] show "rel_sum F (=) (fst (map_err f m s)) (fst (map_err g n t))
      \<and> R (snd (map_err f m s)) (snd (map_err g n t))"
    by (cases "fst (m s)"; cases "fst (n t)") (auto simp: map_err_eq assms(2))
qed

lemma sim_if [sim]:
  "(c \<Longrightarrow> simulates R F m n) \<Longrightarrow> (\<not> c \<Longrightarrow> simulates R F m' n') \<Longrightarrow>
    simulates R F (if c then m else m') (if c then n else n')"
  by simp

lemma sim_option [sim]:
  "(x = None \<Longrightarrow> simulates R F m n) \<Longrightarrow> (\<And>a. x = Some a \<Longrightarrow> simulates R F (k a) (l a)) \<Longrightarrow>
    simulates R F (case x of None \<Rightarrow> m | Some a \<Rightarrow> k a) (case x of None \<Rightarrow> n | Some a \<Rightarrow> l a)"
  by (cases x) simp_all

lemma sim_cas [sim]:
  "(\<And>v. simulates R F (k v) (l v)) \<Longrightarrow> (\<And>c. simulates R F (k' c) (l' c)) \<Longrightarrow> simulates R F m n \<Longrightarrow>
    simulates R F (case x of Applied v \<Rightarrow> k v | Conflict c \<Rightarrow> k' c | Missing \<Rightarrow> m)
      (case x of Applied v \<Rightarrow> l v | Conflict c \<Rightarrow> l' c | Missing \<Rightarrow> n)"
  by (cases x) simp_all

lemma map_err_reading: "map_err f (reading g) = reading g"
  by (rule ext) (simp add: map_err_eq)

text \<open>Stores phrase their failures in their own words.\<close>

abbreviation some_failure :: "storage_error \<Rightarrow> storage_error \<Rightarrow> bool" where
  "some_failure \<equiv> \<lambda>_ _. True"

end
