(* ===== verification/Dispatch_Ports.thy ===== *)
theory Dispatch_Ports
  imports Simulation Dispatch
begin

text \<open>
  The reserve-and-dispatch use case of \<^verbatim>\<open>crates/piteka-application/src/dispatch.rs\<close> over any
  \<open>DispatchPorts\<close>. The trait is a record of the store operations the use case calls, the methods take
  it as an argument, and \<open>Dispatch\<close> is shown to be their instance on the in-memory stores. Two families of
  ports that simulate each other give dispatches that do (\<open>ports_simulation\<close>).
\<close>

section \<open>The ports\<close>

text \<open>
  The operations behind \<open>request_store\<close>, \<open>mandate_store\<close>, \<open>attempt_store\<close> and
  \<open>audit_log\<close> that the use case calls; it never touches the receipt store.
\<close>

record 's dispatch_ports =
  pt_request_get :: "string \<Rightarrow> ('s, storage_error, action_request option) op"
  pt_mandate_get :: "string \<Rightarrow> ('s, storage_error, mandate_projection option) op"
  pt_mandate_cas :: "string \<Rightarrow> i64 \<Rightarrow> string \<Rightarrow> ('s, storage_error, cas_outcome) op"
  pt_attempt_insert :: "execution_attempt \<Rightarrow> ('s, storage_error, unit) op"
  pt_attempt_update_state :: "string \<Rightarrow> execution_attempt_state \<Rightarrow> ('s, storage_error, unit) op"
  pt_attempt_update_deployment_id :: "string \<Rightarrow> u64 \<Rightarrow> ('s, storage_error, unit) op"
  pt_audit_append :: "audit_event \<Rightarrow> ('s, storage_error, unit) op"

type_synonym ('s, 'a) ported = "('s, dispatch_error, 'a) op"

abbreviation stored :: "('s, storage_error, 'a) op \<Rightarrow> ('s, 'a) ported" where
  "stored \<equiv> map_err Storage"

text \<open>The provider closure cannot fail; what it does to the outside is part of the state.\<close>

type_synonym 's provider_fn = "string \<Rightarrow> bytes \<Rightarrow> 's \<Rightarrow> u64 option \<times> 's"

definition calling :: "('s \<Rightarrow> 'a \<times> 's) \<Rightarrow> ('s, 'e, 'a) op" where
  "calling f s = (Inr (fst (f s)), snd (f s))"

section \<open>The use case\<close>

definition check_request_with :: "'s dispatch_ports \<Rightarrow> dispatch_args \<Rightarrow> ('s, unit) ported" where
  "check_request_with P a =
     try_op (stored (pt_request_get P (da_request_id a))) (\<lambda>found.
       case found of
         None \<Rightarrow> fail (NotFound (da_request_id a))
       | Some request \<Rightarrow>
           if ar_status request \<noteq> action_request_status.Approved
           then fail (InvalidTransition (ar_status request)) else ok ())"

definition record_reservation_with ::
  "'s dispatch_ports \<Rightarrow> u64 \<Rightarrow> dispatch_args \<Rightarrow> ('s, dispatch_outcome) ported" where
  "record_reservation_with P now a =
     try_op (stored (pt_attempt_insert P (new_attempt now a))) (\<lambda>_.
     try_op (stored (pt_attempt_update_state P (attempt_id_of (da_mandate_id_hex a)) Dispatching)) (\<lambda>_.
     try_op (stored (pt_audit_append P (reserve_event now a))) (\<lambda>_.
     ok (Dispatched (reserved_result a)))))"

definition report_conflict_with ::
  "'s dispatch_ports \<Rightarrow> u64 \<Rightarrow> dispatch_args \<Rightarrow> i64 \<Rightarrow> ('s, dispatch_outcome) ported" where
  "report_conflict_with P now a current =
     try_op (stored (pt_mandate_get P (da_mandate_id_hex a))) (\<lambda>found.
       let lost = ok (ReservationFailed \<lparr>rf_mandate_id_hex = da_mandate_id_hex a,
                                        rf_winner_version = current\<rparr>) in
       case found of
         None \<Rightarrow> lost
       | Some projection \<Rightarrow>
           if mp_state projection \<in> set replay_states then
             try_op (stored (pt_audit_append P (replay_event now a (mp_state projection))))
               (\<lambda>_. ok (ReplayRejected (replay_result a (mp_state projection))))
           else lost)"

definition reserve_with :: "'s dispatch_ports \<Rightarrow> u64 \<Rightarrow> dispatch_args \<Rightarrow> ('s, dispatch_outcome) ported" where
  "reserve_with P now a =
     try_op (check_request_with P a) (\<lambda>_.
     try_op (stored (pt_mandate_cas P (da_mandate_id_hex a) (da_expected_mandate_version a) ''reserved'')) (\<lambda>cas.
       case cas of
         Applied _ \<Rightarrow> record_reservation_with P now a
       | Conflict current \<Rightarrow> report_conflict_with P now a current
       | Missing \<Rightarrow> fail (MandateNotFound (da_mandate_id_hex a))))"

definition record_accepted_with ::
  "'s dispatch_ports \<Rightarrow> u64 \<Rightarrow> string \<Rightarrow> string \<Rightarrow> u64 \<Rightarrow> string \<Rightarrow> i64 \<Rightarrow> ('s, unit) ported" where
  "record_accepted_with P now attempt mandate deployment executor expected =
     try_op (stored (pt_attempt_update_state P attempt Accepted)) (\<lambda>_.
     try_op (stored (pt_attempt_update_deployment_id P attempt deployment)) (\<lambda>_.
     try_op (stored (pt_mandate_cas P mandate expected ''consumed'')) (\<lambda>cas.
       case cas of
         Applied _ \<Rightarrow> stored (pt_audit_append P (consume_event now attempt mandate executor))
       | Conflict _ \<Rightarrow> fail (AlreadyConsumed mandate)
       | Missing \<Rightarrow> fail (MandateNotFound mandate))))"

definition record_ambiguous_with ::
  "'s dispatch_ports \<Rightarrow> u64 \<Rightarrow> string \<Rightarrow> string \<Rightarrow> string \<Rightarrow> i64 \<Rightarrow> ('s, unit) ported" where
  "record_ambiguous_with P now attempt mandate executor expected =
     try_op (stored (pt_attempt_update_state P attempt OutcomeAmbiguous)) (\<lambda>_.
     try_op (stored (pt_mandate_cas P mandate expected ''quarantined'')) (\<lambda>cas.
       case cas of
         Applied _ \<Rightarrow> stored (pt_audit_append P (quarantine_event now attempt mandate executor))
       | Conflict _ \<Rightarrow> ok ()
       | Missing \<Rightarrow> fail (MandateNotFound mandate)))"

definition complete_dispatch_with ::
  "'s dispatch_ports \<Rightarrow> u64 \<Rightarrow> string \<Rightarrow> string \<Rightarrow> bool \<Rightarrow> u64 option \<Rightarrow> string \<Rightarrow> i64 \<Rightarrow> ('s, unit) ported" where
  "complete_dispatch_with P now attempt mandate accepted deployment executor expected =
     (let missing_deployment_id = accepted \<and> deployment = None in
      try_op
        (case (accepted, deployment) of
           (True, Some d) \<Rightarrow> record_accepted_with P now attempt mandate d executor expected
         | _ \<Rightarrow> record_ambiguous_with P now attempt mandate executor expected)
        (\<lambda>_. if missing_deployment_id
              then fail (InvalidProviderResponse
                ''accepted GitHub deployment response did not include a deployment ID'')
              else ok ()))"

text \<open>The arm of a granted reservation: send, then record what the provider answered.\<close>

definition send_and_complete_with ::
  "'s dispatch_ports \<Rightarrow> ext \<Rightarrow> u64 \<Rightarrow> dispatch_args \<Rightarrow> 's provider_fn \<Rightarrow> dispatched \<Rightarrow> ('s, dispatch_outcome) ported" where
  "send_and_complete_with P E later a call d =
     (let attempt_digest = compute_attempt_digest E (di_attempt_id_hex d) (da_mandate_id_hex a) (da_intent_id_hex a)
      in try_op (calling (call (di_correlation_key d) attempt_digest)) (\<lambda>deployment_id.
        let cas_version = da_expected_mandate_version a + 1 in
        case deployment_id of
          Some deploy_id \<Rightarrow>
            try_op (complete_dispatch_with P later (di_attempt_id_hex d) (da_mandate_id_hex a) True
              (Some deploy_id) (da_executor_identity a) cas_version) (\<lambda>_.
            ok (Dispatched (d\<lparr>di_provider_accepted := True,
                            di_github_deployment_id := Some deploy_id\<rparr>)))
        | None \<Rightarrow>
            try_op (complete_dispatch_with P later (di_attempt_id_hex d) (da_mandate_id_hex a) False
              None (da_executor_identity a) cas_version) (\<lambda>_.
            ok (DispatchFailed (da_mandate_id_hex a) (di_attempt_id_hex d)
              ''provider rejected or timeout''))))"

definition reserve_and_dispatch_with ::
  "'s dispatch_ports \<Rightarrow> ext \<Rightarrow> u64 \<Rightarrow> u64 \<Rightarrow> dispatch_args \<Rightarrow> 's provider_fn \<Rightarrow> ('s, dispatch_outcome) ported" where
  "reserve_and_dispatch_with P E now later a call =
     try_op (reserve_with P now a) (\<lambda>reserved.
       case reserved of
         Dispatched d \<Rightarrow> send_and_complete_with P E later a call d
       | _ \<Rightarrow> ok reserved)"

section \<open>The in-memory ports\<close>

definition memory_ports :: "world dispatch_ports" where
  "memory_ports =
     \<lparr>pt_request_get = (\<lambda>k. reading (\<lambda>w. request_get (w_requests w) k)),
      pt_mandate_get = (\<lambda>m. reading (\<lambda>w. mandate_get (w_mandates w) m)),
      pt_mandate_cas = (\<lambda>m e st. at_mandates (mandate_cas m e st)),
      pt_attempt_insert = (\<lambda>x. at_attempts (attempt_insert x)),
      pt_attempt_update_state = (\<lambda>k st. at_attempts (attempt_update_state k st)),
      pt_attempt_update_deployment_id = (\<lambda>k d. at_attempts (attempt_update_deployment_id k d)),
      pt_audit_append = (\<lambda>e. at_audit (audit_append e))\<rparr>"

text \<open>The closure of \<open>Dispatch\<close>: it answers and logs the call.\<close>

definition logged_call :: "string \<Rightarrow> dispatch_fn \<Rightarrow> world provider_fn" where
  "logged_call mandate f key digest w =
     (f key digest, add_call \<lparr>pc_mandate = mandate, pc_correlation_key = key, pc_attempt_digest = digest\<rparr> w)"

lemma memory_ports_sel:
  "pt_request_get memory_ports = (\<lambda>k. reading (\<lambda>w. request_get (w_requests w) k))"
  "pt_mandate_get memory_ports = (\<lambda>m. reading (\<lambda>w. mandate_get (w_mandates w) m))"
  "pt_mandate_cas memory_ports = (\<lambda>m e st. at_mandates (mandate_cas m e st))"
  "pt_attempt_insert memory_ports = (\<lambda>x. at_attempts (attempt_insert x))"
  "pt_attempt_update_state memory_ports = (\<lambda>k st. at_attempts (attempt_update_state k st))"
  "pt_attempt_update_deployment_id memory_ports = (\<lambda>k d. at_attempts (attempt_update_deployment_id k d))"
  "pt_audit_append memory_ports = (\<lambda>e. at_audit (audit_append e))"
  by (simp_all add: memory_ports_def)

lemmas memory_ports_run = memory_ports_sel map_err_reading

lemma memory_reserve: "reserve_with memory_ports = reserve"
  unfolding reserve_with_def reserve_def check_request_with_def check_request_def record_reservation_with_def
    record_reservation_def report_conflict_with_def report_conflict_def memory_ports_run
  by (rule refl)

lemma memory_complete: "complete_dispatch_with memory_ports = complete_dispatch"
  unfolding complete_dispatch_with_def complete_dispatch_def record_accepted_with_def record_accepted_def
    record_ambiguous_with_def record_ambiguous_def memory_ports_run
  by (rule refl)

text \<open>A granted reservation names the attempt of the mandate, so the closure gets the digest of \<open>call_provider\<close>.\<close>

lemma reserve_Dispatched: "fst (reserve now a w) = Inr (Dispatched d) \<Longrightarrow> d = reserved_result a"
  by (cases "approved w (da_request_id a)")
    (auto simp: reserve_run reserve_not_approved split: option.splits if_splits)

lemma try_calling: "try_op (calling f) k s = k (fst (f s)) (snd (f s))"
  by (simp add: try_op_eq calling_def)

lemma memory_reserve_and_dispatch:
  "reserve_and_dispatch_with memory_ports E now later a (logged_call (da_mandate_id_hex a) f)
    = reserve_and_dispatch E now later a f"
proof (rule ext)
  fix w
  have send: "send_and_complete_with memory_ports E later a (logged_call (da_mandate_id_hex a) f) d =
      try_op (call_provider E a f) (\<lambda>deployment_id.
        let cas_version = da_expected_mandate_version a + 1 in
        case deployment_id of
          Some deploy_id \<Rightarrow>
            try_op (complete_dispatch later (di_attempt_id_hex d) (da_mandate_id_hex a) True
              (Some deploy_id) (da_executor_identity a) cas_version) (\<lambda>_.
            ok (Dispatched (d\<lparr>di_provider_accepted := True, di_github_deployment_id := Some deploy_id\<rparr>)))
        | None \<Rightarrow>
            try_op (complete_dispatch later (di_attempt_id_hex d) (da_mandate_id_hex a) False
              None (da_executor_identity a) cas_version) (\<lambda>_.
            ok (DispatchFailed (da_mandate_id_hex a) (di_attempt_id_hex d) ''provider rejected or timeout'')))"
    if "d = reserved_result a" for d
    unfolding that send_and_complete_with_def memory_complete Let_def
    by (rule ext) (simp add: try_calling call_provider_run logged_call_def reserved_result_def try_op_fst call_of_def
        split: option.split)
  show "reserve_and_dispatch_with memory_ports E now later a (logged_call (da_mandate_id_hex a) f) w
      = reserve_and_dispatch E now later a f w"
  proof (cases "fst (reserve now a w)")
    case (Inl e)
    then show ?thesis
      by (simp add: reserve_and_dispatch_with_def reserve_and_dispatch_def memory_reserve try_op_eq)
  next
    case (Inr r)
    then show ?thesis
      using reserve_Dispatched [of now a w]
      by (cases r)
        (simp_all add: reserve_and_dispatch_with_def reserve_and_dispatch_def memory_reserve try_op_fst send)
  qed
qed

section \<open>Two families of ports\<close>

text \<open>The errors of two dispatches agree up to the words of a store's failure.\<close>

definition same_failure :: "dispatch_error \<Rightarrow> dispatch_error \<Rightarrow> bool" where
  "same_failure e e' \<longleftrightarrow> e = e' \<or> (\<exists>x y. e = Storage x \<and> e' = Storage y)"

lemma same_failure_simps [simp]: "same_failure e e" "same_failure (Storage x) (Storage y)"
  by (simp_all add: same_failure_def)

locale ports_simulation =
  fixes P :: "'s dispatch_ports" and Q :: "'t dispatch_ports" and R :: "'s \<Rightarrow> 't \<Rightarrow> bool"
  assumes request_get: "simulates R some_failure (pt_request_get P k) (pt_request_get Q k)"
    and mandate_get: "simulates R some_failure (pt_mandate_get P m) (pt_mandate_get Q m)"
    and mandate_cas: "e \<noteq> i64_max \<Longrightarrow>
      simulates R some_failure (pt_mandate_cas P m e st) (pt_mandate_cas Q m e st)"
    and attempt_insert: "ea_dispatch_boundary_at x = None \<Longrightarrow>
      simulates R some_failure (pt_attempt_insert P x) (pt_attempt_insert Q x)"
    and attempt_update_state:
      "simulates R some_failure (pt_attempt_update_state P k s) (pt_attempt_update_state Q k s)"
    and attempt_update_deployment_id:
      "simulates R some_failure (pt_attempt_update_deployment_id P k d) (pt_attempt_update_deployment_id Q k d)"
    and audit_append: "simulates R some_failure (pt_audit_append P ev) (pt_audit_append Q ev)"
begin

lemmas store_sim = request_get mandate_get mandate_cas attempt_insert attempt_update_state
  attempt_update_deployment_id audit_append

lemma stored_sim:
  "simulates R some_failure m n \<Longrightarrow> simulates R same_failure (stored m) (stored n)"
  by (rule sim_map_err) simp_all

lemma new_attempt_boundary: "ea_dispatch_boundary_at (new_attempt now a) = None"
  by (simp add: new_attempt_def)

lemma check_request_sim:
  "simulates R same_failure (check_request_with P a) (check_request_with Q a)"
  unfolding check_request_with_def by (intro sim stored_sim store_sim same_failure_simps)

lemma record_reservation_sim:
  "simulates R same_failure (record_reservation_with P now a) (record_reservation_with Q now a)"
  unfolding record_reservation_with_def by (intro sim stored_sim store_sim new_attempt_boundary)

lemma report_conflict_sim:
  "simulates R same_failure (report_conflict_with P now a v) (report_conflict_with Q now a v)"
  unfolding report_conflict_with_def Let_def by (intro sim stored_sim store_sim)

lemma reserve_sim:
  assumes "da_expected_mandate_version a \<noteq> i64_max"
  shows "simulates R same_failure (reserve_with P now a) (reserve_with Q now a)"
  unfolding reserve_with_def
  by (intro sim stored_sim store_sim check_request_sim record_reservation_sim report_conflict_sim assms
      same_failure_simps)

lemma complete_sim:
  assumes "expected \<noteq> i64_max"
  shows "simulates R same_failure
    (complete_dispatch_with P now attempt m accepted deployment executor expected)
    (complete_dispatch_with Q now attempt m accepted deployment executor expected)"
proof -
  have accepted: "simulates R same_failure (record_accepted_with P now attempt m d executor expected)
      (record_accepted_with Q now attempt m d executor expected)" for d
    unfolding record_accepted_with_def by (intro sim stored_sim store_sim assms same_failure_simps)
  have ambiguous: "simulates R same_failure (record_ambiguous_with P now attempt m executor expected)
      (record_ambiguous_with Q now attempt m executor expected)"
    unfolding record_ambiguous_with_def by (intro sim stored_sim store_sim assms same_failure_simps)
  show ?thesis
    unfolding complete_dispatch_with_def Let_def
    by (cases accepted; cases deployment)
      (simp_all add: accepted ambiguous sim_try sim_ok sim_fail)
qed

lemma dispatch_sim:
  assumes "da_expected_mandate_version a \<noteq> i64_max" and "da_expected_mandate_version a + 1 \<noteq> i64_max"
    and "\<And>key digest. simulates R same_failure (calling (call key digest)) (calling (call' key digest))"
  shows "simulates R same_failure (reserve_and_dispatch_with P E now later a call)
    (reserve_and_dispatch_with Q E now later a call')"
proof -
  have send: "simulates R same_failure (send_and_complete_with P E later a call d)
      (send_and_complete_with Q E later a call' d)" for d
    unfolding send_and_complete_with_def Let_def
    by (intro sim assms(3) complete_sim assms(2))
  show ?thesis
    unfolding reserve_and_dispatch_with_def
  proof (rule sim_try)
    show "simulates R same_failure (reserve_with P now a) (reserve_with Q now a)"
      using assms(1) by (rule reserve_sim)
    show "simulates R same_failure
        (case reserved of Dispatched d \<Rightarrow> send_and_complete_with P E later a call d | _ \<Rightarrow> ok reserved)
        (case reserved of Dispatched d \<Rightarrow> send_and_complete_with Q E later a call' d | _ \<Rightarrow> ok reserved)" for reserved
      by (cases reserved) (simp_all add: send sim_ok)
  qed
qed

end

end
