(* ===== verification/Dispatch_Postgres.thy ===== *)
theory Dispatch_Postgres
  imports Dispatch_Ports Postgres_Refinement
begin

text \<open>
  The reserve-and-dispatch use case as \<^verbatim>\<open>src/bin/controlled_demo_flow.rs\<close> runs it: the requests and
  decisions in the process, the mandates, the attempts and the audit log in PostgreSQL (\<open>DemoPorts\<close>). It is
  shown to simulate the use case on the in-memory stores, so what is proved there holds of it.
\<close>

section \<open>The state and the ports\<close>

text \<open>The stores in the process and the database behind the pool the adapters share.\<close>

record hosted =
  ho_local :: world
  ho_db :: pg_db

abbreviation at_local :: "(world, 'e, 'a) op \<Rightarrow> (hosted, 'e, 'a) op" where
  "at_local \<equiv> on ho_local ho_local_update"

abbreviation at_db :: "(pg_db, 'e, 'a) op \<Rightarrow> (hosted, 'e, 'a) op" where
  "at_db \<equiv> on ho_db ho_db_update"

definition demo_ports :: "sql \<Rightarrow> hosted dispatch_ports" where
  "demo_ports S =
     \<lparr>pt_request_get = (\<lambda>k. at_local (reading (\<lambda>w. request_get (w_requests w) k))),
      pt_mandate_get = (\<lambda>m. at_db (pg_mandate_get m)),
      pt_mandate_cas = (\<lambda>m e st. at_db (pg_mandate_cas S m e st)),
      pt_attempt_insert = (\<lambda>x. at_db (pg_attempt_insert S x)),
      pt_attempt_update_state = (\<lambda>k st. at_db (pg_attempt_update_state k st)),
      pt_attempt_update_deployment_id = (\<lambda>k d. at_db (pg_attempt_update_deployment_id k d)),
      pt_audit_append = (\<lambda>e. at_db (pg_audit_append e))\<rparr>"

definition hosted_call :: "string \<Rightarrow> dispatch_fn \<Rightarrow> hosted provider_fn" where
  "hosted_call mandate f key digest h =
     (case logged_call mandate f key digest (ho_local h) of (answer, w) \<Rightarrow> (answer, h\<lparr>ho_local := w\<rparr>))"

section \<open>Agreement\<close>

text \<open>
  The in-memory world a hosted state stands for. The tables answer, were written by this program, and
  hold what the maps hold; the index of the attempts by mandate has no counterpart, the dispatch does not
  read it.
\<close>

definition hosts :: "sql \<Rightarrow> world \<Rightarrow> hosted \<Rightarrow> bool" where
  "hosts S w h \<longleftrightarrow>
     db_down (ho_db h) = None \<and> attempts_written S (ho_db h)
     \<and> w_mandates w = mandates_of (ho_db h) \<and> row_map (w_attempts w) = attempts_of S (ho_db h)
     \<and> w_audit w = db_audit (ho_db h)
     \<and> w_requests w = w_requests (ho_local h) \<and> w_decisions w = w_decisions (ho_local h)
     \<and> w_provider w = w_provider (ho_local h)"

lemma table_frames [simp]:
  "mandates_of (db_audit_update f db) = mandates_of db"
  "mandates_of (db_attempts_update g db) = mandates_of db"
  "attempts_of S (db_audit_update f db) = attempts_of S db"
  "attempts_of S (db_mandates_update i db) = attempts_of S db"
  "attempts_written S (db_audit_update f db) = attempts_written S db"
  "attempts_written S (db_mandates_update i db) = attempts_written S db"
  by (auto simp: mandates_of_def attempts_of_def attempts_written_def fun_eq_iff)

text \<open>A change of the attempts the tables and the map make alike keeps the agreement.\<close>

lemma rel_sum_same: "fst r = fst q \<Longrightarrow> rel_sum some_failure (=) (fst r) (fst q)"
  by (cases "fst q") simp_all

lemma written_update:
  "attempts_written S db \<Longrightarrow> decode_attempt S (k, r) = Inr a \<Longrightarrow>
    attempts_written S (db_attempts_update (\<lambda>t. t(k \<mapsto> r)) db)"
  by (simp add: attempts_written_def)

lemma hosts_attempts:
  assumes "hosts S w h" and "decode_attempt S (k, r) = Inr a"
    and "row_map rows = (row_map (w_attempts w))(k \<mapsto> a)"
  shows "hosts S (w\<lparr>w_attempts := rows\<rparr>) (h\<lparr>ho_db := db_attempts_update (\<lambda>t. t(k \<mapsto> r)) (ho_db h)\<rparr>)"
  using assms by (simp add: hosts_def written_update attempts_of_change)

lemma attempt_insert_sim:
  assumes "ea_dispatch_boundary_at x = None"
  shows "simulates (hosts S) some_failure (at_attempts (attempt_insert x)) (at_db (pg_attempt_insert S x))"
proof (rule simulatesI)
  fix w h
  assume R: "hosts S w h"
  let ?k = "ea_attempt_id_hex x"
  have up: "db_down (ho_db h) = None" and none: "row_map (w_attempts w) ?k = None \<longleftrightarrow> db_attempts (ho_db h) ?k = None"
    using R by (auto simp: hosts_def attempts_of_None)
  have row: "decode_attempt S (?k, attempt_row_of x) = Inr x"
    using assms by simp
  show "rel_sum some_failure (=) (fst (at_attempts (attempt_insert x) w)) (fst (at_db (pg_attempt_insert S x) h))
    \<and> hosts S (snd (at_attempts (attempt_insert x) w)) (snd (at_db (pg_attempt_insert S x) h))"
    using R none hosts_attempts [OF R row]
    by (cases "?k = []"; cases "db_attempts (ho_db h) ?k")
      (simp_all add: pg_attempt_insert_run [OF up] attempt_insert_def insert_row_def)
qed

lemma attempt_update_sim:
  assumes "\<And>r a. decode_attempt S (k, r) = Inr a \<Longrightarrow> decode_attempt S (k, f r) = Inr (g a)"
    and "\<And>db. db_down db = None \<Longrightarrow> n db = (case db_attempts db k of None \<Rightarrow> (Inl e, db)
           | Some r \<Rightarrow> (Inr (), db_attempts_update (\<lambda>t. t(k \<mapsto> f r)) db))"
    and "\<And>s. m s = (case row_map s k of None \<Rightarrow> (Inl e', s)
           | Some a \<Rightarrow> (Inr (), s\<lparr>row_map := (row_map s)(k \<mapsto> g a)\<rparr>))"
  shows "simulates (hosts S) some_failure (at_attempts m) (at_db n)"
proof (rule simulatesI)
  fix w h
  assume R: "hosts S w h"
  then have up: "db_down (ho_db h) = None" and none: "row_map (w_attempts w) k = None \<longleftrightarrow> db_attempts (ho_db h) k = None"
    by (auto simp: hosts_def attempts_of_None)
  show "rel_sum some_failure (=) (fst (at_attempts m w)) (fst (at_db n h))
    \<and> hosts S (snd (at_attempts m w)) (snd (at_db n h))"
  proof (cases "db_attempts (ho_db h) k")
    case None
    with none R show ?thesis by (simp add: assms(2) [OF up] assms(3))
  next
    case (Some r)
    with R obtain a where a: "decode_attempt S (k, r) = Inr a"
      unfolding hosts_def attempts_written_def by blast
    with Some R have "row_map (w_attempts w) k = Some a" by (simp add: hosts_def attempts_of_def)
    with Some hosts_attempts [OF R assms(1) [OF a]] show ?thesis
      by (simp add: assms(2) [OF up] assms(3))
  qed
qed

lemma attempt_update_state_sim:
  "simulates (hosts S) some_failure (at_attempts (attempt_update_state k st)) (at_db (pg_attempt_update_state k st))"
  by (rule attempt_update_sim [OF decode_attempt_state])
    (auto simp: pg_attempt_update_state_def attempt_update_state_def attempt_not_found_def try_op_run sql_update_run
      split: option.split)

lemma attempt_update_deployment_sim:
  "simulates (hosts S) some_failure (at_attempts (attempt_update_deployment_id k d))
    (at_db (pg_attempt_update_deployment_id k d))"
  by (rule attempt_update_sim [OF decode_attempt_deployment])
    (auto simp: pg_attempt_update_deployment_id_def attempt_update_deployment_id_def attempt_not_found_def try_op_run
      sql_update_run split: option.split)

lemma mandate_cas_sim:
  assumes "e \<noteq> i64_max"
  shows "simulates (hosts S) some_failure (at_mandates (mandate_cas m e st)) (at_db (pg_mandate_cas S m e st))"
proof (rule simulatesI)
  fix w h
  assume R: "hosts S w h"
  then have up: "db_down (ho_db h) = None" and m: "w_mandates w = mandates_of (ho_db h)" by (simp_all add: hosts_def)
  show "rel_sum some_failure (=) (fst (at_mandates (mandate_cas m e st) w)) (fst (at_db (pg_mandate_cas S m e st) h))
    \<and> hosts S (snd (at_mandates (mandate_cas m e st) w)) (snd (at_db (pg_mandate_cas S m e st) h))"
    using R assms
    by (cases "db_mandates (ho_db h) m")
      (auto simp: pg_mandate_cas_run up mandate_cas_def m hosts_def mandates_of_def [of _ m])
qed

lemma audit_append_sim:
  "simulates (hosts S) some_failure (at_audit (audit_append ev)) (at_db (pg_audit_append ev))"
  by (rule simulatesI) (simp add: hosts_def pg_audit_append_def stmt_up add_audit_def)

lemma mandate_get_sim:
  "simulates (hosts S) some_failure (reading (\<lambda>w. mandate_get (w_mandates w) m)) (at_db (pg_mandate_get m))"
  by (rule simulatesI) (simp add: hosts_def pg_mandate_get_run mandate_get_def)

lemma request_get_sim:
  "simulates (hosts S) some_failure (reading (\<lambda>w. request_get (w_requests w) k))
    (at_local (reading (\<lambda>w. request_get (w_requests w) k)))"
  by (rule simulatesI) (simp add: hosts_def)

interpretation demo: ports_simulation memory_ports "demo_ports S" "hosts S"
  for S :: sql
  by unfold_locales
    (simp_all add: memory_ports_sel demo_ports_def request_get_sim mandate_get_sim mandate_cas_sim attempt_insert_sim
      attempt_update_state_sim attempt_update_deployment_sim audit_append_sim)

lemma hosted_call_sim:
  "simulates (hosts S) F (calling (logged_call m f key digest)) (calling (hosted_call m f key digest))"
  by (rule simulatesI) (simp add: hosts_def calling_def hosted_call_def logged_call_def add_call_def)

text \<open>The world a hosted state stands for.\<close>

definition world_of :: "sql \<Rightarrow> hosted \<Rightarrow> world" where
  "world_of S h =
     (ho_local h)\<lparr>w_mandates := mandates_of (ho_db h),
       w_attempts := \<lparr>row_map = attempts_of S (ho_db h), row_index = Map.empty\<rparr>, w_audit := db_audit (ho_db h)\<rparr>"

lemma hosts_world_of:
  "db_down (ho_db h) = None \<Longrightarrow> attempts_written S (ho_db h) \<Longrightarrow> hosts S (world_of S h) h"
  by (simp add: hosts_def world_of_def)

definition example_hosted :: hosted where
  "example_hosted = \<lparr>ho_local = example_ready, ho_db = example_db\<rparr>"

lemma hosts_example: "hosts S example_ready example_hosted"
  by (auto simp: hosts_def example_hosted_def example_db_def example_ready_def world_new_def empty_rows_def
      example_mandates_def mandate_insert_def mandates_of_def attempts_of_def attempts_written_def fun_eq_iff)

section \<open>Properties\<close>

text \<open>
  C9. The reserve-and-dispatch use case over the PostgreSQL stores refines the same use case over the stores in
  memory. From a database that answers and holds what the maps hold, a dispatch that does not reach the
  largest version gives the same answer, up to the wording of a store's failure, makes the same provider
  calls, and leaves a database that again holds what the maps hold.
\<close>

theorem postgres_dispatch_refines_memory:
  assumes "hosts S w h"
    and "da_expected_mandate_version a \<noteq> i64_max" and "da_expected_mandate_version a + 1 \<noteq> i64_max"
    and "reserve_and_dispatch E now later a f w = (r, w')"
    and "reserve_and_dispatch_with (demo_ports S) E now later a (hosted_call (da_mandate_id_hex a) f) h = (r', h')"
  shows "rel_sum same_failure (=) r r' \<and> hosts S w' h'"
proof -
  let ?m = "da_mandate_id_hex a"
  have "simulates (hosts S) same_failure
      (reserve_and_dispatch_with memory_ports E now later a (logged_call ?m f))
      (reserve_and_dispatch_with (demo_ports S) E now later a (hosted_call ?m f))"
    by (rule demo.dispatch_sim [OF assms(2,3)]) (rule hosted_call_sim)
  from simulatesD [OF this assms(1)] show ?thesis
    by (simp add: memory_reserve_and_dispatch assms(4,5))
qed

theorem postgres_dispatch_refines_memory_witness:
  "map_option mw_state (db_mandates (ho_db (snd (reserve_and_dispatch_with (demo_ports sql_ref) ext_ref 200 201
      example_args (hosted_call ''m'' (\<lambda>k g. Some 7)) example_hosted))) ''m'') = Some ''consumed''"
proof -
  let ?run = "reserve_and_dispatch_with (demo_ports sql_ref) ext_ref 200 201 example_args
    (hosted_call ''m'' (\<lambda>k g. Some 7)) example_hosted"
  let ?mem = "reserve_and_dispatch ext_ref 200 201 example_args (\<lambda>k g. Some 7) example_ready"
  have v: "da_expected_mandate_version example_args = 1" and m: "da_mandate_id_hex example_args = ''m''"
    by (simp_all add: example_args_def)
  have max: "da_expected_mandate_version example_args \<noteq> i64_max" "da_expected_mandate_version example_args + 1 \<noteq> i64_max"
    by (simp_all add: v i64_max_def)
  have h: "hosts sql_ref (snd ?mem) (snd ?run)"
    using postgres_dispatch_refines_memory [OF hosts_example max, of ext_ref 200 201 "\<lambda>k g. Some 7" "fst ?mem" "snd ?mem"
        sql_ref "fst ?run" "snd ?run"] by (simp add: m)
  have "mp_version \<lparr>mp_mandate_id_hex = ''m'', mp_version = 1, mp_state = ''issued''\<rparr> = da_expected_mandate_version example_args"
    by (simp add: v)
  note run = reserve_and_dispatch_granted [OF example_ready_facts(1,2) this example_ready_facts(3),
      of ext_ref 200 201 "\<lambda>k g. Some 7"]
  have "map_option mp_state (w_mandates (snd ?mem) ''m'') = Some ''consumed''"
    unfolding run by (simp add: Let_def dispatch_frame m)
  with h show ?thesis by (auto simp: hosts_def mandates_of_def)
qed

end
