(* ===== verification/Action_Ports.thy ===== *)
theory Action_Ports
  imports Simulation Action_Requests
begin

text \<open>
  The life cycle of an action request (\<^verbatim>\<open>crates/piteka-application/src/action_request.rs\<close>) over any
  \<open>ActionRequestPorts\<close>: the trait is a record of the store operations the use case calls. \<open>Action_Requests\<close>
  is its instance on the in-memory stores, and ports that simulate each other give life cycles that do.
\<close>

section \<open>The ports\<close>

record 's action_ports =
  ap_request_get :: "string \<Rightarrow> ('s, storage_error, action_request option) op"
  ap_request_insert :: "action_request \<Rightarrow> ('s, storage_error, unit) op"
  ap_request_cas :: "string \<Rightarrow> i64 \<Rightarrow> action_request_status \<Rightarrow> ('s, storage_error, cas_outcome) op"
  ap_decision_insert :: "approval_decision \<Rightarrow> ('s, storage_error, unit) op"
  ap_audit_append :: "audit_event \<Rightarrow> ('s, storage_error, unit) op"

type_synonym ('s, 'a) requested = "('s, action_request_error, 'a) op"

section \<open>The use case\<close>

definition propose_with ::
  "'s action_ports \<Rightarrow> u64 \<Rightarrow> string \<Rightarrow> user_id \<Rightarrow> string option \<Rightarrow> ('s, action_request) requested" where
  "propose_with P now request_id requested_by intent =
     (let request = \<lparr>ar_request_id = request_id, ar_requested_by = user_id_as_str requested_by,
                     ar_intent_id_hex = intent, ar_status = Pending, ar_created_at = now\<rparr> in
      try_op (map_err Storage (ap_request_insert P request)) (\<lambda>_.
      try_op (map_err Storage (ap_audit_append P
        \<lparr>ae_occurred_at = now, ae_actor = Some (user_id_as_str requested_by),
         ae_action = ''propose_action'', ae_decision = ''granted'',
         ae_detail = ''action request '' @ request_id @ '' proposed, intent='' @ debug_option intent\<rparr>))
      (\<lambda>_. ok request)))"

definition require_status_with ::
  "'s action_ports \<Rightarrow> string \<Rightarrow> action_request_status \<Rightarrow> string \<Rightarrow> ('s, action_request) requested" where
  "require_status_with P request_id required attempted =
     try_op (map_err Storage (ap_request_get P request_id)) (\<lambda>found.
       case found of
         None \<Rightarrow> fail (NotFound request_id)
       | Some request \<Rightarrow>
           if ar_status request \<noteq> required
           then fail (InvalidTransition (ar_status request) attempted)
           else ok request)"

definition updated_request_with :: "'s action_ports \<Rightarrow> string \<Rightarrow> ('s, action_request) requested" where
  "updated_request_with P request_id =
     try_op (map_err Storage (ap_request_get P request_id)) (\<lambda>found.
       case found of
         None \<Rightarrow> fail (Panicked ''CAS applied but request vanished'')
       | Some request \<Rightarrow> ok request)"

definition approve_commit_with ::
  "'s action_ports \<Rightarrow> u64 \<Rightarrow> string \<Rightarrow> user_id \<Rightarrow> string option \<Rightarrow> i64
   \<Rightarrow> ('s, action_request \<times> approval_decision) requested" where
  "approve_commit_with P now request_id approver intent expected =
     try_op (map_err Storage (ap_request_cas P request_id expected action_request_status.Approved)) (\<lambda>outcome.
       case outcome of
         Applied new_version \<Rightarrow>
           (let decision = \<lparr>ad_decision_id = ''dec-'' @ request_id, ad_request_id = request_id,
                            ad_decided_by = user_id_as_str approver, ad_decision = ''approved'',
                            ad_intent_id_hex = intent, ad_decided_at = now\<rparr> in
            try_op (map_err Storage (ap_decision_insert P decision)) (\<lambda>_.
            try_op (map_err Storage (ap_audit_append P
              \<lparr>ae_occurred_at = now, ae_actor = Some (user_id_as_str approver),
               ae_action = ''approve_action'', ae_decision = ''granted'',
               ae_detail = ''action request '' @ request_id @ '' approved by ''
                 @ user_id_as_str approver @ '', intent='' @ debug_option intent
                 @ '', version='' @ dec_i64 new_version\<rparr>)) (\<lambda>_.
            try_op (updated_request_with P request_id) (\<lambda>request. ok (request, decision)))))
       | cas_outcome.Conflict current \<Rightarrow> fail (Conflict expected current)
       | Missing \<Rightarrow> fail (NotFound request_id))"

definition approve_with ::
  "'s action_ports \<Rightarrow> u64 \<Rightarrow> string \<Rightarrow> user_id \<Rightarrow> string option \<Rightarrow> i64
   \<Rightarrow> ('s, action_request \<times> approval_decision) requested" where
  "approve_with P now request_id approver intent expected =
     try_op (require_status_with P request_id Pending ''approve'')
       (\<lambda>_. approve_commit_with P now request_id approver intent expected)"

definition reject_commit_with ::
  "'s action_ports \<Rightarrow> u64 \<Rightarrow> string \<Rightarrow> user_id \<Rightarrow> string option \<Rightarrow> i64
   \<Rightarrow> ('s, action_request \<times> approval_decision) requested" where
  "reject_commit_with P now request_id approver intent expected =
     try_op (map_err Storage (ap_request_cas P request_id expected action_request_status.Rejected)) (\<lambda>outcome.
       case outcome of
         Applied _ \<Rightarrow>
           (let decision = \<lparr>ad_decision_id = ''dec-'' @ request_id, ad_request_id = request_id,
                            ad_decided_by = user_id_as_str approver, ad_decision = ''rejected'',
                            ad_intent_id_hex = intent, ad_decided_at = now\<rparr> in
            try_op (map_err Storage (ap_decision_insert P decision)) (\<lambda>_.
            try_op (map_err Storage (ap_audit_append P
              \<lparr>ae_occurred_at = now, ae_actor = Some (user_id_as_str approver),
               ae_action = ''reject_action'', ae_decision = ''denied'',
               ae_detail = ''action request '' @ request_id @ '' rejected by ''
                 @ user_id_as_str approver\<rparr>)) (\<lambda>_.
            try_op (updated_request_with P request_id) (\<lambda>request. ok (request, decision)))))
       | cas_outcome.Conflict current \<Rightarrow> fail (Conflict expected current)
       | Missing \<Rightarrow> fail (NotFound request_id))"

definition reject_with ::
  "'s action_ports \<Rightarrow> u64 \<Rightarrow> string \<Rightarrow> user_id \<Rightarrow> string option \<Rightarrow> i64
   \<Rightarrow> ('s, action_request \<times> approval_decision) requested" where
  "reject_with P now request_id approver intent expected =
     try_op (require_status_with P request_id Pending ''reject'')
       (\<lambda>_. reject_commit_with P now request_id approver intent expected)"

definition revoke_commit_with ::
  "'s action_ports \<Rightarrow> u64 \<Rightarrow> string \<Rightarrow> user_id \<Rightarrow> i64 \<Rightarrow> ('s, action_request) requested" where
  "revoke_commit_with P now request_id approver expected =
     try_op (map_err Storage (ap_request_cas P request_id expected action_request_status.Revoked)) (\<lambda>outcome.
       case outcome of
         Applied _ \<Rightarrow>
           try_op (map_err Storage (ap_audit_append P
             \<lparr>ae_occurred_at = now, ae_actor = Some (user_id_as_str approver),
              ae_action = ''revoke_mandate'', ae_decision = ''granted'',
              ae_detail = ''action request '' @ request_id @ '' revoked by ''
                @ user_id_as_str approver\<rparr>)) (\<lambda>_.
           updated_request_with P request_id)
       | cas_outcome.Conflict current \<Rightarrow> fail (Conflict expected current)
       | Missing \<Rightarrow> fail (NotFound request_id))"

definition revoke_with ::
  "'s action_ports \<Rightarrow> u64 \<Rightarrow> string \<Rightarrow> user_id \<Rightarrow> i64 \<Rightarrow> ('s, action_request) requested" where
  "revoke_with P now request_id approver expected =
     try_op (require_status_with P request_id action_request_status.Approved ''revoke'')
       (\<lambda>_. revoke_commit_with P now request_id approver expected)"

section \<open>The in-memory ports\<close>

definition memory_action_ports :: "world action_ports" where
  "memory_action_ports =
     \<lparr>ap_request_get = (\<lambda>k. reading (\<lambda>w. request_get (w_requests w) k)),
      ap_request_insert = (\<lambda>r. at_requests (request_insert r)),
      ap_request_cas = (\<lambda>k e st. at_requests (request_cas k e st)),
      ap_decision_insert = (\<lambda>d. at_decisions (decision_insert d)),
      ap_audit_append = (\<lambda>e. at_audit (audit_append e))\<rparr>"

lemma memory_action_sel:
  "ap_request_get memory_action_ports = (\<lambda>k. reading (\<lambda>w. request_get (w_requests w) k))"
  "ap_request_insert memory_action_ports = (\<lambda>r. at_requests (request_insert r))"
  "ap_request_cas memory_action_ports = (\<lambda>k e st. at_requests (request_cas k e st))"
  "ap_decision_insert memory_action_ports = (\<lambda>d. at_decisions (decision_insert d))"
  "ap_audit_append memory_action_ports = (\<lambda>e. at_audit (audit_append e))"
  by (simp_all add: memory_action_ports_def)

lemmas memory_action_run = memory_action_sel map_err_reading

lemma memory_propose: "propose_with memory_action_ports = propose"
  unfolding propose_with_def propose_def memory_action_run by (rule refl)

lemma memory_approve: "approve_with memory_action_ports = approve"
  unfolding approve_with_def approve_def approve_commit_with_def approve_commit_def require_status_with_def
    require_status_def updated_request_with_def updated_request_def memory_action_run by (rule refl)

lemma memory_reject: "reject_with memory_action_ports = reject"
  unfolding reject_with_def reject_def reject_commit_with_def reject_commit_def require_status_with_def
    require_status_def updated_request_with_def updated_request_def memory_action_run by (rule refl)

lemma memory_revoke: "revoke_with memory_action_ports = revoke"
  unfolding revoke_with_def revoke_def revoke_commit_with_def revoke_commit_def require_status_with_def
    require_status_def updated_request_with_def updated_request_def memory_action_run by (rule refl)

section \<open>Two families of ports\<close>

definition same_request_failure :: "action_request_error \<Rightarrow> action_request_error \<Rightarrow> bool" where
  "same_request_failure e e' \<longleftrightarrow> e = e' \<or> (\<exists>x y. e = Storage x \<and> e' = Storage y)"

lemma same_request_failure_simps [simp]: "same_request_failure e e" "same_request_failure (Storage x) (Storage y)"
  by (simp_all add: same_request_failure_def)

locale action_simulation =
  fixes P :: "'s action_ports" and Q :: "'t action_ports" and R :: "'s \<Rightarrow> 't \<Rightarrow> bool"
  assumes request_get: "simulates R some_failure (ap_request_get P k) (ap_request_get Q k)"
    and request_insert: "simulates R some_failure (ap_request_insert P r) (ap_request_insert Q r)"
    and request_cas: "simulates R some_failure (ap_request_cas P k e st) (ap_request_cas Q k e st)"
    and decision_insert: "simulates R some_failure (ap_decision_insert P d) (ap_decision_insert Q d)"
    and audit_append: "simulates R some_failure (ap_audit_append P ev) (ap_audit_append Q ev)"
begin

lemmas store_sim = request_get request_insert request_cas decision_insert audit_append

lemma stored_sim:
  "simulates R some_failure m n \<Longrightarrow> simulates R same_request_failure (map_err Storage m) (map_err Storage n)"
  by (rule sim_map_err) simp_all

lemmas step_sim = sim stored_sim store_sim same_request_failure_simps

lemma propose_sim: "simulates R same_request_failure (propose_with P now k u i) (propose_with Q now k u i)"
  unfolding propose_with_def Let_def by (intro step_sim)

lemma require_status_sim:
  "simulates R same_request_failure (require_status_with P k st what) (require_status_with Q k st what)"
  unfolding require_status_with_def by (intro step_sim)

lemma updated_request_sim:
  "simulates R same_request_failure (updated_request_with P k) (updated_request_with Q k)"
  unfolding updated_request_with_def by (intro step_sim)

lemma approve_sim: "simulates R same_request_failure (approve_with P now k u i e) (approve_with Q now k u i e)"
  unfolding approve_with_def approve_commit_with_def Let_def
  by (intro step_sim require_status_sim updated_request_sim)

lemma reject_sim: "simulates R same_request_failure (reject_with P now k u i e) (reject_with Q now k u i e)"
  unfolding reject_with_def reject_commit_with_def Let_def
  by (intro step_sim require_status_sim updated_request_sim)

lemma revoke_sim: "simulates R same_request_failure (revoke_with P now k u e) (revoke_with Q now k u e)"
  unfolding revoke_with_def revoke_commit_with_def
  by (intro step_sim require_status_sim updated_request_sim)

end

end
