(* ===== verification/Demo_Postgres.thy ===== *)
theory Demo_Postgres
  imports Controlled_Demo Dispatch_Postgres Action_Ports
begin

text \<open>
  The whole run of \<^verbatim>\<open>src/bin/controlled_demo_flow.rs\<close> on the stores it uses: requests and decisions in the
  process, everything else in PostgreSQL. It is the run of \<open>Controlled_Demo\<close> with the use cases on
  \<open>DemoPorts\<close>, and simulates it.
\<close>

section \<open>The state and the ports\<close>

record hosted_demo =
  hd_hosted :: hosted
  hd_wire :: gh_wire
  hd_journals :: "string \<rightharpoonup> demo_journal"

abbreviation at_hosted :: "(hosted, 'e, 'a) op \<Rightarrow> (hosted_demo, 'e, 'a) op" where
  "at_hosted \<equiv> on hd_hosted hd_hosted_update"

abbreviation at_hosted_wire :: "(gh_wire, 'e, 'a) op \<Rightarrow> (hosted_demo, 'e, 'a) op" where
  "at_hosted_wire \<equiv> on hd_wire hd_wire_update"

definition demo_action_ports :: "hosted action_ports" where
  "demo_action_ports =
     \<lparr>ap_request_get = (\<lambda>k. at_local (reading (\<lambda>w. request_get (w_requests w) k))),
      ap_request_insert = (\<lambda>r. at_local (at_requests (request_insert r))),
      ap_request_cas = (\<lambda>k e st. at_local (at_requests (request_cas k e st))),
      ap_decision_insert = (\<lambda>d. at_local (at_decisions (decision_insert d))),
      ap_audit_append = (\<lambda>e. at_db (pg_audit_append e))\<rparr>"

section \<open>The run\<close>

definition pg_demo_authorize :: "sql \<Rightarrow> outside \<Rightarrow> demo_plan \<Rightarrow> (hosted, demo_error, unit) op" where
  "pg_demo_authorize S X p =
     try_op (lift_result (map_error Identity (user_id_new ''demo-requester''))) (\<lambda>requester.
     try_op (map_err RequestFailed
       (propose_with demo_action_ports (ou_clock X 0) (dp_request_id p) requester (Some (dp_intent_id p)))) (\<lambda>_.
     try_op (lift_result (map_error Identity (user_id_new ''demo-approver''))) (\<lambda>approver.
     try_op (map_err RequestFailed
       (approve_with demo_action_ports (ou_clock X 1) (dp_request_id p) approver (Some (dp_intent_id p)) 1)) (\<lambda>_.
     map_err StoreFailed (at_db (pg_mandate_insert S (dp_mandate_id p) ''issued''))))))"

definition pg_demo_reserve :: "sql \<Rightarrow> outside \<Rightarrow> demo_plan \<Rightarrow> (hosted, demo_error, dispatched) op" where
  "pg_demo_reserve S X p =
     try_op (map_err DispatchError (reserve_with (demo_ports S) (ou_clock X 2) (demo_args p))) (\<lambda>reserved.
       case reserved of
         Dispatched value \<Rightarrow> ok value
       | other \<Rightarrow> fail (NotDispatched other))"

definition pg_demo_complete ::
  "sql \<Rightarrow> outside \<Rightarrow> demo_plan \<Rightarrow> dispatched \<Rightarrow> u64 option \<Rightarrow> (hosted, demo_error, unit) op" where
  "pg_demo_complete S X p d deployment =
     map_err DispatchError (complete_dispatch_with (demo_ports S) (ou_clock X 5) (di_attempt_id_hex d)
       (dp_mandate_id p) (deployment \<noteq> None) deployment ''piteka-controlled-demo'' 2)"

definition pg_demo_write_journal ::
  "sql \<Rightarrow> ext \<Rightarrow> outside \<Rightarrow> demo_plan \<Rightarrow> dispatched \<Rightarrow> bytes \<Rightarrow> deployment_created
   \<Rightarrow> (hosted_demo, demo_error, unit) op" where
  "pg_demo_write_journal S E X p d attempt_digest created =
     try_op (map_err StoreFailed (at_hosted (at_db (pg_mandate_get (dp_mandate_id p))))) (\<lambda>mandate.
     case mandate of
       None \<Rightarrow> fail (Text ''mandate disappeared'')
     | Some mandate \<Rightarrow>
     try_op (map_err StoreFailed (at_hosted (at_db (pg_attempt_get S (di_attempt_id_hex d))))) (\<lambda>attempt.
     case attempt of
       None \<Rightarrow> fail (Text ''attempt disappeared'')
     | Some attempt \<Rightarrow>
     try_op (lift_result (required X ''PITEKA_DEMO_JOURNAL'')) (\<lambda>path.
     case ou_write_error X of
       Some e \<Rightarrow> fail (Text e)
     | None \<Rightarrow>
         (\<lambda>s. (Inr (), s\<lparr>hd_journals := (hd_journals s)(path \<mapsto>
            \<lparr>dj_run_id = dp_run_id p, dj_request_id = dp_request_id p, dj_request_status = ''approved'',
             dj_approver = ''demo-approver'', dj_intent_id = dp_intent_id p, dj_mandate_id = dp_mandate_id p,
             dj_mandate_state = mp_state mandate, dj_mandate_version = mp_version mandate,
             dj_attempt_id = ea_attempt_id_hex attempt, dj_attempt_state = ea_state attempt,
             dj_attempt_digest = ext_hex_encode E attempt_digest,
             dj_github_deployment_id = dc_deployment_id created, dj_github_deployment_url = dc_url created,
             dj_repository = dp_repository p, dj_commit_sha = dp_commit_sha p,
             dj_environment = dp_environment p\<rparr>)\<rparr>)))))"

definition pg_demo_execute ::
  "sql \<Rightarrow> ext \<Rightarrow> gh_tools \<Rightarrow> outside \<Rightarrow> demo_plan \<Rightarrow> dispatched \<Rightarrow> (hosted_demo, demo_error, unit) op" where
  "pg_demo_execute S E T X p d =
     (let attempt_digest = compute_attempt_digest E (di_attempt_id_hex d) (dp_mandate_id p) (dp_intent_id p) in
      try_op (lift_result (demo_adapter X p)) (\<lambda>target.
      try_op (at_hosted_wire (demo_print_webhook_url T X (dt_adapter target))) (\<lambda>_.
      try_op (at_hosted_wire (demo_deploy E T X p target attempt_digest)) (\<lambda>answer.
      case answer of
        Inr created \<Rightarrow>
          try_op (at_hosted (pg_demo_complete S X p d (Some (dc_deployment_id created)))) (\<lambda>_.
          pg_demo_write_journal S E X p d attempt_digest created)
      | Inl error \<Rightarrow>
          try_op (at_hosted (pg_demo_complete S X p d None)) (\<lambda>_. fail (GitHubFailed error))))))"

definition pg_demo_flow :: "sql \<Rightarrow> ext \<Rightarrow> gh_tools \<Rightarrow> outside \<Rightarrow> (hosted_demo, demo_error, unit) op" where
  "pg_demo_flow S E T X =
     try_op (lift_result (demo_plan_of E X)) (\<lambda>p.
     try_op (lift_result (required X ''DATABASE_URL'')) (\<lambda>database_url.
     try_op (lift_result (map_error Text (ou_connect X database_url))) (\<lambda>_.
     try_op (at_hosted (pg_demo_authorize S X p)) (\<lambda>_.
     try_op (at_hosted (pg_demo_reserve S X p)) (\<lambda>d.
     pg_demo_execute S E T X p d)))))"

section \<open>Agreement\<close>

definition demo_hosts :: "sql \<Rightarrow> demo_state \<Rightarrow> hosted_demo \<Rightarrow> bool" where
  "demo_hosts S s t \<longleftrightarrow>
     hosts S (dm_world s) (hd_hosted t) \<and> dm_wire s = hd_wire t \<and> dm_journals s = hd_journals t"

text \<open>Two runs fail alike, up to the words of a store's failure.\<close>

fun same_demo_failure :: "demo_error \<Rightarrow> demo_error \<Rightarrow> bool" where
  "same_demo_failure (StoreFailed _) (StoreFailed _) = True"
| "same_demo_failure (RequestFailed e) (RequestFailed e') = same_request_failure e e'"
| "same_demo_failure (DispatchError e) (DispatchError e') = same_failure e e'"
| "same_demo_failure e e' = (e = e')"

lemma same_demo_failure_refl [simp]: "same_demo_failure e e"
  by (cases e) simp_all

interpretation demo_actions: action_simulation memory_action_ports demo_action_ports "hosts S"
  for S :: sql
proof unfold_locales
  show "simulates (hosts S) some_failure (ap_request_get memory_action_ports k) (ap_request_get demo_action_ports k)" for k
    by (simp add: memory_action_sel demo_action_ports_def request_get_sim)
  show "simulates (hosts S) some_failure (ap_audit_append memory_action_ports ev) (ap_audit_append demo_action_ports ev)" for ev
    by (simp add: memory_action_sel demo_action_ports_def audit_append_sim)
  show "simulates (hosts S) some_failure (ap_request_insert memory_action_ports r) (ap_request_insert demo_action_ports r)" for r
    by (rule simulatesI) (simp add: memory_action_sel demo_action_ports_def hosts_def sum.rel_refl)
  show "simulates (hosts S) some_failure (ap_request_cas memory_action_ports k e st) (ap_request_cas demo_action_ports k e st)" for k e st
    by (rule simulatesI) (simp add: memory_action_sel demo_action_ports_def hosts_def sum.rel_refl)
  show "simulates (hosts S) some_failure (ap_decision_insert memory_action_ports d) (ap_decision_insert demo_action_ports d)" for d
    by (rule simulatesI) (simp add: memory_action_sel demo_action_ports_def hosts_def sum.rel_refl)
qed

lemma mandate_insert_sim:
  "simulates (hosts S) some_failure (at_mandates (mandate_insert m st)) (at_db (pg_mandate_insert S m st))"
  by (rule simulatesI) (auto simp: hosts_def pg_mandate_insert_run mandate_insert_def)

lemma attempt_get_sim:
  "simulates (hosts S) some_failure (reading (\<lambda>w. attempt_get (w_attempts w) k)) (at_db (pg_attempt_get S k))"
proof (rule simulatesI)
  fix w h
  assume R: "hosts S w h"
  then have "db_down (ho_db h) = None" by (simp add: hosts_def)
  from R pg_attempt_get_run [OF this, of S k]
  show "rel_sum some_failure (=) (fst (reading (\<lambda>w. attempt_get (w_attempts w) k) w)) (fst (at_db (pg_attempt_get S k) h))
    \<and> hosts S (snd (reading (\<lambda>w. attempt_get (w_attempts w) k) w)) (snd (at_db (pg_attempt_get S k) h))"
    by (cases "db_attempts (ho_db h) k")
      (fastforce simp: hosts_def attempt_get_def row_get_def attempts_of_def attempts_written_def)+
qed

lemma lift_result_sim: "simulates R same_demo_failure (lift_result r) (lift_result r)"
  by (rule simulatesI) (cases r; simp)

lemma at_world_sim: "simulates (hosts S) F m n \<Longrightarrow> simulates (demo_hosts S) F (at_world m) (at_hosted n)"
  by (rule simulatesI) (auto simp: demo_hosts_def dest: simulatesD)

lemma at_wire_sim: "simulates (demo_hosts S) same_demo_failure (at_wire m) (at_hosted_wire m)"
  by (rule simulatesI) (simp add: demo_hosts_def sum.rel_refl)

section \<open>The steps of the run\<close>

lemma request_failed_sim:
  "simulates R same_request_failure m n \<Longrightarrow> simulates R same_demo_failure (map_err RequestFailed m) (map_err RequestFailed n)"
  by (rule sim_map_err) simp_all

lemma dispatch_failed_sim:
  "simulates R same_failure m n \<Longrightarrow> simulates R same_demo_failure (map_err DispatchError m) (map_err DispatchError n)"
  by (rule sim_map_err) simp_all

lemma store_failed_sim:
  "simulates R some_failure m n \<Longrightarrow> simulates R same_demo_failure (map_err StoreFailed m) (map_err StoreFailed n)"
  by (rule sim_map_err) simp_all

lemma authorize_sim: "simulates (hosts S) same_demo_failure (demo_authorize X p) (pg_demo_authorize S X p)"
  unfolding demo_authorize_def pg_demo_authorize_def
  by (intro sim_try lift_result_sim request_failed_sim store_failed_sim mandate_insert_sim
      demo_actions.propose_sim [unfolded memory_propose] demo_actions.approve_sim [unfolded memory_approve])

lemma demo_reserve_sim: "simulates (hosts S) same_demo_failure (demo_reserve X p) (pg_demo_reserve S X p)"
  unfolding demo_reserve_def pg_demo_reserve_def
proof (intro sim_try dispatch_failed_sim)
  have "da_expected_mandate_version (demo_args p) \<noteq> i64_max"
    by (simp add: demo_args_def i64_max_def)
  from demo.reserve_sim [OF this]
  show "simulates (hosts S) same_failure (reserve (ou_clock X 2) (demo_args p))
      (reserve_with (demo_ports S) (ou_clock X 2) (demo_args p))"
    by (simp add: memory_reserve)
  show "simulates (hosts S) same_demo_failure
      (case reserved of Dispatched value \<Rightarrow> ok value | other \<Rightarrow> fail (NotDispatched other))
      (case reserved of Dispatched value \<Rightarrow> ok value | other \<Rightarrow> fail (NotDispatched other))" for reserved
    by (cases reserved) (simp_all add: sim_ok sim_fail)
qed

lemma demo_complete_sim:
  "simulates (hosts S) same_demo_failure (demo_complete X p d deployment) (pg_demo_complete S X p d deployment)"
  unfolding demo_complete_def pg_demo_complete_def
  by (intro dispatch_failed_sim demo.complete_sim [unfolded memory_complete]) (simp add: i64_max_def)

lemma map_err_on: "map_err f (on get upd m) = on get upd (map_err f m)"
  by (rule ext) (simp add: map_err_eq on_eq)

lemma journal_read_sim:
  assumes "simulates (hosts S) some_failure (reading g) n"
  shows "simulates (demo_hosts S) same_demo_failure (reading (\<lambda>s. g (dm_world s))) (map_err StoreFailed (at_hosted n))"
proof -
  have "reading (\<lambda>s. g (dm_world s)) = map_err StoreFailed (at_world (reading g))"
    by (rule ext) (simp add: map_err_eq on_eq)
  then show ?thesis by (simp add: store_failed_sim at_world_sim assms)
qed

lemma write_journal_sim:
  "simulates (demo_hosts S) same_demo_failure (demo_write_journal E X p d digest created)
    (pg_demo_write_journal S E X p d digest created)"
  unfolding demo_write_journal_def pg_demo_write_journal_def
proof (intro sim_try sim_option journal_read_sim mandate_get_sim attempt_get_sim lift_result_sim sim_fail
    same_demo_failure_refl)
  show "simulates (demo_hosts S) same_demo_failure (\<lambda>s. (Inr (), s\<lparr>dm_journals := (dm_journals s)(path \<mapsto> j)\<rparr>))
      (\<lambda>s. (Inr (), s\<lparr>hd_journals := (hd_journals s)(path \<mapsto> j)\<rparr>))" for path j
    by (rule simulatesI) (simp add: demo_hosts_def)
qed

lemma demo_execute_sim:
  "simulates (demo_hosts S) same_demo_failure (demo_execute E T X p d) (pg_demo_execute S E T X p d)"
  unfolding demo_execute_def pg_demo_execute_def Let_def
proof (intro sim_try lift_result_sim at_wire_sim)
  fix target :: demo_target and answer :: "github_app_error + deployment_created"
  let ?digest = "compute_attempt_digest E (di_attempt_id_hex d) (dp_mandate_id p) (dp_intent_id p)"
  show "simulates (demo_hosts S) same_demo_failure
      (case answer of
         Inr created \<Rightarrow> try_op (at_world (demo_complete X p d (Some (dc_deployment_id created))))
           (\<lambda>_. demo_write_journal E X p d ?digest created)
       | Inl error \<Rightarrow> try_op (at_world (demo_complete X p d None)) (\<lambda>_. fail (GitHubFailed error)))
      (case answer of
         Inr created \<Rightarrow> try_op (at_hosted (pg_demo_complete S X p d (Some (dc_deployment_id created))))
           (\<lambda>_. pg_demo_write_journal S E X p d ?digest created)
       | Inl error \<Rightarrow> try_op (at_hosted (pg_demo_complete S X p d None)) (\<lambda>_. fail (GitHubFailed error)))"
    by (cases answer)
      (auto intro!: sim_try at_world_sim demo_complete_sim write_journal_sim sim_fail)
qed

text \<open>The demo on PostgreSQL is the demo of \<open>Controlled_Demo\<close>.\<close>

lemma demo_flow_sim: "simulates (demo_hosts S) same_demo_failure (demo_flow E T X) (pg_demo_flow S E T X)"
  unfolding demo_flow_def pg_demo_flow_def
  by (intro sim_try lift_result_sim at_world_sim authorize_sim demo_reserve_sim demo_execute_sim)

section \<open>Runs\<close>

text \<open>The next run is another process on the same database: it starts with no requests and no decisions.\<close>

definition pg_restart :: "hosted_demo \<Rightarrow> hosted_demo" where
  "pg_restart t =
     (let h = hd_hosted t; w = ho_local h in
      t\<lparr>hd_hosted := h\<lparr>ho_local := w\<lparr>w_requests := w_requests world_new, w_decisions := w_decisions world_new\<rparr>\<rparr>\<rparr>)"

text \<open>How many of the runs send GitHub anything.\<close>

fun pg_sending_runs :: "sql \<Rightarrow> ext \<Rightarrow> gh_tools \<Rightarrow> outside list \<Rightarrow> hosted_demo \<Rightarrow> nat" where
  "pg_sending_runs S E T [] t = 0"
| "pg_sending_runs S E T (X # Xs) t =
     (let t' = snd (pg_demo_flow S E T X (pg_restart t)) in
      (if hd_wire t' = hd_wire t then 0 else 1) + pg_sending_runs S E T Xs t')"

definition demo_of :: "sql \<Rightarrow> hosted_demo \<Rightarrow> demo_state" where
  "demo_of S t = \<lparr>dm_world = world_of S (hd_hosted t), dm_wire = hd_wire t, dm_journals = hd_journals t\<rparr>"

lemma demo_hosts_of:
  "db_down (ho_db (hd_hosted t)) = None \<Longrightarrow> attempts_written S (ho_db (hd_hosted t)) \<Longrightarrow> demo_hosts S (demo_of S t) t"
  by (simp add: demo_hosts_def demo_of_def hosts_world_of)

lemma demo_hosts_restart: "demo_hosts S s t \<Longrightarrow> demo_hosts S (restart s) (pg_restart t)"
  by (simp add: demo_hosts_def restart_def pg_restart_def hosts_def Let_def)

lemma pg_sending_runs_eq: "demo_hosts S s t \<Longrightarrow> pg_sending_runs S E T Xs t = sending_runs E T Xs s"
proof (induction Xs arbitrary: s t)
  case (Cons X Xs)
  let ?s = "snd (demo_flow E T X (restart s))" and ?t = "snd (pg_demo_flow S E T X (pg_restart t))"
  have "demo_hosts S ?s ?t"
    using simulatesD [OF demo_flow_sim demo_hosts_restart [OF Cons.prems]] by blast
  with Cons show ?case by (simp add: Let_def) (simp add: demo_hosts_def)
qed simp

section \<open>Properties\<close>

text \<open>
  C2. However often the demo is run on one database for one repository, commit, environment and run id, with
  any keys, clocks, failures and answers of GitHub, in a new process every time: at most one of the
  runs sends GitHub anything, because the mandate it must insert first outlives the process.
\<close>

theorem postgres_demo_sends_once:
  assumes "hex_laws E" and "sha256_laws E" and "\<forall>X \<in> set Xs. \<forall>q. demo_plan_of E X = Inr q \<longrightarrow> q = p"
    and "db_down (ho_db (hd_hosted t)) = None" and "attempts_written S (ho_db (hd_hosted t))"
  shows "pg_sending_runs S E T Xs t \<le> 1
    \<and> (db_mandates (ho_db (hd_hosted t)) (dp_mandate_id p) \<noteq> None \<longrightarrow> pg_sending_runs S E T Xs t = 0)"
proof -
  note runs = pg_sending_runs_eq [OF demo_hosts_of [OF assms(4,5)], of E T Xs]
  note once = demo_sends_once [OF assms(1-3), of T "demo_of S t"]
  have "dp_mandate_id p \<in> dom (w_mandates (dm_world (demo_of S t)))"
    if "db_mandates (ho_db (hd_hosted t)) (dp_mandate_id p) \<noteq> None"
    using that by (auto simp: demo_of_def world_of_def mandates_of_def)
  with once taken_mandate_silences [OF assms(1-3)] show ?thesis by (auto simp: runs)
qed

definition example_demo :: hosted_demo where
  "example_demo =
     \<lparr>hd_hosted = \<lparr>ho_local = world_new, ho_db = example_db\<lparr>db_mandates := Map.empty\<rparr>\<rparr>,
      hd_wire = dm_wire example_state, hd_journals = Map.empty\<rparr>"

lemma example_demo_facts:
  "db_down (ho_db (hd_hosted example_demo)) = None" "attempts_written S (ho_db (hd_hosted example_demo))"
  "db_mandates (ho_db (hd_hosted example_demo)) m = None" "attempts_of S (ho_db (hd_hosted example_demo)) k = None"
  by (simp_all add: example_demo_def example_db_def attempts_written_def attempts_of_def)

theorem postgres_demo_sends_once_witness:
  "pg_sending_runs sql_ref ext_ref example_tools [example_outside example_env, example_outside without_key]
     example_demo \<le> 1"
  using postgres_demo_sends_once [OF hex_laws_ref sha256_laws_ref _ example_demo_facts(1,2),
      of "[example_outside example_env, example_outside without_key]" example_plan sql_ref example_tools] by simp

text \<open>
  C5. A first run in full, once its adapter can be built. When \<open>PITEKA_PRINT_WEBHOOK_URL\<close> is \<open>1\<close> the run asks GitHub
  for the webhook address first, and if that fails it ends with that error, the mandate reserved and the
  attempt dispatching, and creates no deployment; otherwise nothing is sent for it. Then GitHub is called
  exactly as the adapter's \<open>create_deployment\<close> calls it, for the configured target, with the digest of this attempt.
  When it answers with a deployment, the database has the mandate consumed and the attempt accepted with that id; the run
  succeeds and writes a journal that says so, or fails only because the journal has no path or cannot be
  written. When it answers with an error, the run ends with that error, the database has the mandate
  quarantined and the attempt ambiguous, and no journal is written.
\<close>

theorem postgres_demo_outcome:
  assumes "hex_laws E" and "sha256_laws E" and "demo_plan_of E X = Inr p" and "connects X"
    and "db_down (ho_db (hd_hosted t)) = None" and "attempts_written S (ho_db (hd_hosted t))"
    and "db_mandates (ho_db (hd_hosted t)) (dp_mandate_id p) = None"
    and "attempts_of S (ho_db (hd_hosted t)) (attempt_id_of (dp_mandate_id p)) = None"
    and "demo_adapter X p = Inr g"
  shows "case demo_print_webhook_url T X (dt_adapter g) (hd_wire t) of (shown, wire0) \<Rightarrow>
    case demo_call E T X p (dt_adapter g) wire0 of (x, wire) \<Rightarrow>
    case pg_demo_flow S E T X (pg_restart t) of (r, t') \<Rightarrow>
      let row = db_mandates (ho_db (hd_hosted t')) (dp_mandate_id p);
          attempt = map_option (\<lambda>a. (ea_state a, ea_github_deployment_id a))
            (attempts_of S (ho_db (hd_hosted t')) (attempt_id_of (dp_mandate_id p))) in
      (ou_env X ''PITEKA_PRINT_WEBHOOK_URL'' \<noteq> Some ''1'' \<longrightarrow> shown = Inr () \<and> wire0 = hd_wire t)
      \<and> (case shown of
        Inl e \<Rightarrow> r = Inl e \<and> hd_wire t' = wire0 \<and> row = Some \<lparr>mw_version = 2, mw_state = ''reserved''\<rparr>
          \<and> attempt = Some (Dispatching, None) \<and> hd_journals t' = hd_journals t
      | Inr _ \<Rightarrow> hd_wire t' = wire
      \<and> (case x of
           Inr c \<Rightarrow> row = Some \<lparr>mw_version = 3, mw_state = ''consumed''\<rparr>
             \<and> attempt = Some (Accepted, Some (dc_deployment_id c))
             \<and> (case (ou_env X ''PITEKA_DEMO_JOURNAL'', ou_write_error X) of
                  (Some path, None) \<Rightarrow> r = Inr () \<and> (\<exists>j. hd_journals t' = (hd_journals t)(path \<mapsto> j)
                    \<and> dj_mandate_state j = ''consumed'' \<and> dj_attempt_state j = Accepted
                    \<and> dj_github_deployment_id j = dc_deployment_id c \<and> dj_intent_id j = dp_intent_id p)
                | _ \<Rightarrow> (\<exists>e. r = Inl e) \<and> hd_journals t' = hd_journals t)
         | Inl e \<Rightarrow> r = Inl (GitHubFailed e) \<and> row = Some \<lparr>mw_version = 3, mw_state = ''quarantined''\<rparr>
             \<and> attempt = Some (OutcomeAmbiguous, None) \<and> hd_journals t' = hd_journals t))"
proof -
  let ?s = "demo_of S t"
  have s: "demo_hosts S ?s t" using assms(5,6) by (rule demo_hosts_of)
  have start: "w_mandates (dm_world ?s) (dp_mandate_id p) = None"
    "row_map (w_attempts (dm_world ?s)) (attempt_id_of (dp_mandate_id p)) = None"
    "dm_wire ?s = hd_wire t" "dm_journals ?s = hd_journals t"
    using assms(7,8) by (simp_all add: demo_of_def world_of_def mandates_of_def)
  obtain shown wire0 where print: "demo_print_webhook_url T X (dt_adapter g) (hd_wire t) = (shown, wire0)" by fastforce
  obtain x wire where call: "demo_call E T X p (dt_adapter g) wire0 = (x, wire)" by fastforce
  obtain q s' where mem: "demo_flow E T X (restart ?s) = (q, s')" by fastforce
  obtain r t' where run: "pg_demo_flow S E T X (pg_restart t) = (r, t')" by fastforce
  note outcome = demo_flow_outcome [OF assms(1-4) start(1,2) assms(9), of T, unfolded start print prod.case call mem]
  have q: "rel_sum same_demo_failure (=) q r" and t': "demo_hosts S s' t'"
    using simulatesD [OF demo_flow_sim demo_hosts_restart [OF s], of E T X] by (simp_all add: mem run)
  have frame: "hd_wire t' = dm_wire s'" "hd_journals t' = dm_journals s'"
    "map_option (\<lambda>a. (ea_state a, ea_github_deployment_id a))
      (attempts_of S (ho_db (hd_hosted t')) (attempt_id_of (dp_mandate_id p))) = attempt_row s' p"
    using t' by (simp_all add: demo_hosts_def hosts_def attempt_row_def)
  have row: "mandate_row s' p = Some (st, v) \<longleftrightarrow>
      db_mandates (ho_db (hd_hosted t')) (dp_mandate_id p) = Some \<lparr>mw_version = v, mw_state = st\<rparr>" for st v
    using t' by (auto simp: mandate_row_def demo_hosts_def hosts_def mandates_of_def)
  have quiet: "ou_env X ''PITEKA_PRINT_WEBHOOK_URL'' \<noteq> Some ''1'' \<longrightarrow> shown = Inr () \<and> wire0 = hd_wire t"
    using demo_print_quiet [of X T "dt_adapter g" "hd_wire t"] by (auto simp: print)
  have wire_error: "\<exists>f. e = GitHubFailed f" if "shown = Inl e" for e
    using print that by (auto simp: demo_print_webhook_url_def try_op_eq map_err_eq split: sum.splits if_splits)
  have failed: "q = Inl (GitHubFailed e) \<longleftrightarrow> r = Inl (GitHubFailed e)" "(\<exists>e. q = Inl e) \<longleftrightarrow> (\<exists>e. r = Inl e)"
    "q = Inr () \<longleftrightarrow> r = Inr ()" for e
    using q by (auto elim!: rel_sum.cases elim: same_demo_failure.elims)
  show ?thesis
  proof (cases shown)
    case (Inl e)
    with wire_error obtain f where "e = GitHubFailed f" by blast
    with Inl outcome quiet show ?thesis by (simp add: print call run frame row [symmetric] failed [symmetric] Let_def)
  next
    case (Inr u)
    then show ?thesis
      using outcome quiet
      by (cases x; cases "ou_env X ''PITEKA_DEMO_JOURNAL''"; cases "ou_write_error X")
        (simp_all add: print call run frame row [symmetric] failed [symmetric] Let_def)
  qed
qed

theorem postgres_demo_outcome_witness:
  "\<exists>g. demo_adapter (example_outside example_env) example_plan = Inr g
    \<and> hd_wire (snd (pg_demo_flow sql_ref ext_ref example_tools (example_outside example_env) (pg_restart example_demo)))
      = snd (demo_call ext_ref example_tools (example_outside example_env) example_plan (dt_adapter g) (hd_wire example_demo))"
proof -
  obtain g where g: "demo_adapter (example_outside example_env) example_plan = Inr g" using example_adapter by blast
  have "connects (example_outside example_env)" "ou_env (example_outside example_env) ''PITEKA_PRINT_WEBHOOK_URL'' \<noteq> Some ''1''"
    by (simp_all add: connects_def example_outside_def example_env_def)
  from postgres_demo_outcome [where T = example_tools and t = example_demo and S = sql_ref,
      OF hex_laws_ref sha256_laws_ref example_plans(1) this(1) example_demo_facts(1,2) example_demo_facts(3) example_demo_facts(4) g]
    this(2) g
  show ?thesis by (auto simp: case_prod_beta Let_def)
qed

end
