(* ===== verification/Dispatch_Faults.thy ===== *)
theory Dispatch_Faults
  imports Dispatch_Postgres
begin

text \<open>
  The reserve-and-dispatch use case when the stores fail. Every store call may be refused before it has an
  effect or lose its answer after it had one, in any pattern; the use case returns at the first error, as
  the \<open>?\<close> of \<^verbatim>\<open>dispatch.rs\<close> makes it. What is proved on the in-memory stores is carried to PostgreSQL
  by the simulation.
\<close>

section \<open>Stores that fail\<close>

datatype fault = Fine | Refused string | Lost string

fun faulty :: "('s, storage_error, 'a) op \<Rightarrow> ('s \<times> fault list, storage_error, 'a) op" where
  "faulty m (s, []) = (fst (m s), snd (m s), [])"
| "faulty m (s, Fine # fs) = (fst (m s), snd (m s), fs)"
| "faulty m (s, Refused e # fs) = (Inl (Backend e), s, fs)"
| "faulty m (s, Lost e # fs) = (Inl (Backend e), snd (m s), fs)"

definition faulty_ports :: "'s dispatch_ports \<Rightarrow> ('s \<times> fault list) dispatch_ports" where
  "faulty_ports P =
     \<lparr>pt_request_get = (\<lambda>k. faulty (pt_request_get P k)),
      pt_mandate_get = (\<lambda>m. faulty (pt_mandate_get P m)),
      pt_mandate_cas = (\<lambda>m e st. faulty (pt_mandate_cas P m e st)),
      pt_attempt_insert = (\<lambda>x. faulty (pt_attempt_insert P x)),
      pt_attempt_update_state = (\<lambda>k st. faulty (pt_attempt_update_state P k st)),
      pt_attempt_update_deployment_id = (\<lambda>k d. faulty (pt_attempt_update_deployment_id P k d)),
      pt_audit_append = (\<lambda>e. faulty (pt_audit_append P e))\<rparr>"

text \<open>The provider is no store: its call is made.\<close>

definition past_faults :: "'s provider_fn \<Rightarrow> ('s \<times> fault list) provider_fn" where
  "past_faults call key digest = (\<lambda>(s, fs). case call key digest s of (answer, s') \<Rightarrow> (answer, s', fs))"

lemma faulty_sim:
  assumes "simulates R some_failure m n"
  shows "simulates (rel_prod R (=)) some_failure (faulty m) (faulty n)"
proof (rule simulatesI)
  fix s t :: "_ \<times> fault list"
  assume st: "rel_prod R (=) s t"
  obtain x fs y where s: "s = (x, fs)" "t = (y, fs)" "R x y" using st by (cases s; cases t) auto
  from simulatesD [OF assms s(3)] show "rel_sum some_failure (=) (fst (faulty m s)) (fst (faulty n t))
      \<and> rel_prod R (=) (snd (faulty m s)) (snd (faulty n t))"
    using s(3) by (cases "(m, x, fs)" rule: faulty.cases) (auto simp: s(1,2))
qed

lemma past_faults_sim:
  assumes "simulates R F (calling (call key digest)) (calling (call' key digest))"
  shows "simulates (rel_prod R (=)) F (calling (past_faults call key digest)) (calling (past_faults call' key digest))"
proof (rule simulatesI)
  fix s t :: "_ \<times> fault list"
  assume st: "rel_prod R (=) s t"
  obtain x fs y where s: "s = (x, fs)" "t = (y, fs)" "R x y" using st by (cases s; cases t) auto
  from simulatesD [OF assms s(3)]
  show "rel_sum F (=) (fst (calling (past_faults call key digest) s)) (fst (calling (past_faults call' key digest) t))
      \<and> rel_prod R (=) (snd (calling (past_faults call key digest) s)) (snd (calling (past_faults call' key digest) t))"
    by (auto simp: s(1,2) calling_def past_faults_def split: prod.split)
qed

interpretation faulty_demo:
  ports_simulation "faulty_ports memory_ports" "faulty_ports (demo_ports S)" "rel_prod (hosts S) (=)"
  for S :: sql
  by unfold_locales (simp_all add: faulty_ports_def faulty_sim demo.store_sim)

section \<open>Reasoning under faults\<close>

text \<open>
  \<open>guarded pre m post err\<close>: from a state with \<open>pre\<close>, whatever the faults, \<open>m\<close> answers in a state with
  \<open>post\<close> or fails in a state with \<open>err\<close>.
\<close>

definition guarded ::
  "('s \<Rightarrow> bool) \<Rightarrow> ('s \<times> fault list, 'e, 'a) op \<Rightarrow> ('a \<Rightarrow> 's \<Rightarrow> bool) \<Rightarrow> ('s \<Rightarrow> bool) \<Rightarrow> bool" where
  "guarded pre m post err \<longleftrightarrow>
     (\<forall>s fs. pre s \<longrightarrow> (case fst (m (s, fs)) of Inl _ \<Rightarrow> err | Inr a \<Rightarrow> post a) (fst (snd (m (s, fs)))))"

lemma guardedD:
  "guarded pre m post err \<Longrightarrow> pre s \<Longrightarrow>
    (case fst (m (s, fs)) of Inl _ \<Rightarrow> err | Inr a \<Rightarrow> post a) (fst (snd (m (s, fs))))"
  by (simp add: guarded_def)

lemma guarded_try:
  assumes "guarded pre m mid err" and "\<And>a. guarded (mid a) (k a) post err"
  shows "guarded pre (try_op m k) post err"
  unfolding guarded_def
proof (intro allI impI)
  fix s fs
  assume pre: "pre s"
  obtain r s' fs' where m: "m (s, fs) = (r, s', fs')" by (cases "m (s, fs)")
  show "(case fst (try_op m k (s, fs)) of Inl _ \<Rightarrow> err | Inr a \<Rightarrow> post a) (fst (snd (try_op m k (s, fs))))"
  proof (cases r)
    case (Inl e)
    with guardedD [OF assms(1) pre, of fs] show ?thesis by (simp add: try_op_eq m)
  next
    case (Inr a)
    with guardedD [OF assms(1) pre, of fs] have "mid a s'" by (simp add: m)
    from guardedD [OF assms(2) this, of fs'] Inr show ?thesis by (simp add: try_op_eq m)
  qed
qed

lemma guarded_faulty:
  assumes "\<And>s. pre s \<Longrightarrow> err s \<and> err (snd (m s)) \<and> (case fst (m s) of Inl _ \<Rightarrow> True | Inr a \<Rightarrow> post a (snd (m s)))"
  shows "guarded pre (stored (faulty m)) post err"
  unfolding guarded_def
proof (intro allI impI)
  fix s fs
  assume "pre s"
  from assms [OF this]
  show "(case fst (stored (faulty m) (s, fs)) of Inl _ \<Rightarrow> err | Inr a \<Rightarrow> post a) (fst (snd (stored (faulty m) (s, fs))))"
    by (cases "(m, s, fs)" rule: faulty.cases) (auto simp: map_err_eq split: sum.splits)
qed

lemma guarded_faulty_eq:
  "m s0 = (Inr b, s1) \<Longrightarrow> err s0 \<Longrightarrow> err s1 \<Longrightarrow> post b s1 \<Longrightarrow> guarded ((=) s0) (stored (faulty m)) post err"
  by (rule guarded_faulty) auto

lemma guarded_ok: "(\<And>s. pre s \<Longrightarrow> post a s) \<Longrightarrow> guarded pre (ok a) post err"
  by (simp add: guarded_def)

lemma guarded_fail: "(\<And>s. pre s \<Longrightarrow> err s) \<Longrightarrow> guarded pre (fail e) post err"
  by (simp add: guarded_def)

lemma guarded_pure: "(\<And>s. pre s \<Longrightarrow> c) \<Longrightarrow> (c \<Longrightarrow> guarded pre m post err) \<Longrightarrow> guarded pre m post err"
  by (auto simp: guarded_def)

section \<open>One dispatch under faults\<close>

definition dispatchable :: "dispatch_args \<Rightarrow> world \<Rightarrow> bool" where
  "dispatchable a w \<longleftrightarrow>
     approved w (da_request_id a)
     \<and> mandate_version (w_mandates w) (da_mandate_id_hex a) = Some (da_expected_mandate_version a)
     \<and> row_map (w_attempts w) (attempt_id_of (da_mandate_id_hex a)) = None"

lemma faulty_memory_sel:
  "pt_request_get (faulty_ports memory_ports) k = faulty (reading (\<lambda>w. request_get (w_requests w) k))"
  "pt_mandate_get (faulty_ports memory_ports) m = faulty (reading (\<lambda>w. mandate_get (w_mandates w) m))"
  "pt_mandate_cas (faulty_ports memory_ports) m e st = faulty (at_mandates (mandate_cas m e st))"
  "pt_attempt_insert (faulty_ports memory_ports) x = faulty (at_attempts (attempt_insert x))"
  "pt_attempt_update_state (faulty_ports memory_ports) k s = faulty (at_attempts (attempt_update_state k s))"
  "pt_attempt_update_deployment_id (faulty_ports memory_ports) k d =
    faulty (at_attempts (attempt_update_deployment_id k d))"
  "pt_audit_append (faulty_ports memory_ports) ev = faulty (at_audit (audit_append ev))"
  by (simp_all add: faulty_ports_def memory_ports_sel)

abbreviation unsent :: "world \<Rightarrow> world \<Rightarrow> bool" where
  "unsent w \<equiv> \<lambda>s. w_provider s = w_provider w"

lemma guarded_check:
  "guarded ((=) w) (check_request_with (faulty_ports memory_ports) a)
    (\<lambda>_ s. s = w \<and> approved w (da_request_id a)) (unsent w)"
  unfolding check_request_with_def faulty_memory_sel
proof (rule guarded_try)
  show "guarded ((=) w) (stored (faulty (reading (\<lambda>w. request_get (w_requests w) (da_request_id a)))))
      (\<lambda>found s. s = w \<and> found = rs_requests (w_requests w) (da_request_id a)) (unsent w)"
    by (rule guarded_faulty) (auto simp: request_get_def)
  show "guarded (\<lambda>s. s = w \<and> found = rs_requests (w_requests w) (da_request_id a))
      (case found of
         None \<Rightarrow> fail (NotFound (da_request_id a))
       | Some request \<Rightarrow>
           if ar_status request \<noteq> action_request_status.Approved
           then fail (InvalidTransition (ar_status request)) else ok ())
      (\<lambda>_ s. s = w \<and> approved w (da_request_id a)) (unsent w)" for found
    by (cases found) (auto simp: guarded_def approved_def dest!: sym [of "Some _"])
qed

text \<open>The world after an applied reservation, and after the attempt was inserted.\<close>

abbreviation swapped :: "dispatch_args \<Rightarrow> world \<Rightarrow> world" where
  "swapped a w \<equiv> set_mandate (da_mandate_id_hex a) (da_expected_mandate_version a + 1) ''reserved'' w"

lemma guarded_record_reservation:
  "guarded ((=) (swapped a w)) (record_reservation_with (faulty_ports memory_ports) now a)
    (\<lambda>r s. r = Dispatched (reserved_result a) \<and> s = reserved_world now a w
      \<and> row_map (w_attempts w) (attempt_id_of (da_mandate_id_hex a)) = None) (unsent w)"
  unfolding record_reservation_with_def faulty_memory_sel
proof (intro guarded_try)
  let ?x = "new_attempt now a"
  let ?fresh = "row_map (w_attempts w) (attempt_id_of (da_mandate_id_hex a)) = None"
  show "guarded ((=) (swapped a w)) (stored (faulty (at_attempts (attempt_insert ?x))))
      (\<lambda>_ s. ?fresh \<and> s = index_attempt ?x (set_attempt ?x (swapped a w))) (unsent w)"
    by (rule guarded_faulty) (auto simp: dispatch_runs dispatch_frame)
  show "guarded (\<lambda>s. ?fresh \<and> s = index_attempt ?x (set_attempt ?x (swapped a w)))
      (stored (faulty (at_attempts (attempt_update_state (attempt_id_of (da_mandate_id_hex a)) Dispatching))))
      (\<lambda>_ s. ?fresh \<and> s = set_attempt (?x\<lparr>ea_state := Dispatching\<rparr>) (index_attempt ?x (swapped a w))) (unsent w)"
    by (rule guarded_faulty) (auto simp: dispatch_runs dispatch_frame index_set_attempt set_attempt_twice)
  show "guarded (\<lambda>s. ?fresh \<and> s = set_attempt (?x\<lparr>ea_state := Dispatching\<rparr>) (index_attempt ?x (swapped a w)))
      (stored (faulty (at_audit (audit_append (reserve_event now a)))))
      (\<lambda>_ s. ?fresh \<and> s = reserved_world now a w) (unsent w)"
    by (rule guarded_faulty) (auto simp: dispatch_frame reserved_world_def Let_def)
  show "guarded (\<lambda>s. ?fresh \<and> s = reserved_world now a w) (ok (Dispatched (reserved_result a)))
      (\<lambda>r s. r = Dispatched (reserved_result a) \<and> s = reserved_world now a w \<and> ?fresh) (unsent w)"
    by (rule guarded_ok) simp
qed

text \<open>What an answer that is not \<open>Dispatched\<close> leaves.\<close>

definition reserve_post :: "u64 \<Rightarrow> dispatch_args \<Rightarrow> world \<Rightarrow> dispatch_outcome \<Rightarrow> world \<Rightarrow> bool" where
  "reserve_post now a w r s \<longleftrightarrow>
     (case r of
        Dispatched d \<Rightarrow> d = reserved_result a \<and> s = reserved_world now a w \<and> dispatchable a w
      | DispatchFailed _ _ _ \<Rightarrow> False
      | _ \<Rightarrow> unsent w s)"

lemma guarded_report_conflict:
  "guarded ((=) w) (report_conflict_with (faulty_ports memory_ports) now a v) (reserve_post now a w) (unsent w)"
  unfolding report_conflict_with_def faulty_memory_sel Let_def
proof (rule guarded_try)
  show "guarded ((=) w) (stored (faulty (reading (\<lambda>w. mandate_get (w_mandates w) (da_mandate_id_hex a)))))
      (\<lambda>_ s. s = w) (unsent w)"
    by (rule guarded_faulty) simp
  have audited: "guarded (\<lambda>s. s = w) (try_op (stored (faulty (at_audit (audit_append ev)))) (\<lambda>_. ok (ReplayRejected rr)))
      (reserve_post now a w) (unsent w)" for ev rr
  proof (rule guarded_try)
    show "guarded (\<lambda>s. s = w) (stored (faulty (at_audit (audit_append ev)))) (\<lambda>_. unsent w) (unsent w)"
      by (rule guarded_faulty) (simp add: dispatch_frame)
  qed (simp add: guarded_ok reserve_post_def)
  show "guarded (\<lambda>s. s = w)
      (case found of
         None \<Rightarrow> ok (ReservationFailed \<lparr>rf_mandate_id_hex = da_mandate_id_hex a, rf_winner_version = v\<rparr>)
       | Some projection \<Rightarrow>
           if mp_state projection \<in> set replay_states
           then try_op (stored (faulty (at_audit (audit_append (replay_event now a (mp_state projection))))))
             (\<lambda>_. ok (ReplayRejected (replay_result a (mp_state projection))))
           else ok (ReservationFailed \<lparr>rf_mandate_id_hex = da_mandate_id_hex a, rf_winner_version = v\<rparr>))
      (reserve_post now a w) (unsent w)" for found
    by (cases found) (auto intro!: audited guarded_ok simp: reserve_post_def)
qed

lemma guarded_reserve:
  "guarded ((=) w) (reserve_with (faulty_ports memory_ports) now a) (reserve_post now a w) (unsent w)"
  unfolding reserve_with_def faulty_memory_sel
proof (intro guarded_try)
  let ?m = "da_mandate_id_hex a" and ?e = "da_expected_mandate_version a"
  show "guarded ((=) w) (check_request_with (faulty_ports memory_ports) a)
      (\<lambda>_ s. s = w \<and> approved w (da_request_id a)) (unsent w)"
    by (rule guarded_check)
  show "guarded (\<lambda>s. s = w \<and> approved w (da_request_id a)) (stored (faulty (at_mandates (mandate_cas ?m ?e ''reserved''))))
      (\<lambda>cas s. approved w (da_request_id a) \<and> (case cas of
          Applied _ \<Rightarrow> s = swapped a w \<and> mandate_version (w_mandates w) ?m = Some ?e | _ \<Rightarrow> s = w)) (unsent w)"
    by (rule guarded_faulty) (auto simp: dispatch_runs dispatch_frame mandate_version_def split: option.splits)
  show "guarded (\<lambda>s. approved w (da_request_id a) \<and> (case cas of
          Applied _ \<Rightarrow> s = swapped a w \<and> mandate_version (w_mandates w) ?m = Some ?e | _ \<Rightarrow> s = w))
      (case cas of
         Applied _ \<Rightarrow> record_reservation_with (faulty_ports memory_ports) now a
       | Conflict current \<Rightarrow> report_conflict_with (faulty_ports memory_ports) now a current
       | Missing \<Rightarrow> fail (MandateNotFound ?m)) (reserve_post now a w) (unsent w)" for cas
  proof (cases cas)
    case (Applied v)
    with guarded_record_reservation [of a w now] show ?thesis
      by (fastforce simp: guarded_def reserve_post_def dispatchable_def split: sum.splits)
  next
    case (Conflict v)
    with guarded_report_conflict [of w now a v] show ?thesis by (simp add: guarded_def)
  next
    case Missing
    then show ?thesis by (simp add: guarded_def)
  qed
qed

text \<open>The world the provider is called in, and what holds of every world after that.\<close>

definition called_world :: "ext \<Rightarrow> u64 \<Rightarrow> dispatch_args \<Rightarrow> world \<Rightarrow> world" where
  "called_world E now a w = add_call (call_of E a) (reserved_world now a w)"

definition sent_once :: "ext \<Rightarrow> u64 \<Rightarrow> dispatch_args \<Rightarrow> world \<Rightarrow> world \<Rightarrow> bool" where
  "sent_once E now a w s \<longleftrightarrow>
     dispatchable a w
     \<and> w_provider s = w_provider w @ [call_of E a]
     \<and> mandate_version (w_mandates s) (da_mandate_id_hex a)
         \<in> {Some (da_expected_mandate_version a + 1), Some (da_expected_mandate_version a + 2)}
     \<and> row_map (w_attempts s) (attempt_id_of (da_mandate_id_hex a)) \<noteq> None
     \<and> reserve_event now a \<in> set (w_audit s)"

text \<open>What a world has recorded when the answer is a success, or a failure of the provider.\<close>

definition completed ::
  "ext \<Rightarrow> u64 \<Rightarrow> dispatch_args \<Rightarrow> world \<Rightarrow> string \<Rightarrow> execution_attempt_state \<Rightarrow> u64 option \<Rightarrow> world \<Rightarrow> bool" where
  "completed E now a w state attempt_state deployment s \<longleftrightarrow>
     sent_once E now a w s
     \<and> mandate_state (w_mandates s) (da_mandate_id_hex a) = Some state
     \<and> mandate_version (w_mandates s) (da_mandate_id_hex a) = Some (da_expected_mandate_version a + 2)
     \<and> row_map (w_attempts s) (attempt_id_of (da_mandate_id_hex a)) =
         Some ((new_attempt now a)\<lparr>ea_state := attempt_state, ea_github_deployment_id := deployment\<rparr>)"

text \<open>The world after the updates \<open>y\<close> of the attempt, and after the second swap.\<close>

abbreviation updated :: "ext \<Rightarrow> u64 \<Rightarrow> dispatch_args \<Rightarrow> world \<Rightarrow> execution_attempt \<Rightarrow> world" where
  "updated E now a w y \<equiv> set_attempt y (called_world E now a w)"

lemma called_frame [dispatch_frame]:
  "w_provider (called_world E now a w) = w_provider w @ [call_of E a]"
  "w_mandates (called_world E now a w) = w_mandates (swapped a w)"
  "row_map (w_attempts (called_world E now a w)) =
    (row_map (w_attempts w))(attempt_id_of (da_mandate_id_hex a) \<mapsto> (new_attempt now a)\<lparr>ea_state := Dispatching\<rparr>)"
  "w_audit (called_world E now a w) = w_audit w @ [reserve_event now a]"
  by (simp_all add: called_world_def reserved_world_def Let_def dispatch_frame)

lemma sent_once_called: "dispatchable a w \<Longrightarrow> sent_once E now a w (called_world E now a w)"
  by (simp add: sent_once_def dispatch_frame mandate_version_def)

lemma sent_once_updated:
  "dispatchable a w \<Longrightarrow> ea_attempt_id_hex y = attempt_id_of (da_mandate_id_hex a) \<Longrightarrow>
    sent_once E now a w (updated E now a w y)"
  by (simp add: sent_once_def dispatch_frame mandate_version_def)

lemma completed_swapped:
  "dispatchable a w \<Longrightarrow>
    y = (new_attempt now a)\<lparr>ea_state := attempt_state, ea_github_deployment_id := deployment\<rparr> \<Longrightarrow>
    completed E now a w state attempt_state deployment
      (set_mandate (da_mandate_id_hex a) (da_expected_mandate_version a + 2) state (updated E now a w y))"
  by (simp add: completed_def sent_once_def dispatch_frame mandate_version_def mandate_state_def)

lemma completed_audited:
  "completed E now a w state attempt_state deployment s \<Longrightarrow>
    completed E now a w state attempt_state deployment (add_audit ev s)"
  by (simp add: completed_def sent_once_def dispatch_frame)

text \<open>The last two calls of a completion, which both branches share.\<close>

lemma guarded_swap:
  assumes "dispatchable a w"
    and "y = (new_attempt now a)\<lparr>ea_state := attempt_state, ea_github_deployment_id := deployment\<rparr>"
    and "\<And>v. k (Applied v) = stored (faulty (at_audit (audit_append ev)))"
  shows "guarded ((=) (updated E now a w y))
    (try_op (stored (faulty (at_mandates (mandate_cas (da_mandate_id_hex a) (da_expected_mandate_version a + 1) state)))) k)
    (\<lambda>_. completed E now a w state attempt_state deployment) (sent_once E now a w)"
proof (rule guarded_try)
  let ?m = "da_mandate_id_hex a" and ?e = "da_expected_mandate_version a"
  let ?done = "set_mandate ?m (?e + 2) state (updated E now a w y)"
  have y: "ea_attempt_id_hex y = attempt_id_of ?m" by (simp add: assms(2) new_attempt_def)
  have fin: "completed E now a w state attempt_state deployment ?done"
    using assms(1,2) by (rule completed_swapped)
  then have sent: "sent_once E now a w ?done" by (simp add: completed_def)
  have run: "at_mandates (mandate_cas ?m (?e + 1) state) (updated E now a w y) = (Inr (Applied (?e + 2)), ?done)"
    by (simp add: mandate_cas_run dispatch_frame add.commute)
  show "guarded ((=) (updated E now a w y)) (stored (faulty (at_mandates (mandate_cas ?m (?e + 1) state))))
      (\<lambda>cas s. (\<exists>v. cas = Applied v) \<and> s = ?done) (sent_once E now a w)"
    by (rule guarded_faulty_eq, rule run) (simp_all add: sent sent_once_updated [OF assms(1) y])
  show "guarded (\<lambda>s. (\<exists>v. cas = Applied v) \<and> s = ?done) (k cas)
      (\<lambda>_. completed E now a w state attempt_state deployment) (sent_once E now a w)" for cas
  proof (rule guarded_pure)
    assume "\<exists>v. cas = Applied v"
    then have k: "k cas = stored (faulty (at_audit (audit_append ev)))" using assms(3) by auto
    show "guarded (\<lambda>s. (\<exists>v. cas = Applied v) \<and> s = ?done) (k cas)
        (\<lambda>_. completed E now a w state attempt_state deployment) (sent_once E now a w)"
      unfolding k using completed_audited [OF fin, of ev] sent
      by (intro guarded_faulty) (auto simp: completed_def)
  qed blast
qed

lemma guarded_accepted:
  assumes "dispatchable a w"
  shows "guarded ((=) (called_world E now a w))
    (record_accepted_with (faulty_ports memory_ports) later (attempt_id_of (da_mandate_id_hex a))
      (da_mandate_id_hex a) d executor (da_expected_mandate_version a + 1))
    (\<lambda>_. completed E now a w ''consumed'' Accepted (Some d)) (sent_once E now a w)"
  unfolding record_accepted_with_def faulty_memory_sel
proof (rule guarded_try)
  let ?k = "attempt_id_of (da_mandate_id_hex a)"
  let ?x = "(new_attempt now a)\<lparr>ea_state := Accepted\<rparr>"
  let ?y = "(new_attempt now a)\<lparr>ea_state := Accepted, ea_github_deployment_id := Some d\<rparr>"
  let ?swap = "try_op (stored (faulty (at_mandates (mandate_cas (da_mandate_id_hex a) (da_expected_mandate_version a + 1)
      ''consumed'')))) (\<lambda>cas. case cas of
        Applied _ \<Rightarrow> stored (faulty (at_audit (audit_append (consume_event later ?k (da_mandate_id_hex a) executor))))
      | Conflict _ \<Rightarrow> fail (AlreadyConsumed (da_mandate_id_hex a))
      | Missing \<Rightarrow> fail (MandateNotFound (da_mandate_id_hex a)))"
  show "guarded ((=) (called_world E now a w)) (stored (faulty (at_attempts (attempt_update_state ?k Accepted))))
      (\<lambda>_. (=) (updated E now a w ?x)) (sent_once E now a w)"
    by (rule guarded_faulty_eq,
        rule attempt_update_state_run [where x = "(new_attempt now a)\<lparr>ea_state := Dispatching\<rparr>"])
      (simp_all add: dispatch_frame assms sent_once_called sent_once_updated)
  have "guarded ((=) (updated E now a w ?x)) (stored (faulty (at_attempts (attempt_update_deployment_id ?k d))))
      (\<lambda>_. (=) (updated E now a w ?y)) (sent_once E now a w)"
    by (rule guarded_faulty_eq, rule attempt_update_deployment_run [where x = ?x])
      (simp_all add: dispatch_frame assms set_attempt_twice sent_once_updated)
  moreover have "guarded ((=) (updated E now a w ?y)) ?swap
      (\<lambda>_. completed E now a w ''consumed'' Accepted (Some d)) (sent_once E now a w)"
    by (rule guarded_swap [OF assms refl]) simp
  ultimately show "guarded ((=) (updated E now a w ?x))
      (try_op (stored (faulty (at_attempts (attempt_update_deployment_id ?k d)))) (\<lambda>_. ?swap))
      (\<lambda>_. completed E now a w ''consumed'' Accepted (Some d)) (sent_once E now a w)"
    by (rule guarded_try)
qed

lemma guarded_ambiguous:
  assumes "dispatchable a w"
  shows "guarded ((=) (called_world E now a w))
    (record_ambiguous_with (faulty_ports memory_ports) later (attempt_id_of (da_mandate_id_hex a))
      (da_mandate_id_hex a) executor (da_expected_mandate_version a + 1))
    (\<lambda>_. completed E now a w ''quarantined'' OutcomeAmbiguous None) (sent_once E now a w)"
  unfolding record_ambiguous_with_def faulty_memory_sel
proof (rule guarded_try)
  let ?k = "attempt_id_of (da_mandate_id_hex a)"
  let ?x = "(new_attempt now a)\<lparr>ea_state := OutcomeAmbiguous, ea_github_deployment_id := None\<rparr>"
  have x: "(new_attempt now a)\<lparr>ea_state := OutcomeAmbiguous\<rparr> = ?x" by (simp add: new_attempt_def)
  show "guarded ((=) (called_world E now a w)) (stored (faulty (at_attempts (attempt_update_state ?k OutcomeAmbiguous))))
      (\<lambda>_. (=) (updated E now a w ?x)) (sent_once E now a w)"
    by (rule guarded_faulty_eq,
        rule attempt_update_state_run [where x = "(new_attempt now a)\<lparr>ea_state := Dispatching\<rparr>"])
      (simp_all add: dispatch_frame assms sent_once_called sent_once_updated x [symmetric])
  show "guarded ((=) (updated E now a w ?x))
      (try_op (stored (faulty (at_mandates (mandate_cas (da_mandate_id_hex a) (da_expected_mandate_version a + 1) ''quarantined''))))
        (\<lambda>cas. case cas of
           Applied _ \<Rightarrow> stored (faulty (at_audit (audit_append (quarantine_event later ?k (da_mandate_id_hex a) executor))))
         | Conflict _ \<Rightarrow> ok ()
         | Missing \<Rightarrow> fail (MandateNotFound (da_mandate_id_hex a))))
      (\<lambda>_. completed E now a w ''quarantined'' OutcomeAmbiguous None) (sent_once E now a w)"
    by (rule guarded_swap [OF assms refl]) simp
qed

text \<open>The whole flow in memory: what every answer says of the world.\<close>

definition dispatch_post ::
  "ext \<Rightarrow> u64 \<Rightarrow> dispatch_args \<Rightarrow> world \<Rightarrow> dispatch_outcome \<Rightarrow> world \<Rightarrow> bool" where
  "dispatch_post E now a w r s \<longleftrightarrow>
     (case r of
        Dispatched d \<Rightarrow>
          di_provider_accepted d \<and> (\<exists>i. di_github_deployment_id d = Some i
            \<and> completed E now a w ''consumed'' Accepted (Some i) s)
      | DispatchFailed _ _ _ \<Rightarrow> completed E now a w ''quarantined'' OutcomeAmbiguous None s
      | _ \<Rightarrow> unsent w s)"

definition dispatch_err :: "ext \<Rightarrow> u64 \<Rightarrow> dispatch_args \<Rightarrow> world \<Rightarrow> world \<Rightarrow> bool" where
  "dispatch_err E now a w s \<longleftrightarrow> unsent w s \<or> sent_once E now a w s"

lemma guarded_weaken:
  "guarded pre m post err \<Longrightarrow> (\<And>a s. post a s \<Longrightarrow> post' a s) \<Longrightarrow> (\<And>s. err s \<Longrightarrow> err' s) \<Longrightarrow>
    guarded pre m post' err'"
  by (fastforce simp: guarded_def split: sum.splits)

abbreviation logged_past_faults :: "dispatch_args \<Rightarrow> dispatch_fn \<Rightarrow> (world \<times> fault list) provider_fn" where
  "logged_past_faults a f \<equiv> past_faults (logged_call (da_mandate_id_hex a) f)"

lemma guarded_complete:
  assumes "dispatchable a w"
  shows "guarded ((=) (called_world E now a w))
    (complete_dispatch_with (faulty_ports memory_ports) later (attempt_id_of (da_mandate_id_hex a))
      (da_mandate_id_hex a) (answer \<noteq> None) answer executor (da_expected_mandate_version a + 1))
    (\<lambda>_. completed E now a w (if answer = None then ''quarantined'' else ''consumed'')
      (if answer = None then OutcomeAmbiguous else Accepted) answer) (sent_once E now a w)"
proof (cases answer)
  case None
  show ?thesis
    unfolding complete_dispatch_with_def Let_def
    by (rule guarded_try) (auto simp: None guarded_ambiguous [OF assms] intro: guarded_ok)
next
  case (Some d)
  show ?thesis
    unfolding complete_dispatch_with_def Let_def
    by (rule guarded_try) (auto simp: Some guarded_accepted [OF assms] intro: guarded_ok)
qed

lemma guarded_send:
  assumes "dispatchable a w"
  shows "guarded ((=) (reserved_world now a w))
    (send_and_complete_with (faulty_ports memory_ports) E later a (logged_past_faults a f) (reserved_result a))
    (dispatch_post E now a w) (sent_once E now a w)"
  unfolding send_and_complete_with_def Let_def
proof (rule guarded_try)
  let ?answer = "f (da_correlation_key a) (pc_attempt_digest (call_of E a))"
  show "guarded ((=) (reserved_world now a w))
      (calling (logged_past_faults a f (di_correlation_key (reserved_result a))
        (compute_attempt_digest E (di_attempt_id_hex (reserved_result a)) (da_mandate_id_hex a) (da_intent_id_hex a))))
      (\<lambda>answer s. answer = ?answer \<and> s = called_world E now a w) (sent_once E now a w)"
    by (auto simp: guarded_def calling_def past_faults_def logged_call_def reserved_result_def call_of_def
        called_world_def)
  note complete = guarded_complete [OF assms, of E now later, where executor = "da_executor_identity a"]
  show "guarded (\<lambda>s. answer = ?answer \<and> s = called_world E now a w)
      (case answer of
         None \<Rightarrow>
           try_op (complete_dispatch_with (faulty_ports memory_ports) later (di_attempt_id_hex (reserved_result a))
             (da_mandate_id_hex a) False None (da_executor_identity a) (da_expected_mandate_version a + 1)) (\<lambda>_.
           ok (DispatchFailed (da_mandate_id_hex a) (di_attempt_id_hex (reserved_result a))
             ''provider rejected or timeout''))
       | Some deploy_id \<Rightarrow>
           try_op (complete_dispatch_with (faulty_ports memory_ports) later (di_attempt_id_hex (reserved_result a))
             (da_mandate_id_hex a) True (Some deploy_id) (da_executor_identity a) (da_expected_mandate_version a + 1)) (\<lambda>_.
           ok (Dispatched ((reserved_result a)\<lparr>di_provider_accepted := True,
             di_github_deployment_id := Some deploy_id\<rparr>))))
      (dispatch_post E now a w) (sent_once E now a w)" for answer
  proof (cases answer)
    case None
    have "guarded ((=) (called_world E now a w))
        (try_op (complete_dispatch_with (faulty_ports memory_ports) later (di_attempt_id_hex (reserved_result a))
          (da_mandate_id_hex a) False None (da_executor_identity a) (da_expected_mandate_version a + 1)) (\<lambda>_.
        ok (DispatchFailed (da_mandate_id_hex a) (di_attempt_id_hex (reserved_result a)) ''provider rejected or timeout'')))
        (dispatch_post E now a w) (sent_once E now a w)"
      using complete [of None]
      by (intro guarded_try [OF _ guarded_ok])
        (auto simp: reserved_result_def dispatch_post_def)
    with None show ?thesis by (auto simp: guarded_def)
  next
    case (Some i)
    have "guarded ((=) (called_world E now a w))
        (try_op (complete_dispatch_with (faulty_ports memory_ports) later (di_attempt_id_hex (reserved_result a))
          (da_mandate_id_hex a) True (Some i) (da_executor_identity a) (da_expected_mandate_version a + 1)) (\<lambda>_.
        ok (Dispatched ((reserved_result a)\<lparr>di_provider_accepted := True, di_github_deployment_id := Some i\<rparr>))))
        (dispatch_post E now a w) (sent_once E now a w)"
      using complete [of "Some i"]
      by (intro guarded_try [OF _ guarded_ok])
        (auto simp: reserved_result_def dispatch_post_def)
    with Some show ?thesis by (auto simp: guarded_def)
  qed
qed

lemma guarded_dispatch:
  "guarded ((=) w)
    (reserve_and_dispatch_with (faulty_ports memory_ports) E now later a (logged_past_faults a f))
    (dispatch_post E now a w) (dispatch_err E now a w)"
  unfolding reserve_and_dispatch_with_def
proof (rule guarded_try)
  show "guarded ((=) w) (reserve_with (faulty_ports memory_ports) now a) (reserve_post now a w) (dispatch_err E now a w)"
    by (rule guarded_weaken [OF guarded_reserve]) (simp_all add: dispatch_err_def)
  show "guarded (reserve_post now a w reserved)
      (case reserved of
         Dispatched d \<Rightarrow>
           send_and_complete_with (faulty_ports memory_ports) E later a (logged_past_faults a f) d
       | _ \<Rightarrow> ok reserved) (dispatch_post E now a w) (dispatch_err E now a w)" for reserved
  proof (cases reserved)
    case (Dispatched d)
    show ?thesis
    proof (rule guarded_pure)
      assume "d = reserved_result a \<and> dispatchable a w"
      then show ?thesis
        using guarded_send [where a = a and w = w and E = E and now = now and later = later and f = f]
        by (fastforce simp: Dispatched guarded_def reserve_post_def dispatch_err_def split: sum.splits)
    qed (simp add: reserve_post_def Dispatched)
  qed (auto simp: guarded_def reserve_post_def dispatch_post_def)
qed

section \<open>A refusal after the call\<close>

text \<open>Five calls make a reservation; the sixth, the first of the completion, is refused.\<close>

lemma stored_steps:
  "try_op (stored (faulty m)) k (s, Fine # fs) =
    (case m s of (Inl e, s') \<Rightarrow> (Inl (Storage e), s', fs) | (Inr a, s') \<Rightarrow> k a (s', fs))"
  "try_op (stored (faulty m)) k (s, Refused x # fs) = (Inl (Storage (Backend x)), s, fs)"
  by (cases "m s"; auto simp: try_op_eq map_err_eq split: sum.split)+

lemma check_without_fault:
  "approved w (da_request_id a) \<Longrightarrow>
    check_request_with (faulty_ports memory_ports) a (w, Fine # fs) = (Inr (), w, fs)"
  by (auto simp: check_request_with_def faulty_memory_sel stored_steps request_get_def approved_def)

lemma record_without_faults:
  "row_map (w_attempts w) (attempt_id_of (da_mandate_id_hex a)) = None \<Longrightarrow>
    record_reservation_with (faulty_ports memory_ports) now a (swapped a w, Fine # Fine # Fine # fs) =
      (Inr (Dispatched (reserved_result a)), reserved_world now a w, fs)"
  by (simp add: record_reservation_with_def faulty_memory_sel stored_steps dispatch_runs dispatch_frame
      reserved_world_def Let_def index_set_attempt set_attempt_twice)

lemma reserve_without_faults:
  assumes "dispatchable a w"
  shows "reserve_with (faulty_ports memory_ports) now a (w, replicate 5 Fine @ fs) =
    (Inr (Dispatched (reserved_result a)), reserved_world now a w, fs)"
proof -
  let ?fs = "Fine # Fine # Fine # fs"
  have fs: "replicate 5 Fine @ fs = Fine # Fine # ?fs" by (simp add: eval_nat_numeral)
  have cas: "at_mandates (mandate_cas (da_mandate_id_hex a) (da_expected_mandate_version a) ''reserved'') w =
      (Inr (Applied (da_expected_mandate_version a + 1)), swapped a w)"
    using assms by (auto simp: dispatchable_def mandate_version_def mandate_cas_run)
  from assms show ?thesis
    unfolding fs dispatchable_def
    by (simp add: reserve_with_def faulty_memory_sel try_op_fst check_without_fault stored_steps cas
        record_without_faults)
qed

lemma store_refuses_after_call:
  assumes "dispatchable a w" and "f (da_correlation_key a) (pc_attempt_digest (call_of E a)) = Some d"
  shows "reserve_and_dispatch_with (faulty_ports memory_ports) E now later a (logged_past_faults a f)
      (w, replicate 5 Fine @ [Refused e]) = (Inl (Storage (Backend e)), called_world E now a w, [])"
proof -
  have complete: "complete_dispatch_with (faulty_ports memory_ports) later attempt m True (Some d) executor v
      (s, [Refused e]) = (Inl (Storage (Backend e)), s, [])" for attempt m executor v s
    by (simp add: complete_dispatch_with_def record_accepted_with_def faulty_memory_sel try_op_eq [of "try_op _ _"]
        stored_steps)
  have call: "logged_past_faults a f (di_correlation_key (reserved_result a))
      (compute_attempt_digest E (di_attempt_id_hex (reserved_result a)) (da_mandate_id_hex a) (da_intent_id_hex a))
      (reserved_world now a w, [Refused e]) = (Some d, called_world E now a w, [Refused e])"
    using assms(2) by (simp add: past_faults_def logged_call_def reserved_result_def call_of_def called_world_def)
  have send: "send_and_complete_with (faulty_ports memory_ports) E later a (logged_past_faults a f) (reserved_result a)
      (reserved_world now a w, [Refused e]) = (Inl (Storage (Backend e)), called_world E now a w, [])"
    unfolding send_and_complete_with_def Let_def try_calling call
    by (simp add: try_op_eq complete)
  show ?thesis
    by (simp add: reserve_and_dispatch_with_def try_op_fst reserve_without_faults [OF assms(1)] send del: replicate.simps)
qed

section \<open>Properties\<close>

text \<open>
  C3. A dispatch on PostgreSQL under failing store calls, from a version whose next two fit a 64-bit integer. Whichever calls are refused or lose their answer,
  the provider is called at most once, and only for an approved request whose mandate is at the expected
  version and has no attempt. An answer is the truth: \<open>Dispatched\<close> means that the mandate is consumed and
  the attempt accepted with the deployment's number, \<open>DispatchFailed\<close> that the mandate is quarantined and
  the attempt ambiguous. After an error the provider was not called, or the reservation is journaled:
  the mandate has moved on from the expected version, its attempt is stored and the reservation audited.
\<close>

theorem postgres_dispatch_under_faults:
  assumes "db_down (ho_db h) = None" and "attempts_written S (ho_db h)"
    and "da_expected_mandate_version a \<noteq> i64_max" and "da_expected_mandate_version a + 1 \<noteq> i64_max"
    and "reserve_and_dispatch_with (faulty_ports (demo_ports S)) E now later a
           (past_faults (hosted_call (da_mandate_id_hex a) f)) (h, fs) = (r, h', fs')"
  shows "let m = da_mandate_id_hex a; e = da_expected_mandate_version a;
      row = db_mandates (ho_db h') m; attempt = attempts_of S (ho_db h') (attempt_id_of m);
      unsent = (w_provider (ho_local h') = w_provider (ho_local h));
      sent = (w_provider (ho_local h') = w_provider (ho_local h) @ [call_of E a]
        \<and> approved (ho_local h) (da_request_id a)
        \<and> map_option mw_version (db_mandates (ho_db h) m) = Some e
        \<and> attempts_of S (ho_db h) (attempt_id_of m) = None)
    in case r of
        Inr (Dispatched d) \<Rightarrow> sent \<and> di_github_deployment_id d \<noteq> None
          \<and> row = Some \<lparr>mw_version = e + 2, mw_state = ''consumed''\<rparr>
          \<and> attempt = Some ((new_attempt now a)\<lparr>ea_state := Accepted,
                ea_github_deployment_id := di_github_deployment_id d\<rparr>)
      | Inr (DispatchFailed _ _ _) \<Rightarrow> sent
          \<and> row = Some \<lparr>mw_version = e + 2, mw_state = ''quarantined''\<rparr>
          \<and> attempt = Some ((new_attempt now a)\<lparr>ea_state := OutcomeAmbiguous, ea_github_deployment_id := None\<rparr>)
      | Inr _ \<Rightarrow> unsent
      | Inl _ \<Rightarrow> unsent \<or> (sent \<and> map_option mw_version row \<in> {Some (e + 1), Some (e + 2)}
          \<and> attempt \<noteq> None \<and> reserve_event now a \<in> set (db_audit (ho_db h')))"
proof -
  let ?w = "world_of S h"
  let ?mem = "reserve_and_dispatch_with (faulty_ports memory_ports) E now later a (logged_past_faults a f) (?w, fs)"
  obtain q w' gs where mem: "?mem = (q, w', gs)" by (cases ?mem)
  have start: "rel_prod (hosts S) (=) (?w, fs) (h, fs)"
    using hosts_world_of [OF assms(1,2)] by simp
  have "simulates (rel_prod (hosts S) (=)) same_failure
      (reserve_and_dispatch_with (faulty_ports memory_ports) E now later a (logged_past_faults a f))
      (reserve_and_dispatch_with (faulty_ports (demo_ports S)) E now later a
        (past_faults (hosted_call (da_mandate_id_hex a) f)))"
    by (rule faulty_demo.dispatch_sim [OF assms(3,4)]) (intro past_faults_sim hosted_call_sim)
  from simulatesD [OF this start]
  have q: "rel_sum same_failure (=) q r" and h': "hosts S w' h'" by (simp_all add: mem assms(5))
  have post: "(case q of Inl _ \<Rightarrow> dispatch_err E now a ?w | Inr b \<Rightarrow> dispatch_post E now a ?w b) w'"
    using guardedD [OF guarded_dispatch [of ?w E now later a f] refl, of fs] by (simp add: mem)
  have frame: "w_provider ?w = w_provider (ho_local h)" "w_provider w' = w_provider (ho_local h')"
    "w_audit w' = db_audit (ho_db h')" "row_map (w_attempts w') = attempts_of S (ho_db h')"
    "w_mandates w' = mandates_of (ho_db h')"
    using h' by (simp_all add: world_of_def hosts_def)
  have ready: "dispatchable a ?w \<longleftrightarrow> approved (ho_local h) (da_request_id a)
      \<and> map_option mw_version (db_mandates (ho_db h) (da_mandate_id_hex a)) = Some (da_expected_mandate_version a)
      \<and> attempts_of S (ho_db h) (attempt_id_of (da_mandate_id_hex a)) = None"
    by (auto simp: dispatchable_def world_of_def approved_def mandate_version_def mandates_of_def option.map_comp)
  have version: "mandate_version (mandates_of db) m = map_option mw_version (db_mandates db m)"
    and state: "mandate_state (mandates_of db) m = map_option mw_state (db_mandates db m)" for db m
    by (simp_all add: mandate_version_def mandate_state_def mandates_of_def option.map_comp o_def)
  note facts = sent_once_def frame ready version state
  show ?thesis
  proof (cases q)
    case (Inl err)
    with q obtain err' where "r = Inl err'" by (cases r) auto
    with post Inl show ?thesis by (auto simp: Let_def dispatch_err_def facts)
  next
    case (Inr b)
    with q have r: "r = Inr b" by (cases r) auto
    show ?thesis
    proof (cases b)
      case (Dispatched d)
      with post Inr show ?thesis
        by (auto simp: r Let_def dispatch_post_def completed_def facts)
    next
      case (DispatchFailed x y z)
      with post Inr show ?thesis
        by (auto simp: r Let_def dispatch_post_def completed_def facts)
    qed (use post Inr in \<open>simp_all add: r Let_def dispatch_post_def frame\<close>)
  qed
qed

lemma example_version: "da_expected_mandate_version example_args = 1" "da_mandate_id_hex example_args = ''m''"
  by (simp_all add: example_args_def)

text \<open>The provider accepts, then the first update of the attempt is refused.\<close>

theorem postgres_dispatch_under_faults_witness:
  "\<exists>r h'. reserve_and_dispatch_with (faulty_ports (demo_ports sql_ref)) ext_ref 200 201 example_args
         (past_faults (hosted_call ''m'' (\<lambda>k g. Some 7))) (example_hosted, replicate 5 Fine @ [Refused ''gone''])
       = (Inl r, h', [])
     \<and> w_provider (ho_local h') = [call_of ext_ref example_args]
     \<and> map_option mw_version (db_mandates (ho_db h') ''m'') \<in> {Some 2, Some 3}"
proof -
  let ?call = "past_faults (hosted_call (da_mandate_id_hex example_args) (\<lambda>k g. Some 7))"
  let ?run = "reserve_and_dispatch_with (faulty_ports (demo_ports sql_ref)) ext_ref 200 201 example_args ?call
    (example_hosted, replicate 5 Fine @ [Refused ''gone''])"
  let ?mem = "reserve_and_dispatch_with (faulty_ports memory_ports) ext_ref 200 201 example_args
    (logged_past_faults example_args (\<lambda>k g. Some 7)) (example_ready, replicate 5 Fine @ [Refused ''gone''])"
  have max: "da_expected_mandate_version example_args \<noteq> i64_max" "da_expected_mandate_version example_args + 1 \<noteq> i64_max"
    by (simp_all add: example_version i64_max_def)
  have "simulates (rel_prod (hosts sql_ref) (=)) same_failure
      (reserve_and_dispatch_with (faulty_ports memory_ports) ext_ref 200 201 example_args
        (logged_past_faults example_args (\<lambda>k g. Some 7)))
      (reserve_and_dispatch_with (faulty_ports (demo_ports sql_ref)) ext_ref 200 201 example_args ?call)"
    by (rule faulty_demo.dispatch_sim [OF max]) (intro past_faults_sim hosted_call_sim)
  moreover have "rel_prod (hosts sql_ref) (=) (example_ready, replicate 5 Fine @ [Refused ''gone''])
      (example_hosted, replicate 5 Fine @ [Refused ''gone''])"
    using hosts_example by simp
  ultimately have sim: "rel_sum same_failure (=) (fst ?mem) (fst ?run) \<and> rel_prod (hosts sql_ref) (=) (snd ?mem) (snd ?run)"
    by (rule simulatesD)
  have "dispatchable example_args example_ready"
    using example_ready_facts by (simp add: dispatchable_def mandate_version_def example_version)
  from store_refuses_after_call [OF this, of "\<lambda>k g. Some 7" ext_ref 7 200 201 "''gone''"]
  have mem: "?mem = (Inl (Storage (Backend ''gone'')), called_world ext_ref 200 example_args example_ready, [])" by simp
  with sim obtain e h' where run: "?run = (Inl e, h', [])"
    by (cases ?run) (auto elim: rel_sum.cases)
  have down: "db_down (ho_db example_hosted) = None" "attempts_written sql_ref (ho_db example_hosted)"
    using hosts_example by (simp_all add: hosts_def)
  have "w_provider (ho_local h') = w_provider example_ready @ [call_of ext_ref example_args]"
    using sim by (simp add: mem run hosts_def dispatch_frame)
  then have sent: "\<not> unsent (ho_local example_hosted) (ho_local h')"
      "w_provider (ho_local h') = [call_of ext_ref example_args]"
    by (simp_all add: example_hosted_def example_ready_def world_new_def)
  from postgres_dispatch_under_faults [OF down max run] sent(1)
  have "map_option mw_version (db_mandates (ho_db h') ''m'') \<in> {Some 2, Some 3}"
    by (simp add: Let_def example_version)
  with run sent(2) show ?thesis by (auto simp: example_version)
qed

end
