(* ===== verification/Webhook_Ports.thy ===== *)
theory Webhook_Ports
  imports Simulation Webhooks
begin

text \<open>
  Webhook ingestion and receipt production over any stores: the use cases of
  \<^verbatim>\<open>crates/piteka-application/src/webhook_ingestion.rs\<close> and \<^verbatim>\<open>receipt_production.rs\<close> and the handler of
  \<^verbatim>\<open>apps/piteka-api/src/webhook.rs\<close> are generic in their stores, here a record of the operations they call.
  \<open>Receipts\<close> and \<open>Webhooks\<close> are the instance on the in-memory stores, and stores that simulate each other
  give endpoints that answer alike.
\<close>

section \<open>The ports\<close>

text \<open>\<open>hp_track\<close> is the ordering tracker of the use case, which is no store.\<close>

record 's webhook_ports =
  hp_attempt_by_deployment_id :: "u64 \<Rightarrow> ('s, storage_error, execution_attempt option) op"
  hp_node_insert :: "evidence_node \<Rightarrow> ('s, storage_error, unit) op"
  hp_receipt_insert :: "receipt_projection \<Rightarrow> ('s, storage_error, unit) op"
  hp_webhook_get :: "string \<Rightarrow> ('s, storage_error, webhook_receipt option) op"
  hp_webhook_record :: "webhook_receipt \<Rightarrow> ('s, storage_error, webhook_record_outcome) op"
  hp_audit_append :: "audit_event \<Rightarrow> ('s, storage_error, unit) op"
  hp_track :: "deployment_status_event \<Rightarrow> 's \<Rightarrow> bool \<times> 's"

type_synonym ('s, 'a) producing = "('s, receipt_production_error, 'a) op"
type_synonym ('s, 'a) hooked = "('s, webhook_error, 'a) op"
type_synonym 's event_processor = "string \<Rightarrow> bytes \<Rightarrow> string \<Rightarrow> bool \<Rightarrow> ('s, unit) hooked"

section \<open>Producing a receipt\<close>

definition insert_node_with :: "'s webhook_ports \<Rightarrow> evidence_node \<Rightarrow> ('s, unit) producing" where
  "insert_node_with P n = map_err receipt_production_error.Storage (hp_node_insert P n)"

definition find_attempt_with :: "'s webhook_ports \<Rightarrow> u64 \<Rightarrow> ('s, execution_attempt) producing" where
  "find_attempt_with P deployment_id =
     try_op (map_err receipt_production_error.Storage (hp_attempt_by_deployment_id P deployment_id)) (\<lambda>found.
       case found of
         None \<Rightarrow> fail (AttemptNotFound (''no attempt found for deployment_id='' @ dec_u64 deployment_id))
       | Some attempt \<Rightarrow> ok attempt)"

definition record_outcome_with ::
  "'s webhook_ports \<Rightarrow> ext \<Rightarrow> u64 \<Rightarrow> deployment_status_event \<Rightarrow> execution_attempt
   \<Rightarrow> ('s, receipt_production_result) producing" where
  "record_outcome_with P E now event attempt =
     (let a = ea_attempt_id_hex attempt; m = ea_mandate_id_hex attempt;
          outcome = map_github_state_to_outcome (de_state event);
          observation = create_observation_node E m a event now;
          claim = create_claim_node E m a outcome now;
          gap = create_gap_node E m a ''target_outcome'' gap_reason now;
          gaps = (if outcome = Unknown then [en_node_id_hex gap] else []);
          receipt = receipt_of attempt outcome now claim observation gaps in
      try_op (if outcome = Unknown then insert_node_with P gap else ok ()) (\<lambda>_.
      try_op (insert_node_with P observation) (\<lambda>_.
      try_op (insert_node_with P claim) (\<lambda>_.
      try_op (map_err receipt_production_error.Storage (hp_receipt_insert P receipt)) (\<lambda>_.
      try_op (map_err receipt_production_error.Storage (hp_audit_append P
        \<lparr>ae_occurred_at = now, ae_actor = None, ae_action = ''receipt.produced'',
         ae_decision = outcome_as_str outcome,
         ae_detail = ''receipt='' @ rp_receipt_id_hex receipt @ '' mandate='' @ m @ '' attempt='' @ a
           @ '' github_state='' @ de_state event @ '' outcome='' @ outcome_as_str outcome\<rparr>)) (\<lambda>_.
      ok \<lparr>pr_receipt_id_hex = rp_receipt_id_hex receipt, pr_outcome = outcome,
          pr_evidence_node_ids = [en_node_id_hex observation, en_node_id_hex claim],
          pr_evidence_gaps = gaps\<rparr>))))))"

definition produce_with ::
  "'s webhook_ports \<Rightarrow> ext \<Rightarrow> u64 \<Rightarrow> deployment_status_event \<Rightarrow> ('s, receipt_production_result) producing" where
  "produce_with P E now event =
     try_op (find_attempt_with P (de_deployment_id event)) (record_outcome_with P E now event)"

section \<open>The processor\<close>

definition audit_quietly_with :: "'s webhook_ports \<Rightarrow> audit_event \<Rightarrow> ('s, 'e, unit) op" where
  "audit_quietly_with P e s = (Inr (), snd (hp_audit_append P e s))"

text \<open>The event the processor writes for the answer of the production.\<close>

definition production_event ::
  "ext \<Rightarrow> u64 \<Rightarrow> string \<Rightarrow> deployment_status_event
   \<Rightarrow> receipt_production_error + receipt_production_result \<Rightarrow> audit_event" where
  "production_event E later delivery_id event answer =
     (case answer of
        Inr result \<Rightarrow>
          webhook_event later ''webhook.receipt_produced'' (outcome_as_str (pr_outcome result))
            (''delivery_id='' @ delivery_id @ '' receipt='' @ pr_receipt_id_hex result
              @ '' outcome='' @ outcome_as_str (pr_outcome result)
              @ '' evidence_nodes='' @ dec_nat (length (pr_evidence_node_ids result))
              @ '' gaps='' @ dec_nat (length (pr_evidence_gaps result)))
      | Inl (AttemptNotFound _) \<Rightarrow>
          webhook_event later ''webhook.attempt_not_found'' ''skipped''
            (''delivery_id='' @ delivery_id @ '' deployment_id=''
              @ dec_u64 (de_deployment_id event) @ '' no matching attempt'')
      | Inl err \<Rightarrow>
          webhook_event later ''webhook.receipt_production_error'' ''error''
            (''delivery_id='' @ delivery_id @ '' error='' @ receipt_production_error_display E err))"

definition process_with :: "'s webhook_ports \<Rightarrow> ext \<Rightarrow> u64 \<Rightarrow> u64 \<Rightarrow> 's event_processor" where
  "process_with P E now later event_type payload delivery_id out_of_order =
     (if event_type \<noteq> ''deployment_status'' then fail (UnsupportedEventType event_type)
      else case parse_deployment_status E payload of
        None \<Rightarrow> fail (Malformed ''invalid deployment_status payload'')
      | Some event \<Rightarrow>
          if \<not> terminal_status (de_state event) then
            try_op (map_err Storage (hp_audit_append P
              (webhook_event now ''webhook.status_non_terminal'' ''deferred''
                (''delivery_id='' @ delivery_id @ '' deployment_id='' @ dec_u64 (de_deployment_id event)
                  @ '' state='' @ de_state event)))) (\<lambda>_. ok ())
          else (\<lambda>s.
            case produce_with P E now event s of
              (answer, s') \<Rightarrow> audit_quietly_with P (production_event E later delivery_id event answer) s'))"

section \<open>Ingestion and the handler\<close>

definition ingest_with ::
  "'s webhook_ports \<Rightarrow> ext \<Rightarrow> u64 \<Rightarrow> u64 \<Rightarrow> github_webhook_payload \<Rightarrow> ('s, ingestion_outcome) hooked" where
  "ingest_with P E now later payload =
     (if blank (wp_delivery_id payload) then fail (Malformed ''delivery ID is empty'')
      else if wp_event_type payload \<noteq> ''deployment_status''
      then fail (UnsupportedEventType (wp_event_type payload))
      else case parse_deployment_status E (wp_body payload) of
        None \<Rightarrow> fail (Malformed ''invalid deployment_status payload'')
      | Some event \<Rightarrow>
          (let raw_digest = content_digest_of E (wp_body payload) in
           try_op (map_err Storage (hp_webhook_get P (wp_delivery_id payload))) (\<lambda>existing.
             case existing of
               Some _ \<Rightarrow> ok IngestDuplicate
             | None \<Rightarrow>
                 try_op (map_err Storage (hp_webhook_record P
                   \<lparr>wr_delivery_id = wp_delivery_id payload, wr_source = ''github'',
                    wr_raw_digest = raw_digest, wr_received_at = now\<rparr>)) (\<lambda>recorded.
                 case recorded of
                   Duplicate \<Rightarrow> ok IngestDuplicate
                 | Recorded \<Rightarrow>
                     try_op (\<lambda>s. (Inr (fst (hp_track P event s)), snd (hp_track P event s))) (\<lambda>out_of_order.
                     try_op (map_err Storage (hp_audit_append P
                       (webhook_event later
                         (if out_of_order then ''webhook.ingested.out_of_order'' else ''webhook.ingested'')
                         ''accepted''
                         (''delivery_id='' @ wp_delivery_id payload @ '' event_type=''
                           @ wp_event_type payload @ '' out_of_order='' @ debug_bool out_of_order))))
                     (\<lambda>_. ok (Processed out_of_order raw_digest)))))))"

definition process_and_audit ::
  "'s webhook_ports \<Rightarrow> ext \<Rightarrow> 's event_processor \<Rightarrow> u64 \<Rightarrow> string \<Rightarrow> bytes \<Rightarrow> string \<Rightarrow> bool \<Rightarrow> 's \<Rightarrow> 's" where
  "process_and_audit P E processor now event_type payload delivery_id out_of_order s =
     (case processor event_type payload delivery_id out_of_order s of
        (Inr _, s') \<Rightarrow>
          snd (hp_audit_append P (webhook_event now ''webhook.processed'' ''success''
            (''delivery_id='' @ delivery_id @ '' event_type='' @ event_type)) s')
      | (Inl err, s') \<Rightarrow>
          snd (hp_audit_append P (webhook_event now ''webhook.process_error'' ''error''
            (''delivery_id='' @ delivery_id @ '' event_type='' @ event_type @ '' error=''
              @ webhook_error_display E err)) s'))"

text \<open>What the handler answers to the outcome of the ingestion, and the processing after it.\<close>

definition answer_with ::
  "'s webhook_ports \<Rightarrow> ext \<Rightarrow> 's event_processor \<Rightarrow> u64 \<Rightarrow> github_webhook_payload
    \<Rightarrow> (webhook_error + ingestion_outcome) \<times> 's \<Rightarrow> webhook_response \<times> 's" where
  "answer_with P E processor now payload ingested =
     (case ingested of
        (Inl (Malformed message), s') \<Rightarrow> (ErrorReply (bad_request ''MALFORMED_WEBHOOK'' message), s')
      | (Inl (UnsupportedEventType _), s') \<Rightarrow>
          (ErrorReply (bad_request ''UNSUPPORTED_EVENT_TYPE'' ''The GitHub event type is not supported''), s')
      | (Inl _, s') \<Rightarrow> (ErrorReply (Internal ''Webhook ingestion failed''), s')
      | (Inr IngestDuplicate, s') \<Rightarrow> (DuplicateReply (wp_delivery_id payload), s')
      | (Inr (Processed out_of_order raw_digest), s') \<Rightarrow>
          (ProcessedReply (wp_delivery_id payload) out_of_order (to_hex E raw_digest),
           process_and_audit P E processor now (wp_event_type payload) (wp_body payload)
             (wp_delivery_id payload) out_of_order s'))"

definition handle_webhook_with ::
  "'s webhook_ports \<Rightarrow> ext \<Rightarrow> (github_webhook_payload \<Rightarrow> webhook_signature_result option) \<Rightarrow> 's event_processor
    \<Rightarrow> u64 \<Rightarrow> u64 \<Rightarrow> u64 \<Rightarrow> webhook_request \<Rightarrow> 's \<Rightarrow> webhook_response \<times> 's" where
  "handle_webhook_with P E verify processor t1 t2 t3 request s =
     (case header_value (hr_delivery request) of
        None \<Rightarrow> (ErrorReply (bad_request ''MISSING_DELIVERY_ID'' ''The `X-GitHub-Delivery` header is required''), s)
      | Some delivery_id \<Rightarrow>
     (case header_value (hr_event request) of
        None \<Rightarrow> (ErrorReply (bad_request ''MISSING_EVENT_TYPE'' ''The `X-GitHub-Event` header is required''), s)
      | Some event_type \<Rightarrow>
     (case header_value (hr_signature request) of
        None \<Rightarrow> (ErrorReply (api_error.Unauthorized ''MISSING_SIGNATURE'' ''The `X-Hub-Signature-256` header is required''), s)
      | Some signature \<Rightarrow>
     (case hr_body request of
        None \<Rightarrow> (ErrorReply (Internal ''Failed to read request body''), s)
      | Some body \<Rightarrow>
     (let payload = \<lparr>wp_delivery_id = delivery_id, wp_event_type = event_type,
                     wp_signature = signature, wp_body = body\<rparr> in
      case verify payload of
        None \<Rightarrow> (ErrorReply (Internal ''Webhook authentication is unavailable''), s)
      | Some MissingOrMalformed \<Rightarrow>
          (ErrorReply (api_error.Unauthorized ''MISSING_OR_MALFORMED_SIGNATURE''
             ''The `X-Hub-Signature-256` header is missing or malformed''), s)
      | Some Invalid \<Rightarrow>
          (ErrorReply (api_error.Unauthorized ''INVALID_SIGNATURE''
             ''The webhook signature does not match the payload''), s)
      | Some Valid \<Rightarrow>
          if event_type = ''ping'' then (PingReply delivery_id, s)
          else answer_with P E processor t3 payload (ingest_with P E t1 t2 payload s))))))"

text \<open>Unless the store says that a delivery is new, the endpoint leaves everything as it is.\<close>

lemma handle_repeated:
  assumes "header_value (hr_delivery request) = Some d" and "hp_webhook_get P d s = (answer, s)" and "answer \<noteq> Inr None"
  shows "snd (handle_webhook_with P E verify processor t1 t2 t3 request s) = s"
proof -
  have "snd (ingest_with P E t1 t2 payload s) = s
      \<and> (\<forall>late digest. fst (ingest_with P E t1 t2 payload s) \<noteq> Inr (Processed late digest))"
    if "wp_delivery_id payload = d" for payload
    using assms(2,3) that
    by (auto simp: ingest_with_def Let_def try_op_eq map_err_eq split: option.split sum.splits)
  then have "snd (answer_with P E processor t3 payload (ingest_with P E t1 t2 payload s)) = s"
    if "wp_delivery_id payload = d" for payload
    using that by (fastforce simp: answer_with_def split: prod.split sum.split webhook_error.split ingestion_outcome.split)
  with assms(1) show ?thesis
    by (auto simp: handle_webhook_with_def Let_def split: option.split webhook_signature_result.split)
qed

section \<open>The in-memory ports\<close>

definition track_in :: "deployment_status_event \<Rightarrow> world \<Rightarrow> bool \<times> world" where
  "track_in event w =
     (case tracker_record (de_deployment_id event) (de_updated_at event) (w_tracker w) of
        (out_of_order, tracker) \<Rightarrow> (out_of_order, w\<lparr>w_tracker := tracker\<rparr>))"

definition memory_webhook_ports :: "string list \<Rightarrow> world webhook_ports" where
  "memory_webhook_ports order =
     \<lparr>hp_attempt_by_deployment_id = (\<lambda>d. reading (\<lambda>w. attempt_by_deployment_id order (w_attempts w) d)),
      hp_node_insert = (\<lambda>n. at_nodes (node_insert n)),
      hp_receipt_insert = (\<lambda>r. at_receipts (receipt_insert r)),
      hp_webhook_get = (\<lambda>k. reading (\<lambda>w. webhook_get (w_webhooks w) k)),
      hp_webhook_record = (\<lambda>r. at_webhooks (webhook_record r)),
      hp_audit_append = (\<lambda>e. at_audit (audit_append e)),
      hp_track = track_in\<rparr>"

lemma memory_webhook_sel:
  "hp_attempt_by_deployment_id (memory_webhook_ports order)
    = (\<lambda>d. reading (\<lambda>w. attempt_by_deployment_id order (w_attempts w) d))"
  "hp_node_insert (memory_webhook_ports order) = (\<lambda>n. at_nodes (node_insert n))"
  "hp_receipt_insert (memory_webhook_ports order) = (\<lambda>r. at_receipts (receipt_insert r))"
  "hp_webhook_get (memory_webhook_ports order) = (\<lambda>k. reading (\<lambda>w. webhook_get (w_webhooks w) k))"
  "hp_webhook_record (memory_webhook_ports order) = (\<lambda>r. at_webhooks (webhook_record r))"
  "hp_audit_append (memory_webhook_ports order) = (\<lambda>e. at_audit (audit_append e))"
  "hp_track (memory_webhook_ports order) = track_in"
  by (simp_all add: memory_webhook_ports_def)

lemma record_order_track: "(\<lambda>s. (Inr (fst (track_in event s)), snd (track_in event s))) = record_order event"
  by (rule ext) (simp add: track_in_def record_order_def Let_def split: prod.split)

lemmas memory_webhook_run = memory_webhook_sel map_err_reading record_order_track

lemma memory_produce: "produce_with (memory_webhook_ports order) E = produce_receipt_from_webhook E order"
  unfolding produce_with_def [abs_def] produce_receipt_from_webhook_def [abs_def] find_attempt_with_def find_attempt_def
    record_outcome_with_def [abs_def] record_outcome_def [abs_def] insert_node_with_def insert_node_def memory_webhook_run
  by (rule refl)

lemma memory_quietly: "audit_quietly_with (memory_webhook_ports order) = audit_quietly"
  by (intro ext) (simp add: audit_quietly_with_def audit_quietly_def memory_webhook_sel)

lemma settled_event:
  "(case r of (answer, w) \<Rightarrow> audit_quietly (production_event E later k event answer) w) =
    (case r of
       (Inr result, w') \<Rightarrow>
         audit_quietly (webhook_event later ''webhook.receipt_produced'' (outcome_as_str (pr_outcome result))
           (''delivery_id='' @ k @ '' receipt='' @ pr_receipt_id_hex result
             @ '' outcome='' @ outcome_as_str (pr_outcome result)
             @ '' evidence_nodes='' @ dec_nat (length (pr_evidence_node_ids result))
             @ '' gaps='' @ dec_nat (length (pr_evidence_gaps result)))) w'
     | (Inl (AttemptNotFound _), w') \<Rightarrow>
         audit_quietly (webhook_event later ''webhook.attempt_not_found'' ''skipped''
           (''delivery_id='' @ k @ '' deployment_id='' @ dec_u64 (de_deployment_id event) @ '' no matching attempt'')) w'
     | (Inl err, w') \<Rightarrow>
         audit_quietly (webhook_event later ''webhook.receipt_production_error'' ''error''
           (''delivery_id='' @ k @ '' error='' @ receipt_production_error_display E err)) w')"
  by (auto simp: production_event_def split: prod.split sum.split receipt_production_error.split)

lemma memory_process: "process_with (memory_webhook_ports order) E = process E order"
  unfolding process_with_def [abs_def] process_def [abs_def] memory_produce memory_quietly memory_webhook_run settled_event
  by (rule refl)

lemma memory_ingest: "ingest_with (memory_webhook_ports order) E = ingest E"
  unfolding ingest_with_def [abs_def] ingest_def [abs_def] memory_webhook_run by (rule refl)

lemma memory_dispatch: "process_and_audit (memory_webhook_ports order) E = dispatch E"
  unfolding process_and_audit_def [abs_def] dispatch_def [abs_def] memory_webhook_run audit_run snd_conv
  by (rule refl)

lemma memory_handle: "handle_webhook_with (memory_webhook_ports order) E = handle_webhook E"
  unfolding handle_webhook_with_def [abs_def] handle_webhook_def [abs_def] memory_ingest memory_dispatch answer_with_def Let_def github_webhook_payload.simps
  by (rule refl)

section \<open>Two families of stores\<close>

text \<open>Audit events agree up to their detail, which quotes the words of a store's failure.\<close>

definition same_event :: "audit_event \<Rightarrow> audit_event \<Rightarrow> bool" where
  "same_event e e' \<longleftrightarrow> e\<lparr>ae_detail := []\<rparr> = e'\<lparr>ae_detail := []\<rparr>"

lemma same_event_simps [simp]: "same_event e e" "same_event (webhook_event n a d x) (webhook_event n a d y)"
  by (simp_all add: same_event_def webhook_event_def)

definition same_production_failure :: "receipt_production_error \<Rightarrow> receipt_production_error \<Rightarrow> bool" where
  "same_production_failure e e' \<longleftrightarrow>
     e = e' \<or> (\<exists>x y. e = receipt_production_error.Storage x \<and> e' = receipt_production_error.Storage y)"

definition same_webhook_failure :: "webhook_error \<Rightarrow> webhook_error \<Rightarrow> bool" where
  "same_webhook_failure e e' \<longleftrightarrow> e = e' \<or> (\<exists>x y. e = Storage x \<and> e' = Storage y)"

lemma same_failures [simp]:
  "same_production_failure e e" "same_production_failure (receipt_production_error.Storage x) (receipt_production_error.Storage y)"
  "same_webhook_failure f f" "same_webhook_failure (Storage x) (Storage y)"
  by (simp_all add: same_production_failure_def same_webhook_failure_def)

lemma sim_recorded [sim]:
  "simulates R F m n \<Longrightarrow> simulates R F m' n' \<Longrightarrow>
    simulates R F (case x of Recorded \<Rightarrow> m | Duplicate \<Rightarrow> m') (case x of Recorded \<Rightarrow> n | Duplicate \<Rightarrow> n')"
  by (cases x) simp_all

locale webhook_simulation =
  fixes P :: "'s webhook_ports" and Q :: "'t webhook_ports" and R :: "'s \<Rightarrow> 't \<Rightarrow> bool"
  assumes attempt_by_deployment_id:
      "simulates R some_failure (hp_attempt_by_deployment_id P d) (hp_attempt_by_deployment_id Q d)"
    and node_insert: "simulates R some_failure (hp_node_insert P n) (hp_node_insert Q n)"
    and receipt_insert: "simulates R some_failure (hp_receipt_insert P r) (hp_receipt_insert Q r)"
    and webhook_get: "simulates R some_failure (hp_webhook_get P k) (hp_webhook_get Q k)"
    and webhook_record: "wf_digest (wr_raw_digest h) \<Longrightarrow>
      simulates R some_failure (hp_webhook_record P h) (hp_webhook_record Q h)"
    and audit_append: "same_event ev ev' \<Longrightarrow> simulates R some_failure (hp_audit_append P ev) (hp_audit_append Q ev')"
    and track: "R s t \<Longrightarrow> fst (hp_track P event s) = fst (hp_track Q event t)
      \<and> R (snd (hp_track P event s)) (snd (hp_track Q event t))"
begin

lemma production_stored_sim:
  "simulates R some_failure m n \<Longrightarrow>
    simulates R same_production_failure (map_err receipt_production_error.Storage m) (map_err receipt_production_error.Storage n)"
  by (rule sim_map_err) simp_all

lemma webhook_stored_sim:
  "simulates R some_failure m n \<Longrightarrow> simulates R same_webhook_failure (map_err Storage m) (map_err Storage n)"
  by (rule sim_map_err) simp_all

lemma insert_node_sim: "simulates R same_production_failure (insert_node_with P n) (insert_node_with Q n)"
  unfolding insert_node_with_def by (intro production_stored_sim node_insert)

lemma record_outcome_sim:
  "simulates R same_production_failure (record_outcome_with P E now event x) (record_outcome_with Q E now event x)"
  unfolding record_outcome_with_def Let_def
  by (intro sim production_stored_sim insert_node_sim receipt_insert audit_append same_event_simps)

lemma produce_sim: "simulates R same_production_failure (produce_with P E now event) (produce_with Q E now event)"
  unfolding produce_with_def find_attempt_with_def
  by (intro sim production_stored_sim attempt_by_deployment_id record_outcome_sim same_failures)

lemma appended:
  "same_event ev ev' \<Longrightarrow> R s t \<Longrightarrow> R (snd (hp_audit_append P ev s)) (snd (hp_audit_append Q ev' t))"
  by (blast dest: simulatesD [OF audit_append])

lemma same_production_event:
  "rel_sum same_production_failure (=) x y \<Longrightarrow>
    same_event (production_event E later k event x) (production_event E later k event y)"
  by (cases x; cases y) (auto simp: production_event_def same_production_failure_def split: receipt_production_error.split)

lemma process_sim:
  "simulates R same_webhook_failure (process_with P E now later ty body k late) (process_with Q E now later ty body k late)"
proof -
  have "simulates R same_webhook_failure
      (\<lambda>s. case produce_with P E now event s of
         (answer, s') \<Rightarrow> audit_quietly_with P (production_event E later k event answer) s')
      (\<lambda>s. case produce_with Q E now event s of
         (answer, s') \<Rightarrow> audit_quietly_with Q (production_event E later k event answer) s')" for event
    by (rule simulatesI)
      (auto simp: audit_quietly_with_def case_prod_beta intro!: appended same_production_event
        dest: simulatesD [OF produce_sim])
  then show ?thesis
    unfolding process_with_def
    by (intro sim webhook_stored_sim audit_append same_event_simps same_failures)
qed

lemma ingest_sim:
  assumes "wf_digest (content_digest_of E (wp_body payload))"
  shows "simulates R same_webhook_failure (ingest_with P E now later payload) (ingest_with Q E now later payload)"
proof -
  have track: "simulates R same_webhook_failure (\<lambda>s. (Inr (fst (hp_track P event s)), snd (hp_track P event s)))
      (\<lambda>s. (Inr (fst (hp_track Q event s)), snd (hp_track Q event s)))" for event
    by (rule simulatesI) (simp add: track)
  show ?thesis
    unfolding ingest_with_def Let_def
    by (intro sim webhook_stored_sim webhook_get webhook_record audit_append same_event_simps same_failures track)
      (simp add: assms)
qed

lemma process_and_audit_sim:
  assumes "simulates R same_webhook_failure (processor ty body k late) (processor' ty body k late)" and "R s t"
  shows "R (process_and_audit P E processor now ty body k late s) (process_and_audit Q E processor' now ty body k late t)"
  using simulatesD [OF assms]
  by (cases "processor ty body k late s"; cases "processor' ty body k late t")
    (auto simp: process_and_audit_def rel_sum_sel split: sum.splits intro!: appended)

lemma answer_sim:
  assumes "rel_sum same_webhook_failure (=) (fst x) (fst y) \<and> R (snd x) (snd y)"
    and "\<And>ty body k late. simulates R same_webhook_failure (processor ty body k late) (processor' ty body k late)"
  shows "fst (answer_with P E processor now payload x) = fst (answer_with Q E processor' now payload y)
    \<and> R (snd (answer_with P E processor now payload x)) (snd (answer_with Q E processor' now payload y))"
  using assms(1)
  by (cases x; cases y; cases "fst x"; cases "fst y")
    (auto simp: answer_with_def same_webhook_failure_def intro!: process_and_audit_sim assms(2)
      split: webhook_error.split ingestion_outcome.split)

text \<open>The endpoint answers the same, from related states to related states.\<close>

lemma handle_sim:
  assumes "sha256_laws E" and "R s t"
    and "\<And>ty body k late. simulates R same_webhook_failure (processor ty body k late) (processor' ty body k late)"
  shows "fst (handle_webhook_with P E verify processor t1 t2 t3 request s)
      = fst (handle_webhook_with Q E verify processor' t1 t2 t3 request t)
    \<and> R (snd (handle_webhook_with P E verify processor t1 t2 t3 request s))
        (snd (handle_webhook_with Q E verify processor' t1 t2 t3 request t))"
proof (cases "payload_of request")
  case None
  then show ?thesis using assms(2)
    by (auto simp: handle_webhook_with_def payload_of_def split: option.splits)
next
  case (Some payload)
  then obtain i ty sig b where h: "header_value (hr_delivery request) = Some i" "header_value (hr_event request) = Some ty"
    "header_value (hr_signature request) = Some sig" "hr_body request = Some b"
    and p: "payload = \<lparr>wp_delivery_id = i, wp_event_type = ty, wp_signature = sig, wp_body = b\<rparr>"
    by (auto simp: payload_of_def bind_eq_Some_conv)
  have ingested: "rel_sum same_webhook_failure (=) (fst (ingest_with P E t1 t2 payload s)) (fst (ingest_with Q E t1 t2 payload t))
      \<and> R (snd (ingest_with P E t1 t2 payload s)) (snd (ingest_with Q E t1 t2 payload t))"
    using assms by (intro simulatesD [OF ingest_sim]) (simp_all add: wf_digest_def content_digest_of_def sha256_laws_def)
  note answered = answer_sim [where processor = processor and processor' = processor' and E = E and now = t3 and payload = payload, OF ingested assms(3)]
  show ?thesis
    using assms(2) answered
    by (cases "verify payload"; cases "the (verify payload)")
      (simp_all add: handle_webhook_with_def h Let_def flip: p)
qed

end

end
