(* ===== verification/Webhook_Postgres.thy ===== *)
theory Webhook_Postgres
  imports Webhook_Ports Dispatch_Postgres Api_Wiring
begin

text \<open>
  The live webhook endpoint, \<open>build_live_webhook_router\<close> of \<^verbatim>\<open>apps/piteka-api/src/routes.rs\<close>: the handler and the
  receipt-producing processor over the PostgreSQL stores. Only the ordering tracker lives in the process, and a
  restart empties it. The endpoint is shown to simulate the one on the in-memory stores, so what is proved there
  holds of it.
\<close>

section \<open>The ports\<close>

text \<open>\<open>scan\<close> is the order in which the server meets the rows of a table.\<close>

definition live_webhook_ports :: "ext \<Rightarrow> sql \<Rightarrow> string list \<Rightarrow> hosted webhook_ports" where
  "live_webhook_ports E S scan =
     \<lparr>hp_attempt_by_deployment_id = (\<lambda>d. at_db (pg_attempt_by_deployment_id S scan d)),
      hp_node_insert = (\<lambda>n. at_db (pg_node_insert E S n)),
      hp_receipt_insert = (\<lambda>r. at_db (pg_receipt_insert S r)),
      hp_webhook_get = (\<lambda>k. at_db (pg_webhook_get E k)),
      hp_webhook_record = (\<lambda>r. at_db (pg_webhook_record E r)),
      hp_audit_append = (\<lambda>e. at_db (pg_audit_append e)),
      hp_track = (\<lambda>event h. case track_in event (ho_local h) of (late, w) \<Rightarrow> (late, h\<lparr>ho_local := w\<rparr>))\<rparr>"

definition live_webhook_endpoint ::
  "ext \<Rightarrow> sql \<Rightarrow> string list \<Rightarrow> bytes option \<Rightarrow> u64 \<Rightarrow> u64 \<Rightarrow> u64 \<Rightarrow> u64 \<Rightarrow> u64
    \<Rightarrow> webhook_request \<Rightarrow> hosted \<Rightarrow> webhook_response \<times> hosted" where
  "live_webhook_endpoint E S scan env now later t1 t2 t3 =
     (let P = live_webhook_ports E S scan in
      handle_webhook_with P E (\<lambda>payload. Some (mock_verify_webhook_signature E env mock_github_adapter_default payload))
        (process_with P E now later) t1 t2 t3)"

section \<open>Agreement\<close>

definition receipts_of :: "sql \<Rightarrow> pg_db \<Rightarrow> string \<rightharpoonup> receipt_projection" where
  "receipts_of S db k = map_option (\<lambda>r. projr (decode_receipt S (k, r))) (db_receipts db k)"

text \<open>The stores hold the same; the audit logs agree up to the details of their events.\<close>

definition live_hosts :: "ext \<Rightarrow> sql \<Rightarrow> world \<Rightarrow> hosted \<Rightarrow> bool" where
  "live_hosts E S w h \<longleftrightarrow>
     db_down (ho_db h) = None \<and> attempts_written S (ho_db h)
     \<and> row_map (w_attempts w) = attempts_of S (ho_db h)
     \<and> row_map (w_receipts w) = receipts_of S (ho_db h)
     \<and> db_nodes (ho_db h) = map_option (node_row_of E S) \<circ> ns_nodes (w_nodes w)
     \<and> (\<forall>k. map_option (decode_webhook E k) (db_webhooks (ho_db h) k) = map_option Inr (w_webhooks w k))
     \<and> list_all2 same_event (w_audit w) (db_audit (ho_db h))
     \<and> w_tracker w = w_tracker (ho_local h)"

lemma live_frames [simp]:
  "attempts_of S (db_audit_update f db) = attempts_of S db" "attempts_of S (db_nodes_update g db) = attempts_of S db"
  "attempts_of S (db_receipts_update i db) = attempts_of S db" "attempts_of S (db_webhooks_update j db) = attempts_of S db"
  "attempts_written S (db_nodes_update g db) = attempts_written S db"
  "attempts_written S (db_receipts_update i db) = attempts_written S db"
  "attempts_written S (db_webhooks_update j db) = attempts_written S db"
  "receipts_of S (db_audit_update f db) = receipts_of S db" "receipts_of S (db_nodes_update g db) = receipts_of S db"
  "receipts_of S (db_webhooks_update j db) = receipts_of S db"
  by (auto simp: attempts_of_def attempts_written_def receipts_of_def fun_eq_iff)

lemma receipts_of_insert [simp]:
  "sql_laws S \<Longrightarrow> receipts_of S (db_receipts_update (\<lambda>t. t(rp_receipt_id_hex r \<mapsto> receipt_row_of S r)) db)
    = (receipts_of S db)(rp_receipt_id_hex r \<mapsto> r)"
  by (rule ext) (simp add: receipts_of_def)

lemma decode_deployment:
  "decode_attempt S (k, r) = Inr a \<Longrightarrow> ea_github_deployment_id a = aw_deployment r"
  "decode_attempt S (k, r) = Inr a \<Longrightarrow> aw_deployment r = Some d \<Longrightarrow>
    decode_attempt_with S (\<lambda>_. Some d) (k, r) = Inr a"
  by (auto simp: decode_attempt_def decode_attempt_with_def and_then_def column_def split: sum.splits option.splits)

lemma find_deployment:
  assumes "attempts_written S db"
  shows "decode_optional (decode_attempt_with S (\<lambda>_. Some d))
      (find (\<lambda>(k, r). aw_deployment r = Some d) (fetch_all (\<lambda>k. map_option (Pair k) (db_attempts db k)) scan))
    = Inr (find (\<lambda>a. ea_github_deployment_id a = Some d) (fetch_all (attempts_of S db) scan))"
proof (induction scan)
  case Nil
  then show ?case by simp
next
  case (Cons k scan)
  show ?case
  proof (cases "db_attempts db k")
    case None
    then show ?thesis using Cons by (simp add: attempts_of_def)
  next
    case (Some r)
    with assms obtain a where a: "decode_attempt S (k, r) = Inr a" unfolding attempts_written_def by blast
    with Some have "attempts_of S db k = Some a" by (simp add: attempts_of_def)
    with Some Cons show ?thesis
      by (simp add: decode_deployment(1) [OF a] decode_deployment(2) [OF a])
  qed
qed

lemma live_attempt_sim:
  "simulates (live_hosts E S) some_failure (reading (\<lambda>w. attempt_by_deployment_id scan (w_attempts w) d))
    (at_db (pg_attempt_by_deployment_id S scan d))"
  by (rule simulatesI)
    (auto simp: live_hosts_def pg_attempt_by_deployment_id_def try_op_run sql_select_run find_deployment
      attempt_by_deployment_id_def)

lemma live_node_sim:
  assumes "sql_laws S"
  shows "simulates (live_hosts E S) some_failure (at_nodes (node_insert n)) (at_db (pg_node_insert E S n))"
proof (rule simulatesI)
  fix w h
  assume R: "live_hosts E S w h"
  let ?k = "en_node_id_hex n"
  have up: "db_down (ho_db h) = None" and row: "db_nodes (ho_db h) ?k = None \<longleftrightarrow> ns_nodes (w_nodes w) ?k = None"
    using R by (auto simp: live_hosts_def)
  show "rel_sum some_failure (=) (fst (at_nodes (node_insert n) w)) (fst (at_db (pg_node_insert E S n) h))
    \<and> live_hosts E S (snd (at_nodes (node_insert n) w)) (snd (at_db (pg_node_insert E S n) h))"
  proof (cases "?k = []")
    case True
    with R show ?thesis by (simp add: node_insert_def pg_node_insert_def on_eq fail_def)
  next
    case False
    with R row show ?thesis
      by (auto simp: node_insert_def pg_node_insert_run [OF assms False] sql_insert_run [OF up] on_eq live_hosts_def fun_eq_iff)
  qed
qed

lemma live_receipt_sim:
  assumes "sql_laws S"
  shows "simulates (live_hosts E S) some_failure (at_receipts (receipt_insert r)) (at_db (pg_receipt_insert S r))"
proof (rule simulatesI)
  fix w h
  assume R: "live_hosts E S w h"
  let ?k = "rp_receipt_id_hex r"
  have up: "db_down (ho_db h) = None" and row: "db_receipts (ho_db h) ?k = None \<longleftrightarrow> row_map (w_receipts w) ?k = None"
    using R by (auto simp: live_hosts_def receipts_of_def)
  show "rel_sum some_failure (=) (fst (at_receipts (receipt_insert r) w)) (fst (at_db (pg_receipt_insert S r) h))
    \<and> live_hosts E S (snd (at_receipts (receipt_insert r) w)) (snd (at_db (pg_receipt_insert S r) h))"
  proof (cases "?k = []")
    case True
    with R show ?thesis by (simp add: receipt_insert_def insert_row_def pg_receipt_insert_def on_eq)
  next
    case False
    with R row assms show ?thesis
      by (auto simp: receipt_insert_def insert_row_def pg_receipt_insert_run [OF assms False] sql_insert_run [OF up]
          on_eq live_hosts_def)
  qed
qed

lemma live_webhook_get_sim:
  "simulates (live_hosts E S) some_failure (reading (\<lambda>w. webhook_get (w_webhooks w) k)) (at_db (pg_webhook_get E k))"
proof (rule simulatesI)
  fix w h
  assume R: "live_hosts E S w h"
  then have "map_option (decode_webhook E k) (db_webhooks (ho_db h) k) = map_option Inr (w_webhooks w k)"
    by (simp add: live_hosts_def)
  with R show "rel_sum some_failure (=) (fst (reading (\<lambda>w. webhook_get (w_webhooks w) k) w)) (fst (at_db (pg_webhook_get E k) h))
    \<and> live_hosts E S (snd (reading (\<lambda>w. webhook_get (w_webhooks w) k) w)) (snd (at_db (pg_webhook_get E k) h))"
    by (cases "w_webhooks w k"; cases "db_webhooks (ho_db h) k")
      (auto simp: live_hosts_def pg_webhook_get_def webhook_get_def try_op_run sql_select_run)
qed

lemma live_webhook_record_sim:
  assumes "hex_laws E" and "wf_digest (wr_raw_digest r)"
  shows "simulates (live_hosts E S) some_failure (at_webhooks (webhook_record r)) (at_db (pg_webhook_record E r))"
proof (rule simulatesI)
  fix w h
  assume R: "live_hosts E S w h"
  let ?k = "wr_delivery_id r"
  have up: "db_down (ho_db h) = None" and "map_option (decode_webhook E ?k) (db_webhooks (ho_db h) ?k) = map_option Inr (w_webhooks w ?k)"
    using R by (simp_all add: live_hosts_def)
  then have row: "db_webhooks (ho_db h) ?k = None \<longleftrightarrow> w_webhooks w ?k = None"
    by (metis map_option_is_None)
  show "rel_sum some_failure (=) (fst (at_webhooks (webhook_record r) w)) (fst (at_db (pg_webhook_record E r) h))
    \<and> live_hosts E S (snd (at_webhooks (webhook_record r) w)) (snd (at_db (pg_webhook_record E r) h))"
    using R row
    by (auto simp: webhook_record_def pg_webhook_record_def try_op_run sql_insert_ignore_def stmt_up up on_eq live_hosts_def
        decode_webhook_def hex_round_trip [OF assms])
qed

lemma live_audit_sim:
  "same_event ev ev' \<Longrightarrow>
    simulates (live_hosts E S) some_failure (at_audit (audit_append ev)) (at_db (pg_audit_append ev'))"
  by (rule simulatesI)
    (auto simp: live_hosts_def pg_audit_append_def stmt_up add_audit_def intro!: list_all2_appendI)

text \<open>What the hex, SHA-2 and \<open>serde_json\<close> crates promise, and the in-memory ports and the live ones under it.\<close>

definition live_laws :: "ext \<Rightarrow> sql \<Rightarrow> bool" where
  "live_laws E S \<longleftrightarrow> hex_laws E \<and> sha256_laws E \<and> sql_laws S"

lemma live_lawsD: "live_laws E S \<Longrightarrow> hex_laws E" "live_laws E S \<Longrightarrow> sha256_laws E" "live_laws E S \<Longrightarrow> sql_laws S"
  by (simp_all add: live_laws_def)

lemma sim_given:
  "(c \<Longrightarrow> simulates R F m n) \<Longrightarrow> simulates (\<lambda>s t. c \<and> R s t) F m n"
  by (rule simulatesI) (blast dest: simulatesD)

lemma track_sim:
  "live_hosts E S w h \<Longrightarrow> fst (track_in event w) = fst (track_in event (ho_local h))
    \<and> live_hosts E S (snd (track_in event w)) (h\<lparr>ho_local := snd (track_in event (ho_local h))\<rparr>)"
  by (simp add: track_in_def live_hosts_def split: prod.split)

interpretation live: webhook_simulation "memory_webhook_ports scan" "live_webhook_ports E S scan"
    "\<lambda>w h. live_laws E S \<and> live_hosts E S w h"
  for E :: ext and S :: sql and scan :: "string list"
  by unfold_locales
    (auto simp: memory_webhook_sel live_webhook_ports_def live_attempt_sim live_node_sim live_receipt_sim
      live_webhook_get_sim live_webhook_record_sim live_audit_sim track_sim case_prod_unfold live_lawsD intro!: sim_given)

text \<open>One request: the live endpoint answers as the one over the stores in memory.\<close>

lemma live_endpoint_sim:
  assumes "live_laws E S" and "live_hosts E S w h"
  shows "fst (live_webhook_endpoint E S scan env n1 n2 t1 t2 t3 r h)
      = fst (webhook_endpoint E env mock_github_adapter_default (process E scan n1 n2) t1 t2 t3 r w)
    \<and> live_hosts E S (snd (webhook_endpoint E env mock_github_adapter_default (process E scan n1 n2) t1 t2 t3 r w))
        (snd (live_webhook_endpoint E S scan env n1 n2 t1 t2 t3 r h))"
proof -
  from live.handle_sim [OF live_lawsD(2) [OF assms(1)] conjI [OF assms] live.process_sim] show ?thesis
    by (auto simp: live_webhook_endpoint_def Let_def webhook_endpoint_def memory_handle memory_process)
qed

section \<open>Requests and restarts\<close>

text \<open>The life of the service: requests, and restarts that lose what is in the process.\<close>

datatype live_event =
    Request webhook_call
  | Restart

definition restart :: "hosted \<Rightarrow> hosted" where
  "restart h = h\<lparr>ho_local := world_new\<rparr>"

fun live_event_step ::
  "ext \<Rightarrow> sql \<Rightarrow> bytes option \<Rightarrow> live_event \<Rightarrow> hosted \<Rightarrow> webhook_response list \<times> hosted" where
  "live_event_step E S env (Request c) h =
     (case wc_clock c of (t1, t2, t3, n1, n2) \<Rightarrow>
        apfst (\<lambda>reply. [reply]) (live_webhook_endpoint E S (wc_order c) env n1 n2 t1 t2 t3 (wc_request c) h))"
| "live_event_step E S env Restart h = ([], restart h)"

fun live_run ::
  "ext \<Rightarrow> sql \<Rightarrow> bytes option \<Rightarrow> live_event list \<Rightarrow> hosted \<Rightarrow> webhook_response list \<times> hosted" where
  "live_run E S env [] h = ([], h)"
| "live_run E S env (v # vs) h =
     (let (now, h1) = live_event_step E S env v h; (later, h2) = live_run E S env vs h1 in (now @ later, h2))"

text \<open>What the run keeps: the world it stands for, and the deliveries it has seen.\<close>

definition recorded :: "hosted \<Rightarrow> string \<Rightarrow> bool" where
  "recorded h d \<longleftrightarrow> db_webhooks (ho_db h) d \<noteq> None"

lemma recorded_seen: "live_hosts E S w h \<Longrightarrow> recorded h d = seen w d"
  unfolding live_hosts_def recorded_def seen_def webhook_get_def by (metis map_option_is_None)

lemma live_restart: "live_hosts E S w h \<Longrightarrow> live_hosts E S (w\<lparr>w_tracker := Map.empty\<rparr>) (restart h)"
  by (simp add: live_hosts_def restart_def world_new_def)

lemma live_repeated:
  assumes "live_hosts E S w h" and "recorded h d \<and> header_value (hr_delivery r) = Some d"
  shows "snd (live_webhook_endpoint E S scan env n1 n2 t1 t2 t3 r h) = h"
proof -
  from assms obtain row where "db_webhooks (ho_db h) d = Some row" by (auto simp: recorded_def)
  moreover from assms(1) have "map_option (decode_webhook E d) (db_webhooks (ho_db h) d) = map_option Inr (w_webhooks w d)"
    by (simp add: live_hosts_def)
  ultimately obtain x where x: "hp_webhook_get (live_webhook_ports E S scan) d h = (Inr (Some x), h)"
    using assms(1)
    by (cases "w_webhooks w d")
      (auto simp: live_webhook_ports_def live_hosts_def pg_webhook_get_def try_op_run sql_select_run on_eq)
  show ?thesis
    unfolding live_webhook_endpoint_def Let_def by (rule handle_repeated [OF _ x]) (use assms(2) in simp_all)
qed

lemma live_event_step_deliveries:
  assumes "live_laws E S" and "live_hosts E S w h" and "live_event_step E S env v h = (replies, h')"
  shows "(\<exists>w'. live_hosts E S w' h') \<and> (recorded h d \<longrightarrow> recorded h' d)
    \<and> length (filter (processed_for d) replies) \<le> (if recorded h d then 0 else if recorded h' d then 1 else 0)"
proof (cases v)
  case (Request c)
  obtain t1 t2 t3 n1 n2 where clk: "wc_clock c = (t1, t2, t3, n1, n2)" by (cases "wc_clock c")
  let ?verify = "\<lambda>payload. Some (mock_verify_webhook_signature E env mock_github_adapter_default payload)"
  obtain reply w' where step: "handle_call E ?verify c w = (reply, w')" by (cases "handle_call E ?verify c w")
  from live_endpoint_sim [OF assms(1,2), of "wc_order c" env n1 n2 t1 t2 t3 "wc_request c"] step assms(3)
  have "replies = [reply]" "live_hosts E S w' h'"
    by (auto simp: Request clk handle_call_def webhook_endpoint_def apfst_def map_prod_def split: prod.splits)
  with handle_call_step [OF step, of d] recorded_seen [OF assms(2)] recorded_seen [of E S w' h'] show ?thesis
    by auto
next
  case Restart
  with assms live_restart [OF assms(2)] have "live_hosts E S (w\<lparr>w_tracker := Map.empty\<rparr>) h'" by simp
  with Restart assms(3) show ?thesis by (auto simp: recorded_def restart_def)
qed

lemma live_run_deliveries:
  "live_laws E S \<Longrightarrow> live_hosts E S w h \<Longrightarrow>
    length (filter (processed_for d) (fst (live_run E S env vs h))) \<le> (if recorded h d then 0 else 1)"
proof (induction vs arbitrary: w h)
  case Nil
  then show ?case by simp
next
  case (Cons v vs)
  obtain replies h1 where step: "live_event_step E S env v h = (replies, h1)" by (cases "live_event_step E S env v h")
  from live_event_step_deliveries [OF Cons.prems step, of d] Cons.IH [OF Cons.prems(1), of _ h1] show ?case
    by (auto simp: step case_prod_unfold Let_def split: if_splits)
qed

text \<open>A concrete service: an empty database, and a body that parses as the success of deployment 7.\<close>

definition hook_ext :: ext where
  "hook_ext = ext_ref\<lparr>ext_json_from_slice := \<lambda>_. Some (JObject
     [(''deployment'', JObject [(''id'', JPosInt 7)]), (''state'', JString ''success''), (''updated_at'', JPosInt 5)])\<rparr>"

definition hook_signature :: string where
  "hook_signature = ''sha256='' @ hex_encode_ref (ext_hmac_sha256 ext_ref ''k'' ''b'')"

definition hook_request :: webhook_request where
  "hook_request = \<lparr>hr_delivery = Some ''d'', hr_event = Some ''deployment_status'', hr_signature = Some hook_signature, hr_body = Some ''b''\<rparr>"

definition hook_hosted :: hosted where
  "hook_hosted = \<lparr>ho_local = world_new, ho_db = example_db\<lparr>db_mandates := Map.empty\<rparr>\<rparr>"

lemma hook_laws: "live_laws hook_ext sql_ref"
  using hex_laws_ref sha256_laws_ref sql_laws_ref
  by (simp add: live_laws_def hook_ext_def hex_laws_def sha256_laws_def)

lemma hook_hosts: "live_hosts E S world_new hook_hosted"
  by (auto simp: live_hosts_def hook_hosted_def example_db_def world_new_def empty_rows_def attempts_of_def
      attempts_written_def receipts_of_def fun_eq_iff)

lemma hook_answer:
  "webhook_endpoint hook_ext (Some ''k'') mock_github_adapter_default (process hook_ext [] 1 2) 3 4 5 hook_request world_new
    = (ProcessedReply ''d'' False (to_hex hook_ext (content_digest_of hook_ext ''b'')),
       snd (webhook_endpoint hook_ext (Some ''k'') mock_github_adapter_default (process hook_ext [] 1 2) 3 4 5 hook_request world_new))"
proof -
  let ?p = "\<lparr>wp_delivery_id = ''d'', wp_event_type = ''deployment_status'', wp_signature = hook_signature, wp_body = ''b''\<rparr>"
  have p: "payload_of hook_request = Some ?p"
    by (simp add: hook_request_def payload_of_def header_value_def hook_signature_def)
  have "hmac_laws hook_ext" using hmac_laws_ref by (simp add: hmac_laws_def hook_ext_def)
  moreover have "ext_hex_decode hook_ext (hex_encode_ref c) = Some c" for c
    by (simp add: hook_ext_def ext_ref_def hex_decode_encode_ref)
  ultimately have "verify_webhook_signature_internal hook_ext ''b'' hook_signature ''k'' = Valid"
    using webhook_signature_iff_aux [of hook_ext] by (auto simp: hook_signature_def hook_ext_def)
  then have "Some (mock_verify_webhook_signature hook_ext (Some ''k'') mock_github_adapter_default ?p) = Some Valid"
    by (simp add: mock_verify_webhook_signature_def)
  moreover have "parse_deployment_status hook_ext ''b'' = Some \<lparr>de_deployment_id = 7, de_state = ''success'',
      de_description = None, de_target_url = None, de_updated_at = 5\<rparr>"
    by (simp add: parse_deployment_status_def hook_ext_def parse_updated_at_def)
  moreover have "\<not> blank ''d''" by code_simp
  moreover have "\<not> seen world_new ''d''" "w_tracker world_new = Map.empty"
    by (simp_all add: seen_def webhook_get_def world_new_def)
  ultimately show ?thesis
    by (simp add: webhook_endpoint_def handle_valid [OF p] p ingest_run tracker_record_def Let_def)
qed

section \<open>Properties\<close>

text \<open>
  C10. The live webhook endpoint over PostgreSQL refines the endpoint over the stores in memory. From a database
  that holds what the maps hold, any request gets the same answer, with the same signature check and the same
  clock, and leaves a database that again holds what the maps hold: the same attempts, receipts, evidence nodes,
  deliveries and tracker, and the same audit events up to their details.
\<close>

theorem live_webhook_refines_memory:
  assumes "live_laws E S" and "live_hosts E S w h"
    and "webhook_endpoint E env mock_github_adapter_default (process E scan n1 n2) t1 t2 t3 r w = (reply, w')"
    and "live_webhook_endpoint E S scan env n1 n2 t1 t2 t3 r h = (reply', h')"
  shows "reply' = reply \<and> live_hosts E S w' h'"
  using live_endpoint_sim [OF assms(1,2), of scan env n1 n2 t1 t2 t3 r] by (simp add: assms(3,4))

theorem live_webhook_refines_memory_witness:
  "fst (live_webhook_endpoint hook_ext sql_ref [] (Some ''k'') 1 2 3 4 5 hook_request hook_hosted)
    = ProcessedReply ''d'' False (to_hex hook_ext (content_digest_of hook_ext ''b''))"
  using live_webhook_refines_memory [OF hook_laws hook_hosts hook_answer,
      of "fst (live_webhook_endpoint hook_ext sql_ref [] (Some ''k'') 1 2 3 4 5 hook_request hook_hosted)"
         "snd (live_webhook_endpoint hook_ext sql_ref [] (Some ''k'') 1 2 3 4 5 hook_request hook_hosted)"] by simp

text \<open>
  C11. A delivery is processed at most once in the life of the service. Over PostgreSQL, in any sequence of
  requests and restarts of the process, signed or not and with any clock readings and payloads, at most
  one request is answered as processed for a delivery id; and a request that repeats a delivery the database has
  changes nothing, even when the processing of the first one failed.
\<close>

theorem live_delivery_processed_once:
  assumes "live_laws E S" and "live_hosts E S w h"
  shows "length (filter (processed_for d) (fst (live_run E S env vs h))) \<le> 1
    \<and> (recorded h d \<and> header_value (hr_delivery r) = Some d
       \<longrightarrow> snd (live_webhook_endpoint E S scan env n1 n2 t1 t2 t3 r h) = h)"
proof
  show "length (filter (processed_for d) (fst (live_run E S env vs h))) \<le> 1"
    using live_run_deliveries [OF assms, of d env vs] by (simp split: if_splits)
  show "recorded h d \<and> header_value (hr_delivery r) = Some d
      \<longrightarrow> snd (live_webhook_endpoint E S scan env n1 n2 t1 t2 t3 r h) = h"
    using live_repeated [OF assms(2)] by blast
qed

theorem live_delivery_processed_once_witness:
  "let h = snd (live_webhook_endpoint hook_ext sql_ref [] (Some ''k'') 1 2 3 4 5 hook_request hook_hosted)
   in snd (live_webhook_endpoint hook_ext sql_ref [] (Some ''k'') 1 2 3 4 5 hook_request (restart h)) = restart h"
proof -
  let ?serve = "live_webhook_endpoint hook_ext sql_ref [] (Some ''k'') 1 2 3 4 5 hook_request"
  let ?h = "snd (?serve hook_hosted)"
  let ?w = "snd (webhook_endpoint hook_ext (Some ''k'') mock_github_adapter_default (process hook_ext [] 1 2) 3 4 5 hook_request world_new)"
  have h: "live_hosts hook_ext sql_ref ?w ?h"
    using live_endpoint_sim [OF hook_laws hook_hosts] by blast
  have "seen ?w ''d''"
    using handle_step [of hook_ext _ "[]" 1 2 3 4 5 hook_request world_new _ ?w "''d''"] hook_answer
    unfolding webhook_endpoint_def by metis
  then have "recorded (restart ?h) ''d''" by (simp add: recorded_seen [OF h, symmetric] recorded_def restart_def)
  moreover have "header_value (hr_delivery hook_request) = Some ''d''" by (simp add: hook_request_def header_value_def)
  ultimately show ?thesis
    using live_delivery_processed_once [OF hook_laws live_restart [OF h], of "''d''" "Some ''k''" "[]" hook_request] 
    by (simp add: Let_def)
qed

end
