(* ===== verification/Spec2Isabelle.thy ===== *)
theory Spec2Isabelle
  imports Piteka_Prelude Identity Session_Claims Storage_Memory World Session_Authority Action_Requests
    Dispatch_Concurrency Reconciliation Receipts GitHub_App Api_Errors Webhooks Bundle_Export Http_Handlers
    Read_Api_Facts Mcp Observation Intent
    Anchor Parwana_Contract Tuppira Evidence_Feed_Facts Web_Pages Local_Evidence GitHub_Transport Api_Wiring
    Controlled_Demo Routing Demo_Postgres Dispatch_Faults Webhook_Postgres
begin

text \<open>
  Piteka lets an organization propose a deployment, have it approved, carry it out through GitHub exactly once,
  and keep a receipt with its evidence. This library models the Rust workspace and proves what its parts
  promise. Sources are named relative to the repository; a definition keeps the name of the function or type it
  translates, with the prefix or suffix of its theory where a HOL name or another crate's name is in the way.

  The parts and how they work together.

  \<^item> An action request is proposed, approved, rejected or revoked (\<open>Action_Requests\<close>, of
    \<^verbatim>\<open>crates/piteka-application/src/action_request.rs\<close>), by people of the configured organization (\<open>Identity\<close>,
    of \<^verbatim>\<open>crates/piteka-domain/src/identity.rs\<close>) who hold a signed session (\<open>Session_Claims\<close>, \<open>Session_Authority\<close>, of
    \<^verbatim>\<open>crates/piteka-domain/src/session.rs\<close>, \<^verbatim>\<open>crates/piteka-application/src/session.rs\<close>, \<^verbatim>\<open>authz.rs\<close> and
    \<^verbatim>\<open>crates/piteka-auth/src/lib.rs\<close>).
  \<^item> An approved request is executed under a mandate, which is reserved by a versioned compare-and-swap before
    the provider is called (\<open>Dispatch\<close>, of \<^verbatim>\<open>crates/piteka-application/src/dispatch.rs\<close>; \<open>Dispatch_Concurrency\<close> takes
    it apart at its \<open>await\<close> points). A lost answer quarantines the mandate, and \<open>Reconciliation\<close> (of
    \<^verbatim>\<open>reconciliation.rs\<close> and \<^verbatim>\<open>apps/piteka-worker/src/lib.rs\<close>) closes it later.
  \<^item> GitHub is called through \<open>GitHub_App\<close> and \<open>GitHub_Transport\<close> (\<^verbatim>\<open>crates/piteka-ports/src/github.rs\<close> and
    \<^verbatim>\<open>crates/piteka-github/src/lib.rs\<close>); what may be deployed is normalized by \<open>Intent\<close> (\<^verbatim>\<open>src/intent.rs\<close> of that crate).
  \<^item> GitHub reports through signed webhooks (\<open>Webhooks\<close>, of \<^verbatim>\<open>crates/piteka-application/src/webhook_ingestion.rs\<close> and
    \<^verbatim>\<open>apps/piteka-api/src/webhook.rs\<close>); a final status makes a receipt with evidence nodes (\<open>Receipts\<close>, of
    \<^verbatim>\<open>receipt_production.rs\<close>), which is exported as a bundle (\<open>Bundle_Export\<close>, of \<^verbatim>\<open>bundle_export.rs\<close>) or published in the signed
    feed (\<open>Evidence_Feed\<close>, of \<^verbatim>\<open>src/bin/evidence_feed_server.rs\<close>).
  \<^item> The HTTP API (\<open>Http_Models\<close>, \<open>Http_Routes\<close>, \<open>Http_Handlers\<close>, \<open>Api_Errors\<close>, \<open>Read_Api\<close>, \<open>Api_Wiring\<close>), the pages
    (\<open>Web_Pages\<close>) and the tools for agents (\<open>Mcp\<close>) are the ways in; \<open>Routing\<close> says where they are mounted.
  \<^item> \<open>Tuppira\<close> answers \<open>Observation\<close> queries from another service, \<open>Anchor\<close> seals single use, and
    \<open>Parwana_Contract\<close> binds the program to the accountability SDK.
  \<^item> \<open>Controlled_Demo\<close> composes request, dispatch, GitHub and journal, as the two demo programs do.
  \<^item> The use cases take their stores as ports. \<open>Action_Ports\<close>, \<open>Dispatch_Ports\<close> and \<open>Webhook_Ports\<close> translate them over
    any ports and show that \<open>Action_Requests\<close>, \<open>Dispatch\<close>, \<open>Receipts\<close> and \<open>Webhooks\<close> are their instances on memory;
    \<open>Dispatch_Postgres\<close> and \<open>Demo_Postgres\<close> run them on the stores of \<open>DemoPorts\<close> (\<^verbatim>\<open>src/bin/controlled_demo_flow.rs\<close>),
    \<open>Webhook_Postgres\<close> on those of the live webhook service (\<open>build_live_webhook_router\<close> of \<^verbatim>\<open>apps/piteka-api/src/routes.rs\<close>),
    restarts included, \<open>Dispatch_Faults\<close> on stores whose calls fail.

  State and operations. A store is the contents of its lock or table: \<open>Storage_Memory\<close> for
  \<^verbatim>\<open>crates/piteka-storage/src/memory.rs\<close>, \<open>Postgres_Stores\<close> for \<^verbatim>\<open>postgres.rs\<close> and its migrations, \<open>Local_Evidence\<close> for
  \<^verbatim>\<open>evidence.rs\<close>, over the records of \<open>Storage_Model\<close>. \<open>World\<close> is the record of all in-memory stores. An operation
  that may fail is a function from the state to a result, \<open>Inl\<close> the error, and the new state; \<open>try_op\<close> is the
  question mark and \<open>map_err\<close> its conversion (\<open>Piteka_Prelude\<close>). Machine integers are words and wrap as in a release
  build, where the code does not saturate. Strings are their bytes. A clock reading, a generated identifier and the
  order in which a hash map is walked are arguments. A panic of the code is a value of its own where one can happen.

  Contracts are locales, interpreted on the code's own operations: \<open>versioned_store\<close>, \<open>keyed_store\<close> and
  \<open>indexed_store\<close> of \<open>Storage_Ports\<close> by the in-memory stores, \<open>content_addressed\<close> by both evidence stores,
  \<open>single_use_anchor\<close> by the local seal store, \<open>observation_source\<close> by the Tuppira adapter. Two families of ports that
  simulate each other (\<open>Simulation\<close>) are an \<open>action_simulation\<close>, a \<open>ports_simulation\<close> or a \<open>webhook_simulation\<close>;
  memory and PostgreSQL are, the dispatch also when the same calls of both fail.

  What is proved.

  \<^item> One request, one deployment: no interleaving of tasks and other actors calls the provider twice for a
    mandate; the small steps are the use case; a dispatch that meets its guards is given in full; reruns of the
    demo on one database send GitHub something once, and a first run is given in full; the adapter
    calls its client for the two requests it should and sends nothing outside its context, but the client follows redirects.
  \<^item> Life cycles: the requests refine the abstract life cycle and decisions are final; no job of the worker
    reopens an abandoned mandate or invents a success; a lost answer is recovered without another call.
  \<^item> Input: a webhook without a valid signature changes nothing, and the live service processes a delivery once, restarts
    included, answering as the one in memory; normalization,
    authentication and signatures are characterized exactly; no tool reaches an effect unvalidated and every answer
    is bounded; complete observations consist of validated rows.
  \<^item> Output: receipts report the outcome that was observed, bundles are complete or refused, the export over
    PostgreSQL is that over memory, and a pull of the feed ends and brings every receipt with its signature.
  \<^item> Storage: the dispatch on PostgreSQL refines the one in memory, and whatever store calls are refused or lose
    their answer it calls the provider once at most, journals before, and answers the truth; the filesystem
    store refines the in-memory one and keeps its promise whatever calls fail; signing layouts are injective; a timestamp is
    printed as the Gregorian date and time it stands for.
  \<^item> Where the code does not do what it says, the theorem states what it does: reserving a terminal mandate,
    rejecting over an approval, a secret that is not text, an abandoned receipt that
    cannot be exported, a receipt the feed never delivers, a temporary file two puts share, a deployment
    lost to the worker when the store refuses to record it.

  Bounds and fuel. A task of \<open>Dispatch_Concurrency\<close> runs with 10 steps, the most that its counters allow
  (\<open>steps_left\<close>), and \<open>run_task\<close> with more is the same. \<open>pull_feed\<close> has fuel for its pages; more fuel than there are
  receipts is enough, as each page but the last has at least one. Every other recursion ends with the data it walks. The
  fixed limits are the code's: 32 KiB of arguments and 256 KiB of answer for a tool, 1 MiB for an answer of
  Tuppira, 1024 exports in a page; and reqwest's: the client of the GitHub adapter follows at most 10 redirects of a
  call (\<open>gh_follow\<close>), which is the fuel of that recursion and the error it ends in.

  Assumptions. Code outside the repository is an argument: the record \<open>ext\<close> (\<open>Externals\<close>) for sha2, hmac, hex,
  serde_json and chrono, and \<open>sql\<close>, \<open>mcp_env\<close>, \<open>sdk\<close>, \<open>url_ops\<close>, \<open>reqwest\<close>, \<open>gh_tools\<close>, \<open>ed25519\<close>, the signer of sessions and
  the faults of the file system and of the stores for the rest. What a proof needs of it is a named hypothesis, such as \<open>hex_laws\<close>,
  \<open>sha256_laws\<close>, \<open>hmac_laws\<close>, \<open>sql_laws\<close>, \<open>wire_laws\<close> and \<open>redirect_laws\<close> (a redirect
  adds no body and no token), which holds of a concrete instance used by the witnesses; none
  says that a hash has no collisions. A PostgreSQL statement is atomic, a connection may fail at any statement,
  and identifiers are listed in the order of the database's collation. Locks are not poisoned. A header is its text if
  it has one.

  Not modelled: the HTML of the templates and the static assets, binding sockets and printing to the terminal,
  the bodies of trait declarations (they are the contracts above), the module trees of the crates, and
  tests. The third-party crates themselves are arguments, so signatures, hashes and JSON are only as good as
  their laws. The evidence feed, the read API and the demo share the PostgreSQL model, which has no transactions because
  the code uses none.
\<close>

section \<open>Properties across components\<close>

lemma attempts_by_mandate_single:
  assumes "attempts_ok s" and "attempts_by_mandate s m = []"
    and "row_map s' k = Some x" and "row_index s' = push_entry (row_index s) m k"
  shows "attempts_by_mandate s' m = [x]"
proof -
  have "entry_list (row_index s) m = []"
  proof (rule ccontr)
    assume "entry_list (row_index s) m \<noteq> []"
    then obtain i where "i \<in> set (entry_list (row_index s) m)" by (cases "entry_list (row_index s) m") auto
    then obtain r where "row_map s i = Some r" using assms(1) by (auto simp: attempts_ok_def rows_ok_def)
    with \<open>i \<in> _\<close> have "r \<in> set (attempts_by_mandate s m)"
      by (auto simp: attempts_by_mandate_def rows_by_owner_def set_fetch_all)
    with assms(2) show False by simp
  qed
  with assms(3,4) show ?thesis by (simp add: attempts_by_mandate_def rows_by_owner_def)
qed

lemma reserved_world_index:
  "row_index (w_attempts (reserved_world now a w)) =
    push_entry (row_index (w_attempts w)) (da_mandate_id_hex a) (attempt_id_of (da_mandate_id_hex a))"
  by (simp add: reserved_world_def dispatch_frame index_attempt_def Let_def new_attempt_def)

text \<open>
  C25. A lost provider response is recovered without a second deployment. When a dispatch of a
  mandate without earlier attempts gets no answer from the provider, reconciling at the version
  the dispatch left, with a provider that finds the deployment, consumes the mandate and closes
  the attempt as \<open>ReconciledAccepted\<close> with the recovered id; over the whole flow the provider is
  called exactly once.
\<close>

theorem lost_response_recovered:
  assumes "approved w (da_request_id a)"
    and "w_mandates w (da_mandate_id_hex a) = Some p" and "mp_version p = da_expected_mandate_version a"
    and "attempts_ok (w_attempts w)" and "attempts_by_mandate (w_attempts w) (da_mandate_id_hex a) = []"
    and "attempt_get (w_attempts w) (attempt_id_of (da_mandate_id_hex a)) = None"
    and "f (da_correlation_key a) (pc_attempt_digest (call_of E a)) = None"
    and "\<not> blank operator" and "prov = (\<lambda>x. Inr (Some d))"
    and "w1 = snd (reserve_and_dispatch E now later a f w)"
    and "reconcile E prov t (da_mandate_id_hex a) operator (da_expected_mandate_version a + 2) w1 = (res, w2)"
  shows "res = Inr (ReconciledAccepted (da_mandate_id_hex a) (attempt_id_of (da_mandate_id_hex a))
          (da_expected_mandate_version a + 3))
    \<and> mandate_state (w_mandates w2) (da_mandate_id_hex a) = Some ''consumed''
    \<and> map_option ea_state (attempt_get (w_attempts w2) (attempt_id_of (da_mandate_id_hex a)))
        = Some execution_attempt_state.ReconciledAccepted
    \<and> Option.bind (attempt_get (w_attempts w2) (attempt_id_of (da_mandate_id_hex a))) ea_github_deployment_id
        = Some d
    \<and> w_provider w2 = w_provider w @ [call_of E a]"
proof -
  let ?m = "da_mandate_id_hex a" and ?k = "attempt_id_of (da_mandate_id_hex a)"
  let ?x = "(new_attempt now a)\<lparr>ea_state := OutcomeAmbiguous\<rparr>"
  let ?w0 = "add_call (call_of E a) (reserved_world now a w)"
  have w1: "w1 = add_audit (quarantine_event later ?k ?m (da_executor_identity a))
      (set_mandate ?m (da_expected_mandate_version a + 1 + 1) ''quarantined'' (set_attempt ?x ?w0))"
    using assms(1-3,6,7)
    by (simp add: assms(10) reserve_and_dispatch_granted attempt_get_def row_get_def Let_def)
  have key: "ea_attempt_id_hex ?x = ?k" by (simp add: new_attempt_def)
  have m: "w_mandates w1 ?m = Some (p\<lparr>mp_version := da_expected_mandate_version a + 2, mp_state := ''quarantined''\<rparr>)"
    using assms(2) by (simp add: w1 dispatch_frame mandate_projection_update)
  have row: "row_map (w_attempts w1) ?k = Some ?x"
    by (simp add: w1 dispatch_frame key)
  have "row_index (w_attempts w1) = push_entry (row_index (w_attempts w)) ?m ?k"
    by (simp add: w1 dispatch_frame reserved_world_index)
  with attempts_by_mandate_single [OF assms(4,5) row] have "attempts_by_mandate (w_attempts w1) ?m = [?x]" .
  then have fnd: "find (\<lambda>x. ea_state x = OutcomeAmbiguous) (attempts_by_mandate (w_attempts w1) ?m) = Some ?x"
    by simp
  have run: "reconcile E prov t ?m operator (da_expected_mandate_version a + 2) w1 =
      accept_reconciled t ?m operator (da_expected_mandate_version a + 2) ?x d w1"
    using assms(8,9) by (simp add: reconcile_def m fnd find_ambiguous_run mandate_get_def)
  show ?thesis
    using assms(11) accept_reconciled_run [of w1 ?x ?m _ t operator _ d] row key m
    by (auto simp: run mandate_state_def attempt_get_def row_get_def dispatch_frame)
      (simp add: w1 dispatch_frame)
qed

theorem lost_response_recovered_witness:
  "let w1 = snd (reserve_and_dispatch ext_ref 200 210 example_args (\<lambda>k b. None) example_ready);
       (res, w2) = reconcile ext_ref (\<lambda>x. Inr (Some 7)) 300 ''m'' ''operator'' 3 w1
   in res = Inr (ReconciledAccepted ''m'' ''att-m'' 4)
      \<and> mandate_state (w_mandates w2) ''m'' = Some ''consumed''
      \<and> length (w_provider w2) = 1"
proof -
  let ?w1 = "snd (reserve_and_dispatch ext_ref 200 210 example_args (\<lambda>k b. None) example_ready)"
  obtain res w2 where run: "reconcile ext_ref (\<lambda>x. Inr (Some 7)) 300 (da_mandate_id_hex example_args) ''operator''
      (da_expected_mandate_version example_args + 2) ?w1 = (res, w2)"
    by (cases "reconcile ext_ref (\<lambda>x. Inr (Some 7)) 300 (da_mandate_id_hex example_args) ''operator''
      (da_expected_mandate_version example_args + 2) ?w1")
  have rows: "w_attempts example_ready = empty_rows" "w_provider example_ready = []"
    by (simp_all add: example_ready_def world_new_def)
  have nb: "\<not> blank ''operator''"
    by (simp add: blank_def trim_id ws_len_def ws_len_end_def ws_seq_def)
  have arg: "da_mandate_id_hex example_args = ''m''" "da_expected_mandate_version example_args = 1"
    by (simp_all add: example_args_def)
  from lost_response_recovered [OF example_ready_facts(1,2) _ _ _ _ _ nb refl refl run]
  show ?thesis
    using run
    by (simp add: rows arg attempts_ok_def attempts_by_mandate_def rows_by_owner_def attempt_get_def
        row_get_def attempt_id_of_def) (simp add: empty_rows_def)
qed

text \<open>
  C26. The receipt of an abandoned attempt cannot be exported. It names its gap \<open>target_outcome\<close> by
  a label, not by the identifier of an evidence node, so as long as no node has that label as its
  identifier (every node the program makes starts with \<open>ev-\<close>) the bundle export of the receipt is
  refused as incomplete, right after the abandonment and for as long as the stores keep it.
\<close>

theorem abandoned_receipt_not_exportable:
  assumes "attempts_ok (w_attempts w)"
    and "abandon_unresolved now m ex e reason w = (Inr (AbandonedAmbiguous m' k v), w')"
    and "w_receipts w'' = w_receipts w'" and "node_get (w_nodes w'') ''target_outcome'' = None"
  shows "assemble_bundle E (''rcpt-abandoned-'' @ k) w'' =
    (Inl (IncompleteEvidence [''target_outcome''] [''target_outcome'']), w'')"
proof (rule abandon_unresolved_Inr [OF assms(1,2)])
  fix p x
  assume "receipt_get (w_receipts w') (''rcpt-abandoned-'' @ k) = Some (abandoned_receipt now m x)"
  with assms(3,4) show ?thesis
    by (simp add: assemble_bundle_run fetch_nodes_eq all_stored_def abandoned_receipt_def)
qed

theorem abandoned_receipt_not_exportable_witness:
  "let w' = snd (abandon_unresolved 300 ''m'' ''operator'' 3 ''closed'' example_quarantined)
   in assemble_bundle ext_ref ''rcpt-abandoned-att-m'' w' =
      (Inl (IncompleteEvidence [''target_outcome''] [''target_outcome'']), w')"
proof -
  let ?w' = "snd (abandon_unresolved 300 ''m'' ''operator'' 3 ''closed'' example_quarantined)"
  have nb: "\<not> blank ''operator''" "\<not> blank ''closed''"
    by (simp_all add: blank_def trim_id ws_len_def ws_len_end_def ws_seq_def)
  have x: "find (\<lambda>x. ea_state x = OutcomeAmbiguous) (attempts_by_mandate (w_attempts example_quarantined) ''m'')
      = Some example_ambiguous"
    by (simp add: example_quarantined_facts(2)) (simp add: example_ambiguous_def)
  have none: "receipt_get (w_receipts example_quarantined)
      (''rcpt-abandoned-'' @ ea_attempt_id_hex example_ambiguous) = None"
    by (simp add: example_quarantined_def world_new_def receipt_get_def row_get_def empty_rows_def)
  note row = find_ambiguous_row [OF example_quarantined_facts(1) x]
  note close = close_abandoned_run [OF row(1) example_quarantined_facts(3) none]
  have run: "abandon_unresolved 300 ''m'' ''operator'' 3 ''closed'' example_quarantined
      = (Inr (AbandonedAmbiguous ''m'' (ea_attempt_id_hex example_ambiguous) 4), ?w')"
    using x nb close
    by (simp add: abandon_unresolved_def try_op_eq find_ambiguous_run mandate_get_def
        example_quarantined_facts(3))
  have "w_nodes ?w' = w_nodes example_quarantined"
    by (rule abandon_unresolved_Inr [OF example_quarantined_facts(1) run])
  then have "node_get (w_nodes ?w') ''target_outcome'' = None"
    by (simp add: example_quarantined_def world_new_def node_get_def)
  from abandoned_receipt_not_exportable [OF example_quarantined_facts(1) run refl this, of ext_ref]
  have "assemble_bundle ext_ref (''rcpt-abandoned-'' @ ea_attempt_id_hex example_ambiguous) ?w' =
    (Inl (IncompleteEvidence [''target_outcome''] [''target_outcome'']), ?w')" .
  moreover have "''rcpt-abandoned-'' @ ea_attempt_id_hex example_ambiguous = ''rcpt-abandoned-att-m''"
    by (simp add: example_ambiguous_def new_attempt_def example_args_def attempt_id_of_def)
  ultimately show ?thesis by (simp only: Let_def)
qed

lemma dispatching_mandate_refuses:
  assumes "w_mandates w m = Some p" and "mp_state p = ''reserved''"
  shows "\<exists>er. reconcile E prov t m operator v w = (Inl er, w)"
    and "\<exists>er. abandon_unresolved t m operator v reason w = (Inl er, w)"
  using assms by (simp_all add: reconcile_def abandon_unresolved_def mandate_get_def try_op_eq is_terminal_state_def)

lemma dispatching_retry_fails:
  assumes "approved w (da_request_id a)" and "w_mandates w (da_mandate_id_hex a) = Some p"
    and "mp_version p = da_expected_mandate_version a"
    and "row_map (w_attempts w) (attempt_id_of (da_mandate_id_hex a)) = Some x"
  obtains er where "reserve_and_dispatch E t t' a g w =
    (Inl er, set_mandate (da_mandate_id_hex a) (da_expected_mandate_version a + 1) ''reserved'' w)"
  using assms by (simp add: reserve_and_dispatch_def try_op_eq reserve_run)

lemma dispatching_completed_by_hand:
  assumes row: "row_map (w_attempts w) k = Some x" and key: "ea_attempt_id_hex x = k"
    and m: "w_mandates w m = Some p" "mp_version p = v" "mp_state p = ''reserved''"
    and run: "complete_dispatch t k m True (Some d) operator v w = (r, w')"
  shows "r = Inr () \<and> w_provider w' = w_provider w \<and> mandate_state (w_mandates w') m = Some ''consumed''
    \<and> map_option (\<lambda>y. (ea_state y, ea_github_deployment_id y)) (attempt_get (w_attempts w') k)
        = Some (Accepted, Some d)"
  using run m
  by (auto simp: complete_dispatch_def try_op_eq record_accepted_run [OF row key] Let_def dispatch_frame
      mandate_state_def attempt_get_def row_get_def key)



end
